(* ===== verification/CG_Prelude.thy ===== *)
theory CG_Prelude
  imports Main "HOL-Library.Word" "HOL-Library.Multiset" "HOL-Library.Product_Lexorder"
begin

text \<open>
  Shared ground of the development: the machine integers of the C++ code, the
  strongly typed identifiers of \<^verbatim>\<open>include/contention/ids.hpp\<close>, the checked arithmetic of
  \<^verbatim>\<open>include/contention/checked.hpp\<close>, and the named collections that carry the component
  proofs. Every other theory imports this one.
\<close>

section \<open>Machine integers\<close>

type_synonym u8 = "8 word"
type_synonym u16 = "16 word"
type_synonym u32 = "32 word"
type_synonym u64 = "64 word"

text \<open>\<^verbatim>\<open>TimeMs\<close> of clock.hpp: unsigned milliseconds; subtraction wraps.\<close>

type_synonym TimeMs = u64

abbreviation u64_max :: u64 where "u64_max \<equiv> - 1"
abbreviation u32_max :: u32 where "u32_max \<equiv> - 1"

named_theorems wire_intros \<open>round trips of the byte readers over the byte writers\<close>
named_theorems frame_simps \<open>fields an operation leaves alone\<close>

lemma unat_u64_max: "unat u64_max = 2 ^ 64 - 1"
  by (simp add: unsigned_minus_1_eq_mask mask_eq_exp_minus_1)

lemma unat_u32_max: "unat u32_max = 2 ^ 32 - 1"
  by (simp add: unsigned_minus_1_eq_mask mask_eq_exp_minus_1)

lemma unat_add_one: "(w :: 'a :: len word) \<noteq> - 1 \<Longrightarrow> unat (w + 1) = Suc (unat w)"
proof -
  assume "w \<noteq> - 1"
  then have "1 + w \<noteq> 0"
    by (metis add.commute eq_neg_iff_add_eq_0)
  then show ?thesis by (simp add: unatSuc add.commute)
qed

lemma unat_of_nat_less: "n < 2 ^ LENGTH('a) \<Longrightarrow> unat (word_of_nat n :: 'a :: len word) = n"
  by (simp add: unsigned_of_nat take_bit_nat_eq_self)

section \<open>Checked arithmetic\<close>

text \<open>The out-parameter of the C++ overloads is the \<open>Some\<close> of the result.\<close>

definition checked_add :: "u64 \<Rightarrow> u64 \<Rightarrow> u64 option" where
  "checked_add a b = (if b > u64_max - a then None else Some (a + b))"

definition checked_mul :: "u64 \<Rightarrow> u64 \<Rightarrow> u64 option" where
  "checked_mul a b = (if a \<noteq> 0 \<and> b > u64_max div a then None else Some (a * b))"

text \<open>The \<^verbatim>\<open>int64_t\<close> overload, on the signed value of the word.\<close>

definition checked_add_i64 :: "u64 \<Rightarrow> u64 \<Rightarrow> u64 option" where
  "checked_add_i64 a b =
     (let lo = - (2 ^ 63) :: int; hi = 2 ^ 63 - 1 :: int in
      if (sint b > 0 \<and> sint a > hi - sint b) \<or> (sint b < 0 \<and> sint a < lo - sint b)
      then None else Some (a + b))"

definition saturating_add :: "u64 \<Rightarrow> u64 \<Rightarrow> u64" where
  "saturating_add a b = (case checked_add a b of Some out \<Rightarrow> out | None \<Rightarrow> u64_max)"

lemma unat_max_minus: "unat (u64_max - a) = 2 ^ 64 - 1 - unat a"
  by (simp add: unat_sub word_order.extremum unat_u64_max)

lemma checked_add_spec:
  "checked_add a b = (if unat a + unat b < 2 ^ 64 then Some (a + b) else None)"
proof -
  have "unat a < 2 ^ 64" using unsigned_less [of a] by simp
  then show ?thesis
    by (auto simp: checked_add_def word_less_nat_alt unat_max_minus)
qed

lemma unat_add_no_carry: "unat (a :: u64) + unat b < 2 ^ 64 \<Longrightarrow> unat (a + b) = unat a + unat b"
  by (simp add: unat_word_ariths)

lemma saturating_add_spec: "unat (saturating_add a b) = min (unat a + unat b) (2 ^ 64 - 1)"
  by (auto simp: saturating_add_def checked_add_spec unat_add_no_carry unat_u64_max)

lemma checked_mul_spec:
  "checked_mul a b = (if unat a * unat b < 2 ^ 64 then Some (a * b) else None)"
proof (cases "a = 0")
  case True
  then show ?thesis by (simp add: checked_mul_def)
next
  case False
  then have pos: "0 < unat a" by (simp add: unat_gt_0)
  have "b > u64_max div a \<longleftrightarrow> (2 ^ 64 - 1) div unat a < unat b"
    by (simp add: word_less_nat_alt unat_div unat_u64_max)
  also have "\<dots> \<longleftrightarrow> 2 ^ 64 - 1 < unat a * unat b"
    using pos by (simp add: div_less_iff_less_mult mult.commute)
  finally show ?thesis using False by (auto simp: checked_mul_def)
qed

section \<open>Identifiers\<close>

text \<open>
  \<^verbatim>\<open>template <typename Tag> struct Id\<close>: the tag is a phantom parameter, so identifiers of
  different domains have different types, as in the code.
\<close>

datatype 'tag Id = Id (id_value: u64)

text \<open>The comparison operators of the template, which are those of the values.\<close>

definition id_less_eq :: "'tag Id \<Rightarrow> 'tag Id \<Rightarrow> bool" where
  [simp]: "id_less_eq a b \<longleftrightarrow> id_value a \<le> id_value b"

definition id_less :: "'tag Id \<Rightarrow> 'tag Id \<Rightarrow> bool" where
  [simp]: "id_less a b \<longleftrightarrow> id_value a < id_value b"

instantiation Id :: (type) linorder
begin

definition less_eq_Id :: "'a Id \<Rightarrow> 'a Id \<Rightarrow> bool" where
  "less_eq_Id = id_less_eq"

definition less_Id :: "'a Id \<Rightarrow> 'a Id \<Rightarrow> bool" where
  "less_Id = id_less"

instance
  by standard (auto simp: less_eq_Id_def less_Id_def intro: Id.expand)

end

definition id_next :: "'tag Id \<Rightarrow> 'tag Id" where
  "id_next i = Id (if id_value i = u64_max then u64_max else id_value i + 1)"

definition id_advance :: "'tag Id \<Rightarrow> 'tag Id" where
  "id_advance i = (if id_value i \<noteq> u64_max then Id (id_value i + 1) else i)"

abbreviation id_zero :: "'tag Id" where "id_zero \<equiv> Id 0"

record ExperimentKey =
  ek_coordinator :: u64
  ek_replica :: u64

definition same_experiment :: "ExperimentKey \<Rightarrow> ExperimentKey \<Rightarrow> bool" where
  "same_experiment a b \<longleftrightarrow> ek_coordinator a = ek_coordinator b \<and> ek_replica a = ek_replica b"

lemma same_experiment_eq: "same_experiment a b \<longleftrightarrow> a = b"
  by (cases a; cases b) (simp add: same_experiment_def)

lemma id_advance_next: "id_advance i = id_next i"
  by (cases i) (simp add: id_advance_def id_next_def)

lemma id_advance_ge: "i \<le> id_advance i"
  by (cases i) (auto simp: id_advance_def less_eq_Id_def word_le_nat_alt unat_add_one)

lemma id_advance_gt: "id_value i \<noteq> u64_max \<Longrightarrow> i < id_advance i"
  by (cases i) (auto simp: id_advance_def less_Id_def word_less_nat_alt unat_add_one)

datatype CoordinatorEpoch_Tag = CoordinatorEpoch_Tag
datatype GovernorGeneration_Tag = GovernorGeneration_Tag
datatype WorkerId_Tag = WorkerId_Tag
datatype WorkerBootId_Tag = WorkerBootId_Tag
datatype HostGeneration_Tag = HostGeneration_Tag
datatype DeviceGeneration_Tag = DeviceGeneration_Tag
datatype WorkloadId_Tag = WorkloadId_Tag
datatype WorkloadGeneration_Tag = WorkloadGeneration_Tag
datatype ConflictId_Tag = ConflictId_Tag
datatype ConflictGeneration_Tag = ConflictGeneration_Tag
datatype InterferenceEvidenceId_Tag = InterferenceEvidenceId_Tag
datatype InterferenceEvidenceGeneration_Tag = InterferenceEvidenceGeneration_Tag
datatype PolicyId_Tag = PolicyId_Tag
datatype PolicyGeneration_Tag = PolicyGeneration_Tag
datatype SLOGeneration_Tag = SLOGeneration_Tag
datatype ValueGeneration_Tag = ValueGeneration_Tag
datatype FairnessGeneration_Tag = FairnessGeneration_Tag
datatype ActionBudgetGeneration_Tag = ActionBudgetGeneration_Tag
datatype ResourceGeneration_Tag = ResourceGeneration_Tag
datatype PlacementGeneration_Tag = PlacementGeneration_Tag
datatype TopologyGeneration_Tag = TopologyGeneration_Tag
datatype InterventionId_Tag = InterventionId_Tag
datatype InterventionGeneration_Tag = InterventionGeneration_Tag
datatype DispatchId_Tag = DispatchId_Tag
datatype AttemptId_Tag = AttemptId_Tag

type_synonym CoordinatorEpoch = "CoordinatorEpoch_Tag Id"
type_synonym GovernorGeneration = "GovernorGeneration_Tag Id"
type_synonym WorkerId = "WorkerId_Tag Id"
type_synonym WorkerBootId = "WorkerBootId_Tag Id"
type_synonym HostGeneration = "HostGeneration_Tag Id"
type_synonym DeviceGeneration = "DeviceGeneration_Tag Id"
type_synonym WorkloadId = "WorkloadId_Tag Id"
type_synonym WorkloadGeneration = "WorkloadGeneration_Tag Id"
type_synonym ConflictId = "ConflictId_Tag Id"
type_synonym ConflictGeneration = "ConflictGeneration_Tag Id"
type_synonym InterferenceEvidenceId = "InterferenceEvidenceId_Tag Id"
type_synonym InterferenceEvidenceGeneration = "InterferenceEvidenceGeneration_Tag Id"
type_synonym PolicyId = "PolicyId_Tag Id"
type_synonym PolicyGeneration = "PolicyGeneration_Tag Id"
type_synonym SLOGeneration = "SLOGeneration_Tag Id"
type_synonym ValueGeneration = "ValueGeneration_Tag Id"
type_synonym FairnessGeneration = "FairnessGeneration_Tag Id"
type_synonym ActionBudgetGeneration = "ActionBudgetGeneration_Tag Id"
type_synonym ResourceGeneration = "ResourceGeneration_Tag Id"
type_synonym PlacementGeneration = "PlacementGeneration_Tag Id"
type_synonym TopologyGeneration = "TopologyGeneration_Tag Id"
type_synonym InterventionId = "InterventionId_Tag Id"
type_synonym InterventionGeneration = "InterventionGeneration_Tag Id"
type_synonym DispatchId = "DispatchId_Tag Id"
type_synonym AttemptId = "AttemptId_Tag Id"

end
