(* ===== verification/CG_Enums.thy ===== *)
theory CG_Enums
  imports CG_Prelude
begin

text \<open>
  The enumerations of \<^verbatim>\<open>include/contention/enums.hpp\<close> with their \<^verbatim>\<open>to_string\<close> and
  \<^verbatim>\<open>from_string\<close> tables, and \<^verbatim>\<open>StatusCode\<close> and \<^verbatim>\<open>Status\<close> of \<^verbatim>\<open>status.hpp\<close>. Every enumerator
  carries a prefix for its enumeration, because several share a name. The underlying type
  of an enumeration is a byte; two decoders admit one value beyond the enumerators, which
  is the constructor ending in \<open>OUT_OF_RANGE\<close>.
\<close>

section \<open>Byte codes of enumerations\<close>

text \<open>\<^verbatim>\<open>static_cast<std::uint8_t>(v)\<close> and the bounds-checked cast back.\<close>

definition enum_u8 :: "('e \<Rightarrow> nat) \<Rightarrow> 'e \<Rightarrow> u8" where
  "enum_u8 ord v = word_of_nat (ord v)"

definition enum_of_u8 :: "'e list \<Rightarrow> u8 \<Rightarrow> 'e option" where
  "enum_of_u8 elems raw = (if unat raw < length elems then Some (elems ! unat raw) else None)"

locale byte_enum =
  fixes ord :: "'e \<Rightarrow> nat" and elems :: "'e list"
  assumes elems_ord: "i < length elems \<Longrightarrow> ord (elems ! i) = i"
    and small: "length elems \<le> 256"
begin

lemma mem_ord: "v \<in> set elems \<Longrightarrow> ord v < length elems \<and> elems ! ord v = v"
  by (auto simp: in_set_conv_nth elems_ord)

lemma ord_u8: "v \<in> set elems \<Longrightarrow> unat (enum_u8 ord v) = ord v"
  using mem_ord [of v] small by (simp add: enum_u8_def unat_of_nat_less)

lemma of_u8_u8: "v \<in> set elems \<Longrightarrow> enum_of_u8 elems (enum_u8 ord v) = Some v"
  by (simp add: enum_of_u8_def ord_u8 mem_ord)

lemma of_u8_Some: "enum_of_u8 elems raw = Some v \<Longrightarrow> v \<in> set elems \<and> enum_u8 ord v = raw"
  by (auto simp: enum_of_u8_def enum_u8_def elems_ord split: if_splits)

lemma of_u8_None: "enum_of_u8 elems raw = None \<longleftrightarrow> length elems \<le> unat raw"
  by (auto simp: enum_of_u8_def)

end

section \<open>ResourceDomain\<close>

datatype ResourceDomain =
    RD_COMPUTE
  | RD_CACHE
  | RD_MEMORY_BANDWIDTH
  | RD_MEMORY_CAPACITY
  | RD_PCIE
  | RD_TRANSFER
  | RD_COLLECTIVE
  | RD_NETWORK
  | RD_NUMA
  | RD_STORAGE
  | RD_HOST_CPU
  | RD_RESIDENCY
  | RD_SHARED_ENGINE
  | RD_UNKNOWN

primrec ord_ResourceDomain :: "ResourceDomain \<Rightarrow> nat" where
    "ord_ResourceDomain RD_COMPUTE = 0"
  | "ord_ResourceDomain RD_CACHE = 1"
  | "ord_ResourceDomain RD_MEMORY_BANDWIDTH = 2"
  | "ord_ResourceDomain RD_MEMORY_CAPACITY = 3"
  | "ord_ResourceDomain RD_PCIE = 4"
  | "ord_ResourceDomain RD_TRANSFER = 5"
  | "ord_ResourceDomain RD_COLLECTIVE = 6"
  | "ord_ResourceDomain RD_NETWORK = 7"
  | "ord_ResourceDomain RD_NUMA = 8"
  | "ord_ResourceDomain RD_STORAGE = 9"
  | "ord_ResourceDomain RD_HOST_CPU = 10"
  | "ord_ResourceDomain RD_RESIDENCY = 11"
  | "ord_ResourceDomain RD_SHARED_ENGINE = 12"
  | "ord_ResourceDomain RD_UNKNOWN = 13"

definition all_ResourceDomain :: "ResourceDomain list" where
  "all_ResourceDomain = [RD_COMPUTE,
    RD_CACHE,
    RD_MEMORY_BANDWIDTH,
    RD_MEMORY_CAPACITY,
    RD_PCIE,
    RD_TRANSFER,
    RD_COLLECTIVE,
    RD_NETWORK,
    RD_NUMA,
    RD_STORAGE,
    RD_HOST_CPU,
    RD_RESIDENCY,
    RD_SHARED_ENGINE,
    RD_UNKNOWN]"

primrec to_string_ResourceDomain :: "ResourceDomain \<Rightarrow> string" where
    "to_string_ResourceDomain RD_COMPUTE = ''ResourceDomain::COMPUTE''"
  | "to_string_ResourceDomain RD_CACHE = ''ResourceDomain::CACHE''"
  | "to_string_ResourceDomain RD_MEMORY_BANDWIDTH = ''ResourceDomain::MEMORY_BANDWIDTH''"
  | "to_string_ResourceDomain RD_MEMORY_CAPACITY = ''ResourceDomain::MEMORY_CAPACITY''"
  | "to_string_ResourceDomain RD_PCIE = ''ResourceDomain::PCIE''"
  | "to_string_ResourceDomain RD_TRANSFER = ''ResourceDomain::TRANSFER''"
  | "to_string_ResourceDomain RD_COLLECTIVE = ''ResourceDomain::COLLECTIVE''"
  | "to_string_ResourceDomain RD_NETWORK = ''ResourceDomain::NETWORK''"
  | "to_string_ResourceDomain RD_NUMA = ''ResourceDomain::NUMA''"
  | "to_string_ResourceDomain RD_STORAGE = ''ResourceDomain::STORAGE''"
  | "to_string_ResourceDomain RD_HOST_CPU = ''ResourceDomain::HOST_CPU''"
  | "to_string_ResourceDomain RD_RESIDENCY = ''ResourceDomain::RESIDENCY''"
  | "to_string_ResourceDomain RD_SHARED_ENGINE = ''ResourceDomain::SHARED_ENGINE''"
  | "to_string_ResourceDomain RD_UNKNOWN = ''ResourceDomain::UNKNOWN''"

definition from_string_ResourceDomain :: "string \<Rightarrow> ResourceDomain option" where
  "from_string_ResourceDomain s = map_of [
    (''COMPUTE'', RD_COMPUTE),
    (''CACHE'', RD_CACHE),
    (''MEMORY_BANDWIDTH'', RD_MEMORY_BANDWIDTH),
    (''MEMORY_CAPACITY'', RD_MEMORY_CAPACITY),
    (''PCIE'', RD_PCIE),
    (''TRANSFER'', RD_TRANSFER),
    (''COLLECTIVE'', RD_COLLECTIVE),
    (''NETWORK'', RD_NETWORK),
    (''NUMA'', RD_NUMA),
    (''STORAGE'', RD_STORAGE),
    (''HOST_CPU'', RD_HOST_CPU),
    (''RESIDENCY'', RD_RESIDENCY),
    (''SHARED_ENGINE'', RD_SHARED_ENGINE),
    (''UNKNOWN'', RD_UNKNOWN)] s"

section \<open>ConflictState\<close>

datatype ConflictState =
    CS_DETECTED
  | CS_VALIDATING
  | CS_ACTIONABLE
  | CS_INTERVENTION_AUTHORIZED
  | CS_INTERVENTION_IN_FLIGHT
  | CS_VERIFYING
  | CS_RESOLVED
  | CS_PARTIALLY_RESOLVED
  | CS_UNRESOLVED
  | CS_SUPPRESSED
  | CS_REVALIDATION_REQUIRED
  | CS_SUPERSEDED
  | CS_UNKNOWN

primrec ord_ConflictState :: "ConflictState \<Rightarrow> nat" where
    "ord_ConflictState CS_DETECTED = 0"
  | "ord_ConflictState CS_VALIDATING = 1"
  | "ord_ConflictState CS_ACTIONABLE = 2"
  | "ord_ConflictState CS_INTERVENTION_AUTHORIZED = 3"
  | "ord_ConflictState CS_INTERVENTION_IN_FLIGHT = 4"
  | "ord_ConflictState CS_VERIFYING = 5"
  | "ord_ConflictState CS_RESOLVED = 6"
  | "ord_ConflictState CS_PARTIALLY_RESOLVED = 7"
  | "ord_ConflictState CS_UNRESOLVED = 8"
  | "ord_ConflictState CS_SUPPRESSED = 9"
  | "ord_ConflictState CS_REVALIDATION_REQUIRED = 10"
  | "ord_ConflictState CS_SUPERSEDED = 11"
  | "ord_ConflictState CS_UNKNOWN = 12"

definition all_ConflictState :: "ConflictState list" where
  "all_ConflictState = [CS_DETECTED,
    CS_VALIDATING,
    CS_ACTIONABLE,
    CS_INTERVENTION_AUTHORIZED,
    CS_INTERVENTION_IN_FLIGHT,
    CS_VERIFYING,
    CS_RESOLVED,
    CS_PARTIALLY_RESOLVED,
    CS_UNRESOLVED,
    CS_SUPPRESSED,
    CS_REVALIDATION_REQUIRED,
    CS_SUPERSEDED,
    CS_UNKNOWN]"

primrec to_string_ConflictState :: "ConflictState \<Rightarrow> string" where
    "to_string_ConflictState CS_DETECTED = ''ConflictState::DETECTED''"
  | "to_string_ConflictState CS_VALIDATING = ''ConflictState::VALIDATING''"
  | "to_string_ConflictState CS_ACTIONABLE = ''ConflictState::ACTIONABLE''"
  | "to_string_ConflictState CS_INTERVENTION_AUTHORIZED = ''ConflictState::INTERVENTION_AUTHORIZED''"
  | "to_string_ConflictState CS_INTERVENTION_IN_FLIGHT = ''ConflictState::INTERVENTION_IN_FLIGHT''"
  | "to_string_ConflictState CS_VERIFYING = ''ConflictState::VERIFYING''"
  | "to_string_ConflictState CS_RESOLVED = ''ConflictState::RESOLVED''"
  | "to_string_ConflictState CS_PARTIALLY_RESOLVED = ''ConflictState::PARTIALLY_RESOLVED''"
  | "to_string_ConflictState CS_UNRESOLVED = ''ConflictState::UNRESOLVED''"
  | "to_string_ConflictState CS_SUPPRESSED = ''ConflictState::SUPPRESSED''"
  | "to_string_ConflictState CS_REVALIDATION_REQUIRED = ''ConflictState::REVALIDATION_REQUIRED''"
  | "to_string_ConflictState CS_SUPERSEDED = ''ConflictState::SUPERSEDED''"
  | "to_string_ConflictState CS_UNKNOWN = ''ConflictState::UNKNOWN''"

definition from_string_ConflictState :: "string \<Rightarrow> ConflictState option" where
  "from_string_ConflictState s = map_of [
    (''DETECTED'', CS_DETECTED),
    (''VALIDATING'', CS_VALIDATING),
    (''ACTIONABLE'', CS_ACTIONABLE),
    (''INTERVENTION_AUTHORIZED'', CS_INTERVENTION_AUTHORIZED),
    (''INTERVENTION_IN_FLIGHT'', CS_INTERVENTION_IN_FLIGHT),
    (''VERIFYING'', CS_VERIFYING),
    (''RESOLVED'', CS_RESOLVED),
    (''PARTIALLY_RESOLVED'', CS_PARTIALLY_RESOLVED),
    (''UNRESOLVED'', CS_UNRESOLVED),
    (''SUPPRESSED'', CS_SUPPRESSED),
    (''REVALIDATION_REQUIRED'', CS_REVALIDATION_REQUIRED),
    (''SUPERSEDED'', CS_SUPERSEDED),
    (''UNKNOWN'', CS_UNKNOWN)] s"

section \<open>EvidenceStatus\<close>

datatype EvidenceStatus =
    ES_CURRENT
  | ES_STALE
  | ES_EXPIRED
  | ES_REVALIDATION_REQUIRED
  | ES_UNSUPPORTED
  | ES_UNKNOWN
  | ES_CONFOUNDED
  | ES_INSUFFICIENT_EVIDENCE

primrec ord_EvidenceStatus :: "EvidenceStatus \<Rightarrow> nat" where
    "ord_EvidenceStatus ES_CURRENT = 0"
  | "ord_EvidenceStatus ES_STALE = 1"
  | "ord_EvidenceStatus ES_EXPIRED = 2"
  | "ord_EvidenceStatus ES_REVALIDATION_REQUIRED = 3"
  | "ord_EvidenceStatus ES_UNSUPPORTED = 4"
  | "ord_EvidenceStatus ES_UNKNOWN = 5"
  | "ord_EvidenceStatus ES_CONFOUNDED = 6"
  | "ord_EvidenceStatus ES_INSUFFICIENT_EVIDENCE = 7"

definition all_EvidenceStatus :: "EvidenceStatus list" where
  "all_EvidenceStatus = [ES_CURRENT,
    ES_STALE,
    ES_EXPIRED,
    ES_REVALIDATION_REQUIRED,
    ES_UNSUPPORTED,
    ES_UNKNOWN,
    ES_CONFOUNDED,
    ES_INSUFFICIENT_EVIDENCE]"

primrec to_string_EvidenceStatus :: "EvidenceStatus \<Rightarrow> string" where
    "to_string_EvidenceStatus ES_CURRENT = ''EvidenceStatus::CURRENT''"
  | "to_string_EvidenceStatus ES_STALE = ''EvidenceStatus::STALE''"
  | "to_string_EvidenceStatus ES_EXPIRED = ''EvidenceStatus::EXPIRED''"
  | "to_string_EvidenceStatus ES_REVALIDATION_REQUIRED = ''EvidenceStatus::REVALIDATION_REQUIRED''"
  | "to_string_EvidenceStatus ES_UNSUPPORTED = ''EvidenceStatus::UNSUPPORTED''"
  | "to_string_EvidenceStatus ES_UNKNOWN = ''EvidenceStatus::UNKNOWN''"
  | "to_string_EvidenceStatus ES_CONFOUNDED = ''EvidenceStatus::CONFOUNDED''"
  | "to_string_EvidenceStatus ES_INSUFFICIENT_EVIDENCE = ''EvidenceStatus::INSUFFICIENT_EVIDENCE''"

definition from_string_EvidenceStatus :: "string \<Rightarrow> EvidenceStatus option" where
  "from_string_EvidenceStatus s = map_of [
    (''CURRENT'', ES_CURRENT),
    (''STALE'', ES_STALE),
    (''EXPIRED'', ES_EXPIRED),
    (''REVALIDATION_REQUIRED'', ES_REVALIDATION_REQUIRED),
    (''UNSUPPORTED'', ES_UNSUPPORTED),
    (''UNKNOWN'', ES_UNKNOWN),
    (''CONFOUNDED'', ES_CONFOUNDED),
    (''INSUFFICIENT_EVIDENCE'', ES_INSUFFICIENT_EVIDENCE)] s"

section \<open>AttributionStrength\<close>

datatype AttributionStrength =
    AS_UNKNOWN
  | AS_TEMPORALLY_ASSOCIATED
  | AS_CORRELATED
  | AS_CONTROLLED_COMPARISON
  | AS_STRONG_COUNTERFACTUAL_EVIDENCE
  | AS_DIRECT_RESOURCE_EVIDENCE
  | AS_OUT_OF_RANGE

primrec ord_AttributionStrength :: "AttributionStrength \<Rightarrow> nat" where
    "ord_AttributionStrength AS_UNKNOWN = 0"
  | "ord_AttributionStrength AS_TEMPORALLY_ASSOCIATED = 1"
  | "ord_AttributionStrength AS_CORRELATED = 2"
  | "ord_AttributionStrength AS_CONTROLLED_COMPARISON = 3"
  | "ord_AttributionStrength AS_STRONG_COUNTERFACTUAL_EVIDENCE = 4"
  | "ord_AttributionStrength AS_DIRECT_RESOURCE_EVIDENCE = 5"
  | "ord_AttributionStrength AS_OUT_OF_RANGE = 6"

definition all_AttributionStrength :: "AttributionStrength list" where
  "all_AttributionStrength = [AS_UNKNOWN,
    AS_TEMPORALLY_ASSOCIATED,
    AS_CORRELATED,
    AS_CONTROLLED_COMPARISON,
    AS_STRONG_COUNTERFACTUAL_EVIDENCE,
    AS_DIRECT_RESOURCE_EVIDENCE]"

text \<open>The bound 7 of \<^verbatim>\<open>deserialize_policy\<close> admits the value 6, which no enumerator has.\<close>

definition policy_AttributionStrength :: "AttributionStrength list" where
  "policy_AttributionStrength = all_AttributionStrength @ [AS_OUT_OF_RANGE]"

primrec to_string_AttributionStrength :: "AttributionStrength \<Rightarrow> string" where
    "to_string_AttributionStrength AS_UNKNOWN = ''AttributionStrength::UNKNOWN''"
  | "to_string_AttributionStrength AS_TEMPORALLY_ASSOCIATED = ''AttributionStrength::TEMPORALLY_ASSOCIATED''"
  | "to_string_AttributionStrength AS_CORRELATED = ''AttributionStrength::CORRELATED''"
  | "to_string_AttributionStrength AS_CONTROLLED_COMPARISON = ''AttributionStrength::CONTROLLED_COMPARISON''"
  | "to_string_AttributionStrength AS_STRONG_COUNTERFACTUAL_EVIDENCE = ''AttributionStrength::STRONG_COUNTERFACTUAL_EVIDENCE''"
  | "to_string_AttributionStrength AS_DIRECT_RESOURCE_EVIDENCE = ''AttributionStrength::DIRECT_RESOURCE_EVIDENCE''"
  | "to_string_AttributionStrength AS_OUT_OF_RANGE = ''UNKNOWN''"

definition from_string_AttributionStrength :: "string \<Rightarrow> AttributionStrength option" where
  "from_string_AttributionStrength s = map_of [
    (''UNKNOWN'', AS_UNKNOWN),
    (''TEMPORALLY_ASSOCIATED'', AS_TEMPORALLY_ASSOCIATED),
    (''CORRELATED'', AS_CORRELATED),
    (''CONTROLLED_COMPARISON'', AS_CONTROLLED_COMPARISON),
    (''STRONG_COUNTERFACTUAL_EVIDENCE'', AS_STRONG_COUNTERFACTUAL_EVIDENCE),
    (''DIRECT_RESOURCE_EVIDENCE'', AS_DIRECT_RESOURCE_EVIDENCE)] s"

section \<open>BindingObjective\<close>

datatype BindingObjective =
    BO_LATENCY
  | BO_TAIL_LATENCY
  | BO_THROUGHPUT
  | BO_DEADLINE
  | BO_AVAILABILITY
  | BO_RECOVERY
  | BO_COST
  | BO_FAIRNESS
  | BO_RESOURCE_MINIMUM
  | BO_VALUE_PROTECTION
  | BO_MULTIPLE
  | BO_UNKNOWN

primrec ord_BindingObjective :: "BindingObjective \<Rightarrow> nat" where
    "ord_BindingObjective BO_LATENCY = 0"
  | "ord_BindingObjective BO_TAIL_LATENCY = 1"
  | "ord_BindingObjective BO_THROUGHPUT = 2"
  | "ord_BindingObjective BO_DEADLINE = 3"
  | "ord_BindingObjective BO_AVAILABILITY = 4"
  | "ord_BindingObjective BO_RECOVERY = 5"
  | "ord_BindingObjective BO_COST = 6"
  | "ord_BindingObjective BO_FAIRNESS = 7"
  | "ord_BindingObjective BO_RESOURCE_MINIMUM = 8"
  | "ord_BindingObjective BO_VALUE_PROTECTION = 9"
  | "ord_BindingObjective BO_MULTIPLE = 10"
  | "ord_BindingObjective BO_UNKNOWN = 11"

definition all_BindingObjective :: "BindingObjective list" where
  "all_BindingObjective = [BO_LATENCY,
    BO_TAIL_LATENCY,
    BO_THROUGHPUT,
    BO_DEADLINE,
    BO_AVAILABILITY,
    BO_RECOVERY,
    BO_COST,
    BO_FAIRNESS,
    BO_RESOURCE_MINIMUM,
    BO_VALUE_PROTECTION,
    BO_MULTIPLE,
    BO_UNKNOWN]"

primrec to_string_BindingObjective :: "BindingObjective \<Rightarrow> string" where
    "to_string_BindingObjective BO_LATENCY = ''BindingObjective::LATENCY''"
  | "to_string_BindingObjective BO_TAIL_LATENCY = ''BindingObjective::TAIL_LATENCY''"
  | "to_string_BindingObjective BO_THROUGHPUT = ''BindingObjective::THROUGHPUT''"
  | "to_string_BindingObjective BO_DEADLINE = ''BindingObjective::DEADLINE''"
  | "to_string_BindingObjective BO_AVAILABILITY = ''BindingObjective::AVAILABILITY''"
  | "to_string_BindingObjective BO_RECOVERY = ''BindingObjective::RECOVERY''"
  | "to_string_BindingObjective BO_COST = ''BindingObjective::COST''"
  | "to_string_BindingObjective BO_FAIRNESS = ''BindingObjective::FAIRNESS''"
  | "to_string_BindingObjective BO_RESOURCE_MINIMUM = ''BindingObjective::RESOURCE_MINIMUM''"
  | "to_string_BindingObjective BO_VALUE_PROTECTION = ''BindingObjective::VALUE_PROTECTION''"
  | "to_string_BindingObjective BO_MULTIPLE = ''BindingObjective::MULTIPLE''"
  | "to_string_BindingObjective BO_UNKNOWN = ''BindingObjective::UNKNOWN''"

definition from_string_BindingObjective :: "string \<Rightarrow> BindingObjective option" where
  "from_string_BindingObjective s = map_of [
    (''LATENCY'', BO_LATENCY),
    (''TAIL_LATENCY'', BO_TAIL_LATENCY),
    (''THROUGHPUT'', BO_THROUGHPUT),
    (''DEADLINE'', BO_DEADLINE),
    (''AVAILABILITY'', BO_AVAILABILITY),
    (''RECOVERY'', BO_RECOVERY),
    (''COST'', BO_COST),
    (''FAIRNESS'', BO_FAIRNESS),
    (''RESOURCE_MINIMUM'', BO_RESOURCE_MINIMUM),
    (''VALUE_PROTECTION'', BO_VALUE_PROTECTION),
    (''MULTIPLE'', BO_MULTIPLE),
    (''UNKNOWN'', BO_UNKNOWN)] s"

section \<open>InterventionClass\<close>

datatype InterventionClass =
    IC_NO_ACTION
  | IC_OBSERVE_MORE
  | IC_THROTTLE
  | IC_DEFER_NEW_WORK
  | IC_REDUCE_CONCURRENCY
  | IC_REDUCE_BATCH
  | IC_SERIALIZE
  | IC_TIME_SLICE
  | IC_REQUEST_PREEMPTION
  | IC_REQUEST_MIGRATION
  | IC_REQUEST_REPLACEMENT
  | IC_CHANGE_PLACEMENT
  | IC_REQUEST_BANDWIDTH_REALLOCATION
  | IC_REQUEST_COMMUNICATION_REPLAN
  | IC_REQUEST_COLLECTIVE_RESCHEDULE
  | IC_RELEASE_OPTIONAL_RESIDENCY
  | IC_REDUCE_MEMORY_PRESSURE
  | IC_SHED_LOW_VALUE_WORK
  | IC_PROTECT_HIGH_VALUE_WORK
  | IC_ESCALATE
  | IC_MANUAL_INTERVENTION_REQUIRED

primrec ord_InterventionClass :: "InterventionClass \<Rightarrow> nat" where
    "ord_InterventionClass IC_NO_ACTION = 0"
  | "ord_InterventionClass IC_OBSERVE_MORE = 1"
  | "ord_InterventionClass IC_THROTTLE = 2"
  | "ord_InterventionClass IC_DEFER_NEW_WORK = 3"
  | "ord_InterventionClass IC_REDUCE_CONCURRENCY = 4"
  | "ord_InterventionClass IC_REDUCE_BATCH = 5"
  | "ord_InterventionClass IC_SERIALIZE = 6"
  | "ord_InterventionClass IC_TIME_SLICE = 7"
  | "ord_InterventionClass IC_REQUEST_PREEMPTION = 8"
  | "ord_InterventionClass IC_REQUEST_MIGRATION = 9"
  | "ord_InterventionClass IC_REQUEST_REPLACEMENT = 10"
  | "ord_InterventionClass IC_CHANGE_PLACEMENT = 11"
  | "ord_InterventionClass IC_REQUEST_BANDWIDTH_REALLOCATION = 12"
  | "ord_InterventionClass IC_REQUEST_COMMUNICATION_REPLAN = 13"
  | "ord_InterventionClass IC_REQUEST_COLLECTIVE_RESCHEDULE = 14"
  | "ord_InterventionClass IC_RELEASE_OPTIONAL_RESIDENCY = 15"
  | "ord_InterventionClass IC_REDUCE_MEMORY_PRESSURE = 16"
  | "ord_InterventionClass IC_SHED_LOW_VALUE_WORK = 17"
  | "ord_InterventionClass IC_PROTECT_HIGH_VALUE_WORK = 18"
  | "ord_InterventionClass IC_ESCALATE = 19"
  | "ord_InterventionClass IC_MANUAL_INTERVENTION_REQUIRED = 20"

definition all_InterventionClass :: "InterventionClass list" where
  "all_InterventionClass = [IC_NO_ACTION,
    IC_OBSERVE_MORE,
    IC_THROTTLE,
    IC_DEFER_NEW_WORK,
    IC_REDUCE_CONCURRENCY,
    IC_REDUCE_BATCH,
    IC_SERIALIZE,
    IC_TIME_SLICE,
    IC_REQUEST_PREEMPTION,
    IC_REQUEST_MIGRATION,
    IC_REQUEST_REPLACEMENT,
    IC_CHANGE_PLACEMENT,
    IC_REQUEST_BANDWIDTH_REALLOCATION,
    IC_REQUEST_COMMUNICATION_REPLAN,
    IC_REQUEST_COLLECTIVE_RESCHEDULE,
    IC_RELEASE_OPTIONAL_RESIDENCY,
    IC_REDUCE_MEMORY_PRESSURE,
    IC_SHED_LOW_VALUE_WORK,
    IC_PROTECT_HIGH_VALUE_WORK,
    IC_ESCALATE,
    IC_MANUAL_INTERVENTION_REQUIRED]"

primrec to_string_InterventionClass :: "InterventionClass \<Rightarrow> string" where
    "to_string_InterventionClass IC_NO_ACTION = ''InterventionClass::NO_ACTION''"
  | "to_string_InterventionClass IC_OBSERVE_MORE = ''InterventionClass::OBSERVE_MORE''"
  | "to_string_InterventionClass IC_THROTTLE = ''InterventionClass::THROTTLE''"
  | "to_string_InterventionClass IC_DEFER_NEW_WORK = ''InterventionClass::DEFER_NEW_WORK''"
  | "to_string_InterventionClass IC_REDUCE_CONCURRENCY = ''InterventionClass::REDUCE_CONCURRENCY''"
  | "to_string_InterventionClass IC_REDUCE_BATCH = ''InterventionClass::REDUCE_BATCH''"
  | "to_string_InterventionClass IC_SERIALIZE = ''InterventionClass::SERIALIZE''"
  | "to_string_InterventionClass IC_TIME_SLICE = ''InterventionClass::TIME_SLICE''"
  | "to_string_InterventionClass IC_REQUEST_PREEMPTION = ''InterventionClass::REQUEST_PREEMPTION''"
  | "to_string_InterventionClass IC_REQUEST_MIGRATION = ''InterventionClass::REQUEST_MIGRATION''"
  | "to_string_InterventionClass IC_REQUEST_REPLACEMENT = ''InterventionClass::REQUEST_REPLACEMENT''"
  | "to_string_InterventionClass IC_CHANGE_PLACEMENT = ''InterventionClass::CHANGE_PLACEMENT''"
  | "to_string_InterventionClass IC_REQUEST_BANDWIDTH_REALLOCATION = ''InterventionClass::REQUEST_BANDWIDTH_REALLOCATION''"
  | "to_string_InterventionClass IC_REQUEST_COMMUNICATION_REPLAN = ''InterventionClass::REQUEST_COMMUNICATION_REPLAN''"
  | "to_string_InterventionClass IC_REQUEST_COLLECTIVE_RESCHEDULE = ''InterventionClass::REQUEST_COLLECTIVE_RESCHEDULE''"
  | "to_string_InterventionClass IC_RELEASE_OPTIONAL_RESIDENCY = ''InterventionClass::RELEASE_OPTIONAL_RESIDENCY''"
  | "to_string_InterventionClass IC_REDUCE_MEMORY_PRESSURE = ''InterventionClass::REDUCE_MEMORY_PRESSURE''"
  | "to_string_InterventionClass IC_SHED_LOW_VALUE_WORK = ''InterventionClass::SHED_LOW_VALUE_WORK''"
  | "to_string_InterventionClass IC_PROTECT_HIGH_VALUE_WORK = ''InterventionClass::PROTECT_HIGH_VALUE_WORK''"
  | "to_string_InterventionClass IC_ESCALATE = ''InterventionClass::ESCALATE''"
  | "to_string_InterventionClass IC_MANUAL_INTERVENTION_REQUIRED = ''InterventionClass::MANUAL_INTERVENTION_REQUIRED''"

definition from_string_InterventionClass :: "string \<Rightarrow> InterventionClass option" where
  "from_string_InterventionClass s = map_of [
    (''NO_ACTION'', IC_NO_ACTION),
    (''OBSERVE_MORE'', IC_OBSERVE_MORE),
    (''THROTTLE'', IC_THROTTLE),
    (''DEFER_NEW_WORK'', IC_DEFER_NEW_WORK),
    (''REDUCE_CONCURRENCY'', IC_REDUCE_CONCURRENCY),
    (''REDUCE_BATCH'', IC_REDUCE_BATCH),
    (''SERIALIZE'', IC_SERIALIZE),
    (''TIME_SLICE'', IC_TIME_SLICE),
    (''REQUEST_PREEMPTION'', IC_REQUEST_PREEMPTION),
    (''REQUEST_MIGRATION'', IC_REQUEST_MIGRATION),
    (''REQUEST_REPLACEMENT'', IC_REQUEST_REPLACEMENT),
    (''CHANGE_PLACEMENT'', IC_CHANGE_PLACEMENT),
    (''REQUEST_BANDWIDTH_REALLOCATION'', IC_REQUEST_BANDWIDTH_REALLOCATION),
    (''REQUEST_COMMUNICATION_REPLAN'', IC_REQUEST_COMMUNICATION_REPLAN),
    (''REQUEST_COLLECTIVE_RESCHEDULE'', IC_REQUEST_COLLECTIVE_RESCHEDULE),
    (''RELEASE_OPTIONAL_RESIDENCY'', IC_RELEASE_OPTIONAL_RESIDENCY),
    (''REDUCE_MEMORY_PRESSURE'', IC_REDUCE_MEMORY_PRESSURE),
    (''SHED_LOW_VALUE_WORK'', IC_SHED_LOW_VALUE_WORK),
    (''PROTECT_HIGH_VALUE_WORK'', IC_PROTECT_HIGH_VALUE_WORK),
    (''ESCALATE'', IC_ESCALATE),
    (''MANUAL_INTERVENTION_REQUIRED'', IC_MANUAL_INTERVENTION_REQUIRED)] s"

section \<open>LifecycleState\<close>

datatype LifecycleState =
    LS_PROPOSED
  | LS_AUTHORIZED
  | LS_DISPATCHED
  | LS_ACKNOWLEDGED
  | LS_EFFECTIVE
  | LS_PARTIALLY_EFFECTIVE
  | LS_INEFFECTIVE
  | LS_FAILED
  | LS_CANCELLED
  | LS_SUPERSEDED
  | LS_EXPIRED
  | LS_OUTCOME_UNKNOWN

primrec ord_LifecycleState :: "LifecycleState \<Rightarrow> nat" where
    "ord_LifecycleState LS_PROPOSED = 0"
  | "ord_LifecycleState LS_AUTHORIZED = 1"
  | "ord_LifecycleState LS_DISPATCHED = 2"
  | "ord_LifecycleState LS_ACKNOWLEDGED = 3"
  | "ord_LifecycleState LS_EFFECTIVE = 4"
  | "ord_LifecycleState LS_PARTIALLY_EFFECTIVE = 5"
  | "ord_LifecycleState LS_INEFFECTIVE = 6"
  | "ord_LifecycleState LS_FAILED = 7"
  | "ord_LifecycleState LS_CANCELLED = 8"
  | "ord_LifecycleState LS_SUPERSEDED = 9"
  | "ord_LifecycleState LS_EXPIRED = 10"
  | "ord_LifecycleState LS_OUTCOME_UNKNOWN = 11"

definition all_LifecycleState :: "LifecycleState list" where
  "all_LifecycleState = [LS_PROPOSED,
    LS_AUTHORIZED,
    LS_DISPATCHED,
    LS_ACKNOWLEDGED,
    LS_EFFECTIVE,
    LS_PARTIALLY_EFFECTIVE,
    LS_INEFFECTIVE,
    LS_FAILED,
    LS_CANCELLED,
    LS_SUPERSEDED,
    LS_EXPIRED,
    LS_OUTCOME_UNKNOWN]"

primrec to_string_LifecycleState :: "LifecycleState \<Rightarrow> string" where
    "to_string_LifecycleState LS_PROPOSED = ''LifecycleState::PROPOSED''"
  | "to_string_LifecycleState LS_AUTHORIZED = ''LifecycleState::AUTHORIZED''"
  | "to_string_LifecycleState LS_DISPATCHED = ''LifecycleState::DISPATCHED''"
  | "to_string_LifecycleState LS_ACKNOWLEDGED = ''LifecycleState::ACKNOWLEDGED''"
  | "to_string_LifecycleState LS_EFFECTIVE = ''LifecycleState::EFFECTIVE''"
  | "to_string_LifecycleState LS_PARTIALLY_EFFECTIVE = ''LifecycleState::PARTIALLY_EFFECTIVE''"
  | "to_string_LifecycleState LS_INEFFECTIVE = ''LifecycleState::INEFFECTIVE''"
  | "to_string_LifecycleState LS_FAILED = ''LifecycleState::FAILED''"
  | "to_string_LifecycleState LS_CANCELLED = ''LifecycleState::CANCELLED''"
  | "to_string_LifecycleState LS_SUPERSEDED = ''LifecycleState::SUPERSEDED''"
  | "to_string_LifecycleState LS_EXPIRED = ''LifecycleState::EXPIRED''"
  | "to_string_LifecycleState LS_OUTCOME_UNKNOWN = ''LifecycleState::OUTCOME_UNKNOWN''"

definition from_string_LifecycleState :: "string \<Rightarrow> LifecycleState option" where
  "from_string_LifecycleState s = map_of [
    (''PROPOSED'', LS_PROPOSED),
    (''AUTHORIZED'', LS_AUTHORIZED),
    (''DISPATCHED'', LS_DISPATCHED),
    (''ACKNOWLEDGED'', LS_ACKNOWLEDGED),
    (''EFFECTIVE'', LS_EFFECTIVE),
    (''PARTIALLY_EFFECTIVE'', LS_PARTIALLY_EFFECTIVE),
    (''INEFFECTIVE'', LS_INEFFECTIVE),
    (''FAILED'', LS_FAILED),
    (''CANCELLED'', LS_CANCELLED),
    (''SUPERSEDED'', LS_SUPERSEDED),
    (''EXPIRED'', LS_EXPIRED),
    (''OUTCOME_UNKNOWN'', LS_OUTCOME_UNKNOWN)] s"

section \<open>VerificationOutcome\<close>

datatype VerificationOutcome =
    VO_RESOLVED
  | VO_PARTIALLY_RESOLVED
  | VO_INEFFECTIVE
  | VO_WORSENED
  | VO_SHIFTED_CONTENTION
  | VO_CREATED_SECONDARY_VIOLATION
  | VO_CREATED_FAIRNESS_VIOLATION
  | VO_INSUFFICIENT_POST_ACTION_EVIDENCE
  | VO_OUTCOME_UNKNOWN

primrec ord_VerificationOutcome :: "VerificationOutcome \<Rightarrow> nat" where
    "ord_VerificationOutcome VO_RESOLVED = 0"
  | "ord_VerificationOutcome VO_PARTIALLY_RESOLVED = 1"
  | "ord_VerificationOutcome VO_INEFFECTIVE = 2"
  | "ord_VerificationOutcome VO_WORSENED = 3"
  | "ord_VerificationOutcome VO_SHIFTED_CONTENTION = 4"
  | "ord_VerificationOutcome VO_CREATED_SECONDARY_VIOLATION = 5"
  | "ord_VerificationOutcome VO_CREATED_FAIRNESS_VIOLATION = 6"
  | "ord_VerificationOutcome VO_INSUFFICIENT_POST_ACTION_EVIDENCE = 7"
  | "ord_VerificationOutcome VO_OUTCOME_UNKNOWN = 8"

definition all_VerificationOutcome :: "VerificationOutcome list" where
  "all_VerificationOutcome = [VO_RESOLVED,
    VO_PARTIALLY_RESOLVED,
    VO_INEFFECTIVE,
    VO_WORSENED,
    VO_SHIFTED_CONTENTION,
    VO_CREATED_SECONDARY_VIOLATION,
    VO_CREATED_FAIRNESS_VIOLATION,
    VO_INSUFFICIENT_POST_ACTION_EVIDENCE,
    VO_OUTCOME_UNKNOWN]"

primrec to_string_VerificationOutcome :: "VerificationOutcome \<Rightarrow> string" where
    "to_string_VerificationOutcome VO_RESOLVED = ''VerificationOutcome::RESOLVED''"
  | "to_string_VerificationOutcome VO_PARTIALLY_RESOLVED = ''VerificationOutcome::PARTIALLY_RESOLVED''"
  | "to_string_VerificationOutcome VO_INEFFECTIVE = ''VerificationOutcome::INEFFECTIVE''"
  | "to_string_VerificationOutcome VO_WORSENED = ''VerificationOutcome::WORSENED''"
  | "to_string_VerificationOutcome VO_SHIFTED_CONTENTION = ''VerificationOutcome::SHIFTED_CONTENTION''"
  | "to_string_VerificationOutcome VO_CREATED_SECONDARY_VIOLATION = ''VerificationOutcome::CREATED_SECONDARY_VIOLATION''"
  | "to_string_VerificationOutcome VO_CREATED_FAIRNESS_VIOLATION = ''VerificationOutcome::CREATED_FAIRNESS_VIOLATION''"
  | "to_string_VerificationOutcome VO_INSUFFICIENT_POST_ACTION_EVIDENCE = ''VerificationOutcome::INSUFFICIENT_POST_ACTION_EVIDENCE''"
  | "to_string_VerificationOutcome VO_OUTCOME_UNKNOWN = ''VerificationOutcome::OUTCOME_UNKNOWN''"

definition from_string_VerificationOutcome :: "string \<Rightarrow> VerificationOutcome option" where
  "from_string_VerificationOutcome s = map_of [
    (''RESOLVED'', VO_RESOLVED),
    (''PARTIALLY_RESOLVED'', VO_PARTIALLY_RESOLVED),
    (''INEFFECTIVE'', VO_INEFFECTIVE),
    (''WORSENED'', VO_WORSENED),
    (''SHIFTED_CONTENTION'', VO_SHIFTED_CONTENTION),
    (''CREATED_SECONDARY_VIOLATION'', VO_CREATED_SECONDARY_VIOLATION),
    (''CREATED_FAIRNESS_VIOLATION'', VO_CREATED_FAIRNESS_VIOLATION),
    (''INSUFFICIENT_POST_ACTION_EVIDENCE'', VO_INSUFFICIENT_POST_ACTION_EVIDENCE),
    (''OUTCOME_UNKNOWN'', VO_OUTCOME_UNKNOWN)] s"

section \<open>EvidenceLabel\<close>

datatype EvidenceLabel =
    EL_REAL
  | EL_CONTROLLED
  | EL_DERIVED
  | EL_POLICY
  | EL_SYNTHETIC
  | EL_UNSUPPORTED

primrec ord_EvidenceLabel :: "EvidenceLabel \<Rightarrow> nat" where
    "ord_EvidenceLabel EL_REAL = 0"
  | "ord_EvidenceLabel EL_CONTROLLED = 1"
  | "ord_EvidenceLabel EL_DERIVED = 2"
  | "ord_EvidenceLabel EL_POLICY = 3"
  | "ord_EvidenceLabel EL_SYNTHETIC = 4"
  | "ord_EvidenceLabel EL_UNSUPPORTED = 5"

definition all_EvidenceLabel :: "EvidenceLabel list" where
  "all_EvidenceLabel = [EL_REAL,
    EL_CONTROLLED,
    EL_DERIVED,
    EL_POLICY,
    EL_SYNTHETIC,
    EL_UNSUPPORTED]"

primrec to_string_EvidenceLabel :: "EvidenceLabel \<Rightarrow> string" where
    "to_string_EvidenceLabel EL_REAL = ''EvidenceLabel::REAL''"
  | "to_string_EvidenceLabel EL_CONTROLLED = ''EvidenceLabel::CONTROLLED''"
  | "to_string_EvidenceLabel EL_DERIVED = ''EvidenceLabel::DERIVED''"
  | "to_string_EvidenceLabel EL_POLICY = ''EvidenceLabel::POLICY''"
  | "to_string_EvidenceLabel EL_SYNTHETIC = ''EvidenceLabel::SYNTHETIC''"
  | "to_string_EvidenceLabel EL_UNSUPPORTED = ''EvidenceLabel::UNSUPPORTED''"

definition from_string_EvidenceLabel :: "string \<Rightarrow> EvidenceLabel option" where
  "from_string_EvidenceLabel s = map_of [
    (''REAL'', EL_REAL),
    (''CONTROLLED'', EL_CONTROLLED),
    (''DERIVED'', EL_DERIVED),
    (''POLICY'', EL_POLICY),
    (''SYNTHETIC'', EL_SYNTHETIC),
    (''UNSUPPORTED'', EL_UNSUPPORTED)] s"

section \<open>Severity\<close>

datatype Severity =
    SV_NONE
  | SV_MINOR
  | SV_MODERATE
  | SV_SEVERE
  | SV_CRITICAL
  | SV_UNKNOWN

primrec ord_Severity :: "Severity \<Rightarrow> nat" where
    "ord_Severity SV_NONE = 0"
  | "ord_Severity SV_MINOR = 1"
  | "ord_Severity SV_MODERATE = 2"
  | "ord_Severity SV_SEVERE = 3"
  | "ord_Severity SV_CRITICAL = 4"
  | "ord_Severity SV_UNKNOWN = 5"

definition all_Severity :: "Severity list" where
  "all_Severity = [SV_NONE,
    SV_MINOR,
    SV_MODERATE,
    SV_SEVERE,
    SV_CRITICAL,
    SV_UNKNOWN]"

primrec to_string_Severity :: "Severity \<Rightarrow> string" where
    "to_string_Severity SV_NONE = ''Severity::NONE''"
  | "to_string_Severity SV_MINOR = ''Severity::MINOR''"
  | "to_string_Severity SV_MODERATE = ''Severity::MODERATE''"
  | "to_string_Severity SV_SEVERE = ''Severity::SEVERE''"
  | "to_string_Severity SV_CRITICAL = ''Severity::CRITICAL''"
  | "to_string_Severity SV_UNKNOWN = ''Severity::UNKNOWN''"

definition from_string_Severity :: "string \<Rightarrow> Severity option" where
  "from_string_Severity s = map_of [
    (''NONE'', SV_NONE),
    (''MINOR'', SV_MINOR),
    (''MODERATE'', SV_MODERATE),
    (''SEVERE'', SV_SEVERE),
    (''CRITICAL'', SV_CRITICAL),
    (''UNKNOWN'', SV_UNKNOWN)] s"

section \<open>FeasibilityStatus\<close>

datatype FeasibilityStatus =
    FS_FEASIBLE
  | FS_INFEASIBLE

primrec ord_FeasibilityStatus :: "FeasibilityStatus \<Rightarrow> nat" where
    "ord_FeasibilityStatus FS_FEASIBLE = 0"
  | "ord_FeasibilityStatus FS_INFEASIBLE = 1"

definition all_FeasibilityStatus :: "FeasibilityStatus list" where
  "all_FeasibilityStatus = [FS_FEASIBLE,
    FS_INFEASIBLE]"

primrec to_string_FeasibilityStatus :: "FeasibilityStatus \<Rightarrow> string" where
    "to_string_FeasibilityStatus FS_FEASIBLE = ''FeasibilityStatus::FEASIBLE''"
  | "to_string_FeasibilityStatus FS_INFEASIBLE = ''FeasibilityStatus::INFEASIBLE''"

section \<open>TriState\<close>

datatype TriState =
    TS_YES
  | TS_NO
  | TS_UNKNOWN

primrec ord_TriState :: "TriState \<Rightarrow> nat" where
    "ord_TriState TS_YES = 0"
  | "ord_TriState TS_NO = 1"
  | "ord_TriState TS_UNKNOWN = 2"

definition all_TriState :: "TriState list" where
  "all_TriState = [TS_YES,
    TS_NO,
    TS_UNKNOWN]"

primrec to_string_TriState :: "TriState \<Rightarrow> string" where
    "to_string_TriState TS_YES = ''TriState::YES''"
  | "to_string_TriState TS_NO = ''TriState::NO''"
  | "to_string_TriState TS_UNKNOWN = ''TriState::UNKNOWN''"

section \<open>StatusCode and Status\<close>

datatype StatusCode =
    SC_OK
  | SC_INVALID_INPUT
  | SC_INSUFFICIENT_EVIDENCE
  | SC_CONFOUNDED
  | SC_STALE_EVIDENCE
  | SC_STALE_AUTHORITY
  | SC_POLICY_SUPERSEDED
  | SC_CONFLICT_RESOLVED
  | SC_NO_LEGAL_INTERVENTION
  | SC_HARD_CONSTRAINT_VIOLATION
  | SC_FAIRNESS_LIMIT
  | SC_ACTION_BUDGET_EXHAUSTED
  | SC_INTERVENTION_FAILED
  | SC_OUTCOME_UNKNOWN
  | SC_PERSISTENCE_CORRUPT
  | SC_PROTOCOL_ERROR
  | SC_ARITHMETIC_OVERFLOW
  | SC_RESOURCE_EXHAUSTED
  | SC_CANCELLED
  | SC_SHUTTING_DOWN
  | SC_OUT_OF_RANGE

primrec ord_StatusCode :: "StatusCode \<Rightarrow> nat" where
    "ord_StatusCode SC_OK = 0"
  | "ord_StatusCode SC_INVALID_INPUT = 1"
  | "ord_StatusCode SC_INSUFFICIENT_EVIDENCE = 2"
  | "ord_StatusCode SC_CONFOUNDED = 3"
  | "ord_StatusCode SC_STALE_EVIDENCE = 4"
  | "ord_StatusCode SC_STALE_AUTHORITY = 5"
  | "ord_StatusCode SC_POLICY_SUPERSEDED = 6"
  | "ord_StatusCode SC_CONFLICT_RESOLVED = 7"
  | "ord_StatusCode SC_NO_LEGAL_INTERVENTION = 8"
  | "ord_StatusCode SC_HARD_CONSTRAINT_VIOLATION = 9"
  | "ord_StatusCode SC_FAIRNESS_LIMIT = 10"
  | "ord_StatusCode SC_ACTION_BUDGET_EXHAUSTED = 11"
  | "ord_StatusCode SC_INTERVENTION_FAILED = 12"
  | "ord_StatusCode SC_OUTCOME_UNKNOWN = 13"
  | "ord_StatusCode SC_PERSISTENCE_CORRUPT = 14"
  | "ord_StatusCode SC_PROTOCOL_ERROR = 15"
  | "ord_StatusCode SC_ARITHMETIC_OVERFLOW = 16"
  | "ord_StatusCode SC_RESOURCE_EXHAUSTED = 17"
  | "ord_StatusCode SC_CANCELLED = 18"
  | "ord_StatusCode SC_SHUTTING_DOWN = 19"
  | "ord_StatusCode SC_OUT_OF_RANGE = 20"

definition all_StatusCode :: "StatusCode list" where
  "all_StatusCode = [SC_OK,
    SC_INVALID_INPUT,
    SC_INSUFFICIENT_EVIDENCE,
    SC_CONFOUNDED,
    SC_STALE_EVIDENCE,
    SC_STALE_AUTHORITY,
    SC_POLICY_SUPERSEDED,
    SC_CONFLICT_RESOLVED,
    SC_NO_LEGAL_INTERVENTION,
    SC_HARD_CONSTRAINT_VIOLATION,
    SC_FAIRNESS_LIMIT,
    SC_ACTION_BUDGET_EXHAUSTED,
    SC_INTERVENTION_FAILED,
    SC_OUTCOME_UNKNOWN,
    SC_PERSISTENCE_CORRUPT,
    SC_PROTOCOL_ERROR,
    SC_ARITHMETIC_OVERFLOW,
    SC_RESOURCE_EXHAUSTED,
    SC_CANCELLED,
    SC_SHUTTING_DOWN]"

text \<open>The bound 21 of \<^verbatim>\<open>deserialize_intervention\<close> admits the value 20, which no enumerator has.\<close>

definition persisted_StatusCode :: "StatusCode list" where
  "persisted_StatusCode = all_StatusCode @ [SC_OUT_OF_RANGE]"

primrec to_string_StatusCode :: "StatusCode \<Rightarrow> string" where
    "to_string_StatusCode SC_OK = ''OK''"
  | "to_string_StatusCode SC_INVALID_INPUT = ''INVALID_INPUT''"
  | "to_string_StatusCode SC_INSUFFICIENT_EVIDENCE = ''INSUFFICIENT_EVIDENCE''"
  | "to_string_StatusCode SC_CONFOUNDED = ''CONFOUNDED''"
  | "to_string_StatusCode SC_STALE_EVIDENCE = ''STALE_EVIDENCE''"
  | "to_string_StatusCode SC_STALE_AUTHORITY = ''STALE_AUTHORITY''"
  | "to_string_StatusCode SC_POLICY_SUPERSEDED = ''POLICY_SUPERSEDED''"
  | "to_string_StatusCode SC_CONFLICT_RESOLVED = ''CONFLICT_RESOLVED''"
  | "to_string_StatusCode SC_NO_LEGAL_INTERVENTION = ''NO_LEGAL_INTERVENTION''"
  | "to_string_StatusCode SC_HARD_CONSTRAINT_VIOLATION = ''HARD_CONSTRAINT_VIOLATION''"
  | "to_string_StatusCode SC_FAIRNESS_LIMIT = ''FAIRNESS_LIMIT''"
  | "to_string_StatusCode SC_ACTION_BUDGET_EXHAUSTED = ''ACTION_BUDGET_EXHAUSTED''"
  | "to_string_StatusCode SC_INTERVENTION_FAILED = ''INTERVENTION_FAILED''"
  | "to_string_StatusCode SC_OUTCOME_UNKNOWN = ''OUTCOME_UNKNOWN''"
  | "to_string_StatusCode SC_PERSISTENCE_CORRUPT = ''PERSISTENCE_CORRUPT''"
  | "to_string_StatusCode SC_PROTOCOL_ERROR = ''PROTOCOL_ERROR''"
  | "to_string_StatusCode SC_ARITHMETIC_OVERFLOW = ''ARITHMETIC_OVERFLOW''"
  | "to_string_StatusCode SC_RESOURCE_EXHAUSTED = ''RESOURCE_EXHAUSTED''"
  | "to_string_StatusCode SC_CANCELLED = ''CANCELLED''"
  | "to_string_StatusCode SC_SHUTTING_DOWN = ''SHUTTING_DOWN''"
  | "to_string_StatusCode SC_OUT_OF_RANGE = ''OK''"

record Status =
  st_code :: StatusCode
  st_message :: string

definition status_good :: Status where
  "status_good = \<lparr>st_code = SC_OK, st_message = ''''\<rparr>"

definition status_bad :: "StatusCode \<Rightarrow> string \<Rightarrow> Status" where
  "status_bad c msg = \<lparr>st_code = c, st_message = msg\<rparr>"

definition status_ok :: "Status \<Rightarrow> bool" where
  "status_ok s \<longleftrightarrow> st_code s = SC_OK"

lemma status_simps [simp]:
  "st_code status_good = SC_OK" "status_ok status_good"
  "st_code (status_bad c msg) = c" "st_message (status_bad c msg) = msg"
  "status_ok (status_bad c msg) \<longleftrightarrow> c = SC_OK"
  by (simp_all add: status_good_def status_bad_def status_ok_def)

text \<open>The C++ equality of statuses ignores the message.\<close>

definition status_equal :: "Status \<Rightarrow> Status \<Rightarrow> bool" where
  "status_equal a b \<longleftrightarrow> st_code a = st_code b"

section \<open>The codes are faithful\<close>

interpretation rd_code: byte_enum ord_ResourceDomain all_ResourceDomain
  by unfold_locales (auto simp: all_ResourceDomain_def nth_Cons' less_Suc_eq numeral_eq_Suc)

interpretation cs_code: byte_enum ord_ConflictState all_ConflictState
  by unfold_locales (auto simp: all_ConflictState_def nth_Cons' less_Suc_eq numeral_eq_Suc)

interpretation es_code: byte_enum ord_EvidenceStatus all_EvidenceStatus
  by unfold_locales (auto simp: all_EvidenceStatus_def nth_Cons' less_Suc_eq numeral_eq_Suc)

interpretation as_code: byte_enum ord_AttributionStrength all_AttributionStrength
  by unfold_locales (auto simp: all_AttributionStrength_def nth_Cons' less_Suc_eq numeral_eq_Suc)

interpretation bo_code: byte_enum ord_BindingObjective all_BindingObjective
  by unfold_locales (auto simp: all_BindingObjective_def nth_Cons' less_Suc_eq numeral_eq_Suc)

interpretation ic_code: byte_enum ord_InterventionClass all_InterventionClass
  by unfold_locales (auto simp: all_InterventionClass_def nth_Cons' less_Suc_eq numeral_eq_Suc)

interpretation ls_code: byte_enum ord_LifecycleState all_LifecycleState
  by unfold_locales (auto simp: all_LifecycleState_def nth_Cons' less_Suc_eq numeral_eq_Suc)

interpretation vo_code: byte_enum ord_VerificationOutcome all_VerificationOutcome
  by unfold_locales (auto simp: all_VerificationOutcome_def nth_Cons' less_Suc_eq numeral_eq_Suc)

interpretation el_code: byte_enum ord_EvidenceLabel all_EvidenceLabel
  by unfold_locales (auto simp: all_EvidenceLabel_def nth_Cons' less_Suc_eq numeral_eq_Suc)

interpretation sv_code: byte_enum ord_Severity all_Severity
  by unfold_locales (auto simp: all_Severity_def nth_Cons' less_Suc_eq numeral_eq_Suc)

interpretation fs_code: byte_enum ord_FeasibilityStatus all_FeasibilityStatus
  by unfold_locales (auto simp: all_FeasibilityStatus_def nth_Cons' less_Suc_eq numeral_eq_Suc)

interpretation ts_code: byte_enum ord_TriState all_TriState
  by unfold_locales (auto simp: all_TriState_def nth_Cons' less_Suc_eq numeral_eq_Suc)

interpretation as_policy_code: byte_enum ord_AttributionStrength policy_AttributionStrength
  by unfold_locales (auto simp: policy_AttributionStrength_def all_AttributionStrength_def nth_Cons' less_Suc_eq numeral_eq_Suc)

interpretation sc_code: byte_enum ord_StatusCode all_StatusCode
  by unfold_locales (auto simp: all_StatusCode_def nth_Cons' less_Suc_eq numeral_eq_Suc)

interpretation sc_persisted_code: byte_enum ord_StatusCode persisted_StatusCode
  by unfold_locales (auto simp: persisted_StatusCode_def all_StatusCode_def nth_Cons' less_Suc_eq numeral_eq_Suc)

lemma all_ResourceDomain_UNIV [simp]: "v \<in> set all_ResourceDomain"
  by (cases v) (simp_all add: all_ResourceDomain_def)

lemma all_ConflictState_UNIV [simp]: "v \<in> set all_ConflictState"
  by (cases v) (simp_all add: all_ConflictState_def)

lemma all_EvidenceStatus_UNIV [simp]: "v \<in> set all_EvidenceStatus"
  by (cases v) (simp_all add: all_EvidenceStatus_def)

lemma all_BindingObjective_UNIV [simp]: "v \<in> set all_BindingObjective"
  by (cases v) (simp_all add: all_BindingObjective_def)

lemma all_InterventionClass_UNIV [simp]: "v \<in> set all_InterventionClass"
  by (cases v) (simp_all add: all_InterventionClass_def)

lemma all_LifecycleState_UNIV [simp]: "v \<in> set all_LifecycleState"
  by (cases v) (simp_all add: all_LifecycleState_def)

lemma all_VerificationOutcome_UNIV [simp]: "v \<in> set all_VerificationOutcome"
  by (cases v) (simp_all add: all_VerificationOutcome_def)

lemma all_EvidenceLabel_UNIV [simp]: "v \<in> set all_EvidenceLabel"
  by (cases v) (simp_all add: all_EvidenceLabel_def)

lemma all_Severity_UNIV [simp]: "v \<in> set all_Severity"
  by (cases v) (simp_all add: all_Severity_def)

lemma all_FeasibilityStatus_UNIV [simp]: "v \<in> set all_FeasibilityStatus"
  by (cases v) (simp_all add: all_FeasibilityStatus_def)

lemma all_TriState_UNIV [simp]: "v \<in> set all_TriState"
  by (cases v) (simp_all add: all_TriState_def)

lemma policy_AttributionStrength_UNIV [simp]: "v \<in> set policy_AttributionStrength"
  by (cases v) (simp_all add: policy_AttributionStrength_def all_AttributionStrength_def)

lemma all_AttributionStrength_iff: "v \<in> set all_AttributionStrength \<longleftrightarrow> v \<noteq> AS_OUT_OF_RANGE"
  by (cases v) (simp_all add: all_AttributionStrength_def)

lemma persisted_StatusCode_UNIV [simp]: "v \<in> set persisted_StatusCode"
  by (cases v) (simp_all add: persisted_StatusCode_def all_StatusCode_def)

section \<open>The orders the code compares by\<close>

lemma ord_InterventionClass_inject: "ord_InterventionClass a = ord_InterventionClass b \<longleftrightarrow> a = b"
  by (metis ic_code.mem_ord all_InterventionClass_UNIV)

lemma ord_AttributionStrength_inject: "ord_AttributionStrength a = ord_AttributionStrength b \<longleftrightarrow> a = b"
  by (metis as_policy_code.mem_ord policy_AttributionStrength_UNIV)

instantiation InterventionClass :: linorder
begin

definition less_eq_InterventionClass :: "InterventionClass \<Rightarrow> InterventionClass \<Rightarrow> bool" where
  "less_eq_InterventionClass a b \<longleftrightarrow> ord_InterventionClass a \<le> ord_InterventionClass b"

definition less_InterventionClass :: "InterventionClass \<Rightarrow> InterventionClass \<Rightarrow> bool" where
  "less_InterventionClass a b \<longleftrightarrow> ord_InterventionClass a < ord_InterventionClass b"

instance
  by standard (auto simp: less_eq_InterventionClass_def less_InterventionClass_def ord_InterventionClass_inject)

end

instantiation AttributionStrength :: linorder
begin

definition less_eq_AttributionStrength :: "AttributionStrength \<Rightarrow> AttributionStrength \<Rightarrow> bool" where
  "less_eq_AttributionStrength a b \<longleftrightarrow> ord_AttributionStrength a \<le> ord_AttributionStrength b"

definition less_AttributionStrength :: "AttributionStrength \<Rightarrow> AttributionStrength \<Rightarrow> bool" where
  "less_AttributionStrength a b \<longleftrightarrow> ord_AttributionStrength a < ord_AttributionStrength b"

instance
  by standard (auto simp: less_eq_AttributionStrength_def less_AttributionStrength_def ord_AttributionStrength_inject)

end

end
