(* ===== verification/CG_Double.thy ===== *)
theory CG_Double
  imports CG_Prelude
begin

text \<open>
  The C++ \<^verbatim>\<open>double\<close>: an IEEE 754 binary64 bit pattern with the comparisons and the
  arithmetic the governor uses. A finite pattern with magnitude bits \<open>m\<close> denotes
  \<open>f64_scaled m / 2 ^ 1074\<close>; subtraction, multiplication, division, conversion and
  decimal literals compute the exact quotient of naturals and round it once to nearest,
  ties to even. Comparisons with a NaN are false, \<open>-0\<close> equals \<open>+0\<close>.
\<close>

section \<open>Bit patterns\<close>

datatype double = F64 (f64_bits: u64)

definition f64_neg :: "double \<Rightarrow> bool" where
  "f64_neg d \<longleftrightarrow> 2 ^ 63 \<le> unat (f64_bits d)"

definition f64_mag :: "double \<Rightarrow> nat" where
  "f64_mag d = unat (f64_bits d) mod 2 ^ 63"

definition f64_make :: "bool \<Rightarrow> nat \<Rightarrow> double" where
  "f64_make s m = F64 (word_of_nat ((if s then 2 ^ 63 else 0) + m))"

abbreviation f64_inf_mag :: nat where "f64_inf_mag \<equiv> 2047 * 2 ^ 52"

definition f64_is_nan :: "double \<Rightarrow> bool" where
  "f64_is_nan d \<longleftrightarrow> f64_inf_mag < f64_mag d"

definition f64_is_inf :: "double \<Rightarrow> bool" where
  "f64_is_inf d \<longleftrightarrow> f64_mag d = f64_inf_mag"

text \<open>\<^verbatim>\<open>std::isfinite\<close>\<close>

definition f64_isfinite :: "double \<Rightarrow> bool" where
  "f64_isfinite d \<longleftrightarrow> f64_mag d < f64_inf_mag"

definition f64_nan :: double where "f64_nan = F64 0x7FF8000000000000"
definition f64_zero :: double where "f64_zero = F64 0"
definition f64_one :: double where "f64_one = F64 0x3FF0000000000000"

lemma f64_mag_less: "f64_mag d < 2 ^ 63"
  by (simp add: f64_mag_def)

lemma f64_make_sel [simp]:
  assumes "m < 2 ^ 63"
  shows "f64_neg (f64_make s m) = s" "f64_mag (f64_make s m) = m"
proof -
  have "unat (word_of_nat ((if s then 2 ^ 63 else 0) + m) :: u64) = (if s then 2 ^ 63 else 0) + m"
    using assms by (intro unat_of_nat_less) auto
  then show "f64_neg (f64_make s m) = s" "f64_mag (f64_make s m) = m"
    using assms by (auto simp: f64_make_def f64_neg_def f64_mag_def)
qed

lemma f64_not_nan_cases: "\<not> f64_is_nan d \<longleftrightarrow> f64_isfinite d \<or> f64_is_inf d"
  by (auto simp: f64_is_nan_def f64_isfinite_def f64_is_inf_def)

lemma f64_finite_not_nan [simp]: "f64_isfinite d \<Longrightarrow> \<not> f64_is_nan d"
  by (simp add: f64_isfinite_def f64_is_nan_def)

section \<open>Comparisons\<close>

text \<open>On patterns that are not NaN the numeric order is the order of the signed magnitude.\<close>

definition f64_key :: "double \<Rightarrow> int" where
  "f64_key d = (if f64_neg d then - int (f64_mag d) else int (f64_mag d))"

definition f64_lt :: "double \<Rightarrow> double \<Rightarrow> bool" where
  "f64_lt a b \<longleftrightarrow> \<not> f64_is_nan a \<and> \<not> f64_is_nan b \<and> f64_key a < f64_key b"

definition f64_le :: "double \<Rightarrow> double \<Rightarrow> bool" where
  "f64_le a b \<longleftrightarrow> \<not> f64_is_nan a \<and> \<not> f64_is_nan b \<and> f64_key a \<le> f64_key b"

definition f64_eq :: "double \<Rightarrow> double \<Rightarrow> bool" where
  "f64_eq a b \<longleftrightarrow> \<not> f64_is_nan a \<and> \<not> f64_is_nan b \<and> f64_key a = f64_key b"

abbreviation f64_gt :: "double \<Rightarrow> double \<Rightarrow> bool" where "f64_gt a b \<equiv> f64_lt b a"
abbreviation f64_ge :: "double \<Rightarrow> double \<Rightarrow> bool" where "f64_ge a b \<equiv> f64_le b a"

lemmas f64_cmp_defs = f64_lt_def f64_le_def f64_eq_def

text \<open>\<^verbatim>\<open>std::max\<close> and \<^verbatim>\<open>std::min\<close> return the first argument when neither is smaller.\<close>

definition f64_max :: "double \<Rightarrow> double \<Rightarrow> double" where
  "f64_max a b = (if f64_lt a b then b else a)"

definition f64_min :: "double \<Rightarrow> double \<Rightarrow> double" where
  "f64_min a b = (if f64_lt b a then b else a)"

lemma f64_lt_nan [simp]: "f64_is_nan a \<Longrightarrow> \<not> f64_lt a b" "f64_is_nan b \<Longrightarrow> \<not> f64_lt a b"
  by (simp_all add: f64_lt_def)

lemma f64_le_nan [simp]: "f64_is_nan a \<Longrightarrow> \<not> f64_le a b" "f64_is_nan b \<Longrightarrow> \<not> f64_le a b"
  by (simp_all add: f64_le_def)

lemma f64_not_lt:
  "\<not> f64_is_nan a \<Longrightarrow> \<not> f64_is_nan b \<Longrightarrow> \<not> f64_lt a b \<longleftrightarrow> f64_le b a"
  by (auto simp: f64_cmp_defs)

lemma f64_lt_trans: "f64_lt a b \<Longrightarrow> f64_lt b c \<Longrightarrow> f64_lt a c"
  by (auto simp: f64_lt_def)

lemma f64_lt_irrefl [simp]: "\<not> f64_lt a a"
  by (simp add: f64_lt_def)

lemma f64_le_trans: "f64_le a b \<Longrightarrow> f64_le b c \<Longrightarrow> f64_le a c"
  by (auto simp: f64_le_def)

lemma f64_max_ge1: "\<not> f64_is_nan a \<Longrightarrow> f64_le a (f64_max a b)"
  by (auto simp: f64_max_def f64_cmp_defs)

lemma f64_max_ge2: "\<not> f64_is_nan a \<Longrightarrow> \<not> f64_is_nan b \<Longrightarrow> f64_le b (f64_max a b)"
  by (auto simp: f64_max_def f64_cmp_defs)

lemma f64_max_cases: "f64_max a b = a \<or> f64_max a b = b"
  by (simp add: f64_max_def)

section \<open>Values\<close>

text \<open>The value of a finite pattern with magnitude bits \<open>m\<close>, in units of \<open>2 ^ -1074\<close>.\<close>

definition f64_scaled :: "nat \<Rightarrow> nat" where
  "f64_scaled m =
     (let e = m div 2 ^ 52; f = m mod 2 ^ 52
      in if e = 0 then f else (2 ^ 52 + f) * 2 ^ (e - 1))"

definition f64_int :: "double \<Rightarrow> int" where
  "f64_int d = (if f64_neg d then - int (f64_scaled (f64_mag d)) else int (f64_scaled (f64_mag d)))"

lemma f64_scaled_Suc_diff:
  assumes "m = 2 ^ 52 * e + f" "f < 2 ^ 52"
  shows "f64_scaled (Suc m) = f64_scaled m + 2 ^ (e - 1)"
proof -
  have m: "m div 2 ^ 52 = e" "m mod 2 ^ 52 = f" using assms by simp_all
  show ?thesis
  proof (cases "Suc f = 2 ^ 52")
    case False
    then have "Suc f < 2 ^ 52" using assms(2) by linarith
    then have "Suc m div 2 ^ 52 = e" "Suc m mod 2 ^ 52 = Suc f"
      using assms(1) by (simp_all only: add_Suc_right [symmetric] div_mult_self4 mod_mult_self4) simp_all
    then show ?thesis using m by (simp add: f64_scaled_def Let_def algebra_simps)
  next
    case True
    then have "Suc m = 2 ^ 52 * Suc e" using assms(1) by simp
    then have s: "Suc m div 2 ^ 52 = Suc e" "Suc m mod 2 ^ 52 = 0" by simp_all
    show ?thesis
    proof (cases e)
      case 0
      then show ?thesis using m s True by (simp add: f64_scaled_def Let_def)
    next
      case (Suc k)
      then show ?thesis using m s True by (simp add: f64_scaled_def Let_def)
    qed
  qed
qed

lemma f64_scaled_Suc: "f64_scaled m < f64_scaled (Suc m)"
  using f64_scaled_Suc_diff [of m "m div 2 ^ 52" "m mod 2 ^ 52"] by simp

lemma f64_scaled_strict_mono: "strict_mono f64_scaled"
  by (simp add: strict_mono_Suc_iff f64_scaled_Suc)

lemma f64_scaled_less [simp]: "f64_scaled m < f64_scaled n \<longleftrightarrow> m < n"
  by (rule strict_mono_less [OF f64_scaled_strict_mono])

lemma f64_scaled_le [simp]: "f64_scaled m \<le> f64_scaled n \<longleftrightarrow> m \<le> n"
  by (rule strict_mono_less_eq [OF f64_scaled_strict_mono])

lemma f64_scaled_0 [simp]: "f64_scaled 0 = 0"
  by (simp add: f64_scaled_def)

lemma f64_scaled_pos: "0 < f64_scaled m \<longleftrightarrow> 0 < m"
  using f64_scaled_less [of 0 m] by simp

text \<open>The comparison of patterns is the comparison of the values they denote.\<close>

lemma f64_key_less_iff: "f64_key a < f64_key b \<longleftrightarrow> f64_int a < f64_int b"
proof -
  have "f64_scaled m + f64_scaled n > 0 \<longleftrightarrow> m + n > 0" for m n
    using f64_scaled_pos [of m] f64_scaled_pos [of n] by linarith
  then have *: "- int (f64_scaled m) < int (f64_scaled n) \<longleftrightarrow> - int m < int n" for m n
    by (metis add.commute diff_0 diff_less_eq of_nat_0_less_iff of_nat_add)
  have **: "\<not> int (f64_scaled m) < - int (f64_scaled n)" "\<not> int m < - int n" for m n
    by linarith+
  show ?thesis by (auto simp: f64_key_def f64_int_def * **)
qed

lemma f64_lt_value: "f64_isfinite a \<Longrightarrow> f64_isfinite b \<Longrightarrow> f64_lt a b \<longleftrightarrow> f64_int a < f64_int b"
  by (simp add: f64_lt_def f64_key_less_iff)

lemma f64_le_value: "f64_isfinite a \<Longrightarrow> f64_isfinite b \<Longrightarrow> f64_le a b \<longleftrightarrow> f64_int a \<le> f64_int b"
  by (auto simp: f64_le_def not_less [symmetric] f64_key_less_iff simp del: not_less)

section \<open>Rounding to nearest, ties to even\<close>

definition f64_rne :: "nat \<Rightarrow> nat \<Rightarrow> nat" where
  "f64_rne n d =
     (let q = n div d; r = n mod d
      in if 2 * r < d then q else if d < 2 * r then Suc q else if even q then q else Suc q)"

text \<open>The least exponent at which the quotient fits in 53 bits.\<close>

fun f64_shift :: "nat \<Rightarrow> nat" where
  "f64_shift q = (if q < 2 ^ 53 then 0 else Suc (f64_shift (q div 2)))"

declare f64_shift.simps [simp del]

text \<open>Magnitude bits of \<open>n / d\<close> units of \<open>2 ^ -1074\<close>; too large a value is infinite.\<close>

definition f64_round :: "nat \<Rightarrow> nat \<Rightarrow> nat" where
  "f64_round n d =
     (let e = f64_shift (n div d)
      in min f64_inf_mag (e * 2 ^ 52 + f64_rne n (d * 2 ^ e)))"

lemma f64_rne_bounds:
  assumes "0 < d"
  shows "2 * n \<le> d * (2 * f64_rne n d + 1)" "d * (2 * f64_rne n d) \<le> 2 * n + d"
    "2 * n = d * (2 * f64_rne n d + 1) \<or> d * (2 * f64_rne n d) = 2 * n + d \<Longrightarrow> even (f64_rne n d)"
proof -
  define q r where "q = n div d" and "r = n mod d"
  have n: "n = d * q + r" and r: "r < d" using assms by (simp_all add: q_def r_def)
  have k: "f64_rne n d = (if 2 * r < d then q else if d < 2 * r then Suc q else if even q then q else Suc q)"
    by (simp add: f64_rne_def q_def r_def Let_def)
  show "2 * n \<le> d * (2 * f64_rne n d + 1)" "d * (2 * f64_rne n d) \<le> 2 * n + d"
    unfolding k using n r by (auto simp: algebra_simps)
  show "2 * n = d * (2 * f64_rne n d + 1) \<or> d * (2 * f64_rne n d) = 2 * n + d \<Longrightarrow> even (f64_rne n d)"
    unfolding k using n r by (auto simp: algebra_simps split: if_splits)
qed

lemma f64_rne_exact: "0 < d \<Longrightarrow> f64_rne (k * d) d = k"
  by (simp add: f64_rne_def)

lemma f64_rne_mono:
  assumes d: "0 < d" "0 < d'" and le: "n * d' \<le> n' * d"
  shows "f64_rne n d \<le> f64_rne n' d'"
proof (rule ccontr)
  define k k' where "k = f64_rne n d" and "k' = f64_rne n' d'"
  assume "\<not> f64_rne n d \<le> f64_rne n' d'"
  then have kk: "Suc k' \<le> k" by (simp add: k_def k'_def)
  note lo = f64_rne_bounds(2) [OF d(1), of n, folded k_def]
  note hi = f64_rne_bounds(1) [OF d(2), of n', folded k'_def]
  have "d * (2 * k' + 1) + d \<le> d * (2 * k)"
    using mult_le_mono2 [OF kk, of "2 * d"] by (simp add: algebra_simps)
  then have a: "d * (2 * k' + 1) \<le> 2 * n" using lo by linarith
  have "d' * (d * (2 * k' + 1)) \<le> d' * (2 * n)" using a by (rule mult_le_mono2)
  also have "\<dots> \<le> d * (2 * n')" using le by (simp add: algebra_simps)
  also have "\<dots> \<le> d * (d' * (2 * k' + 1))" using hi by (rule mult_le_mono2)
  finally have "d' * (d * (2 * k' + 1)) = d' * (2 * n) \<and> d * (2 * n') = d * (d' * (2 * k' + 1))"
    using \<open>d' * (2 * n) \<le> d * (2 * n')\<close> \<open>d * (2 * n') \<le> d * (d' * (2 * k' + 1))\<close>
      \<open>d' * (d * (2 * k' + 1)) \<le> d' * (2 * n)\<close> by (simp add: algebra_simps)
  then have e: "2 * n = d * (2 * k' + 1)" "2 * n' = d' * (2 * k' + 1)" using d by simp_all
  then have ev': "even k'" using f64_rne_bounds(3) [OF d(2), of n', folded k'_def] by simp
  have "(2 * d) * k \<le> (2 * d) * Suc k'" using lo e(1) by (simp add: algebra_simps)
  then have "k \<le> Suc k'" using d(1) by (simp only: mult_le_cancel1)
  then have "k = Suc k'" using kk by simp
  moreover have "even k"
    using f64_rne_bounds(3) [OF d(1), of n, folded k_def] e(1) \<open>k = Suc k'\<close> by (simp add: algebra_simps)
  ultimately show False using ev' by simp
qed

lemma f64_rne_le: "0 < d \<Longrightarrow> n \<le> k * d \<Longrightarrow> f64_rne n d \<le> k"
  using f64_rne_mono [of d d n "k * d"] by (simp add: f64_rne_exact)

lemma f64_rne_ge: "0 < d \<Longrightarrow> k * d \<le> n \<Longrightarrow> k \<le> f64_rne n d"
  using f64_rne_mono [of d d "k * d" n] by (simp add: f64_rne_exact)

lemma f64_shift_upper: "q < 2 ^ 53 * 2 ^ f64_shift q"
proof (induction q rule: f64_shift.induct)
  case (1 q)
  show ?case
  proof (cases "q < 2 ^ 53")
    case True
    then show ?thesis by (simp add: f64_shift.simps [of q])
  next
    case False
    then have "q div 2 < 2 ^ 53 * 2 ^ f64_shift (q div 2)" using 1 by simp
    then have "q < 2 * (2 ^ 53 * 2 ^ f64_shift (q div 2))" by linarith
    then show ?thesis using False by (simp add: f64_shift.simps [of q])
  qed
qed

lemma f64_shift_lower: "0 < f64_shift q \<Longrightarrow> 2 ^ 52 * 2 ^ f64_shift q \<le> q"
proof (induction q rule: f64_shift.induct)
  case (1 q)
  have big: "\<not> q < 2 ^ 53" using "1.prems" by (auto simp: f64_shift.simps [of q])
  then have s: "f64_shift q = Suc (f64_shift (q div 2))" by (simp add: f64_shift.simps [of q])
  show ?case
  proof (cases "f64_shift (q div 2) = 0")
    case True
    then show ?thesis using big s by simp
  next
    case False
    then have "2 ^ 52 * 2 ^ f64_shift (q div 2) \<le> q div 2" using "1.IH" big by simp
    then show ?thesis using s by simp
  qed
qed

lemma f64_shift_unique:
  assumes "q < 2 ^ 53 * 2 ^ e" "0 < e \<Longrightarrow> 2 ^ 52 * 2 ^ e \<le> q"
  shows "f64_shift q = e"
proof -
  have no: "\<not> i < j" if "q < 2 ^ 53 * 2 ^ i" "0 < j \<Longrightarrow> 2 ^ 52 * 2 ^ j \<le> q" for i j :: nat
  proof
    assume "i < j"
    then have "2 ^ Suc i \<le> (2 :: nat) ^ j" by (intro power_increasing) auto
    then have "2 ^ 53 * 2 ^ i \<le> (2 :: nat) ^ 52 * 2 ^ j" by simp
    with that \<open>i < j\<close> show False by linarith
  qed
  show ?thesis
    using no [of e "f64_shift q"] no [of "f64_shift q" e] assms f64_shift_upper [of q] f64_shift_lower [of q]
    by (meson linorder_neqE_nat)
qed

lemma f64_shift_mono: "q \<le> q' \<Longrightarrow> f64_shift q \<le> f64_shift q'"
proof (rule ccontr)
  assume le: "q \<le> q'" and "\<not> f64_shift q \<le> f64_shift q'"
  then have "2 ^ Suc (f64_shift q') \<le> (2 :: nat) ^ f64_shift q" by (intro power_increasing) auto
  then have "2 ^ 53 * 2 ^ f64_shift q' \<le> (2 :: nat) ^ 52 * 2 ^ f64_shift q" by simp
  moreover have "2 ^ 52 * 2 ^ f64_shift q \<le> q"
    using \<open>\<not> f64_shift q \<le> f64_shift q'\<close> by (intro f64_shift_lower) simp
  ultimately show False using f64_shift_upper [of q'] le by linarith
qed

lemma f64_round_range:
  fixes n d :: nat
  assumes "0 < d"
  defines "e \<equiv> f64_shift (n div d)"
  shows "f64_rne n (d * 2 ^ e) \<le> 2 ^ 53" "0 < e \<Longrightarrow> 2 ^ 52 \<le> f64_rne n (d * 2 ^ e)"
proof -
  have "n div d < 2 ^ 53 * 2 ^ e" unfolding e_def by (rule f64_shift_upper)
  then have "n < (2 ^ 53 * 2 ^ e) * d" using assms by (simp add: div_less_iff_less_mult)
  then show "f64_rne n (d * 2 ^ e) \<le> 2 ^ 53"
    using assms by (intro f64_rne_le) (simp_all add: algebra_simps)
  show "2 ^ 52 \<le> f64_rne n (d * 2 ^ e)" if "0 < e"
  proof -
    have "2 ^ 52 * 2 ^ e \<le> n div d" using that unfolding e_def by (rule f64_shift_lower)
    then have "(2 ^ 52 * 2 ^ e) * d \<le> n" using assms by (simp add: less_eq_div_iff_mult_less_eq)
    then show ?thesis using assms by (intro f64_rne_ge) (simp_all add: algebra_simps)
  qed
qed

text \<open>Rounding is monotone in the exact quotient.\<close>

lemma f64_round_mono:
  assumes d: "0 < d" "0 < d'" and le: "n * d' \<le> n' * d"
  shows "f64_round n d \<le> f64_round n' d'"
proof -
  define e e' where "e = f64_shift (n div d)" and "e' = f64_shift (n' div d')"
  have "n div d = (n * d') div (d * d')" using d by (simp add: mult.commute)
  also have "\<dots> \<le> (n' * d) div (d * d')" using le by (rule div_le_mono)
  also have "\<dots> = n' div d'" using d by (simp add: mult.commute)
  finally have ee: "e \<le> e'" unfolding e_def e'_def by (rule f64_shift_mono)
  have "e * 2 ^ 52 + f64_rne n (d * 2 ^ e) \<le> e' * 2 ^ 52 + f64_rne n' (d' * 2 ^ e')"
  proof (cases "e = e'")
    case True
    have "f64_rne n (d * 2 ^ e) \<le> f64_rne n' (d' * 2 ^ e)"
      using d le by (intro f64_rne_mono) (simp_all add: algebra_simps)
    then show ?thesis using True by simp
  next
    case False
    then have "Suc e \<le> e'" using ee by simp
    then have "Suc e * 2 ^ 52 \<le> e' * (2 ^ 52 :: nat)" by (rule mult_le_mono1)
    moreover have "f64_rne n (d * 2 ^ e) \<le> 2 ^ 53"
      using f64_round_range(1) [OF d(1)] by (simp add: e_def)
    moreover have "2 ^ 52 \<le> f64_rne n' (d' * 2 ^ e')"
      using f64_round_range(2) [OF d(2)] \<open>Suc e \<le> e'\<close> by (simp add: e'_def)
    ultimately show ?thesis by simp
  qed
  then show ?thesis by (auto simp: f64_round_def Let_def e_def e'_def)
qed

lemma f64_scaled_pack:
  assumes "k \<le> 2 ^ 53" "e = 0 \<or> 2 ^ 52 \<le> k"
  shows "f64_scaled (e * 2 ^ 52 + k) = k * 2 ^ e"
proof -
  have norm: "f64_scaled (i * 2 ^ 52 + (2 ^ 52 + f)) = (2 ^ 52 + f) * 2 ^ i" if "f < 2 ^ 52" for i f
  proof -
    have "i * 2 ^ 52 + (2 ^ 52 + f) = f + 2 ^ 52 * Suc i" by simp
    then have "(i * 2 ^ 52 + (2 ^ 52 + f)) div 2 ^ 52 = Suc i" "(i * 2 ^ 52 + (2 ^ 52 + f)) mod 2 ^ 52 = f"
      using that by (simp_all only: div_mult_self2 mod_mult_self2) simp_all
    then show ?thesis by (simp add: f64_scaled_def Let_def)
  qed
  consider "k < 2 ^ 52" | f where "k = 2 ^ 52 + f" "f < 2 ^ 52" | "k = 2 ^ 53"
  proof (cases "k < 2 ^ 52")
    case False
    then show ?thesis using assms(1) that(2) [of "k - 2 ^ 52"] that(3) by fastforce
  qed (use that in auto)
  then show ?thesis
  proof cases
    case 1
    then show ?thesis using assms(2) by (auto simp: f64_scaled_def Let_def)
  next
    case (2 f)
    then show ?thesis using norm [of f e] by simp
  next
    case 3
    then show ?thesis using norm [of 0 "Suc e"] by (simp add: add.commute)
  qed
qed

text \<open>A value that has a pattern is not changed.\<close>

lemma f64_round_exact:
  assumes "0 < d" "m \<le> f64_inf_mag"
  shows "f64_round (f64_scaled m * d) d = m"
proof -
  define e f where "e = m div 2 ^ 52" and "f = m mod 2 ^ 52"
  have m: "m = e * 2 ^ 52 + f" and f: "f < 2 ^ 52" by (simp_all add: e_def f_def)
  show ?thesis
  proof (cases "e = 0")
    case True
    then have v: "f64_scaled m = m" and "f64_shift m = 0"
      using m f by (simp_all add: f64_scaled_def Let_def f64_shift.simps)
    then show ?thesis using assms by (simp add: f64_round_def Let_def f64_rne_exact)
  next
    case False
    then obtain i where i: "e = Suc i" by (cases e) auto
    have v: "f64_scaled m = (2 ^ 52 + f) * 2 ^ i" 
      using f64_scaled_pack [of "2 ^ 52 + f" i] f by (simp add: m i ac_simps)
    have sh: "f64_shift (f64_scaled m) = i"
      unfolding v using f by (intro f64_shift_unique) simp_all
    have "f64_rne (f64_scaled m * d) (d * 2 ^ i) = 2 ^ 52 + f"
      using assms(1) f64_rne_exact [of "d * 2 ^ i" "2 ^ 52 + f"] by (simp add: v algebra_simps)
    then show ?thesis using assms sh m i by (simp add: f64_round_def Let_def)
  qed
qed

lemma f64_round_le:
  "0 < d \<Longrightarrow> m \<le> f64_inf_mag \<Longrightarrow> n \<le> f64_scaled m * d \<Longrightarrow> f64_round n d \<le> m"
  using f64_round_mono [of d d n "f64_scaled m * d"] f64_round_exact [of d m] by simp

lemma f64_round_ge:
  "0 < d \<Longrightarrow> m \<le> f64_inf_mag \<Longrightarrow> f64_scaled m * d \<le> n \<Longrightarrow> m \<le> f64_round n d"
  using f64_round_mono [of d d "f64_scaled m * d" n] f64_round_exact [of d m] by simp

lemma f64_round_le_inf: "f64_round n d \<le> f64_inf_mag"
  by (simp add: f64_round_def Let_def)

text \<open>No pattern lies closer to the exact quotient than the rounded one.\<close>

lemma f64_rne_nearest:
  assumes "0 < d"
  shows "\<bar>int d * int (f64_rne n d) - int n\<bar> \<le> \<bar>int d * j - int n\<bar>"
proof -
  define k where "k = int (f64_rne n d)"
  have hi: "2 * int n \<le> int d * (2 * k + 1)" and lo: "int d * (2 * k) \<le> 2 * int n + int d"
    using f64_rne_bounds(1,2) [OF assms, of n] unfolding k_def
    by (metis (mono_tags, lifting) of_nat_1 of_nat_add of_nat_le_iff of_nat_mult of_nat_numeral)+
  consider "j = k" | "j \<ge> k + 1" | "j \<le> k - 1" by linarith
  then show ?thesis
  proof cases
    case 1
    then show ?thesis by (simp add: k_def)
  next
    case 2
    then have "int d * (k + 1) \<le> int d * j" by (intro mult_left_mono) auto
    then show ?thesis using hi lo by (simp add: k_def [symmetric] algebra_simps)
  next
    case 3
    then have "int d * j \<le> int d * (k - 1)" by (intro mult_left_mono) auto
    then show ?thesis using hi lo by (simp add: k_def [symmetric] algebra_simps)
  qed
qed

lemma f64_scaled_dvd:
  assumes "e * 2 ^ 52 + 2 ^ 52 \<le> m"
  shows "2 ^ e dvd f64_scaled m"
proof -
  have "Suc e \<le> m div 2 ^ 52"
    using div_le_mono [OF assms, of "2 ^ 52"] by simp
  then have "(2 :: nat) ^ e dvd 2 ^ (m div 2 ^ 52 - 1)" "m div 2 ^ 52 \<noteq> 0"
    by (auto intro: le_imp_power_dvd)
  then show ?thesis by (simp add: f64_scaled_def Let_def)
qed

lemma f64_round_nearest:
  assumes d: "0 < d" and fin: "f64_round n d < f64_inf_mag"
  shows "\<bar>int (f64_scaled (f64_round n d)) * int d - int n\<bar> \<le> \<bar>int (f64_scaled m) * int d - int n\<bar>"
proof -
  define e where "e = f64_shift (n div d)"
  define k where "k = f64_rne n (d * 2 ^ e)"
  have r: "f64_round n d = e * 2 ^ 52 + k"
    using fin by (simp add: f64_round_def Let_def e_def k_def min_def split: if_splits)
  have k: "k \<le> 2 ^ 53" "e = 0 \<or> 2 ^ 52 \<le> k"
    using f64_round_range [OF d, of n] by (auto simp: e_def k_def)
  have v: "f64_scaled (f64_round n d) = k * 2 ^ e" using f64_scaled_pack [OF k] r by simp
  have near: "\<bar>int (f64_scaled (f64_round n d)) * int d - int n\<bar> \<le> \<bar>int (j * 2 ^ e) * int d - int n\<bar>" for j
    using f64_rne_nearest [of "d * 2 ^ e" n "int j"] d by (simp add: v k_def ac_simps)
  show ?thesis
  proof (cases "e = 0 \<or> e * 2 ^ 52 + 2 ^ 52 \<le> m")
    case True
    then have "2 ^ e dvd f64_scaled m" by (auto intro: f64_scaled_dvd)
    then obtain j where "f64_scaled m = j * 2 ^ e" by (auto simp: dvd_def mult.commute)
    then show ?thesis using near [of j] by simp
  next
    case False
    then have "m \<le> e * 2 ^ 52 + 2 ^ 52" by simp
    then have "f64_scaled m \<le> f64_scaled (e * 2 ^ 52 + 2 ^ 52)" by simp
    also have "\<dots> = 2 ^ 52 * 2 ^ e" by (rule f64_scaled_pack) simp_all
    finally have a: "int (f64_scaled m) * int d \<le> int (2 ^ 52 * 2 ^ e) * int d"
      by (intro mult_right_mono) linarith+
    have "2 ^ 52 * 2 ^ e \<le> n div d" using False unfolding e_def by (intro f64_shift_lower) simp
    then have "2 ^ 52 * 2 ^ e * d \<le> n" using d by (simp add: less_eq_div_iff_mult_less_eq)
    then have b: "int (2 ^ 52 * 2 ^ e) * int d \<le> int n" by (metis of_nat_le_iff of_nat_mult)
    show ?thesis using near [of "2 ^ 52"] a b by linarith
  qed
qed

section \<open>Arithmetic\<close>

definition f64_minus :: "double \<Rightarrow> double \<Rightarrow> double" where
  "f64_minus a b =
     (if f64_is_nan a \<or> f64_is_nan b then f64_nan
      else if f64_is_inf a then (if f64_is_inf b \<and> f64_neg a = f64_neg b then f64_nan else a)
      else if f64_is_inf b then f64_make (\<not> f64_neg b) f64_inf_mag
      else let x = f64_int a - f64_int b
           in if x = 0 then f64_make (f64_neg a \<and> \<not> f64_neg b \<and> f64_mag a = 0) 0
              else f64_make (x < 0) (f64_round (nat \<bar>x\<bar>) 1))"

definition f64_divide :: "double \<Rightarrow> double \<Rightarrow> double" where
  "f64_divide a b =
     (let s = (f64_neg a \<noteq> f64_neg b)
      in if f64_is_nan a \<or> f64_is_nan b \<or> (f64_is_inf a \<and> f64_is_inf b) \<or> (f64_mag a = 0 \<and> f64_mag b = 0)
         then f64_nan
         else if f64_is_inf a \<or> f64_mag b = 0 then f64_make s f64_inf_mag
         else if f64_is_inf b then f64_make s 0
         else f64_make s (f64_round (f64_scaled (f64_mag a) * 2 ^ 1074) (f64_scaled (f64_mag b))))"

definition f64_times :: "double \<Rightarrow> double \<Rightarrow> double" where
  "f64_times a b =
     (let s = (f64_neg a \<noteq> f64_neg b)
      in if f64_is_nan a \<or> f64_is_nan b \<or> (f64_is_inf a \<and> f64_mag b = 0) \<or> (f64_mag a = 0 \<and> f64_is_inf b)
         then f64_nan
         else if f64_is_inf a \<or> f64_is_inf b then f64_make s f64_inf_mag
         else f64_make s (f64_round (f64_scaled (f64_mag a) * f64_scaled (f64_mag b)) (2 ^ 1074)))"

text \<open>Conversion of an unsigned integer, and the decimal literal \<open>n / d\<close>.\<close>

definition f64_of_nat :: "nat \<Rightarrow> double" where
  "f64_of_nat n = f64_make False (f64_round (n * 2 ^ 1074) 1)"

definition f64_lit :: "nat \<Rightarrow> nat \<Rightarrow> double" where
  "f64_lit n d = f64_make False (f64_round (n * 2 ^ 1074) d)"

lemma f64_round_less63: "f64_round n d < 2 ^ 63"
  using f64_round_le_inf [of n d] by simp

lemma f64_make_round [simp]:
  "f64_neg (f64_make s (f64_round n d)) = s" "f64_mag (f64_make s (f64_round n d)) = f64_round n d"
  using f64_round_less63 by simp_all

lemma f64_round_not_nan [simp]: "\<not> f64_is_nan (f64_make s (f64_round n d))"
  using f64_round_le_inf [of n d] by (simp add: f64_is_nan_def)

lemma f64_zero_sel [simp]: "f64_neg f64_zero = False" "f64_mag f64_zero = 0"
  by (simp_all add: f64_neg_def f64_mag_def f64_zero_def)

lemma f64_one_sel [simp]: "f64_neg f64_one = False" "f64_mag f64_one = 1023 * 2 ^ 52"
  by (simp_all add: f64_neg_def f64_mag_def f64_one_def)

lemma f64_zero_finite [simp]: "f64_isfinite f64_zero" "f64_isfinite f64_one"
  by (simp_all add: f64_isfinite_def)

lemma f64_key_zero [simp]: "f64_key f64_zero = 0" "f64_key f64_one = 1023 * 2 ^ 52"
  by (simp_all add: f64_key_def)

lemma f64_scaled_one: "f64_scaled (1023 * 2 ^ 52) = 2 ^ 1074"
  using f64_scaled_pack [of "2 ^ 52" 1022] by (simp add: power_add [symmetric])

text \<open>The difference of finite numbers: its sign and bounds are those of the exact difference.\<close>

lemma f64_minus_pos:
  assumes "f64_isfinite a" "f64_isfinite b" "f64_lt b a"
  shows "\<not> f64_neg (f64_minus a b)" "0 < f64_mag (f64_minus a b)" "\<not> f64_is_nan (f64_minus a b)"
    "f64_mag (f64_minus a b) = f64_round (nat (f64_int a - f64_int b)) 1"
proof -
  have x: "0 < f64_int a - f64_int b" using assms f64_lt_value by fastforce
  have fin: "\<not> f64_is_inf a" "\<not> f64_is_inf b" "\<not> f64_is_nan a" "\<not> f64_is_nan b"
    using assms(1,2) by (auto simp: f64_isfinite_def f64_is_inf_def)
  have eq: "f64_minus a b = f64_make False (f64_round (nat (f64_int a - f64_int b)) 1)"
    using x fin by (simp add: f64_minus_def Let_def)
  have "f64_scaled 1 = 1" by (simp add: f64_scaled_def)
  then have "1 \<le> f64_round (nat (f64_int a - f64_int b)) 1"
    using x by (intro f64_round_ge) simp_all
  then show "\<not> f64_neg (f64_minus a b)" "0 < f64_mag (f64_minus a b)" "\<not> f64_is_nan (f64_minus a b)"
    "f64_mag (f64_minus a b) = f64_round (nat (f64_int a - f64_int b)) 1"
    by (simp_all add: eq)
qed

lemma f64_make_inf [simp]:
  "f64_neg (f64_make s f64_inf_mag) = s" "f64_mag (f64_make s f64_inf_mag) = f64_inf_mag"
  by simp_all

lemma f64_divide_pos:
  assumes "\<not> f64_neg a" "\<not> f64_neg b" "\<not> f64_is_nan a" "f64_isfinite b" "0 < f64_mag b"
  shows "\<not> f64_neg (f64_divide a b)" "\<not> f64_is_nan (f64_divide a b)"
proof -
  have "\<not> f64_is_nan b" "\<not> f64_is_inf b" using assms(4) by (auto simp: f64_isfinite_def f64_is_inf_def)
  then have "f64_divide a b = (if f64_is_inf a then f64_make False f64_inf_mag
      else f64_make False (f64_round (f64_scaled (f64_mag a) * 2 ^ 1074) (f64_scaled (f64_mag b))))"
    using assms unfolding f64_divide_def Let_def by (simp del: power_numeral)
  then show "\<not> f64_neg (f64_divide a b)" "\<not> f64_is_nan (f64_divide a b)"
    by (simp_all add: f64_is_nan_def f64_round_le_inf not_less del: power_numeral)
qed

lemma f64_divide_le_one:
  assumes "\<not> f64_neg a" "\<not> f64_neg b" "f64_mag a \<le> f64_mag b" "f64_isfinite b" "0 < f64_mag b"
  shows "f64_le (f64_divide a b) f64_one"
proof -
  have fin: "f64_isfinite a" using assms(3,4) by (simp add: f64_isfinite_def)
  have sb: "0 < f64_scaled (f64_mag b)" using assms(5) by (simp add: f64_scaled_pos)
  have nn: "\<not> f64_is_nan a" "\<not> f64_is_inf a" "\<not> f64_is_nan b" "\<not> f64_is_inf b"
    using fin assms(4) by (simp_all add: f64_isfinite_def f64_is_inf_def f64_is_nan_def)
  then have eq: "f64_divide a b =
      f64_make False (f64_round (f64_scaled (f64_mag a) * 2 ^ 1074) (f64_scaled (f64_mag b)))"
    using assms(1,2,5) by (simp add: f64_divide_def Let_def)
  have "f64_scaled (f64_mag a) * 2 ^ 1074 \<le> f64_scaled (1023 * 2 ^ 52) * f64_scaled (f64_mag b)"
    using assms(3) unfolding f64_scaled_one mult.commute [of "2 ^ 1074"] by (intro mult_right_mono) simp_all
  then have "f64_round (f64_scaled (f64_mag a) * 2 ^ 1074) (f64_scaled (f64_mag b)) \<le> 1023 * 2 ^ 52"
    using sb by (intro f64_round_le) simp_all
  then show ?thesis
    using f64_zero_finite(2) by (simp add: f64_le_def eq f64_key_def f64_isfinite_def f64_is_nan_def)
qed

lemma f64_nonneg_iff: "\<not> f64_is_nan d \<Longrightarrow> f64_le f64_zero d \<longleftrightarrow> \<not> f64_neg d \<or> f64_mag d = 0"
  by (auto simp: f64_le_def f64_key_def)

section \<open>Evaluating literals\<close>

lemma f64_rne_scale: "0 < c \<Longrightarrow> f64_rne (n * c) (d * c) = f64_rne n d"
  by (simp add: f64_rne_def Let_def mult_mod_left [symmetric] mult.assoc [symmetric])

lemma f64_litI:
  assumes "s < 1074" "0 < d" "d * 2 ^ 52 \<le> n * 2 ^ s" "n * 2 ^ s < d * 2 ^ 53"
  shows "f64_lit n d = f64_make False ((1074 - s) * 2 ^ 52 + f64_rne (n * 2 ^ s) d)"
proof -
  define e where "e = 1074 - s"
  have p: "(2 :: nat) ^ 1074 = 2 ^ s * 2 ^ e" using assms(1) by (simp add: e_def flip: power_add)
  have q: "n * 2 ^ 1074 = (n * 2 ^ s) * 2 ^ e" unfolding p by simp
  have "n * 2 ^ 1074 < (2 ^ 53 * 2 ^ e) * d"
    unfolding q using mult_strict_right_mono [OF assms(4), of "2 ^ e"] by (simp add: ac_simps)
  then have u: "n * 2 ^ 1074 div d < 2 ^ 53 * 2 ^ e"
    using assms(2) by (simp add: div_less_iff_less_mult)
  have "(2 ^ 52 * 2 ^ e) * d \<le> n * 2 ^ 1074"
    unfolding q using mult_right_mono [OF assms(3), of "2 ^ e"] by (simp add: ac_simps)
  then have l: "2 ^ 52 * 2 ^ e \<le> n * 2 ^ 1074 div d"
    using assms(2) by (simp add: less_eq_div_iff_mult_less_eq)
  have sh: "f64_shift (n * 2 ^ 1074 div d) = e" using u l by (rule f64_shift_unique)
  have rne: "f64_rne (n * 2 ^ 1074) (d * 2 ^ e) = f64_rne (n * 2 ^ s) d"
    unfolding q by (rule f64_rne_scale) simp
  have "f64_rne (n * 2 ^ s) d \<le> 2 ^ 53"
    using assms(2,4) by (intro f64_rne_le) (simp_all add: mult.commute)
  moreover have "e * 2 ^ 52 \<le> 1074 * (2 ^ 52 :: nat)" unfolding e_def by (intro mult_right_mono) simp_all
  ultimately show ?thesis
    by (simp only: f64_lit_def f64_round_def Let_def sh rne e_def [symmetric]) (simp add: min_def)
qed

lemmas f64_eval = f64_make_def f64_rne_def Let_def

lemma f64_make_collapse: "f64_make (f64_neg d) (f64_mag d) = d"
proof -
  have "unat (f64_bits d) < 2 * 2 ^ 63" using unsigned_less [of "f64_bits d"] by simp
  then have "(if f64_neg d then 2 ^ 63 else 0) + f64_mag d = unat (f64_bits d)"
    by (auto simp: f64_neg_def f64_mag_def mod_if not_less)
  then show ?thesis by (simp add: f64_make_def)
qed

text \<open>A difference that has a pattern is computed exactly.\<close>

lemma f64_minus_exact:
  assumes "f64_isfinite a" "f64_isfinite b" "f64_isfinite r"
    and "f64_int a - f64_int b = f64_int r" "f64_mag r \<noteq> 0"
  shows "f64_minus a b = r"
proof -
  have nn: "\<not> f64_is_nan a" "\<not> f64_is_inf a" "\<not> f64_is_nan b" "\<not> f64_is_inf b"
    using assms(1,2) by (auto simp: f64_isfinite_def f64_is_inf_def)
  have nz: "f64_int r \<noteq> 0" "f64_int r < 0 \<longleftrightarrow> f64_neg r" "nat \<bar>f64_int r\<bar> = f64_scaled (f64_mag r)"
    using assms(5) f64_scaled_pos [of "f64_mag r"] by (auto simp: f64_int_def)
  have "f64_round (f64_scaled (f64_mag r)) 1 = f64_mag r"
    using f64_round_exact [of 1 "f64_mag r"] assms(3) by (simp add: f64_isfinite_def)
  then show ?thesis
    using nn nz assms(4) by (simp add: f64_minus_def Let_def f64_make_collapse)
qed

text \<open>The quotient of two normal numbers with significands \<open>A\<close> and \<open>B\<close>.\<close>

lemma f64_divide_normal:
  assumes a: "f64_mag a = i * 2 ^ 52 + A" "2 ^ 52 \<le> A" "A < 2 ^ 53" "f64_isfinite a"
    and b: "f64_mag b = j * 2 ^ 52 + B" "2 ^ 52 \<le> B" "B < 2 ^ 53" "f64_isfinite b"
    and s: "B * 2 ^ 52 \<le> A * 2 ^ s" "A * 2 ^ s < B * 2 ^ 53" "s + j < 1074 + i"
    and fit: "1074 + i - j - s < 2046"
  shows "f64_divide a b =
    f64_make (f64_neg a \<noteq> f64_neg b) ((1074 + i - j - s) * 2 ^ 52 + f64_rne (A * 2 ^ s) B)"
proof -
  define e where "e = 1074 + i - j - s"
  have va: "f64_scaled (f64_mag a) = A * 2 ^ i" and vb: "f64_scaled (f64_mag b) = B * 2 ^ j"
    using f64_scaled_pack [of A i] f64_scaled_pack [of B j] a b by simp_all
  have "(2 :: nat) ^ i * 2 ^ 1074 = 2 ^ (e + j + s)"
    using s(3) by (simp only: power_add [symmetric]) (simp add: e_def ac_simps)
  then have q: "A * 2 ^ i * 2 ^ 1074 = (A * 2 ^ s) * (2 ^ e * 2 ^ j)"
    by (simp only: power_add mult.assoc) (simp add: ac_simps)
  have B0: "0 < B" using b(2) by (rule less_le_trans [rotated]) simp
  have "(A * 2 ^ s) * (2 ^ e * 2 ^ j) < (B * 2 ^ 53) * (2 ^ e * 2 ^ j)"
    using s(2) by (intro mult_strict_right_mono) simp_all
  then have u: "A * 2 ^ i * 2 ^ 1074 div (B * 2 ^ j) < 2 ^ 53 * 2 ^ e"
    using B0 unfolding q by (simp add: div_less_iff_less_mult ac_simps)
  have "(B * 2 ^ 52) * (2 ^ e * 2 ^ j) \<le> (A * 2 ^ s) * (2 ^ e * 2 ^ j)"
    using s(1) by (intro mult_right_mono) simp_all
  then have l: "2 ^ 52 * 2 ^ e \<le> A * 2 ^ i * 2 ^ 1074 div (B * 2 ^ j)"
    using B0 unfolding q by (simp add: less_eq_div_iff_mult_less_eq ac_simps)
  have sh: "f64_shift (A * 2 ^ i * 2 ^ 1074 div (B * 2 ^ j)) = e" using u l by (rule f64_shift_unique)
  have rne: "f64_rne (A * 2 ^ i * 2 ^ 1074) (B * 2 ^ j * 2 ^ e) = f64_rne (A * 2 ^ s) B"
    using f64_rne_scale [of "2 ^ e * 2 ^ j" "A * 2 ^ s" B] unfolding q by (simp add: ac_simps)
  have "f64_rne (A * 2 ^ s) B \<le> 2 ^ 53"
    using B0 s(2) by (intro f64_rne_le) (simp_all add: mult.commute)
  moreover have "e * 2 ^ 52 \<le> 2045 * (2 ^ 52 :: nat)" using fit unfolding e_def by (intro mult_right_mono) simp_all
  ultimately have "f64_round (f64_scaled (f64_mag a) * 2 ^ 1074) (f64_scaled (f64_mag b)) =
      e * 2 ^ 52 + f64_rne (A * 2 ^ s) B"
    unfolding va vb f64_round_def Let_def sh rne by (simp add: min_def)
  moreover have "f64_mag a \<noteq> 0" "f64_mag b \<noteq> 0" using a(1,2) b(1,2) by simp_all
  moreover have "\<not> f64_is_nan a" "\<not> f64_is_inf a" "\<not> f64_is_nan b" "\<not> f64_is_inf b"
    using a(4) b(4) by (auto simp: f64_isfinite_def f64_is_inf_def)
  ultimately show ?thesis unfolding f64_divide_def Let_def e_def by (simp del: power_numeral)
qed

end
