(* ===== verification/CG_Evidence.thy ===== *)
theory CG_Evidence
  imports CG_Enums CG_Double
begin

text \<open>
  \<^verbatim>\<open>include/contention/evidence.hpp\<close> and \<^verbatim>\<open>src/evidence.cpp\<close>: the interference evidence,
  its structural validation, the degradation and improvement fractions and the severity
  classes, together with the bounds that the double arithmetic guarantees.
\<close>

section \<open>Data\<close>

datatype MetricDirection = MD_HIGHER_IS_BETTER | MD_LOWER_IS_BETTER

primrec ord_MetricDirection :: "MetricDirection \<Rightarrow> nat" where
  "ord_MetricDirection MD_HIGHER_IS_BETTER = 0"
| "ord_MetricDirection MD_LOWER_IS_BETTER = 1"

definition all_MetricDirection :: "MetricDirection list" where
  "all_MetricDirection = [MD_HIGHER_IS_BETTER, MD_LOWER_IS_BETTER]"

primrec to_string_MetricDirection :: "MetricDirection \<Rightarrow> string" where
  "to_string_MetricDirection MD_HIGHER_IS_BETTER = ''HIGHER_IS_BETTER''"
| "to_string_MetricDirection MD_LOWER_IS_BETTER = ''LOWER_IS_BETTER''"

interpretation md_code: byte_enum ord_MetricDirection all_MetricDirection
  by unfold_locales (auto simp: all_MetricDirection_def nth_Cons' less_Suc_eq numeral_eq_Suc)

lemma all_MetricDirection_UNIV [simp]: "v \<in> set all_MetricDirection"
  by (cases v) (simp_all add: all_MetricDirection_def)

record InterferenceEvidence =
  ie_id :: InterferenceEvidenceId
  ie_generation :: InterferenceEvidenceGeneration
  ie_victim :: WorkloadId
  ie_neighbors :: "WorkloadId list"
  ie_domain :: ResourceDomain
  ie_metric :: MetricDirection
  ie_isolatedBaseline :: double
  ie_coRunObservation :: double
  ie_degradation :: double
  ie_improvement :: double
  ie_attribution :: AttributionStrength
  ie_confidence :: double
  ie_sampleCount :: u64
  ie_unresolvedConfounders :: "string list"
  ie_status :: EvidenceStatus
  ie_sampledAt :: TimeMs
  ie_maxAgeMs :: TimeMs
  ie_label :: EvidenceLabel
  ie_sourceId :: string
  ie_sourceHealth :: string
  ie_workerBoot :: WorkerBootId
  ie_workloadGeneration :: WorkloadGeneration
  ie_deviceGeneration :: DeviceGeneration
  ie_hostGeneration :: HostGeneration
  ie_topologyGeneration :: TopologyGeneration
  ie_resourceGeneration :: ResourceGeneration
  ie_placementGeneration :: PlacementGeneration
  ie_activeFrom :: TimeMs
  ie_activeUntil :: TimeMs

section \<open>Operations\<close>

definition compute_degradation :: "MetricDirection \<Rightarrow> double \<Rightarrow> double \<Rightarrow> double" where
  "compute_degradation d baseline observation =
     (if \<not> f64_gt baseline f64_zero \<or> \<not> f64_isfinite baseline \<or> \<not> f64_isfinite observation
      then f64_zero
      else if d = MD_HIGHER_IS_BETTER
      then (if f64_ge observation baseline then f64_zero
            else f64_divide (f64_minus baseline observation) baseline)
      else (if f64_le observation baseline then f64_zero
            else f64_divide (f64_minus observation baseline) baseline))"

definition compute_improvement :: "MetricDirection \<Rightarrow> double \<Rightarrow> double \<Rightarrow> double" where
  "compute_improvement d baseline observation =
     (if \<not> f64_gt baseline f64_zero \<or> \<not> f64_isfinite baseline \<or> \<not> f64_isfinite observation
      then f64_zero
      else if d = MD_HIGHER_IS_BETTER
      then (if f64_le observation baseline then f64_zero
            else f64_divide (f64_minus observation baseline) baseline)
      else (if f64_ge observation baseline then f64_zero
            else f64_divide (f64_minus baseline observation) baseline))"

definition structurally_valid :: "InterferenceEvidence \<Rightarrow> bool" where
  "structurally_valid e =
     (if \<not> f64_isfinite (ie_isolatedBaseline e) \<or> \<not> f64_isfinite (ie_coRunObservation e) then False
      else if f64_le (ie_isolatedBaseline e) f64_zero then False
      else if \<not> f64_isfinite (ie_confidence e) \<or> f64_lt (ie_confidence e) f64_zero
              \<or> f64_gt (ie_confidence e) f64_one then False
      else if \<not> f64_isfinite (ie_degradation e) \<or> f64_lt (ie_degradation e) f64_zero then False
      else if ie_sampleCount e = 0 then False
      else True)"

definition validate_evidence :: "InterferenceEvidence \<Rightarrow> Status" where
  "validate_evidence e =
     (if id_value (ie_victim e) = 0 then status_bad SC_INVALID_INPUT ''evidence victim id is zero''
      else if \<not> structurally_valid e
      then status_bad SC_INVALID_INPUT ''evidence structurally invalid (NaN/Inf/range/count)''
      else status_good)"

definition evidence_authorizes_control :: "InterferenceEvidence \<Rightarrow> bool" where
  "evidence_authorizes_control e =
     (if ie_status e \<noteq> ES_CURRENT then False
      else if \<not> structurally_valid e then False
      else if f64_lt (ie_confidence e) f64_zero then False
      else True)"

definition classify_severity :: "double \<Rightarrow> Severity" where
  "classify_severity degradation =
     (if \<not> f64_isfinite degradation then SV_UNKNOWN
      else if f64_le degradation f64_zero then SV_NONE
      else if f64_lt degradation (f64_lit 10 100) then SV_MINOR
      else if f64_lt degradation (f64_lit 25 100) then SV_MODERATE
      else if f64_lt degradation (f64_lit 50 100) then SV_SEVERE
      else SV_CRITICAL)"

section \<open>Bounds\<close>

lemma f64_gt_zero: "f64_gt b f64_zero \<Longrightarrow> \<not> f64_neg b \<and> 0 < f64_mag b"
  by (auto simp: f64_lt_def f64_key_def split: if_splits)

lemma f64_relative_nonneg:
  assumes "f64_gt b f64_zero" "f64_isfinite b" "f64_isfinite x" "f64_isfinite y" "f64_lt y x"
  shows "f64_le f64_zero (f64_divide (f64_minus x y) b)"
proof -
  note m = f64_minus_pos [OF assms(3,4,5)]
  note z = f64_gt_zero [OF assms(1)]
  have "\<not> f64_neg (f64_divide (f64_minus x y) b)" "\<not> f64_is_nan (f64_divide (f64_minus x y) b)"
    using m z assms(2) f64_divide_pos by blast+
  then show ?thesis by (simp add: f64_nonneg_iff)
qed

lemma f64_zero_le_zero [simp]: "f64_le f64_zero f64_zero"
  by (simp add: f64_le_def)

lemma f64_lt_flip: "f64_isfinite a \<Longrightarrow> f64_isfinite b \<Longrightarrow> \<not> f64_le a b \<Longrightarrow> f64_lt b a"
  using f64_not_lt [of b a] by auto

lemma compute_degradation_nonneg: "f64_le f64_zero (compute_degradation d b obs)"
  by (cases d) (auto simp: compute_degradation_def intro!: f64_relative_nonneg f64_lt_flip)

lemma compute_improvement_nonneg: "f64_le f64_zero (compute_improvement d b obs)"
  by (cases d) (auto simp: compute_improvement_def intro!: f64_relative_nonneg f64_lt_flip)

text \<open>A loss of a throughput-like metric, whose observation is not negative, is at most 1.\<close>

lemma f64_loss_le_one:
  assumes "f64_gt b f64_zero" "f64_isfinite b" "f64_isfinite obs" "f64_le f64_zero obs" "f64_lt obs b"
  shows "f64_le (f64_divide (f64_minus b obs) b) f64_one"
proof -
  note m = f64_minus_pos [OF assms(2,3,5)]
  note z = f64_gt_zero [OF assms(1)]
  have "0 \<le> f64_int obs" using f64_le_value [of f64_zero obs] assms(3,4) by (simp add: f64_int_def)
  moreover have "f64_int b = int (f64_scaled (f64_mag b))" using z by (simp add: f64_int_def)
  ultimately have "nat (f64_int b - f64_int obs) \<le> f64_scaled (f64_mag b)" by linarith
  then have "f64_mag (f64_minus b obs) \<le> f64_mag b"
    unfolding m(4) using assms(2) by (intro f64_round_le) (simp_all add: f64_isfinite_def)
  then show ?thesis using m z assms(2) by (intro f64_divide_le_one) auto
qed

lemma f64_zero_le_one [simp]: "f64_le f64_zero f64_one"
  by (simp add: f64_le_def)

lemma compute_degradation_le_one:
  "f64_le f64_zero obs \<Longrightarrow> f64_le (compute_degradation MD_HIGHER_IS_BETTER b obs) f64_one"
  by (auto simp: compute_degradation_def intro!: f64_loss_le_one f64_lt_flip)

text \<open>For a given observation, at most one of the two fractions is not zero.\<close>

lemma degradation_or_improvement:
  "compute_degradation d b obs = f64_zero \<or> compute_improvement d b obs = f64_zero"
  by (cases d) (auto simp: compute_degradation_def compute_improvement_def f64_le_def)

lemma structurally_validD:
  assumes "structurally_valid e"
  shows "f64_isfinite (ie_isolatedBaseline e)" "f64_gt (ie_isolatedBaseline e) f64_zero"
    "f64_isfinite (ie_coRunObservation e)" "f64_isfinite (ie_confidence e)"
    "f64_le f64_zero (ie_confidence e)" "f64_le (ie_confidence e) f64_one" "ie_sampleCount e \<noteq> 0"
  using assms by (auto simp: structurally_valid_def f64_cmp_defs split: if_splits)

lemma validate_evidence_ok: "status_ok (validate_evidence e) \<longleftrightarrow> id_value (ie_victim e) \<noteq> 0 \<and> structurally_valid e"
  by (simp add: validate_evidence_def)

text \<open>The severity classes are ordered as the degradations are.\<close>

lemma f64_lit_thresholds:
  "f64_lit 10 100 = F64 0x3FB999999999999A" "f64_lit 25 100 = F64 0x3FD0000000000000"
  "f64_lit 50 100 = F64 0x3FE0000000000000"
  by (subst f64_litI [of 56], simp_all add: f64_eval) (subst f64_litI [of 54], simp_all add: f64_eval,
      subst f64_litI [of 53], simp_all add: f64_eval)

lemma classify_severity_mono:
  assumes "f64_isfinite a" "f64_isfinite b" "f64_le a b"
  shows "ord_Severity (classify_severity a) \<le> ord_Severity (classify_severity b)"
  using assms by (auto simp: classify_severity_def f64_cmp_defs)

end
