(* ===== verification/CG_Map.thy ===== *)
theory CG_Map
  imports CG_Prelude
begin

text \<open>
  \<^verbatim>\<open>std::map\<close> as an association list in strictly increasing key order. The order is
  observable: range-for loops visit it, the first match of a search depends on it, and the
  persistence format writes it. The locale states what the governor relies on; the
  interpretation discharges it for the association lists.
\<close>

type_synonym ('k, 'v) omap = "('k \<times> 'v) list"

definition om_inv :: "('k :: linorder, 'v) omap \<Rightarrow> bool" where
  "om_inv m \<longleftrightarrow> sorted_wrt (<) (map fst m)"

text \<open>\<^verbatim>\<open>m[k] = v\<close>\<close>

fun om_put :: "'k :: linorder \<Rightarrow> 'v \<Rightarrow> ('k, 'v) omap \<Rightarrow> ('k, 'v) omap" where
  "om_put k v [] = [(k, v)]"
| "om_put k v ((k', v') # m) =
     (if k < k' then (k, v) # (k', v') # m
      else if k = k' then (k, v) # m
      else (k', v') # om_put k v m)"

text \<open>\<^verbatim>\<open>m.find(k)\<close>\<close>

abbreviation om_find :: "('k, 'v) omap \<Rightarrow> 'k \<Rightarrow> 'v option" where
  "om_find \<equiv> map_of"

text \<open>\<^verbatim>\<open>for (auto& [id, x] : m) x = f(x)\<close>\<close>

definition om_update_all :: "('v \<Rightarrow> 'w) \<Rightarrow> ('k, 'v) omap \<Rightarrow> ('k, 'w) omap" where
  "om_update_all f m = map (\<lambda>(k, v). (k, f v)) m"

text \<open>The first entry, in key order, whose value satisfies the predicate.\<close>

definition om_first :: "('v \<Rightarrow> bool) \<Rightarrow> ('k, 'v) omap \<Rightarrow> ('k \<times> 'v) option" where
  "om_first P m = List.find (\<lambda>(k, v). P v) m"

text \<open>Assigning a sequence of entries to an empty map, as a decoder does.\<close>

definition om_of_entries :: "('k :: linorder \<times> 'v) list \<Rightarrow> ('k, 'v) omap" where
  "om_of_entries kvs = fold (\<lambda>(k, v). om_put k v) kvs []"

lemma om_find_put [simp]: "om_find (om_put k v m) = (om_find m)(k \<mapsto> v)"
  by (induction m) auto

lemma set_om_put: "fst ` set (om_put k v m) = insert k (fst ` set m)"
  by (induction k v m rule: om_put.induct) (simp_all add: insert_commute)

lemma om_inv_put [simp]: "om_inv m \<Longrightarrow> om_inv (om_put k v m)"
proof (induction m)
  case Nil
  then show ?case by (simp add: om_inv_def)
next
  case (Cons x m)
  then have tl: "om_inv m" and hd: "\<forall>k' \<in> set (map fst m). fst x < k'"
    by (auto simp: om_inv_def)
  have "om_inv (om_put k v m)" using Cons.IH tl by simp
  moreover have "\<forall>k' \<in> fst ` set (om_put k v m). fst x < k'" if "fst x < k"
    using hd that by (simp add: set_om_put)
  ultimately show ?case
    using Cons.prems by (cases x) (auto simp: om_inv_def)
qed

lemma om_inv_Nil [simp]: "om_inv []"
  by (simp add: om_inv_def)

lemma om_find_None: "om_inv m \<Longrightarrow> (\<And>k'. k' \<in> set (map fst m) \<Longrightarrow> k' \<noteq> k) \<Longrightarrow> om_find m k = None"
  by (auto simp: map_of_eq_None_iff)

lemma om_find_update_all [simp]: "om_find (om_update_all f m) k = map_option f (om_find m k)"
  by (induction m) (auto simp: om_update_all_def)

lemma om_inv_update_all [simp]: "om_inv (om_update_all f m) = om_inv m"
  by (simp add: om_inv_def om_update_all_def split_beta comp_def)

lemma om_put_last:
  "om_inv (m @ [(k, v)]) \<Longrightarrow> om_put k v m = m @ [(k, v)]"
  by (induction m) (auto simp: om_inv_def)

text \<open>An ordered sequence of entries is rebuilt as it is.\<close>

lemma om_of_entries_sorted: "om_inv m \<Longrightarrow> om_of_entries m = m"
proof (induction m rule: rev_induct)
  case Nil
  then show ?case by (simp add: om_of_entries_def)
next
  case (snoc x m)
  obtain k v where x: "x = (k, v)" by (cases x)
  have "om_inv m" using snoc.prems by (simp add: om_inv_def sorted_wrt_append)
  with snoc.IH have "om_of_entries m = m" .
  with om_put_last [of m k v] snoc.prems x show ?case
    by (simp add: om_of_entries_def)
qed

lemma om_inv_of_entries [simp]: "om_inv (om_of_entries kvs)"
proof -
  have "om_inv m \<Longrightarrow> om_inv (fold (\<lambda>(k, v). om_put k v) kvs m)" for m
    by (induction kvs arbitrary: m) auto
  then show ?thesis by (simp add: om_of_entries_def)
qed

lemma om_first_Some:
  assumes "om_inv m" "om_first P m = Some (k, v)"
  shows "om_find m k = Some v" "P v" "\<And>k' v'. om_find m k' = Some v' \<Longrightarrow> k' < k \<Longrightarrow> \<not> P v'"
proof -
  have *: "om_find m k = Some v \<and> P v \<and> (\<forall>k' v'. om_find m k' = Some v' \<longrightarrow> k' < k \<longrightarrow> \<not> P v')"
    using assms
  proof (induction m)
    case (Cons x m)
    obtain a b where x: "x = (a, b)" by (cases x)
    have lt: "a < k'" if "om_find m k' = Some v'" for k' v'
      using Cons.prems(1) map_of_SomeD [OF that] by (force simp: om_inv_def x)
    have inv: "om_inv m" using Cons.prems(1) by (simp add: om_inv_def)
    show ?case
    proof (cases "P b")
      case True
      with Cons.prems lt show ?thesis by (auto simp: om_first_def x dest: less_asym)
    next
      case False
      with Cons.prems have "om_first P m = Some (k, v)" by (simp add: om_first_def x)
      with Cons.IH inv False lt show ?thesis by (auto simp: x)
    qed
  qed (simp add: om_first_def)
  then show "om_find m k = Some v" "P v" "\<And>k' v'. om_find m k' = Some v' \<Longrightarrow> k' < k \<Longrightarrow> \<not> P v'"
    by blast+
qed

lemma om_first_None:
  assumes "om_first P m = None" "om_find m k = Some v"
  shows "\<not> P v"
  using assms map_of_SomeD [OF assms(2)] by (auto simp: om_first_def find_None_iff)

lemma om_first_mem: "om_first P m = Some (k, v) \<Longrightarrow> (k, v) \<in> set m \<and> P v"
  by (auto simp: om_first_def find_Some_iff) (metis nth_mem)

section \<open>The interface\<close>

locale ordered_store =
  fixes find_entry :: "'m \<Rightarrow> 'k :: linorder \<Rightarrow> 'v option"
    and assign :: "'k \<Rightarrow> 'v \<Rightarrow> 'm \<Rightarrow> 'm"
    and no_entries :: 'm
    and ok :: "'m \<Rightarrow> bool"
  assumes ok_empty: "ok no_entries"
    and ok_assign: "ok m \<Longrightarrow> ok (assign k v m)"
    and find_empty: "find_entry no_entries k = None"
    and find_assign: "ok m \<Longrightarrow> find_entry (assign k v m) = (find_entry m)(k \<mapsto> v)"
begin

lemma find_assign_same: "ok m \<Longrightarrow> find_entry (assign k v m) k = Some v"
  by (simp add: find_assign)

lemma find_assign_other: "ok m \<Longrightarrow> k' \<noteq> k \<Longrightarrow> find_entry (assign k v m) k' = find_entry m k'"
  by (simp add: find_assign)

text \<open>A property of every stored value is kept by an assignment that satisfies it.\<close>

lemma all_values_assign:
  assumes "ok m" "\<And>k v. find_entry m k = Some v \<Longrightarrow> P k v" "P k v"
    "find_entry (assign k v m) k' = Some v'"
  shows "P k' v'"
  using assms by (cases "k' = k") (auto simp: find_assign)

lemma fresh_assign:
  assumes "ok m" "\<And>k v. find_entry m k = Some v \<Longrightarrow> k < bound" "k < bound'" "bound \<le> bound'"
    "find_entry (assign k v m) k' = Some v'"
  shows "k' < bound'"
  using assms by (cases "k' = k") (auto simp: find_assign intro: less_le_trans)

text \<open>After a sequence of assignments the last one to a key wins.\<close>

lemma find_assigns:
  "ok m \<Longrightarrow> find_entry (fold (\<lambda>(k, v). assign k v) kvs m) = find_entry m ++ map_of (rev kvs)
    \<and> ok (fold (\<lambda>(k, v). assign k v) kvs m)"
  by (induction kvs arbitrary: m) (auto simp: find_assign ok_assign map_add_def fun_eq_iff split: option.splits)

end

interpretation om: ordered_store om_find om_put "[]" om_inv
  by unfold_locales auto

text \<open>What a decoded map holds: the last entry of each key.\<close>

lemma om_find_of_entries: "om_find (om_of_entries kvs) = map_of (rev kvs)"
  using om.find_assigns [of "[]" kvs] by (simp add: om_of_entries_def)

end
