(* ===== verification/CG_Policy.thy ===== *)
theory CG_Policy
  imports CG_Evidence CG_Map
begin

text \<open>
  \<^verbatim>\<open>include/contention/policy.hpp\<close> and \<^verbatim>\<open>src/policy.cpp\<close>: the per-workload and global
  policies with the defaults of their member initialisers, their validation, and the
  eligibility of an intervention class.
\<close>

section \<open>Data\<close>

record WorkloadPolicy =
  wp_workload :: WorkloadId
  wp_generation :: PolicyGeneration
  wp_nonPreemptible :: bool
  wp_protectedWorkload :: bool
  wp_value :: double
  wp_priority :: u32
  wp_hardSloFloor :: double
  wp_softSloTarget :: "double option"
  wp_minServiceFloor :: double
  wp_costCeiling :: double
  wp_restartCost :: double
  wp_preemptionCost :: double
  wp_recoveryCost :: double
  wp_maxDegradationTolerated :: double
  wp_maxInterventionFrequencyPerWindow :: u32
  wp_preemptionAllowed :: bool
  wp_throttlingAllowed :: bool
  wp_deferralAllowed :: bool
  wp_admissionRestrictionAllowed :: bool
  wp_placementChangeAllowed :: bool
  wp_bandwidthRequestAllowed :: bool
  wp_collectiveSchedulingAllowed :: bool
  wp_migrationAllowed :: bool

definition default_WorkloadPolicy :: WorkloadPolicy where
  "default_WorkloadPolicy =
     \<lparr>wp_workload = id_zero, wp_generation = id_zero,
      wp_nonPreemptible = False, wp_protectedWorkload = False,
      wp_value = f64_zero, wp_priority = 0, wp_hardSloFloor = f64_zero, wp_softSloTarget = None,
      wp_minServiceFloor = f64_zero, wp_costCeiling = f64_zero, wp_restartCost = f64_zero,
      wp_preemptionCost = f64_zero, wp_recoveryCost = f64_zero,
      wp_maxDegradationTolerated = f64_one, wp_maxInterventionFrequencyPerWindow = 0,
      wp_preemptionAllowed = True, wp_throttlingAllowed = True, wp_deferralAllowed = True,
      wp_admissionRestrictionAllowed = True, wp_placementChangeAllowed = True,
      wp_bandwidthRequestAllowed = True, wp_collectiveSchedulingAllowed = True,
      wp_migrationAllowed = True\<rparr>"

record ActionBudgetStats =
  abs_preemptions :: u64
  abs_migrations :: u64
  abs_placementChanges :: u64
  abs_throttles :: u64
  abs_collectiveReschedules :: u64
  abs_all :: u64

definition default_ActionBudgetStats :: ActionBudgetStats where
  "default_ActionBudgetStats =
     \<lparr>abs_preemptions = 0, abs_migrations = 0, abs_placementChanges = 0, abs_throttles = 0,
      abs_collectiveReschedules = 0, abs_all = 0\<rparr>"

record ActionBudget =
  ab_generation :: ActionBudgetGeneration
  ab_maxPreemptionsPerWindow :: u64
  ab_maxMigrationsPerWindow :: u64
  ab_maxPlacementChangesPerWindow :: u64
  ab_maxThrottlesPerWindow :: u64
  ab_maxCollectiveReschedulesPerWindow :: u64
  ab_maxAnyPerWindow :: u64
  ab_windowMs :: TimeMs
  ab_windowStart :: TimeMs
  ab_used :: ActionBudgetStats

definition default_ActionBudget :: ActionBudget where
  "default_ActionBudget =
     \<lparr>ab_generation = id_zero, ab_maxPreemptionsPerWindow = 3, ab_maxMigrationsPerWindow = 2,
      ab_maxPlacementChangesPerWindow = 2, ab_maxThrottlesPerWindow = 8,
      ab_maxCollectiveReschedulesPerWindow = 2, ab_maxAnyPerWindow = 32, ab_windowMs = 60000,
      ab_windowStart = 0, ab_used = default_ActionBudgetStats\<rparr>"

record ContentionPolicy =
  p_id :: PolicyId
  p_generation :: PolicyGeneration
  p_actionabilityThreshold :: double
  p_releaseThreshold :: double
  p_hysteresisEvidenceCount :: u64
  p_minAttributionForDisruptive :: AttributionStrength
  p_minConfidenceForDisruptive :: double
  p_fairnessFloor :: double
  p_maxConsecutiveInterventionsPerWorkload :: u32
  p_fairnessWeight :: double
  p_costCeiling :: double
  p_cooldownMs :: TimeMs
  p_budget :: ActionBudget
  p_workloads :: "(WorkloadId, WorkloadPolicy) omap"
  p_preemptionAllowed :: bool
  p_migrationAllowed :: bool
  p_placementChangeAllowed :: bool
  p_bandwidthRequestAllowed :: bool
  p_collectiveSchedulingAllowed :: bool
  p_admissionRestrictionAllowed :: bool
  p_throttleAllowed :: bool

definition default_ContentionPolicy :: ContentionPolicy where
  "default_ContentionPolicy =
     \<lparr>p_id = id_zero, p_generation = id_zero,
      p_actionabilityThreshold = f64_lit 20 100, p_releaseThreshold = f64_lit 10 100,
      p_hysteresisEvidenceCount = 2,
      p_minAttributionForDisruptive = AS_CONTROLLED_COMPARISON,
      p_minConfidenceForDisruptive = f64_lit 6 10,
      p_fairnessFloor = f64_lit 10 100, p_maxConsecutiveInterventionsPerWorkload = 3,
      p_fairnessWeight = f64_one, p_costCeiling = f64_zero, p_cooldownMs = 5000,
      p_budget = default_ActionBudget, p_workloads = [],
      p_preemptionAllowed = True, p_migrationAllowed = True, p_placementChangeAllowed = True,
      p_bandwidthRequestAllowed = True, p_collectiveSchedulingAllowed = True,
      p_admissionRestrictionAllowed = True, p_throttleAllowed = True\<rparr>"

section \<open>Operations\<close>

definition workload_policy_for :: "ContentionPolicy \<Rightarrow> WorkloadId \<Rightarrow> WorkloadPolicy" where
  "workload_policy_for p w =
     (case om_find (p_workloads p) w of
        Some wp \<Rightarrow> wp
      | None \<Rightarrow> default_WorkloadPolicy\<lparr>wp_workload := w, wp_generation := p_generation p\<rparr>)"

text \<open>The body of the loop over the workload policies: the first defect, if any.\<close>

definition workload_defect :: "WorkloadPolicy \<Rightarrow> Status option" where
  "workload_defect wp =
     (if \<not> f64_isfinite (wp_value wp)
      then Some (status_bad SC_INVALID_INPUT ''workload value non-finite'')
      else if f64_lt (wp_hardSloFloor wp) f64_zero \<or> f64_gt (wp_hardSloFloor wp) f64_one
      then Some (status_bad SC_INVALID_INPUT ''hard SLO floor out of range'')
      else if f64_lt (wp_minServiceFloor wp) f64_zero \<or> f64_gt (wp_minServiceFloor wp) f64_one
      then Some (status_bad SC_INVALID_INPUT ''min service floor out of range'')
      else if f64_lt (wp_maxDegradationTolerated wp) f64_zero \<or> f64_gt (wp_maxDegradationTolerated wp) f64_one
      then Some (status_bad SC_INVALID_INPUT ''max degradation tolerated out of range'')
      else None)"

fun workloads_status :: "(WorkloadId, WorkloadPolicy) omap \<Rightarrow> Status" where
  "workloads_status [] = status_good"
| "workloads_status ((w, wp) # ws) =
     (case workload_defect wp of Some st \<Rightarrow> st | None \<Rightarrow> workloads_status ws)"

definition validate_policy :: "ContentionPolicy \<Rightarrow> Status" where
  "validate_policy p =
     (if f64_lt (p_actionabilityThreshold p) f64_zero \<or> f64_gt (p_actionabilityThreshold p) f64_one
      then status_bad SC_INVALID_INPUT ''actionability threshold out of range''
      else if f64_lt (p_releaseThreshold p) f64_zero \<or> f64_gt (p_releaseThreshold p) f64_one
      then status_bad SC_INVALID_INPUT ''release threshold out of range''
      else if f64_ge (p_releaseThreshold p) (p_actionabilityThreshold p)
      then status_bad SC_INVALID_INPUT ''release threshold must be below actionability threshold''
      else if p_hysteresisEvidenceCount p = 0
      then status_bad SC_INVALID_INPUT ''hysteresis evidence count must be > 0''
      else if \<not> f64_isfinite (p_minConfidenceForDisruptive p)
              \<or> f64_lt (p_minConfidenceForDisruptive p) f64_zero
              \<or> f64_gt (p_minConfidenceForDisruptive p) f64_one
      then status_bad SC_INVALID_INPUT ''min confidence out of range''
      else if f64_lt (p_fairnessFloor p) f64_zero \<or> f64_gt (p_fairnessFloor p) f64_one
      then status_bad SC_INVALID_INPUT ''fairness floor out of range''
      else if p_maxConsecutiveInterventionsPerWorkload p = 0
      then status_bad SC_INVALID_INPUT ''max consecutive interventions must be > 0''
      else if ab_maxPreemptionsPerWindow (p_budget p) = 0 \<or> ab_maxMigrationsPerWindow (p_budget p) = 0
              \<or> ab_maxThrottlesPerWindow (p_budget p) = 0 \<or> ab_maxAnyPerWindow (p_budget p) = 0
      then status_bad SC_INVALID_INPUT ''action budget limits must be > 0''
      else workloads_status (p_workloads p))"

fun class_eligible :: "ContentionPolicy \<Rightarrow> InterventionClass \<Rightarrow> bool" where
  "class_eligible p IC_NO_ACTION = True"
| "class_eligible p IC_OBSERVE_MORE = True"
| "class_eligible p IC_ESCALATE = True"
| "class_eligible p IC_MANUAL_INTERVENTION_REQUIRED = True"
| "class_eligible p IC_THROTTLE = p_throttleAllowed p"
| "class_eligible p IC_REDUCE_CONCURRENCY = p_throttleAllowed p"
| "class_eligible p IC_REDUCE_BATCH = p_throttleAllowed p"
| "class_eligible p IC_SERIALIZE = p_throttleAllowed p"
| "class_eligible p IC_TIME_SLICE = p_throttleAllowed p"
| "class_eligible p IC_REDUCE_MEMORY_PRESSURE = p_throttleAllowed p"
| "class_eligible p IC_DEFER_NEW_WORK = p_admissionRestrictionAllowed p"
| "class_eligible p IC_REQUEST_PREEMPTION = p_preemptionAllowed p"
| "class_eligible p IC_REQUEST_MIGRATION = p_migrationAllowed p"
| "class_eligible p IC_REQUEST_REPLACEMENT = p_migrationAllowed p"
| "class_eligible p IC_CHANGE_PLACEMENT = p_placementChangeAllowed p"
| "class_eligible p IC_REQUEST_BANDWIDTH_REALLOCATION =
     (p_bandwidthRequestAllowed p \<or> p_collectiveSchedulingAllowed p)"
| "class_eligible p IC_REQUEST_COMMUNICATION_REPLAN =
     (p_bandwidthRequestAllowed p \<or> p_collectiveSchedulingAllowed p)"
| "class_eligible p IC_REQUEST_COLLECTIVE_RESCHEDULE =
     (p_bandwidthRequestAllowed p \<or> p_collectiveSchedulingAllowed p)"
| "class_eligible p IC_RELEASE_OPTIONAL_RESIDENCY = True"
| "class_eligible p IC_SHED_LOW_VALUE_WORK = True"
| "class_eligible p IC_PROTECT_HIGH_VALUE_WORK = True"

section \<open>What a validated policy guarantees\<close>

text \<open>The declarative reading of the checks; a range check rejects only ordered values.\<close>

definition not_outside_unit :: "double \<Rightarrow> bool" where
  "not_outside_unit x \<longleftrightarrow> f64_is_nan x \<or> (f64_le f64_zero x \<and> f64_le x f64_one)"

definition valid_workload :: "WorkloadPolicy \<Rightarrow> bool" where
  "valid_workload wp \<longleftrightarrow> f64_isfinite (wp_value wp) \<and> not_outside_unit (wp_hardSloFloor wp)
     \<and> not_outside_unit (wp_minServiceFloor wp) \<and> not_outside_unit (wp_maxDegradationTolerated wp)"

definition valid_policy :: "ContentionPolicy \<Rightarrow> bool" where
  "valid_policy p \<longleftrightarrow>
     not_outside_unit (p_actionabilityThreshold p) \<and> not_outside_unit (p_releaseThreshold p)
     \<and> \<not> f64_le (p_actionabilityThreshold p) (p_releaseThreshold p)
     \<and> p_hysteresisEvidenceCount p \<noteq> 0
     \<and> f64_le f64_zero (p_minConfidenceForDisruptive p) \<and> f64_le (p_minConfidenceForDisruptive p) f64_one
     \<and> not_outside_unit (p_fairnessFloor p)
     \<and> p_maxConsecutiveInterventionsPerWorkload p \<noteq> 0
     \<and> ab_maxPreemptionsPerWindow (p_budget p) \<noteq> 0 \<and> ab_maxMigrationsPerWindow (p_budget p) \<noteq> 0
     \<and> ab_maxThrottlesPerWindow (p_budget p) \<noteq> 0 \<and> ab_maxAnyPerWindow (p_budget p) \<noteq> 0
     \<and> (\<forall>(w, wp) \<in> set (p_workloads p). valid_workload wp)"

lemma not_outside_unit_iff:
  "not_outside_unit x \<longleftrightarrow> \<not> f64_lt x f64_zero \<and> \<not> f64_lt f64_one x"
  by (auto simp: not_outside_unit_def f64_cmp_defs)

lemma unit_finite: "f64_le f64_zero x \<Longrightarrow> f64_le x f64_one \<Longrightarrow> f64_isfinite x"
  by (auto simp: f64_le_def f64_key_def f64_isfinite_def split: if_splits)

lemma workload_defect_iff: "workload_defect wp = None \<longleftrightarrow> valid_workload wp"
  by (auto simp: workload_defect_def valid_workload_def not_outside_unit_iff)

lemma workload_defect_bad: "workload_defect wp = Some st \<Longrightarrow> \<not> status_ok st"
  by (auto simp: workload_defect_def split: if_splits)

lemma workloads_status_ok: "status_ok (workloads_status ws) \<longleftrightarrow> (\<forall>(w, wp) \<in> set ws. valid_workload wp)"
  by (induction ws rule: workloads_status.induct)
    (auto split: option.splits dest: workload_defect_bad simp: workload_defect_iff [symmetric])

lemma unit_iff: "f64_isfinite x \<and> \<not> f64_lt x f64_zero \<and> \<not> f64_lt f64_one x
    \<longleftrightarrow> f64_le f64_zero x \<and> f64_le x f64_one"
  using unit_finite by (auto simp: f64_cmp_defs)

lemma validate_policy_ok: "status_ok (validate_policy p) \<longleftrightarrow> valid_policy p"
  unfolding validate_policy_def valid_policy_def not_outside_unit_iff
  using unit_iff [of "p_minConfidenceForDisruptive p"]
  by (auto simp: workloads_status_ok)

lemma validate_policy_cases: "validate_policy p = status_good \<or> st_code (validate_policy p) = SC_INVALID_INPUT"
proof -
  have "workloads_status ws = status_good \<or> st_code (workloads_status ws) = SC_INVALID_INPUT" for ws
    by (induction ws rule: workloads_status.induct)
      (auto simp: workload_defect_def split: option.splits if_splits)
  then show ?thesis by (auto simp: validate_policy_def)
qed

lemma valid_policy_value_finite:
  "valid_policy p \<Longrightarrow> f64_isfinite (wp_value (workload_policy_for p w))"
  by (auto simp: valid_policy_def workload_policy_for_def default_WorkloadPolicy_def valid_workload_def
      split: option.splits dest: map_of_SomeD)

lemma f64_lit_policy:
  "f64_lit 20 100 = F64 0x3FC999999999999A" "f64_lit 6 10 = F64 0x3FE3333333333333"
  by (subst f64_litI [of 55], simp_all add: f64_eval) (subst f64_litI [of 53], simp_all add: f64_eval)

lemma default_policy_valid: "valid_policy default_ContentionPolicy"
  by (simp add: valid_policy_def default_ContentionPolicy_def default_ActionBudget_def not_outside_unit_def
      f64_lit_policy f64_lit_thresholds f64_le_def f64_is_nan_def f64_key_def f64_mag_def f64_neg_def
      f64_one_def f64_zero_def)

end
