(* ===== verification/CG_Conflict.thy ===== *)
theory CG_Conflict
  imports CG_Policy
begin

text \<open>
  The data of \<^verbatim>\<open>include/contention/conflict.hpp\<close>, \<^verbatim>\<open>engine.hpp\<close> and \<^verbatim>\<open>state.hpp\<close>: conflicts,
  intervention candidates and evaluations, fences, the authority context, intervention and
  fairness records, and the engine and governor state. Default constructed values are the
  \<open>default_\<dots>\<close> constants.
\<close>

section \<open>Conflicts\<close>

record ContentionConflict =
  cc_id :: ConflictId
  cc_generation :: ConflictGeneration
  cc_affected :: "WorkloadId list"
  cc_associated :: "WorkloadId list"
  cc_domain :: ResourceDomain
  cc_degradation :: double
  cc_baseline :: double
  cc_confidence :: double
  cc_binding :: BindingObjective
  cc_severity :: Severity
  cc_evidenceIds :: "InterferenceEvidenceId list"
  cc_state :: ConflictState
  cc_firstDetectedAt :: TimeMs
  cc_lastUpdatedAt :: TimeMs
  cc_activeUntil :: TimeMs
  cc_unresolvedConfounders :: "string list"
  cc_blockers :: "string list"
  cc_candidateClasses :: "InterventionClass list"
  cc_proposedIds :: "InterventionId list"
  cc_selectedIds :: "InterventionId list"
  cc_policyGeneration :: PolicyGeneration
  cc_sloGeneration :: SLOGeneration
  cc_valueGeneration :: ValueGeneration
  cc_fairnessGeneration :: FairnessGeneration
  cc_resourceGeneration :: ResourceGeneration
  cc_placementGeneration :: PlacementGeneration
  cc_coordinatorEpoch :: CoordinatorEpoch
  cc_workerBoot :: WorkerBootId
  cc_groupEffectExplicit :: bool
  cc_lastActionAt :: TimeMs
  cc_inActionableState :: bool

definition default_ContentionConflict :: ContentionConflict where
  "default_ContentionConflict =
     \<lparr>cc_id = id_zero, cc_generation = id_zero, cc_affected = [], cc_associated = [],
      cc_domain = RD_UNKNOWN, cc_degradation = f64_zero, cc_baseline = f64_zero,
      cc_confidence = f64_zero, cc_binding = BO_UNKNOWN, cc_severity = SV_UNKNOWN,
      cc_evidenceIds = [], cc_state = CS_DETECTED, cc_firstDetectedAt = 0, cc_lastUpdatedAt = 0,
      cc_activeUntil = 0, cc_unresolvedConfounders = [], cc_blockers = [], cc_candidateClasses = [],
      cc_proposedIds = [], cc_selectedIds = [], cc_policyGeneration = id_zero,
      cc_sloGeneration = id_zero, cc_valueGeneration = id_zero, cc_fairnessGeneration = id_zero,
      cc_resourceGeneration = id_zero, cc_placementGeneration = id_zero,
      cc_coordinatorEpoch = id_zero, cc_workerBoot = id_zero, cc_groupEffectExplicit = False,
      cc_lastActionAt = 0, cc_inActionableState = False\<rparr>"

definition group_effect_upper_bound :: "double \<Rightarrow> nat \<Rightarrow> double" where
  "group_effect_upper_bound pairwiseMax memberCount = f64_times pairwiseMax (f64_of_nat memberCount)"

section \<open>Candidates and evaluations\<close>

record RejectedIntervention =
  rej_cls :: InterventionClass
  rej_reason :: string

record InterventionCandidate =
  cand_cls :: InterventionClass
  cand_target :: WorkloadId
  cand_expectedConflictReduction :: double
  cand_expectedTargetImprovement :: double
  cand_expectedNeighborDegradation :: double
  cand_expectedCost :: double
  cand_expectedRecoveryCost :: double
  cand_confidence :: double
  cand_reversibility :: double
  cand_timeToEffect :: TimeMs
  cand_feasible :: FeasibilityStatus
  cand_infeasibilityReasons :: "string list"
  cand_adapter :: string

record InterventionDecision =
  dec_chosen :: InterventionCandidate
  dec_rankingTrace :: "string list"

record ConflictEvaluation =
  ce_conflictId :: ConflictId
  ce_state :: ConflictState
  ce_binding :: BindingObjective
  ce_degradation :: double
  ce_severity :: Severity
  ce_candidates :: "InterventionCandidate list"
  ce_rejected :: "RejectedIntervention list"
  ce_decision :: "InterventionDecision option"
  ce_reasons :: "string list"
  ce_status :: Status

definition default_ConflictEvaluation :: ConflictEvaluation where
  "default_ConflictEvaluation =
     \<lparr>ce_conflictId = id_zero, ce_state = CS_UNKNOWN, ce_binding = BO_UNKNOWN,
      ce_degradation = f64_zero, ce_severity = SV_UNKNOWN, ce_candidates = [], ce_rejected = [],
      ce_decision = None, ce_reasons = [], ce_status = status_good\<rparr>"

section \<open>Authority and interventions\<close>

record Fence =
  fe_coordinatorEpoch :: CoordinatorEpoch
  fe_governorGeneration :: GovernorGeneration
  fe_policyGeneration :: PolicyGeneration
  fe_sloGeneration :: SLOGeneration
  fe_valueGeneration :: ValueGeneration
  fe_fairnessGeneration :: FairnessGeneration
  fe_resourceGeneration :: ResourceGeneration
  fe_placementGeneration :: PlacementGeneration
  fe_topologyGeneration :: TopologyGeneration
  fe_conflictGeneration :: ConflictGeneration
  fe_evidenceGeneration :: InterferenceEvidenceGeneration
  fe_workerBoot :: WorkerBootId
  fe_workloadGeneration :: WorkloadGeneration
  fe_interventionGeneration :: InterventionGeneration

record AuthorityContext =
  au_coordinatorEpoch :: CoordinatorEpoch
  au_governorGeneration :: GovernorGeneration
  au_policyGeneration :: PolicyGeneration
  au_sloGeneration :: SLOGeneration
  au_valueGeneration :: ValueGeneration
  au_fairnessGeneration :: FairnessGeneration
  au_resourceGeneration :: ResourceGeneration
  au_placementGeneration :: PlacementGeneration
  au_topologyGeneration :: TopologyGeneration
  au_workloadGenerations :: "(WorkloadId, WorkloadGeneration) omap"
  au_workloadBoots :: "(WorkloadId, WorkerBootId) omap"

definition default_AuthorityContext :: AuthorityContext where
  "default_AuthorityContext =
     \<lparr>au_coordinatorEpoch = id_zero, au_governorGeneration = id_zero, au_policyGeneration = id_zero,
      au_sloGeneration = id_zero, au_valueGeneration = id_zero, au_fairnessGeneration = id_zero,
      au_resourceGeneration = id_zero, au_placementGeneration = id_zero,
      au_topologyGeneration = id_zero, au_workloadGenerations = [], au_workloadBoots = []\<rparr>"

record InterventionRecord =
  ir_id :: InterventionId
  ir_generation :: InterventionGeneration
  ir_cls :: InterventionClass
  ir_conflictId :: ConflictId
  ir_target :: WorkloadId
  ir_state :: LifecycleState
  ir_fence :: Fence
  ir_adapter :: string
  ir_authorizedAt :: TimeMs
  ir_dispatchedAt :: TimeMs
  ir_acknowledgedAt :: TimeMs
  ir_completedAt :: TimeMs
  ir_dispatchId :: DispatchId
  ir_attemptId :: AttemptId
  ir_ackNote :: string
  ir_interimStatus :: Status
  ir_result :: VerificationOutcome
  ir_trace :: "string list"
  ir_verificationReported :: bool

record FairnessRecord =
  fr_workload :: WorkloadId
  fr_interventionCount :: u64
  fr_consecutiveInterventions :: u32
  fr_deprivationDebt :: double
  fr_lastInterventionAt :: TimeMs

definition default_FairnessRecord :: FairnessRecord where
  "default_FairnessRecord =
     \<lparr>fr_workload = id_zero, fr_interventionCount = 0, fr_consecutiveInterventions = 0,
      fr_deprivationDebt = f64_zero, fr_lastInterventionAt = 0\<rparr>"

section \<open>Engine and governor state\<close>

record EngineState =
  es_policy :: ContentionPolicy
  es_conflicts :: "(ConflictId, ContentionConflict) omap"
  es_evidence :: "(InterferenceEvidenceId, InterferenceEvidence) omap"
  es_interventions :: "(InterventionId, InterventionRecord) omap"
  es_fairness :: "(WorkloadId, FairnessRecord) omap"
  es_authority :: AuthorityContext

definition default_EngineState :: EngineState where
  "default_EngineState =
     \<lparr>es_policy = default_ContentionPolicy, es_conflicts = [], es_evidence = [],
      es_interventions = [], es_fairness = [], es_authority = default_AuthorityContext\<rparr>"

record GovernorState =
  gs_engine :: EngineState
  gs_nextConflictId :: u64
  gs_nextEvidenceId :: u64
  gs_nextInterventionId :: u64
  gs_nextDispatchId :: u64
  gs_nextAttemptId :: u64
  gs_nextVerificationId :: u64
  gs_lastDigest :: u64

definition default_GovernorState :: GovernorState where
  "default_GovernorState =
     \<lparr>gs_engine = default_EngineState, gs_nextConflictId = 1, gs_nextEvidenceId = 1,
      gs_nextInterventionId = 1, gs_nextDispatchId = 1, gs_nextAttemptId = 1,
      gs_nextVerificationId = 1, gs_lastDigest = 0\<rparr>"

end
