(* ===== verification/CG_Engine.thy ===== *)
theory CG_Engine
  imports CG_Conflict
begin

text \<open>
  \<^verbatim>\<open>src/governor_engine.cpp\<close>: fences and their revalidation, feasibility, the effect model,
  the ranking of candidates and the evaluation pipeline, as the code has them. What the
  pipeline promises is shown in \<^verbatim>\<open>CG_Decision\<close>.
\<close>

section \<open>Intervention classes\<close>

fun is_disruptive :: "InterventionClass \<Rightarrow> bool" where
  "is_disruptive IC_THROTTLE = True"
| "is_disruptive IC_REDUCE_CONCURRENCY = True"
| "is_disruptive IC_REDUCE_BATCH = True"
| "is_disruptive IC_SERIALIZE = True"
| "is_disruptive IC_TIME_SLICE = True"
| "is_disruptive IC_REQUEST_PREEMPTION = True"
| "is_disruptive IC_REQUEST_MIGRATION = True"
| "is_disruptive IC_REQUEST_REPLACEMENT = True"
| "is_disruptive IC_CHANGE_PLACEMENT = True"
| "is_disruptive IC_REQUEST_BANDWIDTH_REALLOCATION = True"
| "is_disruptive IC_REQUEST_COMMUNICATION_REPLAN = True"
| "is_disruptive IC_REQUEST_COLLECTIVE_RESCHEDULE = True"
| "is_disruptive IC_RELEASE_OPTIONAL_RESIDENCY = True"
| "is_disruptive IC_REDUCE_MEMORY_PRESSURE = True"
| "is_disruptive IC_SHED_LOW_VALUE_WORK = True"
| "is_disruptive IC_DEFER_NEW_WORK = True"
| "is_disruptive _ = False"

definition class_order :: "InterventionClass list" where
  "class_order =
     [IC_THROTTLE, IC_REDUCE_CONCURRENCY, IC_REDUCE_BATCH, IC_SERIALIZE, IC_TIME_SLICE,
      IC_REQUEST_PREEMPTION, IC_REQUEST_MIGRATION, IC_REQUEST_REPLACEMENT, IC_CHANGE_PLACEMENT,
      IC_REQUEST_BANDWIDTH_REALLOCATION, IC_REQUEST_COMMUNICATION_REPLAN,
      IC_REQUEST_COLLECTIVE_RESCHEDULE, IC_RELEASE_OPTIONAL_RESIDENCY, IC_REDUCE_MEMORY_PRESSURE,
      IC_SHED_LOW_VALUE_WORK, IC_PROTECT_HIGH_VALUE_WORK, IC_DEFER_NEW_WORK, IC_ESCALATE,
      IC_NO_ACTION, IC_OBSERVE_MORE, IC_MANUAL_INTERVENTION_REQUIRED]"

text \<open>The loop over the order: the index of the first match, else its length.\<close>

fun index_from :: "InterventionClass list \<Rightarrow> InterventionClass \<Rightarrow> nat" where
  "index_from [] c = 0"
| "index_from (x # xs) c = (if x = c then 0 else Suc (index_from xs c))"

definition class_index :: "InterventionClass \<Rightarrow> nat" where
  "class_index c = index_from class_order c"

definition with_effect ::
  "double \<Rightarrow> double \<Rightarrow> double \<Rightarrow> TimeMs \<Rightarrow> string \<Rightarrow> InterventionCandidate \<Rightarrow> InterventionCandidate" where
  "with_effect reduction neighbor revers time adapter c =
     c\<lparr>cand_expectedConflictReduction := reduction, cand_expectedNeighborDegradation := neighbor,
       cand_reversibility := revers, cand_timeToEffect := time, cand_adapter := adapter\<rparr>"

fun class_effect :: "InterventionClass \<Rightarrow> InterventionCandidate \<Rightarrow> InterventionCandidate" where
  "class_effect IC_THROTTLE =
     with_effect (f64_lit 5 10) (f64_lit 15 100) (f64_lit 9 10) 50 ''IThrottleAdapter''"
| "class_effect IC_REDUCE_CONCURRENCY =
     with_effect (f64_lit 4 10) (f64_lit 20 100) (f64_lit 85 100) 100 ''IThrottleAdapter''"
| "class_effect IC_REDUCE_BATCH =
     with_effect (f64_lit 35 100) (f64_lit 12 100) (f64_lit 9 10) 50 ''IThrottleAdapter''"
| "class_effect IC_SERIALIZE =
     with_effect (f64_lit 55 100) (f64_lit 25 100) (f64_lit 9 10) 20 ''IThrottleAdapter''"
| "class_effect IC_TIME_SLICE =
     with_effect (f64_lit 3 10) (f64_lit 1 10) (f64_lit 95 100) 40 ''IThrottleAdapter''"
| "class_effect IC_REQUEST_PREEMPTION =
     with_effect (f64_lit 8 10) (f64_lit 5 10) (f64_lit 1 10) 200 ''IPreemptionAdapter''"
| "class_effect IC_REQUEST_MIGRATION =
     with_effect (f64_lit 85 100) (f64_lit 5 100) (f64_lit 3 10) 500 ''IPlacementAdapter''"
| "class_effect IC_CHANGE_PLACEMENT =
     with_effect (f64_lit 7 10) (f64_lit 1 10) (f64_lit 3 10) 300 ''IPlacementAdapter''"
| "class_effect IC_REQUEST_BANDWIDTH_REALLOCATION =
     with_effect (f64_lit 6 10) (f64_lit 8 100) (f64_lit 8 10) 100 ''IBandwidthAdapter''"
| "class_effect IC_REQUEST_COMMUNICATION_REPLAN =
     with_effect (f64_lit 5 10) (f64_lit 5 100) (f64_lit 4 10) 200 ''ICommunicationAdapter''"
| "class_effect IC_REQUEST_COLLECTIVE_RESCHEDULE =
     with_effect (f64_lit 55 100) (f64_lit 5 100) (f64_lit 5 10) 150 ''ICollectiveAdapter''"
| "class_effect IC_RELEASE_OPTIONAL_RESIDENCY =
     with_effect (f64_lit 2 10) (f64_lit 5 100) (f64_lit 6 10) 30 ''IPlacementAdapter''"
| "class_effect IC_REDUCE_MEMORY_PRESSURE =
     with_effect (f64_lit 4 10) (f64_lit 1 10) (f64_lit 8 10) 80 ''IThrottleAdapter''"
| "class_effect IC_DEFER_NEW_WORK =
     with_effect (f64_lit 3 10) (f64_lit 2 100) (f64_lit 9 10) 30 ''IAdmissionAdapter''"
| "class_effect IC_SHED_LOW_VALUE_WORK =
     with_effect (f64_lit 45 100) (f64_lit 35 100) (f64_lit 1 10) 120 ''IAdmissionAdapter''"
| "class_effect IC_PROTECT_HIGH_VALUE_WORK =
     with_effect (f64_lit 35 100) (f64_lit 1 10) (f64_lit 8 10) 60 ''IPreemptionAdapter''"
| "class_effect _ = with_effect f64_zero f64_zero (f64_lit 5 10) 0 ''''"

definition default_effect :: "InterventionClass \<Rightarrow> double \<Rightarrow> InterventionCandidate \<Rightarrow> InterventionCandidate" where
  "default_effect cls conflictDegradation c0 =
     (let c = class_effect cls c0
      in c\<lparr>cand_expectedTargetImprovement :=
             f64_max f64_zero (f64_min f64_one (cand_expectedConflictReduction c)),
           cand_expectedRecoveryCost := (if cls = IC_REQUEST_PREEMPTION then f64_one else f64_zero),
           cand_expectedCost := f64_times (f64_lit 1 10) (cand_expectedNeighborDegradation c),
           cand_confidence := f64_lit 5 10\<rparr>)"

section \<open>Authority fencing\<close>

definition make_fence ::
  "AuthorityContext \<Rightarrow> ConflictGeneration \<Rightarrow> InterferenceEvidenceGeneration \<Rightarrow> WorkloadId
    \<Rightarrow> InterventionGeneration \<Rightarrow> Fence" where
  "make_fence ctx conflictGeneration evidenceGeneration target interventionGeneration =
     \<lparr>fe_coordinatorEpoch = au_coordinatorEpoch ctx,
      fe_governorGeneration = au_governorGeneration ctx,
      fe_policyGeneration = au_policyGeneration ctx,
      fe_sloGeneration = au_sloGeneration ctx,
      fe_valueGeneration = au_valueGeneration ctx,
      fe_fairnessGeneration = au_fairnessGeneration ctx,
      fe_resourceGeneration = au_resourceGeneration ctx,
      fe_placementGeneration = au_placementGeneration ctx,
      fe_topologyGeneration = au_topologyGeneration ctx,
      fe_conflictGeneration = conflictGeneration,
      fe_evidenceGeneration = evidenceGeneration,
      fe_workerBoot = (case om_find (au_workloadBoots ctx) target of Some b \<Rightarrow> b | None \<Rightarrow> id_zero),
      fe_workloadGeneration =
        (case om_find (au_workloadGenerations ctx) target of Some g \<Rightarrow> g | None \<Rightarrow> id_zero),
      fe_interventionGeneration = interventionGeneration\<rparr>"

definition revalidate :: "EngineState \<Rightarrow> Fence \<Rightarrow> WorkloadId \<Rightarrow> Status" where
  "revalidate s f target =
     (let a = es_authority s
      in if fe_coordinatorEpoch f \<noteq> au_coordinatorEpoch a
         then status_bad SC_STALE_AUTHORITY ''coordinator epoch stale''
         else if fe_governorGeneration f \<noteq> au_governorGeneration a
         then status_bad SC_STALE_AUTHORITY ''governor generation stale''
         else if fe_policyGeneration f \<noteq> au_policyGeneration a
         then status_bad SC_POLICY_SUPERSEDED ''policy generation stale''
         else if fe_sloGeneration f \<noteq> au_sloGeneration a
         then status_bad SC_STALE_AUTHORITY ''SLO generation stale''
         else if fe_valueGeneration f \<noteq> au_valueGeneration a
         then status_bad SC_STALE_AUTHORITY ''value generation stale''
         else if fe_fairnessGeneration f \<noteq> au_fairnessGeneration a
         then status_bad SC_STALE_AUTHORITY ''fairness generation stale''
         else if fe_resourceGeneration f \<noteq> au_resourceGeneration a
         then status_bad SC_STALE_AUTHORITY ''resource generation stale''
         else if fe_placementGeneration f \<noteq> au_placementGeneration a
         then status_bad SC_STALE_AUTHORITY ''placement generation stale''
         else if fe_topologyGeneration f \<noteq> au_topologyGeneration a
         then status_bad SC_STALE_AUTHORITY ''topology generation stale''
         else if om_find (au_workloadGenerations a) target \<noteq> Some (fe_workloadGeneration f)
         then status_bad SC_STALE_AUTHORITY ''workload generation stale''
         else if om_find (au_workloadBoots a) target \<noteq> Some (fe_workerBoot f)
         then status_bad SC_STALE_AUTHORITY ''worker boot stale''
         else status_good)"

section \<open>Feasibility\<close>

record FeasibilityResult =
  feas_status :: FeasibilityStatus
  feas_reasons :: "string list"

text \<open>\<^verbatim>\<open>if (bad) { r.status = INFEASIBLE; r.reasons.push_back(reason); }\<close>\<close>

definition infeasible_if :: "bool \<Rightarrow> string \<Rightarrow> FeasibilityResult \<Rightarrow> FeasibilityResult" where
  "infeasible_if bad reason r =
     (if bad then r\<lparr>feas_status := FS_INFEASIBLE, feas_reasons := feas_reasons r @ [reason]\<rparr> else r)"

definition throttle_floor_bound :: double where
  "throttle_floor_bound = f64_minus f64_one (f64_lit 1 1000000000)"

definition throttle_checks ::
  "ContentionPolicy \<Rightarrow> WorkloadPolicy \<Rightarrow> FeasibilityResult \<Rightarrow> FeasibilityResult" where
  "throttle_checks p wp r =
     infeasible_if (f64_ge (wp_hardSloFloor wp) throttle_floor_bound) ''would violate hard SLO floor''
       (infeasible_if (\<not> wp_throttlingAllowed wp \<or> \<not> p_throttleAllowed p) ''throttling disabled'' r)"

definition preemption_checks ::
  "ContentionPolicy \<Rightarrow> WorkloadPolicy \<Rightarrow> FeasibilityResult \<Rightarrow> FeasibilityResult" where
  "preemption_checks p wp r =
     infeasible_if (\<not> wp_preemptionAllowed wp \<or> \<not> p_preemptionAllowed p) ''preemption disabled''
       (infeasible_if (wp_nonPreemptible wp) ''non-preemptible workload'' r)"

fun class_checks ::
  "ContentionPolicy \<Rightarrow> WorkloadPolicy \<Rightarrow> InterventionClass \<Rightarrow> FeasibilityResult \<Rightarrow> FeasibilityResult" where
  "class_checks p wp IC_THROTTLE r = throttle_checks p wp r"
| "class_checks p wp IC_REDUCE_CONCURRENCY r = throttle_checks p wp r"
| "class_checks p wp IC_REDUCE_BATCH r = throttle_checks p wp r"
| "class_checks p wp IC_SERIALIZE r = throttle_checks p wp r"
| "class_checks p wp IC_TIME_SLICE r = throttle_checks p wp r"
| "class_checks p wp IC_REDUCE_MEMORY_PRESSURE r = throttle_checks p wp r"
| "class_checks p wp IC_REQUEST_PREEMPTION r = preemption_checks p wp r"
| "class_checks p wp IC_REQUEST_REPLACEMENT r = preemption_checks p wp r"
| "class_checks p wp IC_REQUEST_MIGRATION r =
     infeasible_if (\<not> wp_migrationAllowed wp \<or> \<not> p_migrationAllowed p) ''migration disabled''
       (infeasible_if (wp_nonPreemptible wp) ''non-preemptible workload'' r)"
| "class_checks p wp IC_DEFER_NEW_WORK r =
     infeasible_if (\<not> wp_deferralAllowed wp \<or> \<not> p_admissionRestrictionAllowed p) ''deferral disabled'' r"
| "class_checks p wp IC_CHANGE_PLACEMENT r =
     infeasible_if (\<not> wp_placementChangeAllowed wp \<or> \<not> p_placementChangeAllowed p)
       ''placement change disabled'' r"
| "class_checks p wp IC_REQUEST_BANDWIDTH_REALLOCATION r =
     infeasible_if (\<not> wp_bandwidthRequestAllowed wp \<or> \<not> p_bandwidthRequestAllowed p)
       ''bandwidth request disabled'' r"
| "class_checks p wp IC_REQUEST_COMMUNICATION_REPLAN r =
     infeasible_if (\<not> p_bandwidthRequestAllowed p) ''communication replan disabled'' r"
| "class_checks p wp IC_REQUEST_COLLECTIVE_RESCHEDULE r =
     infeasible_if (\<not> wp_collectiveSchedulingAllowed wp \<or> \<not> p_collectiveSchedulingAllowed p)
       ''collective reschedule disabled'' r"
| "class_checks p wp _ r = r"

definition fairness_capped :: "EngineState \<Rightarrow> WorkloadId \<Rightarrow> bool" where
  "fairness_capped s target =
     (case om_find (es_fairness s) target of
        None \<Rightarrow> False
      | Some f \<Rightarrow> fr_consecutiveInterventions f \<ge> p_maxConsecutiveInterventionsPerWorkload (es_policy s))"

definition check_feasibility ::
  "EngineState \<Rightarrow> WorkloadId \<Rightarrow> InterventionClass \<Rightarrow> Fence \<Rightarrow> FeasibilityResult" where
  "check_feasibility s target cls f =
     (let r = \<lparr>feas_status = FS_FEASIBLE, feas_reasons = []\<rparr>;
          wp = workload_policy_for (es_policy s) target;
          rv = revalidate s f target
      in if \<not> status_ok rv
         then \<lparr>feas_status = FS_INFEASIBLE, feas_reasons = [to_string_StatusCode (st_code rv)]\<rparr>
         else infeasible_if (fairness_capped s target) ''fairness limit reached for target''
                (class_checks (es_policy s) wp cls r))"

section \<open>Ranking\<close>

text \<open>The lambda \<^verbatim>\<open>better\<close> of the pipeline; doubles compare unequal when either is a NaN.\<close>

definition better :: "ContentionPolicy \<Rightarrow> InterventionCandidate \<Rightarrow> InterventionCandidate \<Rightarrow> bool" where
  "better p a b =
     (if \<not> f64_eq (cand_expectedConflictReduction a) (cand_expectedConflictReduction b)
      then f64_gt (cand_expectedConflictReduction a) (cand_expectedConflictReduction b)
      else if \<not> f64_eq (cand_expectedNeighborDegradation a) (cand_expectedNeighborDegradation b)
      then f64_lt (cand_expectedNeighborDegradation a) (cand_expectedNeighborDegradation b)
      else let va = wp_value (workload_policy_for p (cand_target a));
               vb = wp_value (workload_policy_for p (cand_target b))
      in if \<not> f64_eq va vb then f64_lt va vb
      else if \<not> f64_eq (cand_expectedCost a) (cand_expectedCost b)
      then f64_lt (cand_expectedCost a) (cand_expectedCost b)
      else if \<not> f64_eq (cand_reversibility a) (cand_reversibility b)
      then f64_gt (cand_reversibility a) (cand_reversibility b)
      else let ia = class_index (cand_cls a); ib = class_index (cand_cls b)
      in if ia \<noteq> ib then ia < ib
      else if id_value (cand_target a) \<noteq> id_value (cand_target b)
      then id_value (cand_target a) < id_value (cand_target b)
      else cand_cls a < cand_cls b)"

text \<open>
  \<^verbatim>\<open>std::stable_sort\<close> with a strict comparison: an element is placed before the first element
  that is not less than it, so equivalent elements keep their order.
\<close>

fun stable_insert :: "('a \<Rightarrow> 'a \<Rightarrow> bool) \<Rightarrow> 'a \<Rightarrow> 'a list \<Rightarrow> 'a list" where
  "stable_insert lt x [] = [x]"
| "stable_insert lt x (y # ys) = (if lt y x then y # stable_insert lt x ys else x # y # ys)"

definition stable_sort :: "('a \<Rightarrow> 'a \<Rightarrow> bool) \<Rightarrow> 'a list \<Rightarrow> 'a list" where
  "stable_sort lt xs = foldr (stable_insert lt) xs []"

section \<open>The evaluation pipeline\<close>

text \<open>\<^verbatim>\<open>std::to_string\<close> of an unsigned integer.\<close>

fun dec_digits :: "nat \<Rightarrow> string" where
  "dec_digits n = (if n < 10 then [char_of (48 + n)] else dec_digits (n div 10) @ [char_of (48 + n mod 10)])"

declare dec_digits.simps [simp del]

definition dec_string :: "u64 \<Rightarrow> string" where
  "dec_string w = dec_digits (unat w)"

text \<open>Step 1: the loop over the conflict's evidence, as (usable evidence, rejections).\<close>

fun scan_evidence ::
  "(InterferenceEvidenceId, InterferenceEvidence) omap \<Rightarrow> InterferenceEvidenceId list
    \<Rightarrow> InterferenceEvidence list \<times> RejectedIntervention list" where
  "scan_evidence evm [] = ([], [])"
| "scan_evidence evm (eid # eids) =
     (let (evids, rejs) = scan_evidence evm eids
      in case om_find evm eid of
           None \<Rightarrow> (evids, rejs)
         | Some e \<Rightarrow>
             if ie_status e \<noteq> ES_CURRENT
             then (evids, \<lparr>rej_cls = IC_NO_ACTION,
                           rej_reason = ''evidence not current: '' @ to_string_EvidenceStatus (ie_status e)\<rparr> # rejs)
             else if \<not> structurally_valid e
             then (evids, \<lparr>rej_cls = IC_NO_ACTION, rej_reason = ''evidence structurally invalid''\<rparr> # rejs)
             else (e # evids, rejs))"

text \<open>Step 2: the gate for destructive action and the reasons it records.\<close>

definition destructive_gate ::
  "ContentionPolicy \<Rightarrow> InterferenceEvidence \<Rightarrow> bool \<times> RejectedIntervention list" where
  "destructive_gate p primary =
     (let a = ie_attribution primary < p_minAttributionForDisruptive p;
          c = f64_lt (ie_confidence primary) (p_minConfidenceForDisruptive p);
          u = ie_unresolvedConfounders primary \<noteq> []
      in (\<not> a \<and> \<not> c \<and> \<not> u,
          (if a then [\<lparr>rej_cls = IC_NO_ACTION, rej_reason = ''attribution below disruptive threshold: ''
                         @ to_string_AttributionStrength (ie_attribution primary)\<rparr>] else [])
          @ (if c then [\<lparr>rej_cls = IC_NO_ACTION, rej_reason = ''confidence below disruptive threshold''\<rparr>] else [])
          @ (if u then [\<lparr>rej_cls = IC_NO_ACTION, rej_reason = ''evidence has unresolved confounders''\<rparr>] else [])))"

definition eligible_classes :: "InterventionClass list" where
  "eligible_classes =
     [IC_THROTTLE, IC_REDUCE_CONCURRENCY, IC_REDUCE_BATCH, IC_SERIALIZE, IC_TIME_SLICE,
      IC_REQUEST_PREEMPTION, IC_REQUEST_MIGRATION, IC_REQUEST_REPLACEMENT, IC_CHANGE_PLACEMENT,
      IC_REQUEST_BANDWIDTH_REALLOCATION, IC_REQUEST_COMMUNICATION_REPLAN,
      IC_REQUEST_COLLECTIVE_RESCHEDULE, IC_RELEASE_OPTIONAL_RESIDENCY, IC_REDUCE_MEMORY_PRESSURE,
      IC_DEFER_NEW_WORK, IC_SHED_LOW_VALUE_WORK, IC_PROTECT_HIGH_VALUE_WORK]"

text \<open>Step 5: one candidate for a (target, class) pair, and the loops over the pairs.\<close>

definition build_candidate ::
  "EngineState \<Rightarrow> AuthorityContext \<Rightarrow> ContentionConflict \<Rightarrow> InterferenceEvidence \<Rightarrow> WorkloadId
    \<Rightarrow> InterventionClass \<Rightarrow> InterventionCandidate" where
  "build_candidate s ctx c primary target cls =
     (let cand0 = \<lparr>cand_cls = cls, cand_target = target, cand_expectedConflictReduction = f64_zero,
                   cand_expectedTargetImprovement = f64_zero, cand_expectedNeighborDegradation = f64_zero,
                   cand_expectedCost = f64_zero, cand_expectedRecoveryCost = f64_zero,
                   cand_confidence = f64_zero, cand_reversibility = f64_lit 5 10, cand_timeToEffect = 0,
                   cand_feasible = FS_INFEASIBLE, cand_infeasibilityReasons = [], cand_adapter = ''''\<rparr>;
          cand = default_effect cls (cc_degradation c) cand0;
          f = make_fence ctx (cc_generation c) (ie_generation primary) target (Id 1);
          fr = check_feasibility s target cls f
      in cand\<lparr>cand_feasible := feas_status fr, cand_infeasibilityReasons := feas_reasons fr\<rparr>)"

definition build_candidates ::
  "EngineState \<Rightarrow> AuthorityContext \<Rightarrow> ContentionConflict \<Rightarrow> InterferenceEvidence \<Rightarrow> WorkloadId list
    \<Rightarrow> InterventionCandidate list" where
  "build_candidates s ctx c primary targets =
     concat (map (\<lambda>target. map (build_candidate s ctx c primary target)
                             (filter (class_eligible (es_policy s)) eligible_classes)) targets)"

definition feasible_candidates :: "InterventionCandidate list \<Rightarrow> InterventionCandidate list" where
  "feasible_candidates all = filter (\<lambda>cand. cand_feasible cand = FS_FEASIBLE) all"

text \<open>Steps 5 and 6: the decision over the candidates of the sorted targets.\<close>

definition decide ::
  "EngineState \<Rightarrow> AuthorityContext \<Rightarrow> ContentionConflict \<Rightarrow> InterferenceEvidence \<Rightarrow> WorkloadId list
    \<Rightarrow> ConflictEvaluation \<Rightarrow> ConflictEvaluation" where
  "decide s ctx c primary targets ev =
     (let all = build_candidates s ctx c primary targets;
          ev' = ev\<lparr>ce_candidates := all\<rparr>
      in case stable_sort (better (es_policy s)) (feasible_candidates all) of
           [] \<Rightarrow> ev'\<lparr>ce_state := CS_UNRESOLVED,
                    ce_status := status_bad SC_NO_LEGAL_INTERVENTION ''no legal intervention''\<rparr>
         | best # _ \<Rightarrow>
             ev'\<lparr>ce_decision := Some \<lparr>dec_chosen = best,
                   dec_rankingTrace = [''selected '' @ to_string_InterventionClass (cand_cls best)
                     @ '' on workload '' @ dec_string (id_value (cand_target best))]\<rparr>,
                 ce_state := CS_ACTIONABLE\<rparr>)"

definition reject :: "RejectedIntervention list \<Rightarrow> ConflictEvaluation \<Rightarrow> ConflictEvaluation" where
  "reject rs ev = ev\<lparr>ce_rejected := ce_rejected ev @ rs\<rparr>"

definition stop_with :: "ConflictState \<Rightarrow> Status \<Rightarrow> ConflictEvaluation \<Rightarrow> ConflictEvaluation" where
  "stop_with st status ev = ev\<lparr>ce_state := st, ce_status := status\<rparr>"

text \<open>Steps 2 to 6 for a conflict with usable evidence, whose first element is the primary one.\<close>

definition evaluate_with ::
  "EngineState \<Rightarrow> AuthorityContext \<Rightarrow> ContentionConflict \<Rightarrow> InterferenceEvidence
    \<Rightarrow> ConflictEvaluation \<Rightarrow> ConflictEvaluation" where
  "evaluate_with s ctx c primary ev0 =
     (let (destructive_ok, rejs) = destructive_gate (es_policy s) primary;
          ev = reject rejs ev0;
          targets = sort (cc_associated c)
      in if f64_lt (cc_degradation c) (p_actionabilityThreshold (es_policy s))
         then stop_with CS_UNKNOWN (status_bad SC_INSUFFICIENT_EVIDENCE ''not actionable'')
                (reject [\<lparr>rej_cls = IC_NO_ACTION,
                          rej_reason = ''degradation below actionability threshold''\<rparr>] ev)
         else if targets = []
         then stop_with CS_UNRESOLVED (status_bad SC_CONFOUNDED ''no associated workload identified'')
                (reject [\<lparr>rej_cls = IC_OBSERVE_MORE,
                          rej_reason = ''no justified associated workload; correlation alone is not enough''\<rparr>] ev)
         else if \<not> destructive_ok
         then stop_with CS_UNRESOLVED (status_bad SC_INSUFFICIENT_EVIDENCE
                ''insufficient attribution/confidence for destructive action'') ev
         else decide s ctx c primary targets ev)"

definition evaluate_conflict :: "EngineState \<Rightarrow> ConflictId \<Rightarrow> AuthorityContext \<Rightarrow> ConflictEvaluation" where
  "evaluate_conflict s conflictId ctx =
     (let ev0 = default_ConflictEvaluation\<lparr>ce_conflictId := conflictId\<rparr>
      in case om_find (es_conflicts s) conflictId of
           None \<Rightarrow> stop_with CS_UNKNOWN (status_bad SC_INVALID_INPUT ''unknown conflict'') ev0
         | Some c \<Rightarrow>
             let (evids, rejs) = scan_evidence (es_evidence s) (cc_evidenceIds c);
                 ev = reject rejs (ev0\<lparr>ce_state := cc_state c, ce_binding := cc_binding c,
                                      ce_degradation := cc_degradation c, ce_severity := cc_severity c\<rparr>)
             in case evids of
                  [] \<Rightarrow> stop_with CS_UNKNOWN
                          (status_bad SC_INSUFFICIENT_EVIDENCE ''no CURRENT, structurally valid evidence'')
                          (reject [\<lparr>rej_cls = IC_NO_ACTION, rej_reason = ''no current valid evidence''\<rparr>] ev)
                | primary # _ \<Rightarrow> evaluate_with s ctx c primary ev)"

text \<open>The static counter of \<^verbatim>\<open>next_intervention_id\<close>, as explicit state.\<close>

definition next_intervention_id :: "u64 \<Rightarrow> InterventionId \<times> u64" where
  "next_intervention_id counter = (Id counter, counter + 1)"

end
