(* ===== verification/CG_Decision.thy ===== *)
theory CG_Decision
  imports CG_Engine
begin

text \<open>
  What the evaluation pipeline of \<^verbatim>\<open>CG_Engine\<close> promises. Fencing: a fence is current exactly
  when every generation it carries is. Feasibility: the checks decide the hard constraints.
  Ranking: on candidates without NaN the comparison is a lexicographic order on a key, so
  the stable sort is well defined and its head is the unique best feasible candidate,
  whatever the enumeration order.
\<close>

section \<open>Fencing\<close>

definition fence_current :: "AuthorityContext \<Rightarrow> Fence \<Rightarrow> WorkloadId \<Rightarrow> bool" where
  "fence_current a f target \<longleftrightarrow>
     fe_coordinatorEpoch f = au_coordinatorEpoch a \<and> fe_governorGeneration f = au_governorGeneration a
     \<and> fe_policyGeneration f = au_policyGeneration a \<and> fe_sloGeneration f = au_sloGeneration a
     \<and> fe_valueGeneration f = au_valueGeneration a \<and> fe_fairnessGeneration f = au_fairnessGeneration a
     \<and> fe_resourceGeneration f = au_resourceGeneration a
     \<and> fe_placementGeneration f = au_placementGeneration a
     \<and> fe_topologyGeneration f = au_topologyGeneration a
     \<and> om_find (au_workloadGenerations a) target = Some (fe_workloadGeneration f)
     \<and> om_find (au_workloadBoots a) target = Some (fe_workerBoot f)"

lemma revalidate_ok: "st_code (revalidate s f target) = SC_OK \<longleftrightarrow> fence_current (es_authority s) f target"
  by (simp add: revalidate_def fence_current_def Let_def)

lemma revalidate_good: "fence_current (es_authority s) f target \<Longrightarrow> revalidate s f target = status_good"
  by (simp add: revalidate_def fence_current_def Let_def)

lemma revalidate_code:
  "st_code (revalidate s f target) \<in> {SC_OK, SC_STALE_AUTHORITY, SC_POLICY_SUPERSEDED}"
  by (simp add: revalidate_def Let_def)

lemma revalidate_superseded:
  "st_code (revalidate s f target) = SC_POLICY_SUPERSEDED \<longleftrightarrow>
     fe_coordinatorEpoch f = au_coordinatorEpoch (es_authority s)
     \<and> fe_governorGeneration f = au_governorGeneration (es_authority s)
     \<and> fe_policyGeneration f \<noteq> au_policyGeneration (es_authority s)"
  by (simp add: revalidate_def Let_def)

lemma make_fence_current:
  "fence_current a (make_fence a cg eg target ig) target \<longleftrightarrow>
     om_find (au_workloadGenerations a) target \<noteq> None \<and> om_find (au_workloadBoots a) target \<noteq> None"
  by (auto simp: fence_current_def make_fence_def split: option.splits)

section \<open>Feasibility\<close>

fun throttle_class :: "InterventionClass \<Rightarrow> bool" where
  "throttle_class cls \<longleftrightarrow> cls \<in> {IC_THROTTLE, IC_REDUCE_CONCURRENCY, IC_REDUCE_BATCH, IC_SERIALIZE,
     IC_TIME_SLICE, IC_REDUCE_MEMORY_PRESSURE}"

text \<open>The hard constraints of one class, as a predicate.\<close>

definition hard_constraints :: "ContentionPolicy \<Rightarrow> WorkloadPolicy \<Rightarrow> InterventionClass \<Rightarrow> bool" where
  "hard_constraints p wp cls \<longleftrightarrow>
     (throttle_class cls \<longrightarrow> wp_throttlingAllowed wp \<and> p_throttleAllowed p
        \<and> \<not> f64_ge (wp_hardSloFloor wp) throttle_floor_bound)
   \<and> (cls \<in> {IC_REQUEST_PREEMPTION, IC_REQUEST_REPLACEMENT} \<longrightarrow>
        \<not> wp_nonPreemptible wp \<and> wp_preemptionAllowed wp \<and> p_preemptionAllowed p)
   \<and> (cls = IC_REQUEST_MIGRATION \<longrightarrow> \<not> wp_nonPreemptible wp \<and> wp_migrationAllowed wp \<and> p_migrationAllowed p)
   \<and> (cls = IC_DEFER_NEW_WORK \<longrightarrow> wp_deferralAllowed wp \<and> p_admissionRestrictionAllowed p)
   \<and> (cls = IC_CHANGE_PLACEMENT \<longrightarrow> wp_placementChangeAllowed wp \<and> p_placementChangeAllowed p)
   \<and> (cls = IC_REQUEST_BANDWIDTH_REALLOCATION \<longrightarrow> wp_bandwidthRequestAllowed wp \<and> p_bandwidthRequestAllowed p)
   \<and> (cls = IC_REQUEST_COMMUNICATION_REPLAN \<longrightarrow> p_bandwidthRequestAllowed p)
   \<and> (cls = IC_REQUEST_COLLECTIVE_RESCHEDULE \<longrightarrow>
        wp_collectiveSchedulingAllowed wp \<and> p_collectiveSchedulingAllowed p)"

definition consistent_result :: "FeasibilityResult \<Rightarrow> bool" where
  "consistent_result r \<longleftrightarrow> (feas_status r = FS_FEASIBLE \<longleftrightarrow> feas_reasons r = [])"

lemma infeasible_if_status [simp]:
  "feas_status (infeasible_if b reason r) = FS_FEASIBLE \<longleftrightarrow> \<not> b \<and> feas_status r = FS_FEASIBLE"
  by (simp add: infeasible_if_def)

lemma infeasible_if_consistent [simp]:
  "consistent_result r \<Longrightarrow> consistent_result (infeasible_if b reason r)"
  by (simp add: infeasible_if_def consistent_result_def)

lemmas class_check_defs = throttle_checks_def preemption_checks_def

lemma class_checks_status:
  "feas_status (class_checks p wp cls r) = FS_FEASIBLE \<longleftrightarrow> hard_constraints p wp cls \<and> feas_status r = FS_FEASIBLE"
  by (cases cls) (auto simp: class_check_defs hard_constraints_def)

lemma class_checks_consistent: "consistent_result r \<Longrightarrow> consistent_result (class_checks p wp cls r)"
  by (cases cls) (simp_all add: class_check_defs)

lemma check_feasibility_iff:
  "feas_status (check_feasibility s target cls f) = FS_FEASIBLE \<longleftrightarrow>
     fence_current (es_authority s) f target
     \<and> hard_constraints (es_policy s) (workload_policy_for (es_policy s) target) cls
     \<and> \<not> fairness_capped s target"
  by (auto simp: check_feasibility_def Let_def class_checks_status status_ok_def revalidate_ok)

lemma check_feasibility_reasons: "consistent_result (check_feasibility s target cls f)"
proof -
  have "consistent_result \<lparr>feas_status = FS_FEASIBLE, feas_reasons = []\<rparr>"
    by (simp add: consistent_result_def)
  then show ?thesis
    by (simp add: check_feasibility_def Let_def class_checks_consistent) (simp add: consistent_result_def)
qed

section \<open>Sorting by a strict weak order\<close>

locale strict_weak =
  fixes lt :: "'a \<Rightarrow> 'a \<Rightarrow> bool" and ok :: "'a \<Rightarrow> bool"
  assumes asym: "ok x \<Longrightarrow> ok y \<Longrightarrow> lt x y \<Longrightarrow> \<not> lt y x"
    and neg_trans: "ok x \<Longrightarrow> ok y \<Longrightarrow> ok z \<Longrightarrow> lt x z \<Longrightarrow> lt x y \<or> lt y z"
begin

lemma trans_ok: "ok x \<Longrightarrow> ok y \<Longrightarrow> ok z \<Longrightarrow> lt x y \<Longrightarrow> lt y z \<Longrightarrow> lt x z"
  using asym neg_trans by blast

lemma insert_mset: "mset (stable_insert lt x ys) = add_mset x (mset ys)"
  by (induction ys) auto

lemma sort_mset: "mset (stable_sort lt xs) = mset xs"
  by (induction xs) (simp_all add: stable_sort_def insert_mset)

lemma sort_set: "set (stable_sort lt xs) = set xs"
  using sort_mset by (metis set_mset_mset)

lemma insert_set: "set (stable_insert lt x ys) = insert x (set ys)"
  using insert_mset [of x ys] by (metis set_mset_mset set_mset_add_mset_insert)

lemma insert_sorted:
  assumes "ok x" "\<forall>y \<in> set ys. ok y" "sorted_wrt (\<lambda>a b. \<not> lt b a) ys"
  shows "sorted_wrt (\<lambda>a b. \<not> lt b a) (stable_insert lt x ys)"
  using assms
proof (induction ys)
  case (Cons y ys)
  show ?case
  proof (cases "lt y x")
    case True
    then show ?thesis using Cons asym by (auto simp: insert_set)
  next
    case False
    have "\<not> lt z x" if "z \<in> set ys" for z
      using Cons.prems that False neg_trans [of z y x] by auto
    then show ?thesis using Cons.prems False by auto
  qed
qed simp

lemma sort_sorted: "\<forall>x \<in> set xs. ok x \<Longrightarrow> sorted_wrt (\<lambda>a b. \<not> lt b a) (stable_sort lt xs)"
proof (induction xs)
  case (Cons x xs)
  then have "sorted_wrt (\<lambda>a b. \<not> lt b a) (stable_insert lt x (stable_sort lt xs))"
    by (intro insert_sorted) (simp_all add: sort_set)
  then show ?case by (simp add: stable_sort_def)
qed (simp add: stable_sort_def)

text \<open>Equivalent elements keep their order.\<close>

lemma insert_stable:
  assumes "ok x" "ok z" "\<forall>y \<in> set ys. ok y" "sorted_wrt (\<lambda>a b. \<not> lt b a) ys"
  defines "eqv \<equiv> \<lambda>a. \<not> lt a z \<and> \<not> lt z a"
  shows "filter eqv (stable_insert lt x ys) = filter eqv (x # ys)"
  using assms(1-4)
proof (induction ys)
  case (Cons y ys)
  show ?case
  proof (cases "lt y x")
    case True
    then have "\<not> (eqv x \<and> eqv y)" using Cons.prems neg_trans [of y z x] by (auto simp: eqv_def)
    then show ?thesis using True Cons by auto
  qed simp
qed simp

lemma sort_stable:
  assumes "ok z" "\<forall>x \<in> set xs. ok x"
  shows "filter (\<lambda>a. \<not> lt a z \<and> \<not> lt z a) (stable_sort lt xs) = filter (\<lambda>a. \<not> lt a z \<and> \<not> lt z a) xs"
  using assms(2)
proof (induction xs)
  case (Cons x xs)
  have "filter (\<lambda>a. \<not> lt a z \<and> \<not> lt z a) (stable_insert lt x (stable_sort lt xs)) =
      filter (\<lambda>a. \<not> lt a z \<and> \<not> lt z a) (x # stable_sort lt xs)"
    using Cons.prems assms(1) by (intro insert_stable sort_sorted) (simp_all add: sort_set)
  then show ?case using Cons by (auto simp: stable_sort_def)
qed (simp add: stable_sort_def)

lemma sort_Cons:
  assumes "stable_sort lt xs = best # rest" "\<forall>x \<in> set xs. ok x"
  shows "best \<in> set xs" "\<And>y. y \<in> set xs \<Longrightarrow> \<not> lt y best"
proof -
  have sorted: "sorted_wrt (\<lambda>a b. \<not> lt b a) (best # rest)" using sort_sorted [OF assms(2)] assms(1) by simp
  have set: "set (best # rest) = set xs" using sort_set [of xs] assms(1) by simp
  show best: "best \<in> set xs" using set by auto
  show "\<not> lt y best" if "y \<in> set xs" for y
  proof (cases "y = best")
    case True
    then show ?thesis using asym best assms(2) by blast
  next
    case False
    then have "y \<in> set rest" using that set by auto
    then show ?thesis using sorted by simp
  qed
qed

lemma sort_Nil: "stable_sort lt xs = [] \<longleftrightarrow> xs = []"
  using sort_mset [of xs] by (metis mset_zero_iff)

end

section \<open>The ranking key\<close>

definition ranked :: "ContentionPolicy \<Rightarrow> InterventionCandidate \<Rightarrow> bool" where
  "ranked p c \<longleftrightarrow> \<not> f64_is_nan (cand_expectedConflictReduction c)
     \<and> \<not> f64_is_nan (cand_expectedNeighborDegradation c)
     \<and> \<not> f64_is_nan (wp_value (workload_policy_for p (cand_target c)))
     \<and> \<not> f64_is_nan (cand_expectedCost c) \<and> \<not> f64_is_nan (cand_reversibility c)"

definition cand_key :: "ContentionPolicy \<Rightarrow> InterventionCandidate
    \<Rightarrow> int \<times> int \<times> int \<times> int \<times> int \<times> nat \<times> u64 \<times> InterventionClass" where
  "cand_key p c =
     (- f64_key (cand_expectedConflictReduction c), f64_key (cand_expectedNeighborDegradation c),
      f64_key (wp_value (workload_policy_for p (cand_target c))), f64_key (cand_expectedCost c),
      - f64_key (cand_reversibility c), class_index (cand_cls c), id_value (cand_target c), cand_cls c)"

lemma lex_step: "(x :: 'x :: linorder, r :: 'r :: order) < (y, s) \<longleftrightarrow> (if x \<noteq> y then x < y else r < s)"
  by (auto simp: less_prod_simp)

lemma f64_cmp_not_nan:
  "\<not> f64_is_nan a \<Longrightarrow> \<not> f64_is_nan b \<Longrightarrow> f64_eq a b \<longleftrightarrow> f64_key a = f64_key b"
  "\<not> f64_is_nan a \<Longrightarrow> \<not> f64_is_nan b \<Longrightarrow> f64_lt a b \<longleftrightarrow> f64_key a < f64_key b"
  by (simp_all add: f64_cmp_defs)

lemma better_key: "ranked p a \<Longrightarrow> ranked p b \<Longrightarrow> better p a b \<longleftrightarrow> cand_key p a < cand_key p b"
  by (simp only: better_def cand_key_def ranked_def lex_step f64_cmp_not_nan Let_def
      neg_equal_iff_equal neg_less_iff_less not_False_eq_True if_not_P if_cancel eq_commute)

lemma cand_key_eq: "cand_key p a = cand_key p b \<Longrightarrow> cand_cls a = cand_cls b \<and> cand_target a = cand_target b"
  by (auto simp: cand_key_def intro: Id.expand)

interpretation rank: strict_weak "better p" "ranked p" for p
  by unfold_locales (auto simp: better_key)

section \<open>Candidates\<close>

lemma f64_lit_not_nan [simp]: "\<not> f64_is_nan (f64_lit n d)"
  by (simp add: f64_lit_def)

lemma f64_zero_not_nan [simp]: "\<not> f64_is_nan f64_zero" "\<not> f64_is_nan f64_one"
  by (simp_all add: f64_is_nan_def)

lemma f64_times_not_nan:
  assumes "f64_isfinite a" "f64_mag a \<noteq> 0" "\<not> f64_is_nan b"
  shows "\<not> f64_is_nan (f64_times a b)"
proof -
  have "\<not> f64_is_inf a" "\<not> f64_is_nan a" using assms(1) by (auto simp: f64_isfinite_def f64_is_inf_def)
  then show ?thesis
    using assms(2,3) unfolding f64_times_def Let_def
    by (simp add: f64_is_nan_def f64_round_le_inf not_less del: power_numeral)
qed

lemma f64_tenth: "f64_lit 1 10 = F64 0x3FB999999999999A"
  by (subst f64_litI [of 56]) (simp_all add: f64_eval)

lemma f64_tenth_times: "\<not> f64_is_nan b \<Longrightarrow> \<not> f64_is_nan (f64_times (f64_lit 1 10) b)"
  unfolding f64_tenth by (rule f64_times_not_nan) (simp_all add: f64_isfinite_def f64_mag_def)

lemma class_effect_sel [simp]:
  "cand_cls (class_effect cls c) = cand_cls c" "cand_target (class_effect cls c) = cand_target c"
  by (cases cls; simp add: with_effect_def)+

lemma class_effect_not_nan:
  "\<not> f64_is_nan (cand_expectedConflictReduction (class_effect cls c))"
  "\<not> f64_is_nan (cand_expectedNeighborDegradation (class_effect cls c))"
  "\<not> f64_is_nan (cand_reversibility (class_effect cls c))"
  by (cases cls; simp add: with_effect_def)+

lemma build_candidate_sel [simp]:
  "cand_cls (build_candidate s ctx c primary t cls) = cls"
  "cand_target (build_candidate s ctx c primary t cls) = t"
  "cand_feasible (build_candidate s ctx c primary t cls) =
     feas_status (check_feasibility s t cls (make_fence ctx (cc_generation c) (ie_generation primary) t (Id 1)))"
  "cand_infeasibilityReasons (build_candidate s ctx c primary t cls) =
     feas_reasons (check_feasibility s t cls (make_fence ctx (cc_generation c) (ie_generation primary) t (Id 1)))"
  by (simp_all add: build_candidate_def default_effect_def Let_def)

lemma build_candidate_ranked:
  assumes "f64_isfinite (wp_value (workload_policy_for p t))"
  shows "ranked p (build_candidate s ctx c primary t cls)"
  using assms class_effect_not_nan f64_tenth_times [OF class_effect_not_nan(2)]
  unfolding ranked_def build_candidate_def default_effect_def Let_def by simp

lemma build_candidates_mem:
  "cand \<in> set (build_candidates s ctx c primary targets) \<longleftrightarrow>
     (\<exists>t cls. t \<in> set targets \<and> cls \<in> set eligible_classes \<and> class_eligible (es_policy s) cls
        \<and> cand = build_candidate s ctx c primary t cls)"
  by (auto simp: build_candidates_def)

lemma eligible_classes_disruptive:
  "cls \<in> set eligible_classes \<Longrightarrow> is_disruptive cls \<or> cls = IC_PROTECT_HIGH_VALUE_WORK"
  by (auto simp: eligible_classes_def)

lemma feasible_candidates_mem:
  "cand \<in> set (feasible_candidates cands) \<longleftrightarrow> cand \<in> set cands \<and> cand_feasible cand = FS_FEASIBLE"
  by (auto simp: feasible_candidates_def)

section \<open>The decision\<close>

lemma scan_evidence_current:
  "e \<in> set (fst (scan_evidence evm eids)) \<Longrightarrow>
     ie_status e = ES_CURRENT \<and> structurally_valid e \<and> (\<exists>eid \<in> set eids. om_find evm eid = Some e)"
  by (induction evm eids rule: scan_evidence.induct)
    (auto simp: Let_def split_beta split: option.splits if_splits)

lemma scan_evidence_empty:
  "fst (scan_evidence evm eids) = [] \<longleftrightarrow>
     (\<forall>eid \<in> set eids. \<forall>e. om_find evm eid = Some e \<longrightarrow> ie_status e \<noteq> ES_CURRENT \<or> \<not> structurally_valid e)"
  by (induction evm eids rule: scan_evidence.induct)
    (auto simp: Let_def split_beta split: option.splits if_splits)

text \<open>The conditions under which the pipeline reaches the ranking, with the primary evidence.\<close>

definition actionable_with ::
  "EngineState \<Rightarrow> ContentionConflict \<Rightarrow> InterferenceEvidence \<Rightarrow> bool" where
  "actionable_with s c primary \<longleftrightarrow>
     (\<exists>rest. fst (scan_evidence (es_evidence s) (cc_evidenceIds c)) = primary # rest)
     \<and> \<not> f64_lt (cc_degradation c) (p_actionabilityThreshold (es_policy s))
     \<and> cc_associated c \<noteq> []
     \<and> p_minAttributionForDisruptive (es_policy s) \<le> ie_attribution primary
     \<and> \<not> f64_lt (ie_confidence primary) (p_minConfidenceForDisruptive (es_policy s))
     \<and> ie_unresolvedConfounders primary = []"

lemma sort_eq_Nil: "sort xs = [] \<longleftrightarrow> xs = []"
  by (metis length_0_conv length_sort)

lemma evaluation_frame [simp]:
  "ce_decision (reject rs ev) = ce_decision ev" "ce_decision (stop_with st status ev) = ce_decision ev"
  "ce_candidates (reject rs ev) = ce_candidates ev" "ce_candidates (stop_with st status ev) = ce_candidates ev"
  "ce_status (stop_with st status ev) = status" "ce_state (stop_with st status ev) = st"
  "ce_decision default_ConflictEvaluation = None" "ce_candidates default_ConflictEvaluation = []"
  by (simp_all add: reject_def stop_with_def default_ConflictEvaluation_def)

lemma decide_sel:
  "ce_candidates (decide s ctx c primary ts ev) = build_candidates s ctx c primary ts"
  "map_option dec_chosen (ce_decision (decide s ctx c primary ts ev)) =
     (case stable_sort (better (es_policy s)) (feasible_candidates (build_candidates s ctx c primary ts)) of
        [] \<Rightarrow> map_option dec_chosen (ce_decision ev) | best # _ \<Rightarrow> Some best)"
  by (simp_all add: decide_def Let_def split: list.splits)

lemma evaluate_with_gate:
  assumes "ce_decision ev = None"
  shows "ce_decision (evaluate_with s ctx c primary ev) \<noteq> None \<Longrightarrow>
      \<not> f64_lt (cc_degradation c) (p_actionabilityThreshold (es_policy s)) \<and> cc_associated c \<noteq> []
      \<and> fst (destructive_gate (es_policy s) primary)"
  using assms by (auto simp: evaluate_with_def Let_def split_beta sort_eq_Nil split: if_splits)

text \<open>Reaching the ranking, the evaluation is the one of \<^const>\<open>decide\<close>.\<close>

lemma evaluate_conflict_decide:
  assumes "om_find (es_conflicts s) cid = Some c" "actionable_with s c primary"
  shows "\<exists>ev. ce_decision ev = None \<and> ce_candidates ev = []
     \<and> evaluate_conflict s cid ctx = decide s ctx c primary (sort (cc_associated c)) ev"
proof -
  obtain rest rejs where sc: "scan_evidence (es_evidence s) (cc_evidenceIds c) = (primary # rest, rejs)"
    using assms(2) by (cases "scan_evidence (es_evidence s) (cc_evidenceIds c)") (auto simp: actionable_with_def)
  have gate: "fst (destructive_gate (es_policy s) primary)"
    using assms(2) by (auto simp: actionable_with_def destructive_gate_def Let_def)
  define ev where "ev = reject (snd (destructive_gate (es_policy s) primary)) (reject rejs
      (default_ConflictEvaluation\<lparr>ce_conflictId := cid, ce_state := cc_state c, ce_binding := cc_binding c,
         ce_degradation := cc_degradation c, ce_severity := cc_severity c\<rparr>))"
  have "evaluate_conflict s cid ctx = decide s ctx c primary (sort (cc_associated c)) ev"
    using assms gate sc
    by (simp add: evaluate_conflict_def evaluate_with_def Let_def split_beta actionable_with_def ev_def sort_eq_Nil)
  moreover have "ce_decision ev = None" "ce_candidates ev = []"
    by (simp_all add: ev_def reject_def default_ConflictEvaluation_def)
  ultimately show ?thesis by blast
qed

lemma evaluate_conflict_actionable:
  assumes "ce_decision (evaluate_conflict s cid ctx) \<noteq> None"
  obtains c primary where "om_find (es_conflicts s) cid = Some c" "actionable_with s c primary"
proof -
  obtain c where c: "om_find (es_conflicts s) cid = Some c"
    using assms by (cases "om_find (es_conflicts s) cid") (auto simp: evaluate_conflict_def Let_def default_ConflictEvaluation_def stop_with_def)
  obtain evids rejs where sc: "scan_evidence (es_evidence s) (cc_evidenceIds c) = (evids, rejs)" by fastforce
  obtain primary rest where ev: "evids = primary # rest"
    using assms c sc by (cases evids) (auto simp: evaluate_conflict_def Let_def stop_with_def reject_def default_ConflictEvaluation_def)
  have "ce_decision (evaluate_with s ctx c primary ev') \<noteq> None \<Longrightarrow> ce_decision ev' = None \<Longrightarrow> actionable_with s c primary" for ev'
    using evaluate_with_gate [of ev' s ctx c primary] sc ev
    by (auto simp: actionable_with_def destructive_gate_def Let_def)
  moreover have "ce_decision (reject rejs
      (default_ConflictEvaluation\<lparr>ce_conflictId := cid, ce_state := cc_state c, ce_binding := cc_binding c,
         ce_degradation := cc_degradation c, ce_severity := cc_severity c\<rparr>)) = None"
    by (simp add: reject_def default_ConflictEvaluation_def)
  ultimately have "actionable_with s c primary"
    using assms c sc ev by (simp add: evaluate_conflict_def Let_def)
  with c show thesis by (rule that)
qed

section \<open>The chosen candidate\<close>

definition values_finite :: "ContentionPolicy \<Rightarrow> bool" where
  "values_finite p \<longleftrightarrow> (\<forall>w. f64_isfinite (wp_value (workload_policy_for p w)))"

lemma valid_policy_values_finite: "valid_policy p \<Longrightarrow> values_finite p"
  by (simp add: values_finite_def valid_policy_value_finite)

lemma candidates_ranked:
  assumes "values_finite (es_policy s)" "cand \<in> set (build_candidates s ctx c primary ts)"
  shows "ranked (es_policy s) cand"
  using assms by (auto simp: build_candidates_mem values_finite_def intro: build_candidate_ranked)

lemma candidates_key_inj:
  assumes "a \<in> set (build_candidates s ctx c primary ts)" "b \<in> set (build_candidates s ctx c primary ts)"
    "cand_key p a = cand_key p b"
  shows "a = b"
  using assms(1,2) cand_key_eq [OF assms(3)] by (auto simp: build_candidates_mem)

text \<open>\<open>best\<close> is feasible and beats every other feasible candidate.\<close>

definition unique_best :: "ContentionPolicy \<Rightarrow> InterventionCandidate set \<Rightarrow> InterventionCandidate \<Rightarrow> bool" where
  "unique_best p cands best \<longleftrightarrow> best \<in> cands \<and> cand_feasible best = FS_FEASIBLE
     \<and> (\<forall>cand \<in> cands. cand_feasible cand = FS_FEASIBLE \<longrightarrow> cand \<noteq> best \<longrightarrow> better p best cand)"

lemma sorted_head_unique_best:
  assumes "values_finite (es_policy s)"
  shows "stable_sort (better (es_policy s)) (feasible_candidates (build_candidates s ctx c primary ts)) = best # rest
    \<Longrightarrow> unique_best (es_policy s) (set (build_candidates s ctx c primary ts)) best"
proof -
  let ?p = "es_policy s" and ?all = "build_candidates s ctx c primary ts"
  assume srt: "stable_sort (better ?p) (feasible_candidates ?all) = best # rest"
  have ok: "\<forall>x \<in> set (feasible_candidates ?all). ranked ?p x"
    using assms by (auto simp: feasible_candidates_mem intro: candidates_ranked)
  note head = rank.sort_Cons [OF srt ok]
  then have best: "best \<in> set ?all" "cand_feasible best = FS_FEASIBLE" by (simp_all add: feasible_candidates_mem)
  have "better ?p best cand" if "cand \<in> set ?all" "cand_feasible cand = FS_FEASIBLE" "cand \<noteq> best" for cand
  proof -
    have "\<not> better ?p cand best" using that by (intro head(2)) (simp add: feasible_candidates_mem)
    moreover have "cand_key ?p cand \<noteq> cand_key ?p best"
      using that best(1) candidates_key_inj by blast
    ultimately show ?thesis
      using that best assms candidates_ranked by (simp add: better_key)
  qed
  with best show "unique_best ?p (set ?all) best" by (simp add: unique_best_def)
qed

lemma unique_best_unique:
  assumes "\<And>x. x \<in> cands \<Longrightarrow> ranked p x" "unique_best p cands a" "unique_best p cands b"
  shows "a = b"
proof (rule ccontr)
  assume "a \<noteq> b"
  then have "better p a b" "better p b a" "ranked p a" "ranked p b"
    using assms by (auto simp: unique_best_def)
  then show False using rank.asym by blast
qed

lemma build_candidates_set:
  "set ts = set ts' \<Longrightarrow> set (build_candidates s ctx c primary ts) = set (build_candidates s ctx c primary ts')"
  by (auto simp: build_candidates_mem)

lemma feasible_candidates_Nil:
  "feasible_candidates cands = [] \<longleftrightarrow> (\<forall>cand \<in> set cands. cand_feasible cand \<noteq> FS_FEASIBLE)"
  by (auto simp: feasible_candidates_def filter_empty_conv)

text \<open>The decision depends on the set of targets only.\<close>

lemma decide_decision_set:
  assumes "values_finite (es_policy s)" "set ts = set ts'" "ce_decision ev = None" "ce_decision ev' = None"
  shows "ce_decision (decide s ctx c primary ts ev) = ce_decision (decide s ctx c primary ts' ev')"
proof -
  let ?p = "es_policy s"
  let ?f = "\<lambda>ts. feasible_candidates (build_candidates s ctx c primary ts)"
  have same: "set (build_candidates s ctx c primary ts) = set (build_candidates s ctx c primary ts')"
    using assms(2) by (rule build_candidates_set)
  show ?thesis
  proof (cases "stable_sort (better ?p) (?f ts)")
    case Nil
    then have "?f ts = []" by (simp add: rank.sort_Nil)
    then have "?f ts' = []" using same by (simp add: feasible_candidates_Nil)
    then show ?thesis using Nil assms(3,4) rank.sort_Nil [of ?p "?f ts'"] by (simp add: decide_def Let_def)
  next
    case (Cons best rest)
    then have "?f ts' \<noteq> []"
      using same rank.sort_Nil [of ?p "?f ts"] by (auto simp: feasible_candidates_Nil)
    then obtain best' rest' where Cons': "stable_sort (better ?p) (?f ts') = best' # rest'"
      using rank.sort_Nil [of ?p "?f ts'"] by (cases "stable_sort (better ?p) (?f ts')") auto
    have "best = best'"
      using sorted_head_unique_best [OF assms(1) Cons] sorted_head_unique_best [OF assms(1) Cons'] same
        candidates_ranked [OF assms(1)] unique_best_unique by metis
    then show ?thesis using Cons Cons' by (simp add: decide_def Let_def)
  qed
qed

text \<open>What a decision of the pipeline guarantees.\<close>

lemma decision_sound:
  assumes "ce_decision (evaluate_conflict s cid ctx) = Some d" "values_finite (es_policy s)"
  obtains c primary where
    "om_find (es_conflicts s) cid = Some c" "actionable_with s c primary"
    "ce_candidates (evaluate_conflict s cid ctx) = build_candidates s ctx c primary (sort (cc_associated c))"
    "unique_best (es_policy s) (set (ce_candidates (evaluate_conflict s cid ctx))) (dec_chosen d)"
proof -
  obtain c primary where c: "om_find (es_conflicts s) cid = Some c" "actionable_with s c primary"
    using evaluate_conflict_actionable [of s cid ctx] assms(1) by auto
  obtain ev where ev: "ce_decision ev = None"
    "evaluate_conflict s cid ctx = decide s ctx c primary (sort (cc_associated c)) ev"
    using evaluate_conflict_decide [OF c] by blast
  have "unique_best (es_policy s) (set (build_candidates s ctx c primary (sort (cc_associated c)))) (dec_chosen d)"
    using assms(1) ev decide_sel(2) [of s ctx c primary "sort (cc_associated c)" ev]
    by (auto split: list.splits intro: sorted_head_unique_best [OF assms(2)])
  then show thesis using that c ev(2) by (simp add: decide_sel(1))
qed

text \<open>The chosen class and target satisfy every hard constraint.\<close>

lemma chosen_constraints:
  assumes "unique_best p (set (build_candidates s ctx c primary ts)) best"
  shows "cand_target best \<in> set ts" "class_eligible (es_policy s) (cand_cls best)"
    "cand_cls best \<in> set eligible_classes"
    "hard_constraints (es_policy s) (workload_policy_for (es_policy s) (cand_target best)) (cand_cls best)"
    "\<not> fairness_capped s (cand_target best)"
    "fence_current (es_authority s)
       (make_fence ctx (cc_generation c) (ie_generation primary) (cand_target best) (Id 1)) (cand_target best)"
  using assms by (auto simp: unique_best_def build_candidates_mem check_feasibility_iff)

text \<open>Without a decision no candidate is feasible.\<close>

lemma no_decision_infeasible:
  assumes "ce_decision (evaluate_conflict s cid ctx) = None"
    "cand \<in> set (ce_candidates (evaluate_conflict s cid ctx))"
  shows "cand_feasible cand \<noteq> FS_FEASIBLE"
proof -
  have empty: "ce_candidates (evaluate_conflict s cid ctx) = []"
    if "\<nexists>c primary. om_find (es_conflicts s) cid = Some c \<and> actionable_with s c primary"
    using that
    by (auto simp: evaluate_conflict_def evaluate_with_def destructive_gate_def actionable_with_def Let_def
        split_beta sort_eq_Nil reject_def stop_with_def default_ConflictEvaluation_def
        split: option.splits list.splits prod.splits)
  show ?thesis
  proof (cases "\<exists>c primary. om_find (es_conflicts s) cid = Some c \<and> actionable_with s c primary")
    case True
    then obtain c primary where c: "om_find (es_conflicts s) cid = Some c" "actionable_with s c primary" by blast
    obtain ev where ev: "ce_decision ev = None"
      "evaluate_conflict s cid ctx = decide s ctx c primary (sort (cc_associated c)) ev"
      using evaluate_conflict_decide [OF c] by blast
    have "feasible_candidates (build_candidates s ctx c primary (sort (cc_associated c))) = []"
      using assms(1) ev by (auto simp: decide_def Let_def rank.sort_Nil split: list.splits)
    then show ?thesis using assms(2) ev(2) by (simp add: decide_sel(1) feasible_candidates_Nil)
  next
    case False
    then show ?thesis using empty assms(2) by auto
  qed
qed

end
