(* ===== verification/CG_Governor.thy ===== *)
theory CG_Governor
  imports CG_Decision
begin

text \<open>
  \<^verbatim>\<open>src/governor.cpp\<close>: the operations of the \<^verbatim>\<open>Governor\<close> facade as functions on
  \<^typ>\<open>GovernorState\<close>. The clock reading is an argument \<open>now\<close>; the throttle adapter is an
  argument of \<open>dispatch\<close>, whose two critical sections are the separate definitions
  \<open>dispatch_begin\<close> and \<open>dispatch_finish\<close> because other operations may run between them.
  A dereference of \<^verbatim>\<open>end()\<close>, which C++ leaves undefined, is the value \<open>Inl Deref_end\<close>.
\<close>

section \<open>Policy and authority\<close>

definition on_engine :: "(EngineState \<Rightarrow> EngineState) \<Rightarrow> GovernorState \<Rightarrow> GovernorState" where
  "on_engine f st = st\<lparr>gs_engine := f (gs_engine st)\<rparr>"

definition on_authority :: "(AuthorityContext \<Rightarrow> AuthorityContext) \<Rightarrow> EngineState \<Rightarrow> EngineState" where
  "on_authority f s = s\<lparr>es_authority := f (es_authority s)\<rparr>"

definition set_policy :: "ContentionPolicy \<Rightarrow> GovernorState \<Rightarrow> Status \<times> GovernorState" where
  "set_policy p st =
     (let v = validate_policy p
      in if \<not> status_ok v then (v, st)
         else (status_good,
               on_engine (\<lambda>s. on_authority (\<lambda>a. a\<lparr>au_policyGeneration := p_generation p\<rparr>)
                                (s\<lparr>es_policy := p\<rparr>)) st))"

definition set_authority :: "AuthorityContext \<Rightarrow> GovernorState \<Rightarrow> Status \<times> GovernorState" where
  "set_authority a st = (status_good, on_engine (\<lambda>s. s\<lparr>es_authority := a\<rparr>) st)"

definition record_worker_boot :: "WorkloadId \<Rightarrow> WorkerBootId \<Rightarrow> GovernorState \<Rightarrow> Status \<times> GovernorState" where
  "record_worker_boot w boot st =
     (status_good, on_engine (on_authority (\<lambda>a. a\<lparr>au_workloadBoots := om_put w boot (au_workloadBoots a)\<rparr>)) st)"

definition record_workload_generation ::
  "WorkloadId \<Rightarrow> WorkloadGeneration \<Rightarrow> GovernorState \<Rightarrow> Status \<times> GovernorState" where
  "record_workload_generation w g st =
     (status_good,
      on_engine (on_authority (\<lambda>a. a\<lparr>au_workloadGenerations := om_put w g (au_workloadGenerations a)\<rparr>)) st)"

text \<open>The four loops of \<^verbatim>\<open>advance_epoch\<close>, one definition for each loop body.\<close>

definition epoch_evidence :: "InterferenceEvidence \<Rightarrow> InterferenceEvidence" where
  "epoch_evidence e = (if ie_status e = ES_CURRENT then e\<lparr>ie_status := ES_REVALIDATION_REQUIRED\<rparr> else e)"

definition epoch_conflict :: "ContentionConflict \<Rightarrow> ContentionConflict" where
  "epoch_conflict c =
     (if cc_state c \<noteq> CS_RESOLVED \<and> cc_state c \<noteq> CS_SUPPRESSED \<and> cc_state c \<noteq> CS_SUPERSEDED
      then c\<lparr>cc_state := CS_REVALIDATION_REQUIRED\<rparr> else c)"

definition epoch_intervention :: "InterventionRecord \<Rightarrow> InterventionRecord" where
  "epoch_intervention i =
     (if ir_state i = LS_DISPATCHED \<or> ir_state i = LS_ACKNOWLEDGED \<or> ir_state i = LS_AUTHORIZED
         \<or> ir_state i = LS_PROPOSED
      then i\<lparr>ir_state := LS_OUTCOME_UNKNOWN\<rparr> else i)"

definition epoch_fairness :: "FairnessRecord \<Rightarrow> FairnessRecord" where
  "epoch_fairness f = f\<lparr>fr_consecutiveInterventions := 0\<rparr>"

definition advance_epoch :: "GovernorState \<Rightarrow> Status \<times> GovernorState" where
  "advance_epoch st =
     (status_good,
      on_engine (\<lambda>s. on_authority (\<lambda>a. a\<lparr>au_coordinatorEpoch := id_advance (au_coordinatorEpoch a)\<rparr>)
        (s\<lparr>es_evidence := om_update_all epoch_evidence (es_evidence s),
           es_conflicts := om_update_all epoch_conflict (es_conflicts s),
           es_interventions := om_update_all epoch_intervention (es_interventions s),
           es_fairness := om_update_all epoch_fairness (es_fairness s)\<rparr>)) st)"

section \<open>Evidence\<close>

definition with_fractions :: "InterferenceEvidence \<Rightarrow> InterferenceEvidence" where
  "with_fractions e =
     e\<lparr>ie_degradation := compute_degradation (ie_metric e) (ie_isolatedBaseline e) (ie_coRunObservation e),
       ie_improvement := compute_improvement (ie_metric e) (ie_isolatedBaseline e) (ie_coRunObservation e)\<rparr>"

text \<open>Assigning a fresh id when the evidence has none, and storing it under its id.\<close>

definition store_evidence :: "InterferenceEvidence \<Rightarrow> GovernorState \<Rightarrow> InterferenceEvidence \<times> GovernorState" where
  "store_evidence e st =
     (let (e, st) = (if id_value (ie_id e) = 0
                     then (e\<lparr>ie_id := Id (gs_nextEvidenceId st)\<rparr>,
                           st\<lparr>gs_nextEvidenceId := gs_nextEvidenceId st + 1\<rparr>)
                     else (e, st))
      in (e, on_engine (\<lambda>s. s\<lparr>es_evidence := om_put (ie_id e) e (es_evidence s)\<rparr>) st))"

text \<open>The search for the conflict of (victim, domain), in key order.\<close>

definition concerns :: "InterferenceEvidence \<Rightarrow> ContentionConflict \<Rightarrow> bool" where
  "concerns e c \<longleftrightarrow> cc_domain c = ie_domain e \<and> ie_victim e \<in> set (cc_affected c)"

definition new_conflict :: "InterferenceEvidence \<Rightarrow> ConflictId \<Rightarrow> EngineState \<Rightarrow> ContentionConflict" where
  "new_conflict e cid s =
     default_ContentionConflict
       \<lparr>cc_id := cid, cc_generation := Id 1, cc_affected := [ie_victim e],
        cc_associated := ie_neighbors e, cc_domain := ie_domain e,
        cc_baseline := ie_isolatedBaseline e, cc_degradation := ie_degradation e,
        cc_confidence := ie_confidence e,
        cc_binding := (if ie_metric e = MD_HIGHER_IS_BETTER then BO_THROUGHPUT else BO_LATENCY),
        cc_severity := classify_severity (ie_degradation e),
        cc_evidenceIds := [ie_id e], cc_state := CS_DETECTED,
        cc_firstDetectedAt := ie_sampledAt e, cc_lastUpdatedAt := ie_sampledAt e,
        cc_activeUntil := ie_activeUntil e, cc_unresolvedConfounders := ie_unresolvedConfounders e,
        cc_coordinatorEpoch := au_coordinatorEpoch (es_authority s), cc_workerBoot := ie_workerBoot e,
        cc_policyGeneration := p_generation (es_policy s),
        cc_sloGeneration := au_sloGeneration (es_authority s),
        cc_valueGeneration := au_valueGeneration (es_authority s),
        cc_fairnessGeneration := au_fairnessGeneration (es_authority s),
        cc_resourceGeneration := au_resourceGeneration (es_authority s),
        cc_placementGeneration := au_placementGeneration (es_authority s)\<rparr>"

definition update_conflict :: "InterferenceEvidence \<Rightarrow> ContentionConflict \<Rightarrow> ContentionConflict" where
  "update_conflict e c =
     c\<lparr>cc_associated := ie_neighbors e,
       cc_degradation := f64_max (cc_degradation c) (ie_degradation e),
       cc_confidence := f64_max (cc_confidence c) (ie_confidence e),
       cc_evidenceIds := cc_evidenceIds c @ [ie_id e],
       cc_lastUpdatedAt := ie_sampledAt e,
       cc_unresolvedConfounders := ie_unresolvedConfounders e\<rparr>"

definition progress_conflict ::
  "ContentionPolicy \<Rightarrow> InterferenceEvidence \<Rightarrow> ContentionConflict \<Rightarrow> ContentionConflict" where
  "progress_conflict p e c =
     (if ie_status e = ES_CURRENT \<and> f64_ge (cc_degradation c) (p_actionabilityThreshold p)
      then c\<lparr>cc_state := CS_ACTIONABLE, cc_inActionableState := True\<rparr>
      else if ie_status e = ES_CURRENT then c\<lparr>cc_state := CS_VALIDATING\<rparr>
      else if ie_status e = ES_CONFOUNDED \<or> ie_status e = ES_INSUFFICIENT_EVIDENCE
      then c\<lparr>cc_state := CS_UNRESOLVED\<rparr>
      else if ie_status e = ES_REVALIDATION_REQUIRED then c\<lparr>cc_state := CS_REVALIDATION_REQUIRED\<rparr>
      else c)"

definition put_conflict :: "ConflictId \<Rightarrow> ContentionConflict \<Rightarrow> EngineState \<Rightarrow> EngineState" where
  "put_conflict k c s = s\<lparr>es_conflicts := om_put k c (es_conflicts s)\<rparr>"

definition ingest_evidence :: "InterferenceEvidence \<Rightarrow> GovernorState \<Rightarrow> Status \<times> GovernorState" where
  "ingest_evidence input st0 =
     (let v = validate_evidence input
      in if \<not> status_ok v then (v, st0)
         else let (e, st) = store_evidence (with_fractions input) st0;
                  p = es_policy (gs_engine st)
         in case om_first (concerns e) (es_conflicts (gs_engine st)) of
              None \<Rightarrow>
                let cid = Id (gs_nextConflictId st);
                    c = new_conflict e cid (gs_engine st)
                in (status_good,
                    on_engine (put_conflict cid (progress_conflict p e c))
                      (st\<lparr>gs_nextConflictId := gs_nextConflictId st + 1\<rparr>))
            | Some (k, c) \<Rightarrow>
                (status_good, on_engine (put_conflict k (progress_conflict p e (update_conflict e c))) st))"

definition evaluate :: "ConflictId \<Rightarrow> GovernorState \<Rightarrow> ConflictEvaluation" where
  "evaluate cid st = evaluate_conflict (gs_engine st) cid (es_authority (gs_engine st))"

section \<open>Action budget\<close>

fun count_use :: "InterventionClass \<Rightarrow> ActionBudgetStats \<Rightarrow> ActionBudgetStats" where
  "count_use IC_REQUEST_PREEMPTION u = u\<lparr>abs_preemptions := abs_preemptions u + 1\<rparr>"
| "count_use IC_REQUEST_MIGRATION u = u\<lparr>abs_migrations := abs_migrations u + 1\<rparr>"
| "count_use IC_CHANGE_PLACEMENT u = u\<lparr>abs_placementChanges := abs_placementChanges u + 1\<rparr>"
| "count_use IC_THROTTLE u = u\<lparr>abs_throttles := abs_throttles u + 1\<rparr>"
| "count_use IC_REDUCE_CONCURRENCY u = u\<lparr>abs_throttles := abs_throttles u + 1\<rparr>"
| "count_use IC_REDUCE_BATCH u = u\<lparr>abs_throttles := abs_throttles u + 1\<rparr>"
| "count_use IC_SERIALIZE u = u\<lparr>abs_throttles := abs_throttles u + 1\<rparr>"
| "count_use IC_TIME_SLICE u = u\<lparr>abs_throttles := abs_throttles u + 1\<rparr>"
| "count_use IC_REDUCE_MEMORY_PRESSURE u = u\<lparr>abs_throttles := abs_throttles u + 1\<rparr>"
| "count_use IC_REQUEST_COLLECTIVE_RESCHEDULE u =
     u\<lparr>abs_collectiveReschedules := abs_collectiveReschedules u + 1\<rparr>"
| "count_use _ u = u"

definition consume_budget :: "ActionBudget \<Rightarrow> InterventionClass \<Rightarrow> TimeMs \<Rightarrow> ActionBudget" where
  "consume_budget b0 c now =
     (let b = (if now - ab_windowStart b0 > ab_windowMs b0
               then b0\<lparr>ab_used := default_ActionBudgetStats, ab_windowStart := now\<rparr> else b0);
          u = count_use c (ab_used b)
      in b\<lparr>ab_used := u\<lparr>abs_all := abs_all u + 1\<rparr>\<rparr>)"

fun budget_exhausted :: "ActionBudget \<Rightarrow> InterventionClass \<Rightarrow> bool" where
  "budget_exhausted b IC_REQUEST_PREEMPTION = (abs_preemptions (ab_used b) \<ge> ab_maxPreemptionsPerWindow b)"
| "budget_exhausted b IC_REQUEST_MIGRATION = (abs_migrations (ab_used b) \<ge> ab_maxMigrationsPerWindow b)"
| "budget_exhausted b IC_CHANGE_PLACEMENT =
     (abs_placementChanges (ab_used b) \<ge> ab_maxPlacementChangesPerWindow b)"
| "budget_exhausted b IC_THROTTLE = (abs_throttles (ab_used b) \<ge> ab_maxThrottlesPerWindow b)"
| "budget_exhausted b IC_REDUCE_CONCURRENCY = (abs_throttles (ab_used b) \<ge> ab_maxThrottlesPerWindow b)"
| "budget_exhausted b IC_REDUCE_BATCH = (abs_throttles (ab_used b) \<ge> ab_maxThrottlesPerWindow b)"
| "budget_exhausted b IC_SERIALIZE = (abs_throttles (ab_used b) \<ge> ab_maxThrottlesPerWindow b)"
| "budget_exhausted b IC_TIME_SLICE = (abs_throttles (ab_used b) \<ge> ab_maxThrottlesPerWindow b)"
| "budget_exhausted b IC_REDUCE_MEMORY_PRESSURE = (abs_throttles (ab_used b) \<ge> ab_maxThrottlesPerWindow b)"
| "budget_exhausted b IC_REQUEST_COLLECTIVE_RESCHEDULE =
     (abs_collectiveReschedules (ab_used b) \<ge> ab_maxCollectiveReschedulesPerWindow b)"
| "budget_exhausted b _ = False"

text \<open>The copy of \<^const>\<open>is_disruptive\<close> in governor.cpp lists the same classes.\<close>

definition is_disruptive_class :: "InterventionClass \<Rightarrow> bool" where
  "is_disruptive_class c \<longleftrightarrow> c \<in>
     {IC_THROTTLE, IC_REDUCE_CONCURRENCY, IC_REDUCE_BATCH, IC_SERIALIZE, IC_TIME_SLICE,
      IC_REQUEST_PREEMPTION, IC_REQUEST_MIGRATION, IC_REQUEST_REPLACEMENT, IC_CHANGE_PLACEMENT,
      IC_REQUEST_BANDWIDTH_REALLOCATION, IC_REQUEST_COMMUNICATION_REPLAN,
      IC_REQUEST_COLLECTIVE_RESCHEDULE, IC_RELEASE_OPTIONAL_RESIDENCY, IC_REDUCE_MEMORY_PRESSURE,
      IC_SHED_LOW_VALUE_WORK, IC_DEFER_NEW_WORK}"

section \<open>Authorization\<close>

datatype undefined_behaviour = Deref_end

text \<open>The candidate \<^verbatim>\<open>authorize\<close> picks from an evaluation.\<close>

definition picked :: "ConflictEvaluation \<Rightarrow> InterventionCandidate option" where
  "picked ev =
     (case ce_decision ev of
        Some d \<Rightarrow> Some (dec_chosen d)
      | None \<Rightarrow> List.find (\<lambda>cand. cand_feasible cand = FS_FEASIBLE) (ce_candidates ev))"

definition in_cooldown :: "EngineState \<Rightarrow> WorkloadId \<Rightarrow> InterventionClass \<Rightarrow> TimeMs \<Rightarrow> bool" where
  "in_cooldown s target chosen now \<longleftrightarrow>
     is_disruptive_class chosen
     \<and> (case om_find (es_fairness s) target of
          None \<Rightarrow> False
        | Some f \<Rightarrow> fr_lastInterventionAt f \<noteq> 0
                    \<and> now - fr_lastInterventionAt f < p_cooldownMs (es_policy s))"

definition charge_fairness :: "WorkloadId \<Rightarrow> TimeMs \<Rightarrow> FairnessRecord \<Rightarrow> FairnessRecord" where
  "charge_fairness target now f =
     f\<lparr>fr_workload := (if id_value (fr_workload f) = 0 then target else fr_workload f),
       fr_interventionCount := saturating_add (fr_interventionCount f) 1,
       fr_consecutiveInterventions :=
         (if fr_consecutiveInterventions f = u32_max then u32_max else fr_consecutiveInterventions f + 1),
       fr_lastInterventionAt := now\<rparr>"

definition new_intervention ::
  "InterventionClass \<Rightarrow> ConflictId \<Rightarrow> WorkloadId \<Rightarrow> Fence \<Rightarrow> string \<Rightarrow> TimeMs \<Rightarrow> GovernorState
    \<Rightarrow> InterventionRecord" where
  "new_intervention cls cid target f adapter now st =
     \<lparr>ir_id = Id (gs_nextInterventionId st), ir_generation = Id 1, ir_cls = cls, ir_conflictId = cid,
      ir_target = target, ir_state = LS_AUTHORIZED, ir_fence = f, ir_adapter = adapter,
      ir_authorizedAt = now, ir_dispatchedAt = 0, ir_acknowledgedAt = 0, ir_completedAt = 0,
      ir_dispatchId = Id (gs_nextDispatchId st), ir_attemptId = Id (gs_nextAttemptId st),
      ir_ackNote = '''', ir_interimStatus = status_good, ir_result = VO_OUTCOME_UNKNOWN, ir_trace = [],
      ir_verificationReported = False\<rparr>"

text \<open>The accounting of a granted intervention.\<close>

definition commit_intervention ::
  "ConflictId \<Rightarrow> ContentionConflict \<Rightarrow> InterventionRecord \<Rightarrow> TimeMs \<Rightarrow> GovernorState \<Rightarrow> GovernorState" where
  "commit_intervention cid c ir now st =
     on_engine (\<lambda>s.
       (let p = es_policy s;
            fr = (case om_find (es_fairness s) (ir_target ir) of Some f \<Rightarrow> f | None \<Rightarrow> default_FairnessRecord)
        in s\<lparr>es_policy := p\<lparr>p_budget := consume_budget (p_budget p) (ir_cls ir) now\<rparr>,
             es_fairness := om_put (ir_target ir) (charge_fairness (ir_target ir) now fr) (es_fairness s),
             es_interventions := om_put (ir_id ir) ir (es_interventions s),
             es_conflicts := om_put cid
               (c\<lparr>cc_state := CS_INTERVENTION_AUTHORIZED, cc_selectedIds := cc_selectedIds c @ [ir_id ir],
                  cc_lastActionAt := now\<rparr>) (es_conflicts s)\<rparr>))
       (st\<lparr>gs_nextInterventionId := gs_nextInterventionId st + 1,
           gs_nextDispatchId := gs_nextDispatchId st + 1,
           gs_nextAttemptId := gs_nextAttemptId st + 1\<rparr>)"

definition authorize ::
  "ConflictId \<Rightarrow> InterventionClass \<Rightarrow> TimeMs \<Rightarrow> GovernorState
    \<Rightarrow> undefined_behaviour + (InterventionId option \<times> GovernorState)" where
  "authorize cid cls now st =
     (let s = gs_engine st
      in case om_find (es_conflicts s) cid of
           None \<Rightarrow> Inr (None, st)
         | Some c \<Rightarrow>
      (let ev = evaluate_conflict s cid (es_authority s)
      in case picked ev of
           None \<Rightarrow> Inr (None, st)
         | Some cand \<Rightarrow>
      (let chosen = (if cls \<noteq> IC_NO_ACTION then cls else cand_cls cand);
           target = cand_target cand
      in case cc_evidenceIds c of
           [] \<Rightarrow> Inl Deref_end
         | eid # _ \<Rightarrow>
      (case om_find (es_evidence s) eid of
         None \<Rightarrow> Inl Deref_end
       | Some e \<Rightarrow>
      (let f = make_fence (es_authority s) (cc_generation c) (ie_generation e) target (Id 1)
      in if st_code (revalidate s f target) \<noteq> SC_OK then Inr (None, st)
         else if feas_status (check_feasibility s target chosen f) \<noteq> FS_FEASIBLE then Inr (None, st)
         else if budget_exhausted (p_budget (es_policy s)) chosen then Inr (None, st)
         else if in_cooldown s target chosen now then Inr (None, st)
         else let adapter = (case ce_decision ev of Some d \<Rightarrow> cand_adapter (dec_chosen d) | None \<Rightarrow> '''');
                  ir = new_intervention chosen cid target f adapter now st
              in Inr (Some (ir_id ir), commit_intervention cid c ir now st))))))"

section \<open>Dispatch\<close>

datatype AdapterOutcome = AO_ACCEPTED | AO_REJECTED | AO_UNAVAILABLE | AO_UNKNOWN

record AdapterResult =
  ar_outcome :: AdapterOutcome
  ar_note :: string
  ar_attemptId :: AttemptId

text \<open>
  The interfaces of \<^verbatim>\<open>adapters.hpp\<close>, with the virtual functions as fields: \<open>apply\<close> is the
  environment's. A registry gives an adapter for each interface or a null pointer, and the registry
  pointer itself may be null.
\<close>

type_synonym throttle_apply = "AttemptId \<Rightarrow> WorkloadId \<Rightarrow> InterventionClass \<Rightarrow> double \<Rightarrow> AdapterResult"
type_synonym intent_apply = "AttemptId \<Rightarrow> WorkloadId \<Rightarrow> InterventionClass \<Rightarrow> AdapterResult"

record IThrottleAdapter =
  throttle_name :: string
  throttle_apply :: throttle_apply

record IAdmissionAdapter =
  admission_name :: string
  admission_apply :: intent_apply

record IPreemptionAdapter =
  preemption_name :: string
  preemption_apply :: intent_apply

record IPlacementAdapter =
  placement_name :: string
  placement_apply :: intent_apply

record IBandwidthAdapter =
  bandwidth_name :: string
  bandwidth_apply :: intent_apply

record ICommunicationAdapter =
  communication_name :: string
  communication_apply :: intent_apply

record ICollectiveAdapter =
  collective_name :: string
  collective_apply :: intent_apply

record AdapterRegistry =
  ad_throttle :: "IThrottleAdapter option"
  ad_admission :: "IAdmissionAdapter option"
  ad_preemption :: "IPreemptionAdapter option"
  ad_placement :: "IPlacementAdapter option"
  ad_bandwidth :: "IBandwidthAdapter option"
  ad_communication :: "ICommunicationAdapter option"
  ad_collective :: "ICollectiveAdapter option"

text \<open>The functions of the base class, and a registry that overrides only \<^verbatim>\<open>throttle\<close>.\<close>

definition default_AdapterRegistry :: AdapterRegistry where
  "default_AdapterRegistry =
     \<lparr>ad_throttle = None, ad_admission = None, ad_preemption = None, ad_placement = None, ad_bandwidth = None,
      ad_communication = None, ad_collective = None\<rparr>"

definition throttle_registry :: "IThrottleAdapter option \<Rightarrow> AdapterRegistry" where
  "throttle_registry thr = default_AdapterRegistry\<lparr>ad_throttle := thr\<rparr>"

lemma throttle_registry_sel [simp]: "ad_throttle (throttle_registry thr) = thr"
  by (simp add: throttle_registry_def)

definition put_intervention :: "InterventionId \<Rightarrow> InterventionRecord \<Rightarrow> EngineState \<Rightarrow> EngineState" where
  "put_intervention k i s = s\<lparr>es_interventions := om_put k i (es_interventions s)\<rparr>"

text \<open>The first critical section: a refusal, or the call to make.\<close>

definition dispatch_begin ::
  "InterventionId \<Rightarrow> TimeMs \<Rightarrow> GovernorState
    \<Rightarrow> (Status + (InterventionClass \<times> WorkloadId \<times> AttemptId)) \<times> GovernorState" where
  "dispatch_begin iid now st =
     (case om_find (es_interventions (gs_engine st)) iid of
        None \<Rightarrow> (Inl (status_bad SC_INVALID_INPUT ''unknown intervention''), st)
      | Some i \<Rightarrow>
          if ir_state i \<noteq> LS_AUTHORIZED
          then (Inl (status_bad SC_STALE_AUTHORITY ''intervention not in AUTHORIZED state''), st)
          else let rv = revalidate (gs_engine st) (ir_fence i) (ir_target i)
          in if st_code rv \<noteq> SC_OK
             then (Inl rv, on_engine (put_intervention iid (i\<lparr>ir_state := LS_SUPERSEDED\<rparr>)) st)
             else (Inr (ir_cls i, ir_target i, ir_attemptId i),
                   on_engine (put_intervention iid
                     (i\<lparr>ir_state := LS_DISPATCHED, ir_dispatchId := Id (gs_nextDispatchId st),
                        ir_dispatchedAt := now\<rparr>))
                     (st\<lparr>gs_nextDispatchId := gs_nextDispatchId st + 1\<rparr>)))"

definition call_adapter ::
  "AdapterRegistry option \<Rightarrow> InterventionClass \<Rightarrow> WorkloadId \<Rightarrow> AttemptId \<Rightarrow> AdapterResult" where
  "call_adapter adapters cls target attempt =
     (case adapters of
        None \<Rightarrow> \<lparr>ar_outcome = AO_UNAVAILABLE, ar_note = ''no adapter registry'', ar_attemptId = attempt\<rparr>
      | Some reg \<Rightarrow>
          if cls \<in> {IC_THROTTLE, IC_REDUCE_CONCURRENCY, IC_REDUCE_BATCH, IC_SERIALIZE, IC_TIME_SLICE,
                    IC_REDUCE_MEMORY_PRESSURE}
          then (case ad_throttle reg of
                  Some thr \<Rightarrow> throttle_apply thr attempt target cls f64_one
                | None \<Rightarrow> \<lparr>ar_outcome = AO_UNAVAILABLE, ar_note = ''no throttle adapter'', ar_attemptId = attempt\<rparr>)
          else \<lparr>ar_outcome = AO_UNAVAILABLE, ar_note = ''no registered adapter for class'',
                 ar_attemptId = attempt\<rparr>)"

definition apply_outcome :: "AdapterResult \<Rightarrow> InterventionRecord \<Rightarrow> InterventionRecord" where
  "apply_outcome res i =
     (if ar_outcome res = AO_ACCEPTED then i\<lparr>ir_state := LS_ACKNOWLEDGED, ir_ackNote := ar_note res\<rparr>
      else if ar_outcome res = AO_UNKNOWN then i\<lparr>ir_state := LS_OUTCOME_UNKNOWN\<rparr>
      else i\<lparr>ir_state := LS_FAILED,
             ir_interimStatus := status_bad SC_INTERVENTION_FAILED
               (if ar_note res = '''' then ''adapter rejected'' else ar_note res)\<rparr>)"

text \<open>The second critical section.\<close>

definition dispatch_finish :: "InterventionId \<Rightarrow> AdapterResult \<Rightarrow> GovernorState \<Rightarrow> Status \<times> GovernorState" where
  "dispatch_finish iid res st =
     (case om_find (es_interventions (gs_engine st)) iid of
        None \<Rightarrow> (status_bad SC_INVALID_INPUT ''intervention vanished'', st)
      | Some i \<Rightarrow> (status_good, on_engine (put_intervention iid (apply_outcome res i)) st))"

text \<open>The whole call when nothing runs in between.\<close>

definition dispatch ::
  "AdapterRegistry option \<Rightarrow> InterventionId \<Rightarrow> TimeMs \<Rightarrow> GovernorState \<Rightarrow> Status \<times> GovernorState" where
  "dispatch adapters iid now st =
     (case dispatch_begin iid now st of
        (Inl refused, st') \<Rightarrow> (refused, st')
      | (Inr (cls, target, attempt), st') \<Rightarrow>
          dispatch_finish iid (call_adapter adapters cls target attempt) st')"

definition authorize_and_dispatch ::
  "AdapterRegistry option \<Rightarrow> ConflictId \<Rightarrow> InterventionClass \<Rightarrow> TimeMs \<Rightarrow> TimeMs \<Rightarrow> GovernorState
    \<Rightarrow> undefined_behaviour + (Status \<times> GovernorState)" where
  "authorize_and_dispatch adapters cid cls now now' st =
     (if cls \<noteq> IC_NO_ACTION \<and> budget_exhausted (p_budget (es_policy (gs_engine st))) cls
      then Inr (status_bad SC_ACTION_BUDGET_EXHAUSTED ''action budget exhausted'', st)
      else case authorize cid cls now st of
             Inl ub \<Rightarrow> Inl ub
           | Inr (None, st') \<Rightarrow> Inr (status_bad SC_NO_LEGAL_INTERVENTION ''no legal intervention'', st')
           | Inr (Some iid, st') \<Rightarrow> Inr (dispatch adapters iid now' st'))"

section \<open>Lifecycle callbacks\<close>

definition on_acknowledge ::
  "InterventionId \<Rightarrow> AttemptId \<Rightarrow> TimeMs \<Rightarrow> GovernorState \<Rightarrow> Status \<times> GovernorState" where
  "on_acknowledge iid attempt now st =
     (case om_find (es_interventions (gs_engine st)) iid of
        None \<Rightarrow> (status_bad SC_INVALID_INPUT ''unknown intervention'', st)
      | Some i \<Rightarrow>
          if ir_state i \<noteq> LS_DISPATCHED
          then (status_bad SC_STALE_AUTHORITY ''intervention not DISPATCHED'', st)
          else (status_good,
                on_engine (put_intervention iid
                  (i\<lparr>ir_state := LS_ACKNOWLEDGED, ir_acknowledgedAt := now\<rparr>)) st))"

definition on_action_failed ::
  "InterventionId \<Rightarrow> AttemptId \<Rightarrow> string \<Rightarrow> GovernorState \<Rightarrow> Status \<times> GovernorState" where
  "on_action_failed iid attempt note st =
     (case om_find (es_interventions (gs_engine st)) iid of
        None \<Rightarrow> (status_bad SC_INVALID_INPUT ''unknown intervention'', st)
      | Some i \<Rightarrow>
          (status_good,
           on_engine (put_intervention iid
             (i\<lparr>ir_state := LS_FAILED, ir_interimStatus := status_bad SC_INTERVENTION_FAILED note\<rparr>)) st))"

section \<open>Post-action verification\<close>

text \<open>The intervention a post-action measurement of conflict \<open>cid\<close> is attributed to.\<close>

definition verifiable :: "ConflictId \<Rightarrow> InterventionRecord \<Rightarrow> bool" where
  "verifiable cid i \<longleftrightarrow> ir_conflictId i = cid
     \<and> (ir_state i = LS_DISPATCHED \<or> ir_state i = LS_ACKNOWLEDGED \<or> ir_state i = LS_AUTHORIZED)"

text \<open>Another conflict in which the target is now a victim beyond its hard floor.\<close>

definition secondary_violation :: "EngineState \<Rightarrow> ConflictId \<Rightarrow> WorkloadId \<Rightarrow> bool" where
  "secondary_violation s cid target \<longleftrightarrow>
     list_ex (\<lambda>(k, c). k \<noteq> cid \<and> target \<in> set (cc_affected c)
       \<and> f64_gt (cc_degradation c)
           (f64_minus f64_one (wp_hardSloFloor (workload_policy_for (es_policy s) target))))
       (es_conflicts s)"

definition classify_outcome :: "bool \<Rightarrow> double \<Rightarrow> double \<Rightarrow> double \<Rightarrow> VerificationOutcome" where
  "classify_outcome secondaryHard before after threshold =
     (if secondaryHard
      then (if f64_lt after threshold then VO_SHIFTED_CONTENTION else VO_CREATED_SECONDARY_VIOLATION)
      else if f64_le after threshold then VO_RESOLVED
      else if f64_lt after before then VO_PARTIALLY_RESOLVED
      else if f64_gt after before then VO_WORSENED
      else VO_INEFFECTIVE)"

text \<open>The states a verified intervention and its conflict move to.\<close>

fun outcome_states :: "VerificationOutcome \<Rightarrow> LifecycleState \<times> ConflictState" where
  "outcome_states VO_RESOLVED = (LS_EFFECTIVE, CS_RESOLVED)"
| "outcome_states VO_PARTIALLY_RESOLVED = (LS_PARTIALLY_EFFECTIVE, CS_PARTIALLY_RESOLVED)"
| "outcome_states VO_INEFFECTIVE = (LS_INEFFECTIVE, CS_UNRESOLVED)"
| "outcome_states VO_WORSENED = (LS_INEFFECTIVE, CS_UNRESOLVED)"
| "outcome_states VO_SHIFTED_CONTENTION = (LS_INEFFECTIVE, CS_UNRESOLVED)"
| "outcome_states VO_CREATED_SECONDARY_VIOLATION = (LS_INEFFECTIVE, CS_UNRESOLVED)"
| "outcome_states VO_CREATED_FAIRNESS_VIOLATION = (LS_INEFFECTIVE, CS_UNRESOLVED)"
| "outcome_states _ = (LS_OUTCOME_UNKNOWN, CS_UNRESOLVED)"

definition verify_intervention ::
  "InterferenceEvidence \<Rightarrow> VerificationOutcome \<Rightarrow> InterventionRecord \<Rightarrow> InterventionRecord" where
  "verify_intervention e outcome i =
     i\<lparr>ir_result := outcome, ir_completedAt := ie_sampledAt e, ir_verificationReported := True,
       ir_state := fst (outcome_states outcome)\<rparr>"

definition reset_streak :: "WorkloadId \<Rightarrow> EngineState \<Rightarrow> EngineState" where
  "reset_streak w s =
     (case om_find (es_fairness s) w of
        None \<Rightarrow> s
      | Some f \<Rightarrow> s\<lparr>es_fairness := om_put w (f\<lparr>fr_consecutiveInterventions := 0\<rparr>) (es_fairness s)\<rparr>)"

definition measure_conflict :: "InterferenceEvidence \<Rightarrow> ContentionConflict \<Rightarrow> ContentionConflict" where
  "measure_conflict e c =
     c\<lparr>cc_degradation := ie_degradation e, cc_lastUpdatedAt := ie_sampledAt e,
       cc_evidenceIds := cc_evidenceIds c @ [ie_id e]\<rparr>"

definition post_action_engine ::
  "InterferenceEvidence \<Rightarrow> ConflictId \<Rightarrow> ContentionConflict \<Rightarrow> EngineState \<Rightarrow> EngineState" where
  "post_action_engine e k c s0 =
     (let before = cc_degradation c;
          c1 = measure_conflict e c;
          s = put_conflict k c1 s0
      in case om_first (verifiable (cc_id c1)) (es_interventions s) of
           None \<Rightarrow> s
         | Some (ik, i) \<Rightarrow>
             let secondaryHard = secondary_violation s (cc_id c1) (ir_target i);
                 outcome = classify_outcome secondaryHard before (cc_degradation c1)
                             (p_actionabilityThreshold (es_policy s));
                 s1 = put_conflict k (c1\<lparr>cc_state := snd (outcome_states outcome)\<rparr>)
                        (put_intervention ik (verify_intervention e outcome i) s)
             in if outcome = VO_RESOLVED then reset_streak (ir_target i) s1 else s1)"

definition submit_post_action_evidence :: "InterferenceEvidence \<Rightarrow> GovernorState \<Rightarrow> Status \<times> GovernorState" where
  "submit_post_action_evidence input st0 =
     (let v = validate_evidence input
      in if \<not> status_ok v then (v, st0)
         else let (e, st) = store_evidence (with_fractions input) st0
         in case om_first (concerns e) (es_conflicts (gs_engine st)) of
              None \<Rightarrow> (status_good, st)
            | Some (k, c) \<Rightarrow> (status_good, on_engine (post_action_engine e k c) st))"

section \<open>Queries\<close>

definition conflict_ids :: "GovernorState \<Rightarrow> ConflictId list" where
  "conflict_ids st = map fst (es_conflicts (gs_engine st))"

definition conflict_of :: "ConflictId \<Rightarrow> GovernorState \<Rightarrow> ContentionConflict option" where
  "conflict_of cid st = om_find (es_conflicts (gs_engine st)) cid"

definition intervention_of :: "InterventionId \<Rightarrow> GovernorState \<Rightarrow> InterventionRecord option" where
  "intervention_of iid st = om_find (es_interventions (gs_engine st)) iid"

definition fairness_of :: "WorkloadId \<Rightarrow> GovernorState \<Rightarrow> FairnessRecord option" where
  "fairness_of w st = om_find (es_fairness (gs_engine st)) w"

definition action_budget :: "GovernorState \<Rightarrow> ActionBudget" where
  "action_budget st = p_budget (es_policy (gs_engine st))"

end
