(* ===== verification/CG_Invariant.thy ===== *)
theory CG_Invariant
  imports CG_Governor
begin

text \<open>
  The well-formedness of the governor's state and its preservation by every operation of
  \<^verbatim>\<open>CG_Governor\<close>. Maps are in key order and hold each record under its own id; conflicts
  refer to stored evidence and interventions, interventions to a stored conflict; stored
  evidence passed validation and carries the recomputed fractions; the policy is valid; and
  there is at most one conflict for a victim and a resource domain.
\<close>

section \<open>The invariant\<close>


definition evidence_ok :: "InterferenceEvidenceId \<Rightarrow> InterferenceEvidence \<Rightarrow> bool" where
  "evidence_ok k e \<longleftrightarrow> ie_id e = k \<and> id_value (ie_victim e) \<noteq> 0
     \<and> f64_isfinite (ie_isolatedBaseline e) \<and> f64_gt (ie_isolatedBaseline e) f64_zero
     \<and> f64_isfinite (ie_coRunObservation e) \<and> f64_le f64_zero (ie_confidence e)
     \<and> f64_le (ie_confidence e) f64_one \<and> ie_sampleCount e \<noteq> 0
     \<and> ie_degradation e = compute_degradation (ie_metric e) (ie_isolatedBaseline e) (ie_coRunObservation e)
     \<and> ie_improvement e = compute_improvement (ie_metric e) (ie_isolatedBaseline e) (ie_coRunObservation e)"

definition conflict_ok :: "EngineState \<Rightarrow> ConflictId \<Rightarrow> ContentionConflict \<Rightarrow> bool" where
  "conflict_ok s k c \<longleftrightarrow> cc_id c = k \<and> cc_affected c \<noteq> [] \<and> cc_evidenceIds c \<noteq> []
     \<and> set (cc_evidenceIds c) \<subseteq> dom (om_find (es_evidence s))
     \<and> set (cc_selectedIds c) \<subseteq> dom (om_find (es_interventions s))
     \<and> f64_le f64_zero (cc_degradation c)"

definition intervention_ok :: "EngineState \<Rightarrow> InterventionId \<Rightarrow> InterventionRecord \<Rightarrow> bool" where
  "intervention_ok s k i \<longleftrightarrow> ir_id i = k \<and> ir_conflictId i \<in> dom (om_find (es_conflicts s))"

definition fairness_ok :: "WorkloadId \<Rightarrow> FairnessRecord \<Rightarrow> bool" where
  "fairness_ok k f \<longleftrightarrow> fr_workload f = k
     \<and> unat (fr_consecutiveInterventions f) \<le> unat (fr_interventionCount f)"

text \<open>Two conflicts never share a domain and a victim.\<close>

definition same_subject :: "ContentionConflict \<Rightarrow> ContentionConflict \<Rightarrow> bool" where
  "same_subject c c' \<longleftrightarrow> cc_domain c = cc_domain c' \<and> set (cc_affected c) \<inter> set (cc_affected c') \<noteq> {}"

definition maps_sorted :: "EngineState \<Rightarrow> bool" where
  "maps_sorted s \<longleftrightarrow> om_inv (es_conflicts s) \<and> om_inv (es_evidence s) \<and> om_inv (es_interventions s)
     \<and> om_inv (es_fairness s) \<and> om_inv (p_workloads (es_policy s))
     \<and> om_inv (au_workloadGenerations (es_authority s)) \<and> om_inv (au_workloadBoots (es_authority s))"

definition engine_inv :: "EngineState \<Rightarrow> bool" where
  "engine_inv s \<longleftrightarrow> maps_sorted s \<and> valid_policy (es_policy s)
     \<and> (\<forall>k e. om_find (es_evidence s) k = Some e \<longrightarrow> evidence_ok k e)
     \<and> (\<forall>k c. om_find (es_conflicts s) k = Some c \<longrightarrow> conflict_ok s k c)
     \<and> (\<forall>k i. om_find (es_interventions s) k = Some i \<longrightarrow> intervention_ok s k i)
     \<and> (\<forall>k f. om_find (es_fairness s) k = Some f \<longrightarrow> fairness_ok k f)
     \<and> (\<forall>k c k' c'. om_find (es_conflicts s) k = Some c \<longrightarrow> om_find (es_conflicts s) k' = Some c' \<longrightarrow>
          same_subject c c' \<longrightarrow> k = k')"

definition gov_inv :: "GovernorState \<Rightarrow> bool" where
  "gov_inv st \<longleftrightarrow> engine_inv (gs_engine st)"

lemmas ok_defs = evidence_ok_def conflict_ok_def intervention_ok_def fairness_ok_def

lemma engine_invD:
  assumes "engine_inv s"
  shows "maps_sorted s" "valid_policy (es_policy s)"
    "om_find (es_evidence s) ke = Some e \<Longrightarrow> evidence_ok ke e"
    "om_find (es_conflicts s) kc = Some c \<Longrightarrow> conflict_ok s kc c"
    "om_find (es_interventions s) ki = Some i \<Longrightarrow> intervention_ok s ki i"
    "om_find (es_fairness s) kf = Some f \<Longrightarrow> fairness_ok kf f"
    "om_find (es_conflicts s) kc = Some c \<Longrightarrow> om_find (es_conflicts s) kd = Some d \<Longrightarrow>
       same_subject c d \<Longrightarrow> kc = kd"
  using assms unfolding engine_inv_def by blast+

lemma default_state_inv: "gov_inv default_GovernorState"
  by (simp add: gov_inv_def engine_inv_def maps_sorted_def default_GovernorState_def default_EngineState_def
      default_policy_valid default_AuthorityContext_def)
    (simp add: default_ContentionPolicy_def)

lemma on_engine_sel [simp]:
  "gs_engine (on_engine f st) = f (gs_engine st)"
  "gs_nextConflictId (on_engine f st) = gs_nextConflictId st"
  "gs_nextEvidenceId (on_engine f st) = gs_nextEvidenceId st"
  "gs_nextInterventionId (on_engine f st) = gs_nextInterventionId st"
  "gs_nextDispatchId (on_engine f st) = gs_nextDispatchId st"
  "gs_nextAttemptId (on_engine f st) = gs_nextAttemptId st"
  by (simp_all add: on_engine_def)

lemma gov_inv_on_engine [simp]: "gov_inv (on_engine f st) \<longleftrightarrow> engine_inv (f (gs_engine st))"
  by (simp add: gov_inv_def)

section \<open>Updates of one entry\<close>

lemma put_conflict_sel [simp]:
  "es_conflicts (put_conflict k c s) = om_put k c (es_conflicts s)"
  "es_evidence (put_conflict k c s) = es_evidence s"
  "es_interventions (put_conflict k c s) = es_interventions s"
  "es_fairness (put_conflict k c s) = es_fairness s"
  "es_policy (put_conflict k c s) = es_policy s"
  "es_authority (put_conflict k c s) = es_authority s"
  by (simp_all add: put_conflict_def)

lemma put_intervention_sel [simp]:
  "es_interventions (put_intervention k i s) = om_put k i (es_interventions s)"
  "es_evidence (put_intervention k i s) = es_evidence s"
  "es_conflicts (put_intervention k i s) = es_conflicts s"
  "es_fairness (put_intervention k i s) = es_fairness s"
  "es_policy (put_intervention k i s) = es_policy s"
  "es_authority (put_intervention k i s) = es_authority s"
  by (simp_all add: put_intervention_def)

lemma same_subject_sym: "same_subject c d \<Longrightarrow> same_subject d c"
  by (auto simp: same_subject_def)

lemma conflict_ok_mono:
  assumes "conflict_ok s k c" "dom (om_find (es_evidence s)) \<subseteq> dom (om_find (es_evidence s'))"
    "dom (om_find (es_interventions s)) \<subseteq> dom (om_find (es_interventions s'))"
  shows "conflict_ok s' k c"
  using assms unfolding conflict_ok_def by blast

lemma intervention_ok_mono:
  assumes "intervention_ok s k i" "dom (om_find (es_conflicts s)) \<subseteq> dom (om_find (es_conflicts s'))"
  shows "intervention_ok s' k i"
  using assms unfolding intervention_ok_def by blast

text \<open>To establish the invariant after an update that removes nothing.\<close>

lemma engine_inv_grow:
  assumes "engine_inv s" "maps_sorted s'" "valid_policy (es_policy s')"
    and grow: "dom (om_find (es_evidence s)) \<subseteq> dom (om_find (es_evidence s'))"
      "dom (om_find (es_interventions s)) \<subseteq> dom (om_find (es_interventions s'))"
      "dom (om_find (es_conflicts s)) \<subseteq> dom (om_find (es_conflicts s'))"
    and e: "\<And>k e. om_find (es_evidence s') k = Some e \<Longrightarrow>
        om_find (es_evidence s) k = Some e \<or> evidence_ok k e"
    and c: "\<And>k c. om_find (es_conflicts s') k = Some c \<Longrightarrow>
        om_find (es_conflicts s) k = Some c \<or> conflict_ok s' k c"
    and i: "\<And>k i. om_find (es_interventions s') k = Some i \<Longrightarrow>
        om_find (es_interventions s) k = Some i \<or> intervention_ok s' k i"
    and f: "\<And>k f. om_find (es_fairness s') k = Some f \<Longrightarrow>
        om_find (es_fairness s) k = Some f \<or> fairness_ok k f"
    and u: "\<And>k c k' c'. om_find (es_conflicts s') k = Some c \<Longrightarrow> om_find (es_conflicts s') k' = Some c' \<Longrightarrow>
        same_subject c c' \<Longrightarrow> k = k'"
  shows "engine_inv s'"
  unfolding engine_inv_def
  using assms(2,3) e c i f u engine_invD [OF assms(1)] conflict_ok_mono [OF _ grow(1,2)]
    intervention_ok_mono [OF _ grow(3)]
  by meson

lemma engine_inv_put_conflict:
  assumes "engine_inv s" "conflict_ok s k c"
    "\<And>k' c'. om_find (es_conflicts s) k' = Some c' \<Longrightarrow> same_subject c c' \<Longrightarrow> k' = k"
  shows "engine_inv (put_conflict k c s)"
proof (rule engine_inv_grow [OF assms(1)])
  show "k1 = k2" if "om_find (es_conflicts (put_conflict k c s)) k1 = Some c1"
    "om_find (es_conflicts (put_conflict k c s)) k2 = Some c2" "same_subject c1 c2" for k1 c1 k2 c2
    using that assms(3) engine_invD(7) [OF assms(1)] same_subject_sym
    by (auto split: if_splits)
qed (use engine_invD [OF assms(1)] conflict_ok_mono [OF assms(2), of "put_conflict k c s"] in
    \<open>auto simp: maps_sorted_def split: if_splits\<close>)

lemma engine_inv_put_intervention:
  assumes "engine_inv s" "intervention_ok s k i"
  shows "engine_inv (put_intervention k i s)"
  by (rule engine_inv_grow [OF assms(1)])
    (use engine_invD [OF assms(1)] intervention_ok_mono [OF assms(2), of "put_intervention k i s"] in
      \<open>auto simp: maps_sorted_def split: if_splits\<close>)

lemma engine_inv_put_fairness:
  assumes "engine_inv s" "fairness_ok k f"
  shows "engine_inv (s\<lparr>es_fairness := om_put k f (es_fairness s)\<rparr>)"
  by (rule engine_inv_grow [OF assms(1)])
    (use engine_invD [OF assms(1)] assms(2) in \<open>auto simp: maps_sorted_def split: if_splits\<close>)

lemma engine_inv_put_evidence:
  assumes "engine_inv s" "evidence_ok k e"
  shows "engine_inv (s\<lparr>es_evidence := om_put k e (es_evidence s)\<rparr>)"
  by (rule engine_inv_grow [OF assms(1)])
    (use engine_invD [OF assms(1)] assms(2) in \<open>auto simp: maps_sorted_def split: if_splits\<close>)

text \<open>An update of a stored conflict that keeps its subject.\<close>

lemma engine_inv_update_conflict:
  assumes "engine_inv s" "om_find (es_conflicts s) k = Some c0"
    "cc_domain c = cc_domain c0" "cc_affected c = cc_affected c0" "conflict_ok s k c"
  shows "engine_inv (put_conflict k c s)"
proof (rule engine_inv_put_conflict [OF assms(1,5)])
  show "k' = k" if "om_find (es_conflicts s) k' = Some c'" "same_subject c c'" for k' c'
    using engine_invD(7) [OF assms(1) that(1) assms(2)] that(2) assms(3,4)
    by (auto simp: same_subject_def)
qed


section \<open>The operations\<close>

text \<open>An update of fields the invariant does not constrain beyond validity of the policy.\<close>

lemma engine_inv_authority:
  assumes "engine_inv s" "om_inv (au_workloadGenerations a)" "om_inv (au_workloadBoots a)"
  shows "engine_inv (s\<lparr>es_authority := a\<rparr>)"
  by (rule engine_inv_grow [OF assms(1)]) (use engine_invD [OF assms(1)] assms(2,3) in \<open>auto simp: maps_sorted_def\<close>)

lemma engine_inv_policy:
  assumes "engine_inv s" "valid_policy p" "om_inv (p_workloads p)"
  shows "engine_inv (s\<lparr>es_policy := p\<rparr>)"
  by (rule engine_inv_grow [OF assms(1)]) (use engine_invD [OF assms(1)] assms(2,3) in \<open>auto simp: maps_sorted_def\<close>)

lemma engine_inv_on_authority:
  assumes "engine_inv s"
    "om_inv (au_workloadGenerations (es_authority s)) \<Longrightarrow> om_inv (au_workloadGenerations (f (es_authority s)))"
    "om_inv (au_workloadBoots (es_authority s)) \<Longrightarrow> om_inv (au_workloadBoots (f (es_authority s)))"
  shows "engine_inv (on_authority f s)"
  unfolding on_authority_def
  using engine_invD(1) [OF assms(1)] assms by (intro engine_inv_authority) (simp_all add: maps_sorted_def)

lemma set_policy_inv: "gov_inv st \<Longrightarrow> om_inv (p_workloads p) \<Longrightarrow> gov_inv (snd (set_policy p st))"
  by (auto simp: set_policy_def Let_def validate_policy_ok gov_inv_def
      intro!: engine_inv_on_authority engine_inv_policy)

lemma set_authority_inv:
  "gov_inv st \<Longrightarrow> om_inv (au_workloadGenerations a) \<Longrightarrow> om_inv (au_workloadBoots a) \<Longrightarrow>
     gov_inv (snd (set_authority a st))"
  by (simp add: set_authority_def engine_inv_authority gov_inv_def)

lemma record_worker_boot_inv: "gov_inv st \<Longrightarrow> gov_inv (snd (record_worker_boot w boot st))"
  by (auto simp: record_worker_boot_def gov_inv_def intro!: engine_inv_on_authority)

lemma record_workload_generation_inv: "gov_inv st \<Longrightarrow> gov_inv (snd (record_workload_generation w g st))"
  by (auto simp: record_workload_generation_def gov_inv_def intro!: engine_inv_on_authority)

subsection \<open>Epochs\<close>

lemma epoch_sel [simp]:
  "cc_id (epoch_conflict c) = cc_id c" "cc_affected (epoch_conflict c) = cc_affected c"
  "cc_domain (epoch_conflict c) = cc_domain c" "cc_evidenceIds (epoch_conflict c) = cc_evidenceIds c"
  "cc_selectedIds (epoch_conflict c) = cc_selectedIds c" "cc_degradation (epoch_conflict c) = cc_degradation c"
  "ir_id (epoch_intervention i) = ir_id i" "ir_conflictId (epoch_intervention i) = ir_conflictId i"
  "evidence_ok k (epoch_evidence e) = evidence_ok k e" "fairness_ok w f \<Longrightarrow> fairness_ok w (epoch_fairness f)"
  "same_subject (epoch_conflict c) (epoch_conflict d) = same_subject c d"
  by (simp_all add: epoch_conflict_def epoch_intervention_def epoch_evidence_def epoch_fairness_def ok_defs
      same_subject_def)

lemma advance_epoch_inv: "gov_inv st \<Longrightarrow> gov_inv (snd (advance_epoch st))"
proof -
  assume inv: "gov_inv st"
  let ?s = "gs_engine st"
  let ?s' = "?s\<lparr>es_evidence := om_update_all epoch_evidence (es_evidence ?s),
           es_conflicts := om_update_all epoch_conflict (es_conflicts ?s),
           es_interventions := om_update_all epoch_intervention (es_interventions ?s),
           es_fairness := om_update_all epoch_fairness (es_fairness ?s)\<rparr>"
  have s: "engine_inv ?s" using inv by (simp add: gov_inv_def)
  have "engine_inv ?s'"
    unfolding engine_inv_def maps_sorted_def
    using engine_invD [OF s]
    by (auto simp: maps_sorted_def conflict_ok_def intervention_ok_def dom_def subset_iff)
  then show ?thesis by (auto simp: advance_epoch_def intro!: engine_inv_on_authority)
qed

subsection \<open>Evidence\<close>

lemma store_evidence_inv:
  assumes "gov_inv st0" "status_ok (validate_evidence input)" "store_evidence (with_fractions input) st0 = (e, st)"
  shows "gov_inv st" "om_find (es_evidence (gs_engine st)) (ie_id e) = Some e" "evidence_ok (ie_id e) e"
    "es_conflicts (gs_engine st) = es_conflicts (gs_engine st0)"
    "es_interventions (gs_engine st) = es_interventions (gs_engine st0)"
proof -
  have st: "gs_engine st = (gs_engine st0)\<lparr>es_evidence := om_put (ie_id e) e (es_evidence (gs_engine st0))\<rparr>"
    and e: "e = (with_fractions input)\<lparr>ie_id := ie_id e\<rparr>"
    using assms(3) by (auto simp: store_evidence_def Let_def split: prod.splits if_splits)
  have "evidence_ok (ie_id e) ((with_fractions input)\<lparr>ie_id := ie_id e\<rparr>)"
    using assms(2) structurally_validD [of input]
    by (simp add: evidence_ok_def with_fractions_def validate_evidence_ok)
  then show ok: "evidence_ok (ie_id e) e" using e by simp
  show "gov_inv st" using assms(1) ok by (simp add: gov_inv_def st engine_inv_put_evidence)
  show "om_find (es_evidence (gs_engine st)) (ie_id e) = Some e"
    "es_conflicts (gs_engine st) = es_conflicts (gs_engine st0)"
    "es_interventions (gs_engine st) = es_interventions (gs_engine st0)" by (simp_all add: st)
qed

lemma f64_max_nonneg: "f64_le f64_zero a \<Longrightarrow> f64_le f64_zero b \<Longrightarrow> f64_le f64_zero (f64_max a b)"
  by (simp add: f64_max_def)

lemma progress_conflict_sel [simp]:
  "cc_id (progress_conflict p e c) = cc_id c" "cc_affected (progress_conflict p e c) = cc_affected c"
  "cc_domain (progress_conflict p e c) = cc_domain c"
  "cc_evidenceIds (progress_conflict p e c) = cc_evidenceIds c"
  "cc_selectedIds (progress_conflict p e c) = cc_selectedIds c"
  "cc_degradation (progress_conflict p e c) = cc_degradation c"
  "cc_associated (progress_conflict p e c) = cc_associated c"
  by (simp_all add: progress_conflict_def)

lemma conflict_ok_progress [simp]: "conflict_ok s k (progress_conflict p e c) = conflict_ok s k c"
  by (simp add: conflict_ok_def)

lemma new_conflict_sel [simp]:
  "cc_affected (new_conflict e cid s) = [ie_victim e]" "cc_domain (new_conflict e cid s) = ie_domain e"
  "cc_evidenceIds (new_conflict e cid s) = [ie_id e]" "cc_degradation (new_conflict e cid s) = ie_degradation e"
  "cc_selectedIds (new_conflict e cid s) = []" "cc_id (new_conflict e cid s) = cid"
  "cc_associated (new_conflict e cid s) = ie_neighbors e"
  by (simp_all add: new_conflict_def default_ContentionConflict_def)

lemma evidence_ok_nonneg: "evidence_ok k e \<Longrightarrow> f64_le f64_zero (ie_degradation e)"
  by (simp add: evidence_ok_def compute_degradation_nonneg)

lemma ingest_evidence_inv: "gov_inv st0 \<Longrightarrow> gov_inv (snd (ingest_evidence input st0))"
proof (cases "status_ok (validate_evidence input)")
  case True
  assume inv: "gov_inv st0"
  obtain e st where se: "store_evidence (with_fractions input) st0 = (e, st)" by fastforce
  note s = store_evidence_inv [OF inv True se]
  let ?s = "gs_engine st"
  have eng: "engine_inv ?s" and deg: "f64_le f64_zero (ie_degradation e)"
    using s(1,3) evidence_ok_nonneg by (auto simp: gov_inv_def)
  show ?thesis
  proof (cases "om_first (concerns e) (es_conflicts ?s)")
    case None
    let ?cid = "Id (gs_nextConflictId st)"
    have "engine_inv (put_conflict ?cid (progress_conflict (es_policy ?s) e (new_conflict e ?cid ?s)) ?s)"
    proof (rule engine_inv_put_conflict [OF eng])
      show "k' = ?cid" if "om_find (es_conflicts ?s) k' = Some c'"
        "same_subject (progress_conflict (es_policy ?s) e (new_conflict e ?cid ?s)) c'" for k' c'
        using om_first_None [OF None that(1)] that(2) by (auto simp: concerns_def same_subject_def)
    qed (use s(2) deg in \<open>auto simp: conflict_ok_def\<close>)
    then show ?thesis using True None by (simp add: ingest_evidence_def se gov_inv_def Let_def)
  next
    case (Some kc)
    obtain k c where kc: "kc = (k, c)" by fastforce
    have "om_inv (es_conflicts ?s)" using engine_invD(1) [OF eng] by (simp add: maps_sorted_def)
    then have c: "om_find (es_conflicts ?s) k = Some c"
      by (rule om_first_Some(1) [where P = "concerns e"]) (simp add: Some kc)
    have "engine_inv (put_conflict k (progress_conflict (es_policy ?s) e (update_conflict e c)) ?s)"
      by (rule engine_inv_update_conflict [OF eng c])
        (use engine_invD(4) [OF eng c] s(2) deg in
          \<open>auto simp: conflict_ok_def update_conflict_def intro: f64_max_nonneg\<close>)
    then show ?thesis using True Some kc by (simp add: ingest_evidence_def se)
  qed
qed (simp add: ingest_evidence_def)


subsection \<open>Authorization\<close>

lemma consume_budget_limits [simp]:
  "ab_maxPreemptionsPerWindow (consume_budget b c now) = ab_maxPreemptionsPerWindow b"
  "ab_maxMigrationsPerWindow (consume_budget b c now) = ab_maxMigrationsPerWindow b"
  "ab_maxPlacementChangesPerWindow (consume_budget b c now) = ab_maxPlacementChangesPerWindow b"
  "ab_maxThrottlesPerWindow (consume_budget b c now) = ab_maxThrottlesPerWindow b"
  "ab_maxCollectiveReschedulesPerWindow (consume_budget b c now) = ab_maxCollectiveReschedulesPerWindow b"
  "ab_maxAnyPerWindow (consume_budget b c now) = ab_maxAnyPerWindow b"
  by (simp_all add: consume_budget_def Let_def)

lemma valid_policy_budget [simp]:
  "valid_policy (p\<lparr>p_budget := consume_budget (p_budget p) c now\<rparr>) = valid_policy p"
  by (simp add: valid_policy_def)

lemma charge_fairness_ok: "fairness_ok k f \<Longrightarrow> fairness_ok k (charge_fairness k now f)"
proof -
  assume ok: "fairness_ok k f"
  have "unat (fr_consecutiveInterventions f) < 2 ^ 32" using unsigned_less [of "fr_consecutiveInterventions f"] by simp
  with ok show ?thesis
    by (cases "fr_consecutiveInterventions f = u32_max")
      (simp_all add: fairness_ok_def charge_fairness_def saturating_add_spec unat_add_one unat_u32_max)
qed

lemma charge_fairness_new: "fairness_ok k (charge_fairness k now default_FairnessRecord)"
  by (simp add: fairness_ok_def charge_fairness_def default_FairnessRecord_def saturating_add_spec)

lemma new_intervention_sel [simp]:
  "ir_id (new_intervention cls cid target f ad now st) = Id (gs_nextInterventionId st)"
  "ir_conflictId (new_intervention cls cid target f ad now st) = cid"
  "ir_cls (new_intervention cls cid target f ad now st) = cls"
  "ir_target (new_intervention cls cid target f ad now st) = target"
  "ir_fence (new_intervention cls cid target f ad now st) = f"
  "ir_state (new_intervention cls cid target f ad now st) = LS_AUTHORIZED"
  "ir_authorizedAt (new_intervention cls cid target f ad now st) = now"
  by (simp_all add: new_intervention_def)

lemma commit_intervention_sel [simp]:
  "es_interventions (gs_engine (commit_intervention cid c ir now st)) =
     om_put (ir_id ir) ir (es_interventions (gs_engine st))"
  "es_evidence (gs_engine (commit_intervention cid c ir now st)) = es_evidence (gs_engine st)"
  "es_authority (gs_engine (commit_intervention cid c ir now st)) = es_authority (gs_engine st)"
  "es_conflicts (gs_engine (commit_intervention cid c ir now st)) =
     om_put cid (c\<lparr>cc_state := CS_INTERVENTION_AUTHORIZED, cc_selectedIds := cc_selectedIds c @ [ir_id ir],
                    cc_lastActionAt := now\<rparr>) (es_conflicts (gs_engine st))"
  "es_policy (gs_engine (commit_intervention cid c ir now st)) =
     (es_policy (gs_engine st))\<lparr>p_budget := consume_budget (p_budget (es_policy (gs_engine st))) (ir_cls ir) now\<rparr>"
  "es_fairness (gs_engine (commit_intervention cid c ir now st)) =
     om_put (ir_target ir) (charge_fairness (ir_target ir) now
       (case om_find (es_fairness (gs_engine st)) (ir_target ir) of Some f \<Rightarrow> f | None \<Rightarrow> default_FairnessRecord))
       (es_fairness (gs_engine st))"
  "gs_nextInterventionId (commit_intervention cid c ir now st) = gs_nextInterventionId st + 1"
  "gs_nextConflictId (commit_intervention cid c ir now st) = gs_nextConflictId st"
  "gs_nextEvidenceId (commit_intervention cid c ir now st) = gs_nextEvidenceId st"
  by (simp_all add: commit_intervention_def Let_def)

lemma same_subject_commit [simp]:
  "same_subject (c\<lparr>cc_state := x, cc_selectedIds := ids, cc_lastActionAt := now\<rparr>) d = same_subject c d"
  "same_subject d (c\<lparr>cc_state := x, cc_selectedIds := ids, cc_lastActionAt := now\<rparr>) = same_subject d c"
  by (simp_all add: same_subject_def)

lemma commit_intervention_inv:
  assumes inv: "gov_inv st" and c: "om_find (es_conflicts (gs_engine st)) cid = Some c" "ir_conflictId ir = cid"
  shows "gov_inv (commit_intervention cid c ir now st)"
proof -
  have s: "engine_inv (gs_engine st)" using inv by (simp add: gov_inv_def)
  note D = engine_invD [OF s]
  show ?thesis
    unfolding gov_inv_def
  proof (rule engine_inv_grow [OF s])
    show "maps_sorted (gs_engine (commit_intervention cid c ir now st))"
      using D(1) by (simp add: maps_sorted_def)
    show "k = k'" if "om_find (es_conflicts (gs_engine (commit_intervention cid c ir now st))) k = Some d"
      "om_find (es_conflicts (gs_engine (commit_intervention cid c ir now st))) k' = Some d'" "same_subject d d'"
      for k d k' d'
      using that c by (auto split: if_splits intro: D(7) D(7) [symmetric])
    show "om_find (es_fairness (gs_engine st)) k = Some f \<or> fairness_ok k f"
      if "om_find (es_fairness (gs_engine (commit_intervention cid c ir now st))) k = Some f" for k f
      using that D(6) charge_fairness_ok charge_fairness_new by (auto split: if_splits option.splits)
    show "om_find (es_conflicts (gs_engine st)) k = Some d
        \<or> conflict_ok (gs_engine (commit_intervention cid c ir now st)) k d"
      if "om_find (es_conflicts (gs_engine (commit_intervention cid c ir now st))) k = Some d" for k d
      using that D(4) [OF c(1)] by (auto simp: conflict_ok_def subset_iff split: if_splits)
  qed (use D(2) c in \<open>auto simp: intervention_ok_def split: if_splits\<close>)
qed

text \<open>The guards a granted intervention passed.\<close>

lemma authorize_granted:
  assumes "authorize cid cls now st = Inr (Some iid, st')"
  obtains c cand eid e rest f adapter where
    "om_find (es_conflicts (gs_engine st)) cid = Some c"
    "picked (evaluate_conflict (gs_engine st) cid (es_authority (gs_engine st))) = Some cand"
    "cc_evidenceIds c = eid # rest" "om_find (es_evidence (gs_engine st)) eid = Some e"
    "f = make_fence (es_authority (gs_engine st)) (cc_generation c) (ie_generation e) (cand_target cand) (Id 1)"
    "fence_current (es_authority (gs_engine st)) f (cand_target cand)"
    "feas_status (check_feasibility (gs_engine st) (cand_target cand)
       (if cls \<noteq> IC_NO_ACTION then cls else cand_cls cand) f) = FS_FEASIBLE"
    "\<not> budget_exhausted (p_budget (es_policy (gs_engine st))) (if cls \<noteq> IC_NO_ACTION then cls else cand_cls cand)"
    "\<not> in_cooldown (gs_engine st) (cand_target cand) (if cls \<noteq> IC_NO_ACTION then cls else cand_cls cand) now"
    "iid = Id (gs_nextInterventionId st)"
    "st' = commit_intervention cid c (new_intervention (if cls \<noteq> IC_NO_ACTION then cls else cand_cls cand) cid
       (cand_target cand) f adapter now st) now st"
  using assms
  by (auto simp: authorize_def Let_def revalidate_ok split: option.splits list.splits if_splits)

text \<open>Nothing changes unless an intervention is granted.\<close>

lemma authorize_refused: "authorize cid cls now st = Inr (None, st') \<Longrightarrow> st' = st"
  by (auto simp: authorize_def Let_def split: option.splits list.splits if_splits)

lemma authorize_inv: "gov_inv st \<Longrightarrow> authorize cid cls now st = Inr (r, st') \<Longrightarrow> gov_inv st'"
proof (cases r)
  case None
  assume "gov_inv st" "authorize cid cls now st = Inr (r, st')"
  then show ?thesis using None authorize_refused by blast
next
  case (Some iid)
  assume inv: "gov_inv st" and "authorize cid cls now st = Inr (r, st')"
  then show ?thesis
    using Some by (auto elim!: authorize_granted intro: commit_intervention_inv)
qed

lemma authorize_defined: "gov_inv st \<Longrightarrow> \<exists>r st'. authorize cid cls now st = Inr (r, st')"
proof -
  assume inv: "gov_inv st"
  have "\<exists>eid rest e. cc_evidenceIds c = eid # rest \<and> om_find (es_evidence (gs_engine st)) eid = Some e"
    if "om_find (es_conflicts (gs_engine st)) cid = Some c" for c
    using engine_invD(4) [of "gs_engine st", OF _ that] inv
    by (cases "cc_evidenceIds c") (auto simp: conflict_ok_def gov_inv_def)
  then show ?thesis
    by (fastforce simp: authorize_def Let_def split: option.splits list.splits if_splits)
qed


subsection \<open>Dispatch and callbacks\<close>

text \<open>Replacing a stored intervention by one with the same id and conflict.\<close>

lemma engine_inv_update_intervention:
  assumes "engine_inv s" "om_find (es_interventions s) k = Some i0" "ir_id i = ir_id i0"
    "ir_conflictId i = ir_conflictId i0"
  shows "engine_inv (put_intervention k i s)"
  using assms engine_invD(5) [OF assms(1,2)]
  by (intro engine_inv_put_intervention) (simp_all add: intervention_ok_def)

lemma dispatch_begin_inv: "gov_inv st \<Longrightarrow> gov_inv (snd (dispatch_begin iid now st))"
  by (auto simp: dispatch_begin_def Let_def gov_inv_def split: option.splits
      intro: engine_inv_update_intervention)

lemma apply_outcome_sel [simp]:
  "ir_id (apply_outcome res i) = ir_id i" "ir_conflictId (apply_outcome res i) = ir_conflictId i"
  "ir_target (apply_outcome res i) = ir_target i" "ir_cls (apply_outcome res i) = ir_cls i"
  by (simp_all add: apply_outcome_def)

lemma dispatch_finish_inv: "gov_inv st \<Longrightarrow> gov_inv (snd (dispatch_finish iid res st))"
  by (auto simp: dispatch_finish_def gov_inv_def split: option.splits intro: engine_inv_update_intervention)

lemma dispatch_inv: "gov_inv st \<Longrightarrow> gov_inv (snd (dispatch adapters iid now st))"
  using dispatch_begin_inv [of st iid now]
  by (auto simp: dispatch_def split: prod.splits sum.splits intro: dispatch_finish_inv)

lemma on_acknowledge_inv: "gov_inv st \<Longrightarrow> gov_inv (snd (on_acknowledge iid attempt now st))"
  by (auto simp: on_acknowledge_def gov_inv_def split: option.splits intro: engine_inv_update_intervention)

lemma on_action_failed_inv: "gov_inv st \<Longrightarrow> gov_inv (snd (on_action_failed iid attempt note st))"
  by (auto simp: on_action_failed_def gov_inv_def split: option.splits intro: engine_inv_update_intervention)

subsection \<open>Post-action verification\<close>

lemma reset_streak_sel [simp]:
  "es_conflicts (reset_streak w s) = es_conflicts s" "es_interventions (reset_streak w s) = es_interventions s"
  "es_evidence (reset_streak w s) = es_evidence s" "es_policy (reset_streak w s) = es_policy s"
  "es_authority (reset_streak w s) = es_authority s"
  by (simp_all add: reset_streak_def split: option.splits)

lemma reset_streak_inv: "engine_inv s \<Longrightarrow> engine_inv (reset_streak w s)"
  using engine_invD(6) [of s w]
  by (auto simp: reset_streak_def fairness_ok_def split: option.splits intro!: engine_inv_put_fairness)


lemma measure_conflict_sel [simp]:
  "cc_id (measure_conflict e c) = cc_id c" "cc_domain (measure_conflict e c) = cc_domain c"
  "cc_affected (measure_conflict e c) = cc_affected c" "cc_degradation (measure_conflict e c) = ie_degradation e"
  "cc_evidenceIds (measure_conflict e c) = cc_evidenceIds c @ [ie_id e]"
  "cc_selectedIds (measure_conflict e c) = cc_selectedIds c"
  by (simp_all add: measure_conflict_def)

definition verdict :: "EngineState \<Rightarrow> InterferenceEvidence \<Rightarrow> ConflictId \<Rightarrow> ContentionConflict
    \<Rightarrow> InterventionRecord \<Rightarrow> VerificationOutcome" where
  "verdict s e k c i =
     classify_outcome (secondary_violation (put_conflict k (measure_conflict e c) s) (cc_id c) (ir_target i))
       (cc_degradation c) (ie_degradation e) (p_actionabilityThreshold (es_policy s))"

text \<open>The two branches of the verification, with its verdict named.\<close>

lemma post_action_engine_none:
  "om_first (verifiable (cc_id c)) (es_interventions s) = None \<Longrightarrow>
     post_action_engine e k c s = put_conflict k (measure_conflict e c) s"
  by (simp add: post_action_engine_def Let_def)

lemma post_action_engine_some:
  "om_first (verifiable (cc_id c)) (es_interventions s) = Some (ik, i) \<Longrightarrow>
     post_action_engine e k c s =
       (let s1 = put_conflict k (measure_conflict e c\<lparr>cc_state := snd (outcome_states (verdict s e k c i))\<rparr>)
                   (put_intervention ik (verify_intervention e (verdict s e k c i) i)
                     (put_conflict k (measure_conflict e c) s))
        in if verdict s e k c i = VO_RESOLVED then reset_streak (ir_target i) s1 else s1)"
  by (simp add: post_action_engine_def Let_def verdict_def)

lemma post_action_engine_sel:
  assumes "om_first (verifiable (cc_id c)) (es_interventions s) = Some (ik, i)"
  shows "es_interventions (post_action_engine e k c s) =
      om_put ik (verify_intervention e (verdict s e k c i) i) (es_interventions s)"
    "es_conflicts (post_action_engine e k c s) =
      om_put k (measure_conflict e c\<lparr>cc_state := snd (outcome_states (verdict s e k c i))\<rparr>)
        (om_put k (measure_conflict e c) (es_conflicts s))"
    "es_authority (post_action_engine e k c s) = es_authority s"
    "es_policy (post_action_engine e k c s) = es_policy s"
    "es_evidence (post_action_engine e k c s) = es_evidence s"
  using assms by (simp_all add: post_action_engine_some Let_def)

lemma post_action_engine_inv:
  assumes s: "engine_inv s" and c: "om_find (es_conflicts s) k = Some c"
    and e: "om_find (es_evidence s) (ie_id e) = Some e"
  shows "engine_inv (post_action_engine e k c s)"
proof -
  let ?s1 = "put_conflict k (measure_conflict e c) s"
  have ok: "conflict_ok s k (measure_conflict e c)"
    using engine_invD(4) [OF s c] evidence_ok_nonneg [OF engine_invD(3) [OF s e]] e
    by (auto simp: conflict_ok_def)
  have s1: "engine_inv ?s1" by (rule engine_inv_update_conflict [OF s c _ _ ok]) simp_all
  show ?thesis
  proof (cases "om_first (verifiable (cc_id (measure_conflict e c))) (es_interventions ?s1)")
    case None
    then show ?thesis using s1 by (simp add: post_action_engine_def Let_def)
  next
    case (Some iki)
    obtain ik i where i: "iki = (ik, i)" by fastforce
    have "om_inv (es_interventions ?s1)" using engine_invD(1) [OF s1] by (simp add: maps_sorted_def)
    then have f: "om_find (es_interventions ?s1) ik = Some i"
      by (rule om_first_Some(1) [where P = "verifiable (cc_id (measure_conflict e c))"]) (simp only: Some i)
    define out where "out = verdict s e k c i"
    let ?s2 = "put_intervention ik (verify_intervention e out i) ?s1"
    let ?c2 = "measure_conflict e c\<lparr>cc_state := snd (outcome_states out)\<rparr>"
    have s2: "engine_inv ?s2"
      by (rule engine_inv_update_intervention [OF s1 f]) (simp_all add: verify_intervention_def)
    have "conflict_ok ?s2 k (measure_conflict e c)" by (rule conflict_ok_mono [OF ok]) auto
    then have ok2: "conflict_ok ?s2 k ?c2" by (simp add: conflict_ok_def)
    have "engine_inv (put_conflict k ?c2 ?s2)"
      by (rule engine_inv_update_conflict [where ?c0.0 = "measure_conflict e c", OF s2 _ _ _ ok2]) simp_all
    then show ?thesis
      using Some i by (auto simp: post_action_engine_some Let_def simp flip: out_def intro!: reset_streak_inv)
  qed
qed

lemma submit_post_action_evidence_inv: "gov_inv st0 \<Longrightarrow> gov_inv (snd (submit_post_action_evidence input st0))"
proof (cases "status_ok (validate_evidence input)")
  case True
  assume inv: "gov_inv st0"
  obtain e st where se: "store_evidence (with_fractions input) st0 = (e, st)" by fastforce
  note s = store_evidence_inv [OF inv True se]
  have eng: "engine_inv (gs_engine st)" using s(1) by (simp add: gov_inv_def)
  then have sorted: "om_inv (es_conflicts (gs_engine st))"
    using engine_invD(1) by (simp add: maps_sorted_def)
  have "engine_inv (post_action_engine e k c (gs_engine st))"
    if "om_first (concerns e) (es_conflicts (gs_engine st)) = Some (k, c)" for k c
    using om_first_Some(1) [OF sorted that] eng s(2) by (intro post_action_engine_inv)
  then show ?thesis
    using True s(1) by (auto simp: submit_post_action_evidence_def se Let_def split: option.splits)
qed (simp add: submit_post_action_evidence_def)

end
