(* ===== verification/CG_Lifecycle.thy ===== *)
theory CG_Lifecycle
  imports CG_Invariant
begin

text \<open>
  The governor as a transition system. A label is one critical section of \<^verbatim>\<open>governor.cpp\<close>: an
  operation that takes the lock once, or one of the two halves of \<^verbatim>\<open>dispatch\<close>, between
  which the adapter runs without the lock and other operations may take it. The system
  state adds to the governor's the dispatches whose adapter call is in flight and the history
  of adapter calls made. Loading a saved state is not a label; see \<^verbatim>\<open>CG_Persistence\<close>.
\<close>

section \<open>Calls and steps\<close>

datatype call =
    Set_policy ContentionPolicy
  | Set_authority AuthorityContext
  | Record_worker_boot WorkloadId WorkerBootId
  | Record_workload_generation WorkloadId WorkloadGeneration
  | Advance_epoch
  | Ingest_evidence InterferenceEvidence
  | Authorize ConflictId InterventionClass TimeMs
  | On_acknowledge InterventionId AttemptId TimeMs
  | On_action_failed InterventionId AttemptId string
  | Submit_post_action InterferenceEvidence

text \<open>The maps inside an argument are maps: their keys are in order.\<close>

fun call_ok :: "call \<Rightarrow> bool" where
  "call_ok (Set_policy p) = om_inv (p_workloads p)"
| "call_ok (Set_authority a) = (om_inv (au_workloadGenerations a) \<and> om_inv (au_workloadBoots a))"
| "call_ok _ = True"

fun run_call :: "call \<Rightarrow> GovernorState \<Rightarrow> undefined_behaviour + GovernorState" where
  "run_call (Set_policy p) st = Inr (snd (set_policy p st))"
| "run_call (Set_authority a) st = Inr (snd (set_authority a st))"
| "run_call (Record_worker_boot w b) st = Inr (snd (record_worker_boot w b st))"
| "run_call (Record_workload_generation w g) st = Inr (snd (record_workload_generation w g st))"
| "run_call Advance_epoch st = Inr (snd (advance_epoch st))"
| "run_call (Ingest_evidence e) st = Inr (snd (ingest_evidence e st))"
| "run_call (Authorize cid cls now) st = map_sum (\<lambda>ub. ub) snd (authorize cid cls now st)"
| "run_call (On_acknowledge iid attempt now) st = Inr (snd (on_acknowledge iid attempt now st))"
| "run_call (On_action_failed iid attempt note) st = Inr (snd (on_action_failed iid attempt note st))"
| "run_call (Submit_post_action e) st = Inr (snd (submit_post_action_evidence e st))"

record system =
  sys_state :: GovernorState
  sys_inflight :: "InterventionId list"
  sys_calls :: "(InterventionId \<times> InterventionClass \<times> WorkloadId \<times> AttemptId) list"

datatype label = Call call | Begin InterventionId TimeMs | Finish InterventionId AdapterResult

inductive step :: "system \<Rightarrow> label \<Rightarrow> system \<Rightarrow> bool" where
  step_call: "call_ok cl \<Longrightarrow> run_call cl (sys_state y) = Inr st' \<Longrightarrow>
     step y (Call cl) (y\<lparr>sys_state := st'\<rparr>)"
| step_refused: "dispatch_begin iid now (sys_state y) = (Inl status, st') \<Longrightarrow>
     step y (Begin iid now) (y\<lparr>sys_state := st'\<rparr>)"
| step_begin: "dispatch_begin iid now (sys_state y) = (Inr what, st') \<Longrightarrow>
     step y (Begin iid now)
       (y\<lparr>sys_state := st', sys_inflight := iid # sys_inflight y, sys_calls := (iid, what) # sys_calls y\<rparr>)"
| step_finish: "iid \<in> set (sys_inflight y) \<Longrightarrow>
     step y (Finish iid res)
       (y\<lparr>sys_state := snd (dispatch_finish iid res (sys_state y)), sys_inflight := remove1 iid (sys_inflight y)\<rparr>)"

inductive_cases step_CallE: "step y (Call cl) y'"
inductive_cases step_BeginE: "step y (Begin iid now) y'"
inductive_cases step_FinishE: "step y (Finish iid res) y'"

definition initial :: system where
  "initial = \<lparr>sys_state = default_GovernorState, sys_inflight = [], sys_calls = []\<rparr>"

text \<open>The states after a number of steps.\<close>

inductive runs :: "('s \<Rightarrow> 'l \<Rightarrow> 's \<Rightarrow> bool) \<Rightarrow> 's \<Rightarrow> nat \<Rightarrow> 's \<Rightarrow> bool"
  for trans :: "'s \<Rightarrow> 'l \<Rightarrow> 's \<Rightarrow> bool" and init :: 's where
  runs_init: "runs trans init 0 init"
| runs_step: "runs trans init n s \<Longrightarrow> trans s l s' \<Longrightarrow> runs trans init (Suc n) s'"

abbreviation reachable :: "nat \<Rightarrow> system \<Rightarrow> bool" where
  "reachable n y \<equiv> runs step initial n y"

section \<open>Invariants of transition systems\<close>

locale invariant_system =
  fixes init :: 's and trans :: "'s \<Rightarrow> 'l \<Rightarrow> 's \<Rightarrow> bool" and inv :: "nat \<Rightarrow> 's \<Rightarrow> bool"
  assumes inv_init: "inv 0 init"
    and inv_trans: "inv n s \<Longrightarrow> trans s l s' \<Longrightarrow> inv (Suc n) s'"
begin

lemma runs_inv: "runs trans init n s \<Longrightarrow> inv n s"
  by (induction rule: runs.induct) (auto intro: inv_init inv_trans)

end

section \<open>The state invariant along every run\<close>

lemma run_call_inv: "gov_inv st \<Longrightarrow> call_ok cl \<Longrightarrow> run_call cl st = Inr st' \<Longrightarrow> gov_inv st'"
proof (cases cl)
  case (Authorize cid cls now)
  assume "gov_inv st" "run_call cl st = Inr st'"
  then show ?thesis
    using Authorize by (cases "authorize cid cls now st") (auto intro: authorize_inv)
qed (auto simp: set_policy_inv set_authority_inv record_worker_boot_inv record_workload_generation_inv
    advance_epoch_inv ingest_evidence_inv on_acknowledge_inv on_action_failed_inv
    submit_post_action_evidence_inv)

lemma run_call_defined: "gov_inv st \<Longrightarrow> \<exists>st'. run_call cl st = Inr st'"
proof (cases cl)
  case (Authorize cid cls now)
  assume "gov_inv st"
  then obtain r st' where "authorize cid cls now st = Inr (r, st')" using authorize_defined by blast
  then show ?thesis using Authorize by simp
qed auto

lemma step_inv: "gov_inv (sys_state y) \<Longrightarrow> step y l y' \<Longrightarrow> gov_inv (sys_state y')"
proof (erule step.cases, goal_cases)
  case (1 cl y st')
  then show ?case by (auto intro: run_call_inv)
next
  case (2 iid now y status st')
  then show ?case using dispatch_begin_inv [of "sys_state y" iid now] by simp
next
  case (3 iid now y what st')
  then show ?case using dispatch_begin_inv [of "sys_state y" iid now] by simp
next
  case (4 iid y res)
  then show ?case by (simp add: dispatch_finish_inv)
qed

interpretation gov: invariant_system initial step "\<lambda>n y. gov_inv (sys_state y)"
  by unfold_locales (auto simp: initial_def default_state_inv intro: step_inv)


section \<open>What happens to a stored intervention\<close>

text \<open>Everything but the lifecycle fields.\<close>

definition same_identity :: "InterventionRecord \<Rightarrow> InterventionRecord \<Rightarrow> bool" where
  "same_identity i i' \<longleftrightarrow> ir_id i' = ir_id i \<and> ir_generation i' = ir_generation i \<and> ir_cls i' = ir_cls i
     \<and> ir_conflictId i' = ir_conflictId i \<and> ir_target i' = ir_target i \<and> ir_fence i' = ir_fence i
     \<and> ir_adapter i' = ir_adapter i \<and> ir_authorizedAt i' = ir_authorizedAt i \<and> ir_attemptId i' = ir_attemptId i"

lemma same_identity_refl [simp]: "same_identity i i"
  by (simp add: same_identity_def)

fun active :: "LifecycleState \<Rightarrow> bool" where
  "active a \<longleftrightarrow> a \<in> {LS_PROPOSED, LS_AUTHORIZED, LS_DISPATCHED, LS_ACKNOWLEDGED}"

declare active.simps [simp del]
lemmas active_simps = active.simps

text \<open>The moves every operation may make on any intervention.\<close>

inductive lifecycle_edge :: "LifecycleState \<Rightarrow> LifecycleState \<Rightarrow> bool" where
  edge_dispatch: "lifecycle_edge LS_AUTHORIZED LS_DISPATCHED"
| edge_supersede: "lifecycle_edge LS_AUTHORIZED LS_SUPERSEDED"
| edge_acknowledge: "lifecycle_edge LS_DISPATCHED LS_ACKNOWLEDGED"
| edge_epoch: "active a \<Longrightarrow> lifecycle_edge a LS_OUTCOME_UNKNOWN"
| edge_verify: "active a \<Longrightarrow> a \<noteq> LS_PROPOSED \<Longrightarrow>
     b \<in> {LS_EFFECTIVE, LS_PARTIALLY_EFFECTIVE, LS_INEFFECTIVE} \<Longrightarrow> lifecycle_edge a b"

lemma lifecycle_edge_from: "lifecycle_edge a b \<Longrightarrow> active a \<and> b \<noteq> LS_AUTHORIZED \<and> b \<noteq> LS_PROPOSED"
  by (auto elim!: lifecycle_edge.cases simp: active_simps)

text \<open>The intervention \<open>iid\<close> stays, keeps its identity, and moves as \<open>M\<close> says.\<close>

definition moved ::
  "(LifecycleState \<Rightarrow> LifecycleState \<Rightarrow> bool) \<Rightarrow> InterventionId \<Rightarrow> EngineState \<Rightarrow> EngineState \<Rightarrow> bool" where
  "moved M iid s s' \<longleftrightarrow>
     (\<forall>i. om_find (es_interventions s) iid = Some i \<longrightarrow>
        (\<exists>i'. om_find (es_interventions s') iid = Some i' \<and> same_identity i i'
          \<and> (ir_state i' = ir_state i \<or> M (ir_state i) (ir_state i'))))"

lemma moved_unchanged: "es_interventions s' = es_interventions s \<Longrightarrow> moved M iid s s'"
  by (simp add: moved_def)

lemma moved_put:
  assumes "es_interventions s' = om_put k i' (es_interventions s)" "om_find (es_interventions s) k = Some i"
    "same_identity i i'" "k = iid \<Longrightarrow> ir_state i' = ir_state i \<or> M (ir_state i) (ir_state i')"
  shows "moved M iid s s'"
  using assms by (auto simp: moved_def)

lemma moved_dispatch_begin:
  "moved lifecycle_edge iid (gs_engine st) (gs_engine (snd (dispatch_begin k now st)))"
  by (auto simp: dispatch_begin_def Let_def same_identity_def moved_def split: option.splits
      intro!: edge_dispatch edge_supersede)

lemma moved_dispatch_finish:
  "moved (\<lambda>a b. iid = k \<and> b \<in> {LS_ACKNOWLEDGED, LS_OUTCOME_UNKNOWN, LS_FAILED}) iid
     (gs_engine st) (gs_engine (snd (dispatch_finish k res st)))"
  by (auto simp: dispatch_finish_def same_identity_def apply_outcome_def moved_def split: option.splits)

lemma moved_on_acknowledge:
  "moved lifecycle_edge iid (gs_engine st) (gs_engine (snd (on_acknowledge k attempt now st)))"
  by (auto simp: on_acknowledge_def same_identity_def moved_def split: option.splits
      intro!: edge_acknowledge)

lemma moved_on_action_failed:
  "moved (\<lambda>a b. iid = k \<and> b = LS_FAILED) iid
     (gs_engine st) (gs_engine (snd (on_action_failed k attempt note st)))"
  by (auto simp: on_action_failed_def same_identity_def moved_def split: option.splits)

lemma moved_advance_epoch: "moved lifecycle_edge iid (gs_engine st) (gs_engine (snd (advance_epoch st)))"
  by (auto simp: advance_epoch_def on_authority_def moved_def same_identity_def epoch_intervention_def
      active_simps intro!: edge_epoch)

lemma store_evidence_frame [frame_simps]:
  "es_interventions (gs_engine (snd (store_evidence e st))) = es_interventions (gs_engine st)"
  "es_conflicts (gs_engine (snd (store_evidence e st))) = es_conflicts (gs_engine st)"
  "es_fairness (gs_engine (snd (store_evidence e st))) = es_fairness (gs_engine st)"
  "es_policy (gs_engine (snd (store_evidence e st))) = es_policy (gs_engine st)"
  "es_authority (gs_engine (snd (store_evidence e st))) = es_authority (gs_engine st)"
  "gs_nextInterventionId (snd (store_evidence e st)) = gs_nextInterventionId st"
  by (simp_all add: store_evidence_def Let_def)

lemma ingest_evidence_frame [frame_simps]:
  "es_interventions (gs_engine (snd (ingest_evidence e st))) = es_interventions (gs_engine st)"
  "es_fairness (gs_engine (snd (ingest_evidence e st))) = es_fairness (gs_engine st)"
  "es_policy (gs_engine (snd (ingest_evidence e st))) = es_policy (gs_engine st)"
  "es_authority (gs_engine (snd (ingest_evidence e st))) = es_authority (gs_engine st)"
  "gs_nextInterventionId (snd (ingest_evidence e st)) = gs_nextInterventionId st"
  using store_evidence_frame [of "with_fractions e" st]
  by (auto simp: ingest_evidence_def Let_def split: prod.splits option.splits)

text \<open>The state a verified intervention moves to.\<close>

lemma classified_state:
  "fst (outcome_states (classify_outcome b x y z)) \<in> {LS_EFFECTIVE, LS_PARTIALLY_EFFECTIVE, LS_INEFFECTIVE}"
  by (simp add: classify_outcome_def)

lemma moved_post_action:
  assumes "om_inv (es_interventions s)"
  shows "moved lifecycle_edge iid s (post_action_engine e k c s)"
proof (cases "om_first (verifiable (cc_id c)) (es_interventions s)")
  case None
  then show ?thesis by (intro moved_unchanged) (simp add: post_action_engine_def Let_def)
next
  case (Some iki)
  obtain ik i where i: "iki = (ik, i)" by fastforce
  note f = om_first_Some [OF assms, of "verifiable (cc_id c)" ik i]
  have out: "es_interventions (post_action_engine e k c s) =
      om_put ik (verify_intervention e (verdict s e k c i) i) (es_interventions s)"
    "fst (outcome_states (verdict s e k c i)) \<in> {LS_EFFECTIVE, LS_PARTIALLY_EFFECTIVE, LS_INEFFECTIVE}"
    using Some i classified_state by (simp_all add: post_action_engine_sel verdict_def)
  show ?thesis
    by (rule moved_put [OF out(1)])
      (use f Some i out(2) in \<open>auto simp: verify_intervention_def same_identity_def verifiable_def active_simps
        intro!: edge_verify\<close>)
qed

lemma moved_submit:
  assumes "gov_inv st"
  shows "moved lifecycle_edge iid (gs_engine st) (gs_engine (snd (submit_post_action_evidence e st)))"
proof -
  have "om_inv (es_interventions (gs_engine (snd (store_evidence (with_fractions e) st))))"
    using assms engine_invD(1) by (auto simp: gov_inv_def maps_sorted_def frame_simps)
  then have "moved lifecycle_edge iid (gs_engine (snd (store_evidence (with_fractions e) st)))
      (post_action_engine e' k c (gs_engine (snd (store_evidence (with_fractions e) st))))" for e' k c
    by (rule moved_post_action)
  then show ?thesis
    using store_evidence_frame(1) [of "with_fractions e" st]
    by (auto simp: submit_post_action_evidence_def Let_def moved_def split: prod.splits option.splits)
qed


lemma moved_authorize:
  assumes "authorize cid cls now st = Inr (r, st')" "iid \<noteq> Id (gs_nextInterventionId st)"
  shows "moved M iid (gs_engine st) (gs_engine st')"
proof (cases r)
  case None
  then have "st' = st" using assms(1) authorize_refused by blast
  then show ?thesis by (simp add: moved_def)
next
  case (Some new)
  then show ?thesis using assms by (auto elim!: authorize_granted simp: moved_def)
qed

text \<open>One label: the moves of \<^const>\<open>lifecycle_edge\<close>, a failure report, or an adapter's outcome.\<close>

fun label_edge :: "label \<Rightarrow> InterventionId \<Rightarrow> LifecycleState \<Rightarrow> LifecycleState \<Rightarrow> bool" where
  "label_edge (Call (On_action_failed k attempt note)) iid a b = (iid = k \<and> b = LS_FAILED)"
| "label_edge (Finish k res) iid a b = (iid = k \<and> b \<in> {LS_ACKNOWLEDGED, LS_OUTCOME_UNKNOWN, LS_FAILED})"
| "label_edge l iid a b = lifecycle_edge a b"

lemma label_edge_eta [simp]:
  "label_edge (Begin k now) iid = lifecycle_edge"
  "label_edge (Call Advance_epoch) iid = lifecycle_edge"
  "label_edge (Call (On_acknowledge k attempt now)) iid = lifecycle_edge"
  "label_edge (Call (Submit_post_action e)) iid = lifecycle_edge"
  "label_edge (Call (On_action_failed k attempt note)) iid = (\<lambda>a b. iid = k \<and> b = LS_FAILED)"
  "label_edge (Finish k res) iid = (\<lambda>a b. iid = k \<and> b \<in> {LS_ACKNOWLEDGED, LS_OUTCOME_UNKNOWN, LS_FAILED})"
  by (simp_all add: fun_eq_iff)

lemma label_edge_not_authorized: "label_edge l iid a b \<Longrightarrow> b \<noteq> LS_AUTHORIZED"
  by (cases "(l, iid, a, b)" rule: label_edge.cases) (auto dest: lifecycle_edge_from)

lemma moved_run_call:
  assumes "gov_inv st" "run_call cl st = Inr st'" "iid \<noteq> Id (gs_nextInterventionId st)"
  shows "moved (label_edge (Call cl) iid) iid (gs_engine st) (gs_engine st')"
proof (cases cl)
  case (Authorize cid cls now)
  then obtain r where "authorize cid cls now st = Inr (r, st')"
    using assms(2) by (cases "authorize cid cls now st") auto
  then show ?thesis using assms(3) moved_authorize by blast
next
  case (On_action_failed k attempt msg)
  then show ?thesis using assms(2) moved_on_action_failed [of iid k st attempt msg] by auto
qed (use assms moved_advance_epoch moved_on_acknowledge moved_submit in
    \<open>auto simp: set_policy_def set_authority_def record_worker_boot_def record_workload_generation_def
      on_authority_def Let_def frame_simps intro: moved_unchanged\<close>)

lemma moved_step:
  assumes "step y l y'" "gov_inv (sys_state y)" "iid \<noteq> Id (gs_nextInterventionId (sys_state y))"
  shows "moved (label_edge l iid) iid (gs_engine (sys_state y)) (gs_engine (sys_state y'))"
  using assms(1)
proof (cases rule: step.cases)
  case (step_call cl st')
  then show ?thesis using assms moved_run_call by simp
next
  case (step_refused k now status st')
  then show ?thesis using moved_dispatch_begin [of iid "sys_state y" k now] by simp
next
  case (step_begin k now what st')
  then show ?thesis using moved_dispatch_begin [of iid "sys_state y" k now] by simp
next
  case (step_finish k res)
  then show ?thesis using moved_dispatch_finish [of iid k "sys_state y" res] by simp
qed

section \<open>At most one adapter call\<close>

text \<open>The counter of intervention ids after a call.\<close>

lemma next_intervention_frame [frame_simps]:
  "gs_nextInterventionId (snd (set_policy p st)) = gs_nextInterventionId st"
  "gs_nextInterventionId (snd (set_authority a st)) = gs_nextInterventionId st"
  "gs_nextInterventionId (snd (record_worker_boot w b st)) = gs_nextInterventionId st"
  "gs_nextInterventionId (snd (record_workload_generation w g st)) = gs_nextInterventionId st"
  "gs_nextInterventionId (snd (advance_epoch st)) = gs_nextInterventionId st"
  "gs_nextInterventionId (snd (on_acknowledge iid attempt now st)) = gs_nextInterventionId st"
  "gs_nextInterventionId (snd (on_action_failed iid attempt note st)) = gs_nextInterventionId st"
  "gs_nextInterventionId (snd (dispatch_begin iid now st)) = gs_nextInterventionId st"
  "gs_nextInterventionId (snd (dispatch_finish iid res st)) = gs_nextInterventionId st"
  by (simp_all add: set_policy_def set_authority_def record_worker_boot_def record_workload_generation_def
      advance_epoch_def on_acknowledge_def on_action_failed_def dispatch_begin_def dispatch_finish_def Let_def
      split: option.splits)

lemma next_intervention_submit [frame_simps]:
  "gs_nextInterventionId (snd (submit_post_action_evidence e st)) = gs_nextInterventionId st"
  using store_evidence_frame(6) [of "with_fractions e" st]
  by (auto simp: submit_post_action_evidence_def Let_def split: prod.splits option.splits)

lemma next_intervention_authorize:
  "authorize cid cls now st = Inr (r, st') \<Longrightarrow>
     gs_nextInterventionId st' = (if r = None then gs_nextInterventionId st else gs_nextInterventionId st + 1)"
  by (cases r) (auto dest: authorize_refused elim!: authorize_granted)

lemma next_intervention_run_call:
  "run_call cl st = Inr st' \<Longrightarrow>
     gs_nextInterventionId st' \<in> {gs_nextInterventionId st, gs_nextInterventionId st + 1}"
proof (cases cl)
  case (Authorize cid cls now)
  assume "run_call cl st = Inr st'"
  then obtain r where "authorize cid cls now st = Inr (r, st')"
    using Authorize by (cases "authorize cid cls now st") auto
  then show ?thesis by (simp add: next_intervention_authorize)
qed (auto simp: frame_simps)


text \<open>
  The ids of stored interventions are below the counter; every call in the history was for a
  stored intervention that has left AUTHORIZED; no intervention is called twice. The counter
  is 64 bits wide and wraps, so the statement is for runs of fewer than \<open>2 ^ 64 - 1\<close> steps.
\<close>

definition calls_inv :: "system \<Rightarrow> bool" where
  "calls_inv y \<longleftrightarrow>
     (\<forall>iid \<in> dom (om_find (es_interventions (gs_engine (sys_state y)))).
        id_value iid < gs_nextInterventionId (sys_state y))
     \<and> (\<forall>iid \<in> fst ` set (sys_calls y). \<exists>i. om_find (es_interventions (gs_engine (sys_state y))) iid = Some i
          \<and> ir_state i \<noteq> LS_AUTHORIZED)
     \<and> distinct (map fst (sys_calls y)) \<and> set (sys_inflight y) \<subseteq> fst ` set (sys_calls y)"

definition bounded_calls_inv :: "nat \<Rightarrow> system \<Rightarrow> bool" where
  "bounded_calls_inv n y \<longleftrightarrow> gov_inv (sys_state y)
     \<and> (n < 2 ^ 64 - 1 \<longrightarrow> unat (gs_nextInterventionId (sys_state y)) \<le> n + 1 \<and> calls_inv y)"

text \<open>The interventions an operation can add, and the counter it leaves.\<close>

definition grows :: "GovernorState \<Rightarrow> GovernorState \<Rightarrow> bool" where
  "grows st st' \<longleftrightarrow>
     gs_nextInterventionId st' = gs_nextInterventionId st
       \<and> dom (om_find (es_interventions (gs_engine st'))) = dom (om_find (es_interventions (gs_engine st)))
     \<or> gs_nextInterventionId st' = gs_nextInterventionId st + 1
       \<and> dom (om_find (es_interventions (gs_engine st'))) =
           insert (Id (gs_nextInterventionId st)) (dom (om_find (es_interventions (gs_engine st))))"

lemma growsI: "gs_nextInterventionId st' = gs_nextInterventionId st \<Longrightarrow>
    dom (om_find (es_interventions (gs_engine st'))) = dom (om_find (es_interventions (gs_engine st))) \<Longrightarrow> grows st st'"
  by (simp add: grows_def)

lemma grows_dispatch_begin: "grows st (snd (dispatch_begin iid now st))"
  by (rule growsI) (auto simp: frame_simps dispatch_begin_def Let_def split: option.splits if_splits)

lemma grows_dispatch_finish: "grows st (snd (dispatch_finish iid res st))"
  by (rule growsI) (auto simp: frame_simps dispatch_finish_def Let_def split: option.splits)

lemma dom_submit:
  assumes "gov_inv st"
  shows "dom (om_find (es_interventions (gs_engine (snd (submit_post_action_evidence e st)))))
    = dom (om_find (es_interventions (gs_engine st)))"
proof -
  obtain e' st' where se: "store_evidence (with_fractions e) st = (e', st')" by fastforce
  have eq: "es_interventions (gs_engine st') = es_interventions (gs_engine st)"
    using store_evidence_frame(1) [of "with_fractions e" st] se by simp
  have sorted: "om_inv (es_interventions (gs_engine st))"
    using assms engine_invD(1) by (auto simp: gov_inv_def maps_sorted_def)
  have "dom (om_find (es_interventions (post_action_engine e' k c (gs_engine st'))))
      = dom (om_find (es_interventions (gs_engine st)))" for k c
  proof (cases "om_first (verifiable (cc_id c)) (es_interventions (gs_engine st'))")
    case (Some iki)
    then obtain ik i where "om_first (verifiable (cc_id c)) (es_interventions (gs_engine st')) = Some (ik, i)"
      by (cases iki) auto
    moreover from this have "ik \<in> dom (om_find (es_interventions (gs_engine st)))"
      using om_first_Some(1) [OF sorted] eq by auto
    ultimately show ?thesis by (simp add: post_action_engine_sel eq insert_absorb)
  qed (simp add: post_action_engine_none eq)
  then show ?thesis
    by (simp add: submit_post_action_evidence_def se eq Let_def split: option.split)
qed

lemma grows_authorize: "authorize cid cls now st = Inr (r, st') \<Longrightarrow> grows st st'"
proof (cases r)
  case None
  assume "authorize cid cls now st = Inr (r, st')"
  then have "st' = st" using None authorize_refused by blast
  then show ?thesis by (simp add: grows_def)
next
  case (Some iid)
  assume "authorize cid cls now st = Inr (r, st')"
  then obtain c ir where "st' = commit_intervention cid c ir now st" "ir_id ir = Id (gs_nextInterventionId st)"
    using Some by (auto elim!: authorize_granted)
  then show ?thesis by (simp add: grows_def)
qed

lemma grows_run_call: "gov_inv st \<Longrightarrow> run_call cl st = Inr st' \<Longrightarrow> grows st st'"
proof (cases cl)
  case (Authorize cid cls now)
  assume "run_call cl st = Inr st'"
  then obtain r where "authorize cid cls now st = Inr (r, st')"
    using Authorize by (cases "authorize cid cls now st") auto
  then show ?thesis by (rule grows_authorize)
next
  case (Submit_post_action e)
  assume "gov_inv st" "run_call cl st = Inr st'"
  then show ?thesis
    using Submit_post_action dom_submit [of st e] next_intervention_submit [of e st]
    by (simp add: grows_def)
qed (auto intro!: growsI simp: frame_simps set_policy_def set_authority_def record_worker_boot_def
    record_workload_generation_def advance_epoch_def on_authority_def on_acknowledge_def
    on_action_failed_def Let_def dom_def split: option.splits if_splits)

lemma grows_step: "step y l y' \<Longrightarrow> gov_inv (sys_state y) \<Longrightarrow> grows (sys_state y) (sys_state y')"
proof (erule step.cases, goal_cases)
  case (1 cl y0 st')
  then show ?case by (auto intro: grows_run_call)
next
  case (2 iid now y0 status st')
  then show ?case using grows_dispatch_begin [of "sys_state y0" iid now] by simp
next
  case (3 iid now y0 what st')
  then show ?case using grows_dispatch_begin [of "sys_state y0" iid now] by simp
next
  case (4 iid y0 res)
  then show ?case by (simp add: grows_dispatch_finish)
qed

text \<open>An accepted dispatch finds the intervention authorized, fenced by the current authority.\<close>

lemma dispatch_begin_accepted:
  assumes "dispatch_begin iid now st = (Inr (cls, target, attempt), st')"
  obtains i where "om_find (es_interventions (gs_engine st)) iid = Some i" "ir_state i = LS_AUTHORIZED"
    "fence_current (es_authority (gs_engine st)) (ir_fence i) (ir_target i)"
    "cls = ir_cls i" "target = ir_target i" "attempt = ir_attemptId i"
    "om_find (es_interventions (gs_engine st')) iid =
       Some (i\<lparr>ir_state := LS_DISPATCHED, ir_dispatchId := Id (gs_nextDispatchId st), ir_dispatchedAt := now\<rparr>)"
  using assms
  by (auto simp: dispatch_begin_def Let_def revalidate_ok split: option.splits if_splits)


lemma calls_inv_grows:
  assumes "grows st st'" "gs_nextInterventionId st \<noteq> u64_max"
    "\<forall>iid \<in> dom (om_find (es_interventions (gs_engine st))). id_value iid < gs_nextInterventionId st"
  shows "\<forall>iid \<in> dom (om_find (es_interventions (gs_engine st'))). id_value iid < gs_nextInterventionId st'"
proof -
  have less: "gs_nextInterventionId st < gs_nextInterventionId st + 1"
    using assms(2) by (simp add: word_less_nat_alt unat_add_one)
  from assms(1) show ?thesis
    unfolding grows_def using assms(3) less by (elim disjE conjE) (auto simp del: domIff intro: less_trans)
qed

text \<open>An intervention that was called stays stored and never returns to AUTHORIZED.\<close>

lemma step_called:
  assumes "step y l y'" "gov_inv (sys_state y)"
    "om_find (es_interventions (gs_engine (sys_state y))) iid = Some i" "ir_state i \<noteq> LS_AUTHORIZED"
    "iid \<noteq> Id (gs_nextInterventionId (sys_state y))"
  shows "\<exists>i'. om_find (es_interventions (gs_engine (sys_state y'))) iid = Some i' \<and> ir_state i' \<noteq> LS_AUTHORIZED"
proof -
  obtain i' where "om_find (es_interventions (gs_engine (sys_state y'))) iid = Some i'"
    "ir_state i' = ir_state i \<or> label_edge l iid (ir_state i) (ir_state i')"
    using moved_step [OF assms(1,2,5)] assms(3) unfolding moved_def by blast
  then show ?thesis using assms(4) label_edge_not_authorized by (metis (full_types))
qed

lemma calls_inv_step:
  assumes "step y l y'" "gov_inv (sys_state y)" "calls_inv y" "gs_nextInterventionId (sys_state y) \<noteq> u64_max"
  shows "calls_inv y'"
proof -
  let ?stored = "\<lambda>y iid. om_find (es_interventions (gs_engine (sys_state y))) iid"
  have ids: "\<forall>iid \<in> dom (?stored y'). id_value iid < gs_nextInterventionId (sys_state y')"
    using calls_inv_grows [OF grows_step [OF assms(1,2)] assms(4)] assms(3) by (simp add: calls_inv_def)
  have old: "\<exists>i. ?stored y' iid = Some i \<and> ir_state i \<noteq> LS_AUTHORIZED"
    if called: "iid \<in> fst ` set (sys_calls y)" for iid
  proof -
    obtain i where i: "?stored y iid = Some i" "ir_state i \<noteq> LS_AUTHORIZED"
      using called assms(3) unfolding calls_inv_def by blast
    moreover have "iid \<noteq> Id (gs_nextInterventionId (sys_state y))"
      using assms(3) i(1) unfolding calls_inv_def by force
    ultimately show ?thesis using step_called [OF assms(1,2)] by blast
  qed
  from assms(1) show ?thesis
  proof (cases rule: step.cases)
    case (step_begin iid now what st')
    obtain cls target attempt where what: "what = (cls, target, attempt)" by (cases what)
    obtain i where i: "?stored y iid = Some i" "ir_state i = LS_AUTHORIZED"
      "om_find (es_interventions (gs_engine st')) iid =
         Some (i\<lparr>ir_state := LS_DISPATCHED, ir_dispatchId := Id (gs_nextDispatchId (sys_state y)), ir_dispatchedAt := now\<rparr>)"
      using dispatch_begin_accepted step_begin(3) what by metis
    then have "iid \<notin> fst ` set (sys_calls y)" using assms(3) unfolding calls_inv_def by fastforce
    then show ?thesis
      using ids old i(3) assms(3) step_begin(2) unfolding calls_inv_def by auto
  next
    case (step_finish iid res)
    then show ?thesis
      using ids old assms(3) set_remove1_subset [of iid "sys_inflight y"] unfolding calls_inv_def by auto
  qed (use ids old assms(3) in \<open>auto simp: calls_inv_def\<close>)
qed

lemma bounded_calls_step: "bounded_calls_inv n y \<Longrightarrow> step y l y' \<Longrightarrow> bounded_calls_inv (Suc n) y'"
proof -
  assume inv: "bounded_calls_inv n y" and st: "step y l y'"
  have gov: "gov_inv (sys_state y)" using inv by (simp add: bounded_calls_inv_def)
  have "unat (gs_nextInterventionId (sys_state y')) \<le> Suc n + 1 \<and> calls_inv y'" if "Suc n < 2 ^ 64 - 1"
  proof -
    have n: "unat (gs_nextInterventionId (sys_state y)) \<le> n + 1" "calls_inv y"
      using inv that by (auto simp: bounded_calls_inv_def)
    then have room: "gs_nextInterventionId (sys_state y) \<noteq> u64_max"
      using that unat_u64_max by auto
    have "unat (gs_nextInterventionId (sys_state y')) \<le> unat (gs_nextInterventionId (sys_state y)) + 1"
      using grows_step [OF st gov] room by (auto simp: grows_def unat_add_one)
    then show ?thesis using n calls_inv_step [OF st gov n(2) room] by simp
  qed
  then show ?thesis using step_inv [OF gov st] by (simp add: bounded_calls_inv_def)
qed

lemma bounded_calls_initial: "bounded_calls_inv 0 initial"
  by (simp add: bounded_calls_inv_def calls_inv_def initial_def default_state_inv)
    (simp add: default_GovernorState_def default_EngineState_def)

interpretation calls: invariant_system initial step bounded_calls_inv
  by unfold_locales (auto intro: bounded_calls_initial bounded_calls_step)

end
