(* ===== verification/CG_Guarantees.thy ===== *)
theory CG_Guarantees
  imports CG_Lifecycle
begin

text \<open>
  Consequences of the governor's operations that the properties of the development state:
  where an authorized intervention comes from, what an epoch change revokes, what the budget
  and the fairness records count, and what a post-action measurement concludes.
\<close>

section \<open>Authorization\<close>

text \<open>The class an authorization grants.\<close>

definition granted_class :: "InterventionClass \<Rightarrow> InterventionCandidate \<Rightarrow> InterventionClass" where
  "granted_class cls cand = (if cls \<noteq> IC_NO_ACTION then cls else cand_cls cand)"

lemma picked_decision:
  "picked (evaluate_conflict s cid ctx) = Some cand \<Longrightarrow>
     \<exists>d. ce_decision (evaluate_conflict s cid ctx) = Some d \<and> cand = dec_chosen d"
  using no_decision_infeasible [of s cid ctx]
  by (auto simp: picked_def find_Some_iff split: option.splits)

lemma picked_sound:
  assumes "picked (evaluate_conflict s cid ctx) = Some cand" "values_finite (es_policy s)"
    "om_find (es_conflicts s) cid = Some c"
  shows "(\<exists>primary. actionable_with s c primary) \<and> cand_target cand \<in> set (cc_associated c)
     \<and> class_eligible (es_policy s) (cand_cls cand) \<and> cand_cls cand \<in> set eligible_classes
     \<and> hard_constraints (es_policy s) (workload_policy_for (es_policy s) (cand_target cand)) (cand_cls cand)"
proof -
  obtain d where d: "ce_decision (evaluate_conflict s cid ctx) = Some d" "cand = dec_chosen d"
    using picked_decision [OF assms(1)] by blast
  from decision_sound [OF d(1) assms(2)] obtain c' primary where c':
    "om_find (es_conflicts s) cid = Some c'" "actionable_with s c' primary"
    "unique_best (es_policy s) (set (build_candidates s ctx c' primary (sort (cc_associated c')))) (dec_chosen d)"
    by metis
  show ?thesis
    using c' assms(3) chosen_constraints [OF c'(3)] d(2) by auto
qed

text \<open>Without usable evidence an evaluation decides nothing.\<close>

lemma no_evidence_no_decision:
  assumes "\<And>c eid e. om_find (es_conflicts s) cid = Some c \<Longrightarrow> eid \<in> set (cc_evidenceIds c) \<Longrightarrow>
      om_find (es_evidence s) eid = Some e \<Longrightarrow> ie_status e \<noteq> ES_CURRENT \<or> \<not> structurally_valid e"
  shows "picked (evaluate_conflict s cid ctx) = None"
proof (rule ccontr)
  assume "picked (evaluate_conflict s cid ctx) \<noteq> None"
  then obtain d where "ce_decision (evaluate_conflict s cid ctx) = Some d"
    using picked_decision by (metis not_Some_eq)
  then obtain c primary where c: "om_find (es_conflicts s) cid = Some c" "actionable_with s c primary"
    using evaluate_conflict_actionable [of s cid ctx] by auto
  then have "fst (scan_evidence (es_evidence s) (cc_evidenceIds c)) \<noteq> []"
    by (auto simp: actionable_with_def)
  then show False using assms [OF c(1)] by (auto simp: scan_evidence_empty)
qed

lemma not_picked_refused:
  "picked (evaluate_conflict (gs_engine st) cid (es_authority (gs_engine st))) = None \<Longrightarrow>
     authorize cid cls now st = Inr (None, st)"
  by (simp add: authorize_def Let_def split: option.split)

lemma decision_iff_feasible:
  assumes "valid_policy (es_policy (gs_engine st))"
  shows "ce_decision (evaluate cid st) \<noteq> None \<longleftrightarrow>
    (\<exists>cand \<in> set (ce_candidates (evaluate cid st)). cand_feasible cand = FS_FEASIBLE)"
proof -
  have "\<exists>cand \<in> set (ce_candidates (evaluate cid st)). cand_feasible cand = FS_FEASIBLE"
    if "ce_decision (evaluate cid st) = Some d" for d
    using decision_sound [OF that [unfolded evaluate_def] valid_policy_values_finite [OF assms]]
    by (metis evaluate_def unique_best_def)
  then show ?thesis
    using no_decision_infeasible [of "gs_engine st" cid "es_authority (gs_engine st)"] by (auto simp: evaluate_def)
qed

text \<open>An actionable conflict has a target and a class that pass the checks exactly if it is decided.\<close>

lemma decision_iff_actionable:
  assumes "valid_policy (es_policy (gs_engine st))"
  shows "ce_decision (evaluate cid st) \<noteq> None \<longleftrightarrow>
    (\<exists>c primary target cls. om_find (es_conflicts (gs_engine st)) cid = Some c \<and> actionable_with (gs_engine st) c primary
       \<and> target \<in> set (cc_associated c) \<and> cls \<in> set eligible_classes \<and> class_eligible (es_policy (gs_engine st)) cls
       \<and> hard_constraints (es_policy (gs_engine st)) (workload_policy_for (es_policy (gs_engine st)) target) cls
       \<and> \<not> fairness_capped (gs_engine st) target
       \<and> om_find (au_workloadGenerations (es_authority (gs_engine st))) target \<noteq> None
       \<and> om_find (au_workloadBoots (es_authority (gs_engine st))) target \<noteq> None)"
    (is "?decided \<longleftrightarrow> ?open")
proof
  let ?s = "gs_engine st"
  assume ?decided
  then obtain d where "ce_decision (evaluate_conflict ?s cid (es_authority ?s)) = Some d" by (auto simp: evaluate_def)
  from decision_sound [OF this valid_policy_values_finite [OF assms]] obtain c primary where c:
    "om_find (es_conflicts ?s) cid = Some c" "actionable_with ?s c primary"
    "unique_best (es_policy ?s) (set (build_candidates ?s (es_authority ?s) c primary (sort (cc_associated c)))) (dec_chosen d)"
    by metis
  note k = chosen_constraints [OF c(3)]
  show ?open
    using c(1,2) k k(6) [unfolded make_fence_current]
    by (intro exI [of _ c] exI [of _ primary] exI [of _ "cand_target (dec_chosen d)"] exI [of _ "cand_cls (dec_chosen d)"]) simp
next
  let ?s = "gs_engine st" and ?a = "es_authority (gs_engine st)"
  assume ?open
  then obtain c primary target cls where c: "om_find (es_conflicts ?s) cid = Some c" "actionable_with ?s c primary"
    "target \<in> set (cc_associated c)" "cls \<in> set eligible_classes" "class_eligible (es_policy ?s) cls"
    "hard_constraints (es_policy ?s) (workload_policy_for (es_policy ?s) target) cls" "\<not> fairness_capped ?s target"
    "om_find (au_workloadGenerations ?a) target \<noteq> None" "om_find (au_workloadBoots ?a) target \<noteq> None" by blast
  let ?cand = "build_candidate ?s ?a c primary target cls"
  have mem: "?cand \<in> set (build_candidates ?s ?a c primary (sort (cc_associated c)))"
    unfolding build_candidates_mem using c(3-5) by (intro exI [of _ target] exI [of _ cls]) simp
  have "?cand \<in> set (ce_candidates (evaluate cid st))"
    using evaluate_conflict_decide [OF c(1,2), of ?a] mem by (auto simp: evaluate_def decide_sel(1))
  moreover have "cand_feasible ?cand = FS_FEASIBLE" using c(6-9) by (simp add: check_feasibility_iff make_fence_current)
  ultimately show ?decided using decision_iff_feasible [OF assms] by blast
qed

text \<open>A decision within the budget and the cooldown is granted.\<close>

lemma decided_granted:
  assumes "gov_inv st" "ce_decision (evaluate cid st) = Some d"
    "\<not> budget_exhausted (action_budget st) (cand_cls (dec_chosen d))"
    "\<not> in_cooldown (gs_engine st) (cand_target (dec_chosen d)) (cand_cls (dec_chosen d)) now"
  shows "\<exists>iid st'. authorize cid IC_NO_ACTION now st = Inr (Some iid, st')"
proof -
  let ?s = "gs_engine st"
  have fin: "values_finite (es_policy ?s)"
    using assms(1) engine_invD(2) valid_policy_values_finite by (auto simp: gov_inv_def)
  note d = assms(2) [unfolded evaluate_def]
  from decision_sound [OF d fin] obtain c primary where c: "om_find (es_conflicts ?s) cid = Some c"
    "unique_best (es_policy ?s) (set (build_candidates ?s (es_authority ?s) c primary (sort (cc_associated c)))) (dec_chosen d)"
    by metis
  obtain r st' where "authorize cid IC_NO_ACTION now st = Inr (r, st')" using authorize_defined [OF assms(1)] by blast
  moreover have "fence_current (es_authority ?s) (make_fence (es_authority ?s) cg eg (cand_target (dec_chosen d)) ig)
      (cand_target (dec_chosen d))" for cg eg ig
    using chosen_constraints(6) [OF c(2)] by (simp add: make_fence_current)
  moreover have "feas_status (check_feasibility ?s (cand_target (dec_chosen d)) (cand_cls (dec_chosen d)) f) = FS_FEASIBLE"
    if "fence_current (es_authority ?s) f (cand_target (dec_chosen d))" for f
    using that chosen_constraints(4,5) [OF c(2)] by (simp add: check_feasibility_iff)
  ultimately show ?thesis
    using d assms(3,4) c(1)
    by (auto simp: authorize_def Let_def picked_def revalidate_ok action_budget_def split: list.splits option.splits)
qed

section \<open>Epochs\<close>

lemma advance_epoch_sel:
  "es_evidence (gs_engine (snd (advance_epoch st))) = om_update_all epoch_evidence (es_evidence (gs_engine st))"
  "es_conflicts (gs_engine (snd (advance_epoch st))) = om_update_all epoch_conflict (es_conflicts (gs_engine st))"
  "es_interventions (gs_engine (snd (advance_epoch st))) =
     om_update_all epoch_intervention (es_interventions (gs_engine st))"
  "es_fairness (gs_engine (snd (advance_epoch st))) = om_update_all epoch_fairness (es_fairness (gs_engine st))"
  "es_authority (gs_engine (snd (advance_epoch st))) =
     (es_authority (gs_engine st))\<lparr>au_coordinatorEpoch := id_advance (au_coordinatorEpoch (es_authority (gs_engine st)))\<rparr>"
  "es_policy (gs_engine (snd (advance_epoch st))) = es_policy (gs_engine st)"
  by (simp_all add: advance_epoch_def on_authority_def)

lemma epoch_evidence_not_current: "ie_status (epoch_evidence e) \<noteq> ES_CURRENT"
  by (simp add: epoch_evidence_def)

lemma epoch_intervention_inactive: "\<not> active (ir_state (epoch_intervention i))"
  by (simp add: epoch_intervention_def active_simps)

text \<open>Nothing of the old epoch can be acted upon.\<close>

lemma epoch_revoked:
  "om_find (es_evidence (gs_engine (snd (advance_epoch st)))) eid = Some e \<Longrightarrow> ie_status e \<noteq> ES_CURRENT"
  "authorize cid cls now (snd (advance_epoch st)) = Inr (None, snd (advance_epoch st))"
  "om_find (es_interventions (gs_engine (snd (advance_epoch st)))) iid = Some i \<Longrightarrow> \<not> active (ir_state i)"
  "\<exists>status. dispatch_begin iid now (snd (advance_epoch st)) = (Inl status, snd (advance_epoch st))"
  "snd (dispatch adapters iid now (snd (advance_epoch st))) = snd (advance_epoch st)"
proof -
  let ?st = "snd (advance_epoch st)"
  show ev: "ie_status e \<noteq> ES_CURRENT" if "om_find (es_evidence (gs_engine ?st)) eid = Some e" for eid e
    using that epoch_evidence_not_current by (auto simp: advance_epoch_sel)
  show "authorize cid cls now ?st = Inr (None, ?st)"
    using ev by (intro not_picked_refused no_evidence_no_decision) blast
  show act: "\<not> active (ir_state i)" if "om_find (es_interventions (gs_engine ?st)) iid = Some i" for iid i
    using that epoch_intervention_inactive by (auto simp: advance_epoch_sel)
  show d: "\<exists>status. dispatch_begin iid now ?st = (Inl status, ?st)"
    using act [of iid] by (auto simp: dispatch_begin_def active_simps split: option.split)
  then show "snd (dispatch adapters iid now ?st) = ?st" by (auto simp: dispatch_def)
qed

lemma epoch_fence_stale:
  assumes "id_value (au_coordinatorEpoch (es_authority (gs_engine st))) \<noteq> u64_max"
    "fence_current (es_authority (gs_engine st)) f target"
  shows "\<not> fence_current (es_authority (gs_engine (snd (advance_epoch st)))) f target"
  using assms(2) id_advance_gt [OF assms(1)] by (auto simp: fence_current_def advance_epoch_sel)

section \<open>Budget\<close>

fun used_of :: "InterventionClass \<Rightarrow> ActionBudgetStats \<Rightarrow> u64 option" where
  "used_of IC_REQUEST_PREEMPTION u = Some (abs_preemptions u)"
| "used_of IC_REQUEST_MIGRATION u = Some (abs_migrations u)"
| "used_of IC_CHANGE_PLACEMENT u = Some (abs_placementChanges u)"
| "used_of IC_THROTTLE u = Some (abs_throttles u)"
| "used_of IC_REDUCE_CONCURRENCY u = Some (abs_throttles u)"
| "used_of IC_REDUCE_BATCH u = Some (abs_throttles u)"
| "used_of IC_SERIALIZE u = Some (abs_throttles u)"
| "used_of IC_TIME_SLICE u = Some (abs_throttles u)"
| "used_of IC_REDUCE_MEMORY_PRESSURE u = Some (abs_throttles u)"
| "used_of IC_REQUEST_COLLECTIVE_RESCHEDULE u = Some (abs_collectiveReschedules u)"
| "used_of _ u = None"

fun limit_of :: "InterventionClass \<Rightarrow> ActionBudget \<Rightarrow> u64" where
  "limit_of IC_REQUEST_PREEMPTION b = ab_maxPreemptionsPerWindow b"
| "limit_of IC_REQUEST_MIGRATION b = ab_maxMigrationsPerWindow b"
| "limit_of IC_CHANGE_PLACEMENT b = ab_maxPlacementChangesPerWindow b"
| "limit_of IC_REQUEST_COLLECTIVE_RESCHEDULE b = ab_maxCollectiveReschedulesPerWindow b"
| "limit_of _ b = ab_maxThrottlesPerWindow b"

lemma budget_exhausted_iff:
  "budget_exhausted b c \<longleftrightarrow> (\<exists>u. used_of c (ab_used b) = Some u \<and> limit_of c b \<le> u)"
  by (cases c) simp_all

lemma word_succ_within: "(u :: 'a :: len word) < m \<Longrightarrow> 0 < u + 1 \<and> u + 1 \<le> m"
proof -
  assume "u < m"
  then have u: "u \<noteq> - 1" using word_order.extremum_strict [of m] by auto
  then show ?thesis using \<open>u < m\<close> by (simp add: word_less_nat_alt word_le_nat_alt unat_add_one)
qed

lemma word_one_within: "(u :: u64) < m \<Longrightarrow> 1 \<le> m"
  by (simp add: word_less_nat_alt word_le_nat_alt)

definition window_expired :: "ActionBudget \<Rightarrow> TimeMs \<Rightarrow> bool" where
  "window_expired b now \<longleftrightarrow> now - ab_windowStart b > ab_windowMs b"

text \<open>A use adds one to the counter of its class, from zero in a new window.\<close>

lemma consume_budget_used:
  "used_of c (ab_used (consume_budget b c now)) =
     map_option (\<lambda>u. if window_expired b now then 1 else u + 1) (used_of c (ab_used b))"
  by (cases c) (simp_all add: consume_budget_def Let_def default_ActionBudgetStats_def window_expired_def)

text \<open>A use of a class that is not exhausted stays within its limit.\<close>

lemma consume_budget_within:
  assumes "\<not> budget_exhausted b c" "used_of c (ab_used (consume_budget b c now)) = Some u"
  shows "0 < u \<and> u \<le> limit_of c b"
proof -
  obtain u0 where u0: "used_of c (ab_used b) = Some u0" "u = (if window_expired b now then 1 else u0 + 1)"
    using assms(2) by (auto simp: consume_budget_used)
  then have "u0 < limit_of c b" using assms(1) by (auto simp: budget_exhausted_iff)
  then show ?thesis using u0(2) word_succ_within word_one_within by auto
qed

text \<open>Within a window a use adds one to the class's counter and to the total, nothing else.\<close>

lemma consume_budget_total:
  "abs_all (ab_used (consume_budget b c now)) =
     (if window_expired b now then 1 else abs_all (ab_used b) + 1)"
  by (cases c) (simp_all add: consume_budget_def Let_def default_ActionBudgetStats_def window_expired_def)

section \<open>Fairness\<close>

text \<open>A charge below the cap stays within it.\<close>

lemma charge_fairness_within:
  assumes "fr_consecutiveInterventions f < m"
  shows "0 < fr_consecutiveInterventions (charge_fairness w now f)
    \<and> fr_consecutiveInterventions (charge_fairness w now f) \<le> m"
proof -
  have "fr_consecutiveInterventions f \<noteq> u32_max" using assms word_order.extremum_strict [of m] by auto
  then show ?thesis using word_succ_within [OF assms] by (simp add: charge_fairness_def)
qed

lemma charge_fairness_sel [simp]:
  "fr_lastInterventionAt (charge_fairness w now f) = now"
  "unat (fr_interventionCount (charge_fairness w now f)) = min (unat (fr_interventionCount f) + 1) (2 ^ 64 - 1)"
  by (simp_all add: charge_fairness_def saturating_add_spec)

section \<open>Verification\<close>

lemma classify_outcome_resolved:
  "classify_outcome sec before after thr = VO_RESOLVED \<longleftrightarrow> \<not> sec \<and> f64_le after thr"
  by (simp add: classify_outcome_def)

lemma classify_outcome_secondary:
  "classify_outcome sec before after thr \<in> {VO_SHIFTED_CONTENTION, VO_CREATED_SECONDARY_VIOLATION} \<longleftrightarrow> sec"
  by (simp add: classify_outcome_def)

lemma outcome_effective:
  "fst (outcome_states v) = LS_EFFECTIVE \<longleftrightarrow> v = VO_RESOLVED"
  "snd (outcome_states v) = CS_RESOLVED \<longleftrightarrow> v = VO_RESOLVED"
  by (cases v; simp)+


section \<open>The order of the associated workloads\<close>

abbreviation reordered :: "ConflictId \<Rightarrow> WorkloadId list \<Rightarrow> ContentionConflict \<Rightarrow> EngineState \<Rightarrow> EngineState" where
  "reordered cid ts c s \<equiv> put_conflict cid (c\<lparr>cc_associated := ts\<rparr>) s"

lemma build_candidates_reordered:
  "build_candidates (reordered cid ts c s) ctx (c\<lparr>cc_associated := ts\<rparr>) primary =
     build_candidates s ctx c primary"
proof -
  have "revalidate (reordered cid ts c s) f t = revalidate s f t"
    "fairness_capped (reordered cid ts c s) t = fairness_capped s t" for f t
    by (simp_all only: revalidate_def fairness_capped_def put_conflict_sel)
  then have "check_feasibility (reordered cid ts c s) t cls f = check_feasibility s t cls f" for t cls f
    by (simp only: check_feasibility_def put_conflict_sel)
  then have "build_candidate (reordered cid ts c s) ctx (c\<lparr>cc_associated := ts\<rparr>) primary t cls =
      build_candidate s ctx c primary t cls" for t cls
    by (simp add: build_candidate_def Let_def)
  then have "build_candidate (reordered cid ts c s) ctx (c\<lparr>cc_associated := ts\<rparr>) primary =
      build_candidate s ctx c primary"
    by (intro ext)
  then show ?thesis by (intro ext) (simp add: build_candidates_def)
qed

lemma decide_reordered:
  "decide (reordered cid ts c s) ctx (c\<lparr>cc_associated := ts\<rparr>) primary ts' ev = decide s ctx c primary ts' ev"
  by (simp add: decide_def build_candidates_reordered)

lemma actionable_reordered:
  "set ts = set (cc_associated c) \<Longrightarrow>
     actionable_with (reordered cid ts c s) (c\<lparr>cc_associated := ts\<rparr>) primary = actionable_with s c primary"
  by (cases "cc_associated c"; cases ts) (simp_all add: actionable_with_def)

lemma evaluate_reordered:
  assumes c: "om_find (es_conflicts s) cid = Some c" and set: "set ts = set (cc_associated c)"
    and fin: "values_finite (es_policy s)"
  shows "ce_decision (evaluate_conflict (reordered cid ts c s) cid ctx) = ce_decision (evaluate_conflict s cid ctx)"
proof (cases "\<exists>primary. actionable_with s c primary")
  case True
  then obtain primary where a: "actionable_with s c primary" by blast
  have a': "actionable_with (reordered cid ts c s) (c\<lparr>cc_associated := ts\<rparr>) primary"
    using a set by (simp add: actionable_reordered)
  have c': "om_find (es_conflicts (reordered cid ts c s)) cid = Some (c\<lparr>cc_associated := ts\<rparr>)" by simp
  obtain ev where ev: "ce_decision ev = None"
    "evaluate_conflict s cid ctx = decide s ctx c primary (sort (cc_associated c)) ev"
    using evaluate_conflict_decide [OF c a] by blast
  obtain ev' where ev': "ce_decision ev' = None"
    "evaluate_conflict (reordered cid ts c s) cid ctx =
       decide (reordered cid ts c s) ctx (c\<lparr>cc_associated := ts\<rparr>) primary (sort ts) ev'"
    using evaluate_conflict_decide [OF c' a', of ctx] by auto
  show ?thesis
    using decide_decision_set [OF fin, of "sort ts" "sort (cc_associated c)"] set ev ev'
    by (simp add: decide_reordered)
next
  case False
  have no: "ce_decision (evaluate_conflict s' cid ctx) = None"
    if "om_find (es_conflicts s') cid = Some d" "\<nexists>primary. actionable_with s' d primary" for s' d
    using evaluate_conflict_actionable [of s' cid ctx] that by (metis option.inject)
  have "\<nexists>primary. actionable_with (reordered cid ts c s) (c\<lparr>cc_associated := ts\<rparr>) primary"
    using False set by (simp add: actionable_reordered)
  then show ?thesis using no [OF c False] no [of "reordered cid ts c s"] by simp
qed

end
