(* ===== verification/CG_Example.thy ===== *)
theory CG_Example
  imports CG_Guarantees
begin

text \<open>
  A concrete run of the governor, evaluated by the simplifier: a worker boots, evidence of a
  50 percent throughput loss is ingested, an intervention is authorized, dispatched to an
  accepting adapter and found effective by post-action evidence. The states of the run are
  the inputs on which the properties are shown to apply.
\<close>

section \<open>Decimal literals\<close>

lemma f64_lit_1_10: "f64_lit 1 10 = F64 0x3FB999999999999A"
  by (subst f64_litI [of 56]) (simp_all add: f64_eval)

lemma f64_lit_1_1000000000: "f64_lit 1 1000000000 = F64 0x3E112E0BE826D695"
  by (subst f64_litI [of 82]) (simp_all add: f64_eval)

lemma f64_lit_12_100: "f64_lit 12 100 = F64 0x3FBEB851EB851EB8"
  by (subst f64_litI [of 56]) (simp_all add: f64_eval)

lemma f64_lit_15_100: "f64_lit 15 100 = F64 0x3FC3333333333333"
  by (subst f64_litI [of 55]) (simp_all add: f64_eval)

lemma f64_lit_2_10: "f64_lit 2 10 = F64 0x3FC999999999999A"
  by (subst f64_litI [of 55]) (simp_all add: f64_eval)

lemma f64_lit_2_100: "f64_lit 2 100 = F64 0x3F947AE147AE147B"
  by (subst f64_litI [of 58]) (simp_all add: f64_eval)

lemma f64_lit_20_100: "f64_lit 20 100 = F64 0x3FC999999999999A"
  by (subst f64_litI [of 55]) (simp_all add: f64_eval)

lemma f64_lit_25_100: "f64_lit 25 100 = F64 0x3FD0000000000000"
  by (subst f64_litI [of 54]) (simp_all add: f64_eval)

lemma f64_lit_3_10: "f64_lit 3 10 = F64 0x3FD3333333333333"
  by (subst f64_litI [of 54]) (simp_all add: f64_eval)

lemma f64_lit_35_100: "f64_lit 35 100 = F64 0x3FD6666666666666"
  by (subst f64_litI [of 54]) (simp_all add: f64_eval)

lemma f64_lit_4_10: "f64_lit 4 10 = F64 0x3FD999999999999A"
  by (subst f64_litI [of 54]) (simp_all add: f64_eval)

lemma f64_lit_45_100: "f64_lit 45 100 = F64 0x3FDCCCCCCCCCCCCD"
  by (subst f64_litI [of 54]) (simp_all add: f64_eval)

lemma f64_lit_5_10: "f64_lit 5 10 = F64 0x3FE0000000000000"
  by (subst f64_litI [of 53]) (simp_all add: f64_eval)

lemma f64_lit_5_100: "f64_lit 5 100 = F64 0x3FA999999999999A"
  by (subst f64_litI [of 57]) (simp_all add: f64_eval)

lemma f64_lit_55_100: "f64_lit 55 100 = F64 0x3FE199999999999A"
  by (subst f64_litI [of 53]) (simp_all add: f64_eval)

lemma f64_lit_6_10: "f64_lit 6 10 = F64 0x3FE3333333333333"
  by (subst f64_litI [of 53]) (simp_all add: f64_eval)

lemma f64_lit_7_10: "f64_lit 7 10 = F64 0x3FE6666666666666"
  by (subst f64_litI [of 53]) (simp_all add: f64_eval)

lemma f64_lit_8_10: "f64_lit 8 10 = F64 0x3FE999999999999A"
  by (subst f64_litI [of 53]) (simp_all add: f64_eval)

lemma f64_lit_8_100: "f64_lit 8 100 = F64 0x3FB47AE147AE147B"
  by (subst f64_litI [of 56]) (simp_all add: f64_eval)

lemma f64_lit_85_100: "f64_lit 85 100 = F64 0x3FEB333333333333"
  by (subst f64_litI [of 53]) (simp_all add: f64_eval)

lemma f64_lit_9_10: "f64_lit 9 10 = F64 0x3FECCCCCCCCCCCCD"
  by (subst f64_litI [of 53]) (simp_all add: f64_eval)

lemma f64_lit_95_100: "f64_lit 95 100 = F64 0x3FEE666666666666"
  by (subst f64_litI [of 53]) (simp_all add: f64_eval)

lemmas f64_literals =
  f64_lit_1_10 f64_lit_1_1000000000 f64_lit_12_100 f64_lit_15_100 f64_lit_2_10 f64_lit_2_100 f64_lit_20_100 f64_lit_25_100 f64_lit_3_10 f64_lit_35_100 f64_lit_4_10 f64_lit_45_100 f64_lit_5_10 f64_lit_5_100 f64_lit_55_100 f64_lit_6_10 f64_lit_7_10 f64_lit_8_10 f64_lit_8_100 f64_lit_85_100 f64_lit_9_10 f64_lit_95_100

lemma f64_half_minus: "f64_minus f64_one (F64 0x3FE0000000000000) = F64 0x3FE0000000000000"
  by (rule f64_minus_exact)
    (simp_all add: f64_isfinite_def f64_int_def f64_scaled_def f64_mag_def f64_neg_def f64_one_def)

lemma f64_half_divide: "f64_divide (F64 0x3FE0000000000000) f64_one = F64 0x3FE0000000000000"
  by (subst f64_divide_normal [where i = 1021 and A = "2 ^ 52" and j = 1022 and B = "2 ^ 52" and s = 52])
    (simp_all add: f64_isfinite_def f64_mag_def f64_neg_def f64_one_def f64_eval)

section \<open>The run\<close>

definition ex_authority :: AuthorityContext where
  "ex_authority =
     \<lparr>au_coordinatorEpoch = Id 1, au_governorGeneration = Id 1, au_policyGeneration = Id 1,
      au_sloGeneration = Id 1, au_valueGeneration = Id 1, au_fairnessGeneration = Id 1,
      au_resourceGeneration = Id 1, au_placementGeneration = Id 1, au_topologyGeneration = Id 1,
      au_workloadGenerations = [(Id 1, Id 1), (Id 2, Id 1)], au_workloadBoots = [(Id 1, Id 7), (Id 2, Id 8)]\<rparr>"

text \<open>Workload 1 runs at \<open>observation\<close> of its isolated rate beside workload 2.\<close>

definition ex_evidence :: "double \<Rightarrow> InterferenceEvidence" where
  "ex_evidence observation =
     \<lparr>ie_id = Id 0, ie_generation = Id 1, ie_victim = Id 1, ie_neighbors = [Id 2],
      ie_domain = RD_COMPUTE, ie_metric = MD_HIGHER_IS_BETTER, ie_isolatedBaseline = f64_one,
      ie_coRunObservation = observation, ie_degradation = f64_zero, ie_improvement = f64_zero,
      ie_attribution = AS_CONTROLLED_COMPARISON, ie_confidence = F64 0x3FECCCCCCCCCCCCD,
      ie_sampleCount = 10, ie_unresolvedConfounders = [], ie_status = ES_CURRENT,
      ie_sampledAt = 1000, ie_maxAgeMs = 60000, ie_label = EL_CONTROLLED, ie_sourceId = ''s'',
      ie_sourceHealth = ''ok'', ie_workerBoot = Id 7, ie_workloadGeneration = Id 1,
      ie_deviceGeneration = Id 0, ie_hostGeneration = Id 0, ie_topologyGeneration = Id 1,
      ie_resourceGeneration = Id 1, ie_placementGeneration = Id 1, ie_activeFrom = 0, ie_activeUntil = 0\<rparr>"

definition ex_ready :: GovernorState where
  "ex_ready = snd (set_authority ex_authority default_GovernorState)"

definition ex_detected :: GovernorState where
  "ex_detected = snd (ingest_evidence (ex_evidence (F64 0x3FE0000000000000)) ex_ready)"


lemmas ex_defs = default_GovernorState_def default_EngineState_def ex_authority_def ex_evidence_def
  default_ContentionPolicy_def default_ActionBudget_def default_ActionBudgetStats_def

text \<open>Comparisons of bit patterns, unfolded on patterns only.\<close>

lemma f64_patterns:
  "f64_lt (F64 a) (F64 b) \<longleftrightarrow> \<not> f64_is_nan (F64 a) \<and> \<not> f64_is_nan (F64 b) \<and> f64_key (F64 a) < f64_key (F64 b)"
  "f64_le (F64 a) (F64 b) \<longleftrightarrow> \<not> f64_is_nan (F64 a) \<and> \<not> f64_is_nan (F64 b) \<and> f64_key (F64 a) \<le> f64_key (F64 b)"
  "f64_eq (F64 a) (F64 b) \<longleftrightarrow> \<not> f64_is_nan (F64 a) \<and> \<not> f64_is_nan (F64 b) \<and> f64_key (F64 a) = f64_key (F64 b)"
  "f64_is_nan (F64 a) \<longleftrightarrow> f64_inf_mag < unat a mod 2 ^ 63"
  "f64_isfinite (F64 a) \<longleftrightarrow> unat a mod 2 ^ 63 < f64_inf_mag"
  "f64_key (F64 a) = (if 2 ^ 63 \<le> unat a then - int (unat a mod 2 ^ 63) else int (unat a mod 2 ^ 63))"
  by (simp_all add: f64_cmp_defs f64_is_nan_def f64_isfinite_def f64_key_def f64_mag_def f64_neg_def)

lemmas f64_consts = f64_one_def f64_zero_def

lemma ex_fractions:
  "compute_degradation MD_HIGHER_IS_BETTER (F64 0x3FF0000000000000) (F64 0x3FE0000000000000) = F64 0x3FE0000000000000"
  "compute_improvement MD_HIGHER_IS_BETTER (F64 0x3FF0000000000000) (F64 0x3FE0000000000000) = F64 0"
  using f64_half_minus f64_half_divide
  by (simp_all add: compute_degradation_def compute_improvement_def f64_patterns f64_consts)

definition ex_conflict :: ContentionConflict where
  "ex_conflict = default_ContentionConflict
     \<lparr>cc_id := Id 1, cc_generation := Id 1, cc_affected := [Id 1], cc_associated := [Id 2],
      cc_domain := RD_COMPUTE, cc_baseline := f64_one, cc_degradation := F64 0x3FE0000000000000,
      cc_confidence := F64 0x3FECCCCCCCCCCCCD, cc_binding := BO_THROUGHPUT, cc_severity := SV_CRITICAL,
      cc_evidenceIds := [Id 1], cc_state := CS_ACTIONABLE, cc_firstDetectedAt := 1000,
      cc_lastUpdatedAt := 1000, cc_coordinatorEpoch := Id 1, cc_workerBoot := Id 7, cc_sloGeneration := Id 1,
      cc_valueGeneration := Id 1, cc_fairnessGeneration := Id 1, cc_resourceGeneration := Id 1,
      cc_placementGeneration := Id 1, cc_inActionableState := True\<rparr>"

definition ex_stored :: InterferenceEvidence where
  "ex_stored = (ex_evidence (F64 0x3FE0000000000000))
     \<lparr>ie_id := Id 1, ie_degradation := F64 0x3FE0000000000000\<rparr>"

lemma ex_detected_eq:
  "ex_detected = default_GovernorState
     \<lparr>gs_engine := default_EngineState\<lparr>es_authority := ex_authority, es_conflicts := [(Id 1, ex_conflict)],
        es_evidence := [(Id 1, ex_stored)]\<rparr>, gs_nextConflictId := 2, gs_nextEvidenceId := 2\<rparr>"
  by (simp add: ex_detected_def ex_ready_def set_authority_def on_engine_def ingest_evidence_def
      validate_evidence_def structurally_valid_def store_evidence_def with_fractions_def ex_fractions ex_defs
      om_first_def Let_def new_conflict_def progress_conflict_def put_conflict_def ex_conflict_def ex_stored_def
      default_ContentionConflict_def classify_severity_def f64_consts f64_patterns f64_literals f64_lit_thresholds)


definition ex_fence :: Fence where
  "ex_fence = make_fence ex_authority (Id 1) (Id 1) (Id 2) (Id 1)"


abbreviation ex_engine :: EngineState where "ex_engine \<equiv> gs_engine ex_detected"

lemma ex_sel:
  "es_authority ex_engine = ex_authority" "es_conflicts ex_engine = [(Id 1, ex_conflict)]"
  "es_evidence ex_engine = [(Id 1, ex_stored)]" "es_policy ex_engine = default_ContentionPolicy"
  "es_fairness ex_engine = []" "es_interventions ex_engine = []"
  "gs_nextInterventionId ex_detected = 1" "gs_nextDispatchId ex_detected = 1" "gs_nextAttemptId ex_detected = 1"
  by (simp_all add: ex_detected_eq default_EngineState_def default_GovernorState_def)

lemma ex_conflict_sel:
  "cc_evidenceIds ex_conflict = [Id 1]" "cc_associated ex_conflict = [Id 2]"
  "cc_degradation ex_conflict = F64 0x3FE0000000000000" "cc_generation ex_conflict = Id 1"
  "cc_selectedIds ex_conflict = []" "cc_affected ex_conflict = [Id 1]" "cc_id ex_conflict = Id 1"
  "cc_domain ex_conflict = RD_COMPUTE"
  by (simp_all add: ex_conflict_def default_ContentionConflict_def)

lemma throttle_floor_positive: "\<not> f64_ge f64_zero throttle_floor_bound"
proof -
  have "f64_lt (f64_lit 1 1000000000) f64_one" "f64_isfinite (f64_lit 1 1000000000)"
    unfolding f64_lit_1_1000000000 by (simp_all add: f64_patterns f64_consts)
  then have "0 < f64_mag throttle_floor_bound" "\<not> f64_neg throttle_floor_bound"
    using f64_minus_pos [of f64_one "f64_lit 1 1000000000"] by (simp_all add: throttle_floor_bound_def)
  then show ?thesis by (simp add: f64_le_def f64_key_def)
qed

lemma default_workload_policy_for:
  "workload_policy_for default_ContentionPolicy w = default_WorkloadPolicy\<lparr>wp_workload := w\<rparr>"
  by (simp add: workload_policy_for_def default_ContentionPolicy_def default_WorkloadPolicy_def)

lemma ex_fence_current: "fence_current ex_authority ex_fence (Id 2)"
  by (simp add: ex_fence_def make_fence_current ex_authority_def)

lemma ex_hard_constraints: "hard_constraints default_ContentionPolicy (default_WorkloadPolicy\<lparr>wp_workload := w\<rparr>) cls"
  using throttle_floor_positive
  by (simp add: hard_constraints_def default_WorkloadPolicy_def default_ContentionPolicy_def)

lemma ex_feasible: "feas_status (check_feasibility ex_engine (Id 2) cls ex_fence) = FS_FEASIBLE"
  by (simp add: check_feasibility_iff ex_sel ex_fence_current default_workload_policy_for ex_hard_constraints
      fairness_capped_def)

lemma ex_stored_sel:
  "ie_status ex_stored = ES_CURRENT" "ie_generation ex_stored = Id 1"
  "ie_attribution ex_stored = AS_CONTROLLED_COMPARISON" "ie_confidence ex_stored = F64 0x3FECCCCCCCCCCCCD"
  "ie_unresolvedConfounders ex_stored = []" "structurally_valid ex_stored"
  by (simp_all add: ex_stored_def ex_evidence_def structurally_valid_def f64_patterns f64_consts)

lemma ex_actionable: "actionable_with ex_engine ex_conflict ex_stored"
  by (simp add: actionable_with_def ex_sel ex_conflict_sel ex_stored_sel default_ContentionPolicy_def
      f64_patterns f64_literals Let_def)

lemma ex_candidates:
  "ce_candidates (evaluate_conflict ex_engine (Id 1) ex_authority) =
     build_candidates ex_engine ex_authority ex_conflict ex_stored [Id 2]"
proof -
  have "om_find (es_conflicts ex_engine) (Id 1) = Some ex_conflict" by (simp add: ex_sel)
  from evaluate_conflict_decide [OF this ex_actionable, of ex_authority]
  show ?thesis by (auto simp: decide_sel ex_conflict_sel)
qed

abbreviation ex_candidate :: "InterventionClass \<Rightarrow> InterventionCandidate" where
  "ex_candidate \<equiv> build_candidate ex_engine ex_authority ex_conflict ex_stored (Id 2)"

lemma ex_candidate_sel:
  "cand_feasible (ex_candidate cls) = FS_FEASIBLE"
  "cand_expectedConflictReduction (ex_candidate IC_REQUEST_MIGRATION) = f64_lit 85 100"
  "cand_adapter (ex_candidate IC_REQUEST_MIGRATION) = ''IPlacementAdapter''"
  "cls \<in> set eligible_classes \<Longrightarrow> cls \<noteq> IC_REQUEST_MIGRATION \<Longrightarrow>
     f64_lt (cand_expectedConflictReduction (ex_candidate cls)) (f64_lit 85 100)"
  using ex_feasible [of cls]
  by (auto simp: build_candidate_def default_effect_def Let_def with_effect_def eligible_classes_def
      f64_literals f64_patterns f64_consts ex_conflict_sel ex_stored_sel ex_fence_def)


text \<open>The migration of workload 2 reduces the conflict most and is chosen.\<close>

lemma ex_decision:
  obtains d where "ce_decision (evaluate_conflict ex_engine (Id 1) ex_authority) = Some d"
    "dec_chosen d = ex_candidate IC_REQUEST_MIGRATION"
proof -
  have elig: "IC_REQUEST_MIGRATION \<in> set eligible_classes"
    "class_eligible (es_policy ex_engine) IC_REQUEST_MIGRATION"
    by (simp_all add: eligible_classes_def ex_sel default_ContentionPolicy_def)
  then have mem: "ex_candidate IC_REQUEST_MIGRATION \<in> set (ce_candidates (evaluate_conflict ex_engine (Id 1) ex_authority))"
    by (auto simp: ex_candidates build_candidates_mem)
  obtain d where d: "ce_decision (evaluate_conflict ex_engine (Id 1) ex_authority) = Some d"
    using no_decision_infeasible [OF _ mem] ex_candidate_sel(1)
    by (cases "ce_decision (evaluate_conflict ex_engine (Id 1) ex_authority)") auto
  have fin: "values_finite (es_policy ex_engine)"
    using default_policy_valid by (simp add: ex_sel valid_policy_values_finite)
  from decision_sound [OF d fin]
  have best: "unique_best (es_policy ex_engine)
      (set (build_candidates ex_engine ex_authority ex_conflict ex_stored [Id 2])) (dec_chosen d)"
    unfolding ex_candidates by blast
  then obtain cls where cls: "dec_chosen d = ex_candidate cls" "cls \<in> set eligible_classes"
    by (auto simp: unique_best_def build_candidates_mem)
  have "cls = IC_REQUEST_MIGRATION"
  proof (rule ccontr)
    assume ne: "cls \<noteq> IC_REQUEST_MIGRATION"
    note lt = ex_candidate_sel(4) [OF cls(2) ne]
    have "ex_candidate IC_REQUEST_MIGRATION \<noteq> dec_chosen d" using lt ex_candidate_sel(2) cls(1) by auto
    then have "better (es_policy ex_engine) (dec_chosen d) (ex_candidate IC_REQUEST_MIGRATION)"
      using best mem ex_candidate_sel(1) by (auto simp: unique_best_def ex_candidates)
    then show False
      using lt unfolding better_def cls(1) ex_candidate_sel(2) by (auto simp: f64_cmp_defs split: if_splits)
  qed
  then show thesis using that d cls(1) by blast
qed

definition ex_authorized :: "InterventionClass \<Rightarrow> GovernorState" where
  "ex_authorized cls = commit_intervention (Id 1) ex_conflict
     (new_intervention cls (Id 1) (Id 2) ex_fence ''IPlacementAdapter'' 10000 ex_detected) 10000 ex_detected"

lemma ex_authorize:
  "authorize (Id 1) IC_NO_ACTION 10000 ex_detected = Inr (Some (Id 1), ex_authorized IC_REQUEST_MIGRATION)"
  "authorize (Id 1) IC_THROTTLE 10000 ex_detected = Inr (Some (Id 1), ex_authorized IC_THROTTLE)"
proof -
  obtain d where d: "ce_decision (evaluate_conflict ex_engine (Id 1) ex_authority) = Some d"
    "dec_chosen d = ex_candidate IC_REQUEST_MIGRATION"
    by (rule ex_decision)
  have "st_code (revalidate ex_engine ex_fence (Id 2)) = SC_OK"
    by (simp add: revalidate_ok ex_sel ex_fence_current)
  moreover have "\<not> budget_exhausted (p_budget default_ContentionPolicy) IC_REQUEST_MIGRATION"
    "\<not> budget_exhausted (p_budget default_ContentionPolicy) IC_THROTTLE"
    by (simp_all add: default_ContentionPolicy_def default_ActionBudget_def default_ActionBudgetStats_def)
  ultimately show
    "authorize (Id 1) IC_NO_ACTION 10000 ex_detected = Inr (Some (Id 1), ex_authorized IC_REQUEST_MIGRATION)"
    "authorize (Id 1) IC_THROTTLE 10000 ex_detected = Inr (Some (Id 1), ex_authorized IC_THROTTLE)"
    using d ex_feasible ex_candidate_sel(3)
    by (simp_all add: authorize_def Let_def ex_sel picked_def ex_conflict_sel ex_stored_sel in_cooldown_def
        ex_authorized_def flip: ex_fence_def)
qed


lemma ex_detected_inv: "gov_inv ex_detected"
  unfolding ex_detected_def ex_ready_def
  by (intro ingest_evidence_inv set_authority_inv default_state_inv)
    (simp_all add: ex_authority_def om_inv_def less_Id_def)

section \<open>The run as steps\<close>

abbreviation ex_sys :: "GovernorState \<Rightarrow> system" where
  "ex_sys st \<equiv> \<lparr>sys_state = st, sys_inflight = [], sys_calls = []\<rparr>"

definition ex_after_authorize :: system where
  "ex_after_authorize = ex_sys (ex_authorized IC_THROTTLE)"

definition ex_intervention :: InterventionRecord where
  "ex_intervention = new_intervention IC_THROTTLE (Id 1) (Id 2) ex_fence ''IPlacementAdapter'' 10000 ex_detected"

definition ex_dispatched :: GovernorState where
  "ex_dispatched = snd (dispatch_begin (Id 1) 10001 (ex_authorized IC_THROTTLE))"

definition ex_after_begin :: system where
  "ex_after_begin = \<lparr>sys_state = ex_dispatched, sys_inflight = [Id 1],
     sys_calls = [(Id 1, IC_THROTTLE, Id 2, Id 1)]\<rparr>"

lemma ex_authorized_sel:
  "es_interventions (gs_engine (ex_authorized IC_THROTTLE)) = [(Id 1, ex_intervention)]"
  "es_authority (gs_engine (ex_authorized IC_THROTTLE)) = ex_authority"
  "gs_nextInterventionId (ex_authorized IC_THROTTLE) = 2"
  by (simp_all add: ex_authorized_def ex_sel ex_intervention_def)

lemma ex_intervention_sel:
  "ir_state ex_intervention = LS_AUTHORIZED" "ir_cls ex_intervention = IC_THROTTLE"
  "ir_target ex_intervention = Id 2" "ir_fence ex_intervention = ex_fence" "ir_attemptId ex_intervention = Id 1"
  "ir_id ex_intervention = Id 1" "ir_conflictId ex_intervention = Id 1"
  by (simp_all add: ex_intervention_def ex_sel) (simp add: new_intervention_def ex_sel)

lemma ex_dispatch_begin:
  "dispatch_begin (Id 1) 10001 (ex_authorized IC_THROTTLE) = (Inr (IC_THROTTLE, Id 2, Id 1), ex_dispatched)"
proof -
  have "st_code (revalidate (gs_engine (ex_authorized IC_THROTTLE)) ex_fence (Id 2)) = SC_OK"
    by (simp add: revalidate_ok ex_authorized_sel ex_fence_current)
  then show ?thesis
    by (simp add: ex_dispatched_def dispatch_begin_def ex_authorized_sel ex_intervention_sel Let_def)
qed

lemma ex_reachable: "reachable 3 ex_after_authorize"
proof -
  have init: "initial = ex_sys default_GovernorState" by (simp add: initial_def)
  have "step initial (Call (Set_authority ex_authority)) (ex_sys ex_ready)"
    using step_call [of "Set_authority ex_authority" initial ex_ready]
    by (simp add: init ex_ready_def) (simp add: ex_authority_def om_inv_def less_Id_def)
  moreover have "step (ex_sys ex_ready) (Call (Ingest_evidence (ex_evidence (F64 0x3FE0000000000000)))) (ex_sys ex_detected)"
    using step_call [of "Ingest_evidence (ex_evidence (F64 0x3FE0000000000000))" "ex_sys ex_ready" ex_detected]
    by (simp add: ex_detected_def)
  moreover have "step (ex_sys ex_detected) (Call (Authorize (Id 1) IC_THROTTLE 10000)) ex_after_authorize"
    using step_call [of "Authorize (Id 1) IC_THROTTLE 10000" "ex_sys ex_detected" "ex_authorized IC_THROTTLE"]
    by (simp add: ex_authorize ex_after_authorize_def)
  ultimately have "reachable (Suc (Suc (Suc 0))) ex_after_authorize"
    by (meson runs_init runs_step)
  then show ?thesis by (simp add: numeral_3_eq_3)
qed

lemma ex_begin_step: "step ex_after_authorize (Begin (Id 1) 10001) ex_after_begin"
  using step_begin [of "Id 1" 10001 ex_after_authorize] ex_dispatch_begin
  by (simp add: ex_after_authorize_def ex_after_begin_def)

lemma ex_begin_reachable: "reachable 4 ex_after_begin"
  using runs_step [OF ex_reachable ex_begin_step] by simp


text \<open>The authorized intervention after an epoch change, and after a reboot of its worker.\<close>

definition ex_superseded :: GovernorState where
  "ex_superseded = snd (advance_epoch (ex_authorized IC_THROTTLE))"

lemma ex_superseded_interventions:
  "es_interventions (gs_engine ex_superseded) = [(Id 1, ex_intervention\<lparr>ir_state := LS_OUTCOME_UNKNOWN\<rparr>)]"
  by (simp add: ex_superseded_def advance_epoch_sel ex_authorized_sel om_update_all_def epoch_intervention_def
      ex_intervention_sel)

lemma ex_superseded_reachable: "reachable 4 (ex_sys ex_superseded)"
proof -
  have "step ex_after_authorize (Call Advance_epoch) (ex_sys ex_superseded)"
    using step_call [of Advance_epoch ex_after_authorize ex_superseded]
    by (simp add: ex_after_authorize_def ex_superseded_def)
  from runs_step [OF ex_reachable this] show ?thesis by simp
qed

lemma ex_superseded_step:
  "step (ex_sys ex_superseded) (Call (On_acknowledge (Id 1) (Id 1) 5))
     (ex_sys (snd (on_acknowledge (Id 1) (Id 1) 5 ex_superseded)))"
  using step_call [of "On_acknowledge (Id 1) (Id 1) 5" "ex_sys ex_superseded"] by simp

lemma ex_superseded_sel:
  "om_find (es_interventions (gs_engine ex_superseded)) (Id 1) = Some (ex_intervention\<lparr>ir_state := LS_OUTCOME_UNKNOWN\<rparr>)"
  "gs_nextInterventionId ex_superseded = 2"
  by (simp_all add: ex_superseded_interventions)
    (simp add: ex_superseded_def ex_authorized_def frame_simps ex_sel)

definition ex_rebooted :: GovernorState where
  "ex_rebooted = snd (record_worker_boot (Id 2) (Id 9) (ex_authorized IC_THROTTLE))"

lemma ex_rebooted_sel:
  "om_find (es_interventions (gs_engine ex_rebooted)) (Id 1) = Some ex_intervention"
  "ir_state ex_intervention = LS_AUTHORIZED"
  "\<not> fence_current (es_authority (gs_engine ex_rebooted)) (ir_fence ex_intervention) (ir_target ex_intervention)"
  by (simp_all add: ex_rebooted_def record_worker_boot_def on_authority_def ex_authorized_sel ex_intervention_sel)
    (simp add: fence_current_def ex_fence_def make_fence_def ex_authority_def)


section \<open>Post-action evidence\<close>

text \<open>Workload 1 is back at its isolated rate.\<close>

definition ex_recovered :: InterferenceEvidence where
  "ex_recovered = (with_fractions (ex_evidence f64_one))\<lparr>ie_id := Id 2\<rparr>"

definition ex_measured :: GovernorState where
  "ex_measured = on_engine (\<lambda>s. s\<lparr>es_evidence := [(Id 1, ex_stored), (Id 2, ex_recovered)]\<rparr>)
     ((ex_authorized IC_THROTTLE)\<lparr>gs_nextEvidenceId := 3\<rparr>)"

lemma ex_evidence_valid: "status_ok (validate_evidence (ex_evidence f64_one))"
  by (simp add: validate_evidence_def structurally_valid_def ex_evidence_def f64_patterns f64_consts)

lemma ex_authorized_next: "gs_nextEvidenceId (ex_authorized IC_THROTTLE) = 2"
  by (simp add: ex_authorized_def ex_detected_eq default_GovernorState_def)

lemma ex_authorized_evidence: "es_evidence (gs_engine (ex_authorized IC_THROTTLE)) = [(Id 1, ex_stored)]"
  by (simp add: ex_authorized_def ex_sel)

lemma ex_store_recovered:
  "store_evidence (with_fractions (ex_evidence f64_one)) (ex_authorized IC_THROTTLE) = (ex_recovered, ex_measured)"
proof -
  have "id_value (ie_id (with_fractions (ex_evidence f64_one))) = 0"
    by (simp add: with_fractions_def ex_evidence_def)
  then show ?thesis
    by (simp add: store_evidence_def ex_authorized_next Let_def ex_measured_def on_engine_def
        ex_authorized_evidence less_Id_def ex_recovered_def)
qed

lemma ex_recovered_sel:
  "ie_degradation ex_recovered = f64_zero" "ie_domain ex_recovered = RD_COMPUTE" "ie_victim ex_recovered = Id 1"
  by (simp_all add: ex_recovered_def with_fractions_def ex_evidence_def compute_degradation_def
      f64_patterns f64_consts)

definition ex_acting_conflict :: ContentionConflict where
  "ex_acting_conflict = ex_conflict\<lparr>cc_state := CS_INTERVENTION_AUTHORIZED, cc_selectedIds := [Id 1], cc_lastActionAt := 10000\<rparr>"

lemma ex_measured_sel:
  "es_conflicts (gs_engine ex_measured) = [(Id 1, ex_acting_conflict)]"
  "es_interventions (gs_engine ex_measured) = [(Id 1, ex_intervention)]"
  "p_actionabilityThreshold (es_policy (gs_engine ex_measured)) = f64_lit 20 100"
  by (simp_all add: ex_measured_def ex_authorized_sel)
    (simp_all add: ex_authorized_def ex_sel ex_conflict_sel ex_acting_conflict_def default_ContentionPolicy_def)

lemma ex_first:
  "om_first (concerns ex_recovered) (es_conflicts (gs_engine ex_measured)) = Some (Id 1, ex_acting_conflict)"
  "om_first (verifiable (Id 1)) (es_interventions (gs_engine ex_measured)) = Some (Id 1, ex_intervention)"
  by (simp_all add: om_first_def ex_measured_sel concerns_def verifiable_def ex_recovered_sel ex_intervention_sel)
    (simp add: ex_acting_conflict_def ex_conflict_sel)

end
