(* ===== verification/CG_Replay.thy ===== *)
theory CG_Replay
  imports CG_Guarantees
begin

text \<open>
  \<^verbatim>\<open>src/replay.cpp\<close>: every conflict is evaluated again in the given state and its decision is
  compared with the interventions recorded as selected. The lemmas say which conflicts are
  reported, and what an authorization does to the evaluation that selected it: nothing,
  unless it brings the target to its fairness cap.
\<close>

record ReplayReport =
  rr_conflictsEvaluated :: nat
  rr_candidatesBuilt :: nat
  rr_diverged :: "ConflictId list"
  rr_status :: Status

definition default_ReplayReport :: ReplayReport where
  "default_ReplayReport =
     \<lparr>rr_conflictsEvaluated = 0, rr_candidatesBuilt = 0, rr_diverged = [], rr_status = status_good\<rparr>"

text \<open>The loop over \<^verbatim>\<open>c.selectedIds\<close>: the last assignment is the only one, to true.\<close>

definition selection_matches :: "EngineState \<Rightarrow> InterventionCandidate \<Rightarrow> InterventionId \<Rightarrow> bool" where
  "selection_matches s chosen iid =
     (case om_find (es_interventions s) iid of
        None \<Rightarrow> False
      | Some i \<Rightarrow> ir_cls i = cand_cls chosen \<and> ir_target i = cand_target chosen)"

definition replay_ok :: "EngineState \<Rightarrow> ContentionConflict \<Rightarrow> ConflictEvaluation \<Rightarrow> bool" where
  "replay_ok s c ev =
     (if cc_selectedIds c = [] then True
      else case ce_decision ev of
             Some d \<Rightarrow> list_ex (selection_matches s (dec_chosen d)) (cc_selectedIds c)
           | None \<Rightarrow> False)"

definition replay_conflict ::
  "EngineState \<Rightarrow> ConflictId \<times> ContentionConflict \<Rightarrow> ReplayReport \<Rightarrow> ReplayReport" where
  "replay_conflict s kc report =
     (let (cid, c) = kc;
          ev = evaluate_conflict s cid (es_authority s);
          report = report\<lparr>rr_conflictsEvaluated := rr_conflictsEvaluated report + 1,
                          rr_candidatesBuilt := rr_candidatesBuilt report + length (ce_candidates ev)\<rparr>
      in if replay_ok s c ev then report else report\<lparr>rr_diverged := rr_diverged report @ [cid]\<rparr>)"

definition replay :: "GovernorState \<Rightarrow> ReplayReport" where
  "replay st =
     (let s = gs_engine st;
          report = fold (replay_conflict s) (es_conflicts s) default_ReplayReport
      in report\<lparr>rr_status := (if rr_diverged report = [] then status_good
                              else status_bad SC_INVALID_INPUT ''replay diverged'')\<rparr>)"

section \<open>The report\<close>

text \<open>The conflicts reported, as a filter of the stored ones.\<close>

definition diverges :: "EngineState \<Rightarrow> ConflictId \<times> ContentionConflict \<Rightarrow> bool" where
  "diverges s kc \<longleftrightarrow> \<not> replay_ok s (snd kc) (evaluate_conflict s (fst kc) (es_authority s))"

lemma replay_fold:
  "rr_conflictsEvaluated (fold (replay_conflict s) kcs r) = rr_conflictsEvaluated r + length kcs
   \<and> rr_candidatesBuilt (fold (replay_conflict s) kcs r) = rr_candidatesBuilt r
       + (\<Sum>(cid, c) \<leftarrow> kcs. length (ce_candidates (evaluate_conflict s cid (es_authority s))))
   \<and> rr_diverged (fold (replay_conflict s) kcs r) = rr_diverged r @ map fst (filter (diverges s) kcs)"
  by (induction kcs arbitrary: r) (auto simp: replay_conflict_def diverges_def Let_def)

lemma replay_report:
  "rr_conflictsEvaluated (replay st) = length (es_conflicts (gs_engine st))"
  "rr_candidatesBuilt (replay st) = (\<Sum>(cid, c) \<leftarrow> es_conflicts (gs_engine st).
     length (ce_candidates (evaluate_conflict (gs_engine st) cid (es_authority (gs_engine st)))))"
  "rr_diverged (replay st) = map fst (filter (diverges (gs_engine st)) (es_conflicts (gs_engine st)))"
  by (simp_all add: replay_def Let_def replay_fold default_ReplayReport_def)

lemma replay_diverged_iff:
  assumes "om_inv (es_conflicts (gs_engine st))" "om_find (es_conflicts (gs_engine st)) cid = Some c"
  shows "cid \<in> set (rr_diverged (replay st)) \<longleftrightarrow> diverges (gs_engine st) (cid, c)"
proof -
  have "distinct (map fst (es_conflicts (gs_engine st)))"
    using assms(1) by (auto simp: om_inv_def strict_sorted_iff)
  then have "(k, d) \<in> set (es_conflicts (gs_engine st)) \<longleftrightarrow> om_find (es_conflicts (gs_engine st)) k = Some d" for k d
    by (metis map_of_SomeD map_of_is_SomeI)
  then show ?thesis using assms(2) by (force simp: replay_report(3))
qed

section \<open>Replay after an authorization\<close>

text \<open>
  What a decision depends on: two engine states that agree on the evidence, on the policy
  but for its budget, on the authority, on the fairness caps and on the parts of the
  conflict the pipeline reads decide alike.
\<close>

definition same_inputs :: "EngineState \<Rightarrow> EngineState \<Rightarrow> bool" where
  "same_inputs s s' \<longleftrightarrow>
     es_evidence s' = es_evidence s \<and> es_authority s' = es_authority s
     \<and> (\<exists>b. es_policy s' = (es_policy s)\<lparr>p_budget := b\<rparr>)
     \<and> (\<forall>t. fairness_capped s' t = fairness_capped s t)"

definition same_case :: "ContentionConflict \<Rightarrow> ContentionConflict \<Rightarrow> bool" where
  "same_case c c' \<longleftrightarrow> cc_evidenceIds c' = cc_evidenceIds c \<and> cc_associated c' = cc_associated c
     \<and> cc_degradation c' = cc_degradation c \<and> cc_generation c' = cc_generation c"

lemma budget_irrelevant [simp]:
  "workload_policy_for (p\<lparr>p_budget := b\<rparr>) = workload_policy_for p"
  "class_checks (p\<lparr>p_budget := b\<rparr>) = class_checks p"
  "class_eligible (p\<lparr>p_budget := b\<rparr>) = class_eligible p"
  "better (p\<lparr>p_budget := b\<rparr>) = better p"
  "destructive_gate (p\<lparr>p_budget := b\<rparr>) = destructive_gate p"
proof -
  show wp: "workload_policy_for (p\<lparr>p_budget := b\<rparr>) = workload_policy_for p"
    by (intro ext) (simp add: workload_policy_for_def split: option.split)
  have "class_checks (p\<lparr>p_budget := b\<rparr>) wp cls r = class_checks p wp cls r" for wp cls r
    by (cases "(p, wp, cls, r)" rule: class_checks.cases) (simp_all add: class_check_defs)
  then show "class_checks (p\<lparr>p_budget := b\<rparr>) = class_checks p" by (intro ext)
  have "class_eligible (p\<lparr>p_budget := b\<rparr>) cls = class_eligible p cls" for cls
    by (cases cls) simp_all
  then show "class_eligible (p\<lparr>p_budget := b\<rparr>) = class_eligible p" by (intro ext)
  show "better (p\<lparr>p_budget := b\<rparr>) = better p" by (intro ext) (simp add: better_def wp)
  show "destructive_gate (p\<lparr>p_budget := b\<rparr>) = destructive_gate p" by (intro ext) (simp add: destructive_gate_def)
qed

lemma build_candidates_same:
  assumes "same_inputs s s'" "same_case c c'"
  shows "build_candidates s' ctx c' primary = build_candidates s ctx c primary"
proof -
  from assms(1) obtain b where p: "es_policy s' = (es_policy s)\<lparr>p_budget := b\<rparr>"
    and e: "es_authority s' = es_authority s" "\<And>t. fairness_capped s' t = fairness_capped s t"
    by (auto simp: same_inputs_def)
  have "check_feasibility s' t cls f = check_feasibility s t cls f" for t cls f
    by (simp add: check_feasibility_def revalidate_def p e Let_def)
  then have "build_candidate s' ctx c' primary t cls = build_candidate s ctx c primary t cls" for t cls
    using assms(2) by (simp add: build_candidate_def same_case_def)
  then have "build_candidate s' ctx c' primary = build_candidate s ctx c primary" by (intro ext)
  then show ?thesis by (intro ext) (simp add: build_candidates_def p)
qed

lemma decide_same:
  assumes "same_inputs s s'" "same_case c c'" "ce_decision ev' = ce_decision ev"
  shows "ce_decision (decide s' ctx c' primary ts ev') = ce_decision (decide s ctx c primary ts ev)"
proof -
  from assms(1) obtain b where "es_policy s' = (es_policy s)\<lparr>p_budget := b\<rparr>" by (auto simp: same_inputs_def)
  then show ?thesis
    using assms(3) by (simp add: decide_def build_candidates_same [OF assms(1,2)] Let_def split: list.split)
qed

lemma evaluate_same:
  assumes "same_inputs s s'" "same_case c c'"
    "om_find (es_conflicts s) cid = Some c" "om_find (es_conflicts s') cid = Some c'"
  shows "ce_decision (evaluate_conflict s' cid ctx) = ce_decision (evaluate_conflict s cid ctx)"
proof -
  from assms(1) obtain b where p: "es_policy s' = (es_policy s)\<lparr>p_budget := b\<rparr>"
    "es_evidence s' = es_evidence s" by (auto simp: same_inputs_def)
  have c: "cc_evidenceIds c' = cc_evidenceIds c" "cc_associated c' = cc_associated c"
    "cc_degradation c' = cc_degradation c" using assms(2) by (simp_all add: same_case_def)
  have w: "ce_decision (evaluate_with s' ctx c' primary ev') = ce_decision (evaluate_with s ctx c primary ev)"
    if "ce_decision ev' = ce_decision ev" for primary ev ev'
  proof -
    obtain ok rejs where g: "destructive_gate (es_policy s) primary = (ok, rejs)" by fastforce
    have "ce_decision (reject rejs ev') = ce_decision (reject rejs ev)" using that by simp
    from decide_same [OF assms(1,2) this]
    show ?thesis using that by (simp add: evaluate_with_def p(1) g c Let_def)
  qed
  obtain evids rejs where "scan_evidence (es_evidence s) (cc_evidenceIds c) = (evids, rejs)" by fastforce
  then show ?thesis
    by (cases evids) (simp_all add: evaluate_conflict_def assms(3,4) p(2) c(1) Let_def w)
qed

lemma same_inputs_commit:
  assumes "\<not> fairness_capped (gs_engine st) (ir_target ir)"
    "\<not> fairness_capped (gs_engine (commit_intervention cid c ir now st)) (ir_target ir)"
  shows "same_inputs (gs_engine st) (gs_engine (commit_intervention cid c ir now st))"
proof -
  let ?s' = "gs_engine (commit_intervention cid c ir now st)"
  have "fairness_capped ?s' t = fairness_capped (gs_engine st) t" for t
  proof (cases "t = ir_target ir")
    case True
    with assms show ?thesis by simp
  next
    case False
    then show ?thesis by (simp add: fairness_capped_def split: option.split)
  qed
  then show ?thesis by (auto simp: same_inputs_def)
qed

text \<open>The evaluation that an authorization came from is the one a replay makes, below the cap.\<close>

lemma evaluate_after_authorize:
  assumes "authorize cid cls now st = Inr (Some iid, st')"
    "om_find (es_conflicts (gs_engine st)) cid = Some c"
    "om_find (es_interventions (gs_engine st')) iid = Some i" "\<not> fairness_capped (gs_engine st') (ir_target i)"
  obtains d c' where
    "ce_decision (evaluate_conflict (gs_engine st) cid (es_authority (gs_engine st))) = Some d"
    "ce_decision (evaluate_conflict (gs_engine st') cid (es_authority (gs_engine st'))) = Some d"
    "ir_cls i = (if cls \<noteq> IC_NO_ACTION then cls else cand_cls (dec_chosen d))" "ir_target i = cand_target (dec_chosen d)"
    "om_find (es_conflicts (gs_engine st')) cid = Some c'" "cc_selectedIds c' = cc_selectedIds c @ [iid]"
proof (rule authorize_granted [OF assms(1)], goal_cases)
  case (1 c0 cand eid e rest f adapter)
  let ?ir = "new_intervention (if cls \<noteq> IC_NO_ACTION then cls else cand_cls cand) cid (cand_target cand) f adapter now st"
  have c0: "c0 = c" using 1(2) assms(2) by simp
  note st' = 1(12)
  have i: "i = ?ir" using assms(3) 1(11) by (simp add: st')
  obtain d where d: "ce_decision (evaluate_conflict (gs_engine st) cid (es_authority (gs_engine st))) = Some d"
    "cand = dec_chosen d" using picked_decision [OF 1(3)] by blast
  have "\<not> fairness_capped (gs_engine st) (ir_target ?ir)"
    using 1(8) by (simp add: check_feasibility_iff)
  then have same: "same_inputs (gs_engine st) (gs_engine st')"
    using assms(4) unfolding st' i by (intro same_inputs_commit)
  let ?c' = "c\<lparr>cc_state := CS_INTERVENTION_AUTHORIZED, cc_selectedIds := cc_selectedIds c @ [iid], cc_lastActionAt := now\<rparr>"
  have c': "om_find (es_conflicts (gs_engine st')) cid = Some ?c'"
    using 1(11) by (simp add: st' c0)
  have "ce_decision (evaluate_conflict (gs_engine st') cid (es_authority (gs_engine st'))) = Some d"
    using evaluate_same [OF same _ assms(2) c', of "es_authority (gs_engine st)"] d(1)
    by (simp add: same_case_def st')
  then show ?thesis using 1(1) [OF d(1) _ _ _ c'] by (simp add: i d(2))
qed

end
