(* ===== verification/CG_Unread.thy ===== *)
theory CG_Unread
  imports CG_Guarantees
begin

text \<open>
  The fields of the policy that no decision reads. \<^verbatim>\<open>policy.hpp\<close> and the README name among the hard
  constraints a protected class, a cost ceiling and a cap on the imposed degradation; the code
  validates and stores them, and nothing else. The part of a policy that decisions read is the policy
  with these fields blanked; the lemmas show that an authorization sees no more of it. In the same
  way the verification of an action sees neither the status nor the age of the measurement.
\<close>

section \<open>The part that is read\<close>

definition workload_part :: "WorkloadPolicy \<Rightarrow> WorkloadPolicy" where
  "workload_part wp = wp\<lparr>wp_workload := id_zero, wp_generation := id_zero, wp_protectedWorkload := False,
     wp_priority := 0, wp_softSloTarget := None, wp_minServiceFloor := f64_zero, wp_costCeiling := f64_zero,
     wp_restartCost := f64_zero, wp_preemptionCost := f64_zero, wp_recoveryCost := f64_zero,
     wp_maxDegradationTolerated := f64_zero, wp_maxInterventionFrequencyPerWindow := 0,
     wp_admissionRestrictionAllowed := False\<rparr>"

definition decision_part :: "ContentionPolicy \<Rightarrow> ContentionPolicy" where
  "decision_part p = p\<lparr>p_id := id_zero, p_generation := id_zero, p_releaseThreshold := f64_zero,
     p_hysteresisEvidenceCount := 0, p_fairnessFloor := f64_zero, p_fairnessWeight := f64_zero,
     p_costCeiling := f64_zero, p_workloads := om_update_all workload_part (p_workloads p)\<rparr>"

definition with_policy :: "ContentionPolicy \<Rightarrow> GovernorState \<Rightarrow> GovernorState" where
  "with_policy p = on_engine (\<lambda>s. s\<lparr>es_policy := p\<rparr>)"

text \<open>The state with nothing of its policy but what is read.\<close>

definition engine_part :: "EngineState \<Rightarrow> EngineState" where
  "engine_part s = s\<lparr>es_policy := decision_part (es_policy s)\<rparr>"

section \<open>Decisions see no more\<close>

lemma engine_part_sel [simp]:
  "es_policy (engine_part s) = decision_part (es_policy s)" "es_authority (engine_part s) = es_authority s"
  "es_conflicts (engine_part s) = es_conflicts s" "es_evidence (engine_part s) = es_evidence s"
  "es_interventions (engine_part s) = es_interventions s" "es_fairness (engine_part s) = es_fairness s"
  by (simp_all add: engine_part_def)

lemma decision_part_sel [simp]:
  "p_actionabilityThreshold (decision_part p) = p_actionabilityThreshold p"
  "p_minAttributionForDisruptive (decision_part p) = p_minAttributionForDisruptive p"
  "p_minConfidenceForDisruptive (decision_part p) = p_minConfidenceForDisruptive p"
  "p_maxConsecutiveInterventionsPerWorkload (decision_part p) = p_maxConsecutiveInterventionsPerWorkload p"
  "p_cooldownMs (decision_part p) = p_cooldownMs p" "p_budget (decision_part p) = p_budget p"
  "p_preemptionAllowed (decision_part p) = p_preemptionAllowed p"
  "p_migrationAllowed (decision_part p) = p_migrationAllowed p"
  "p_placementChangeAllowed (decision_part p) = p_placementChangeAllowed p"
  "p_bandwidthRequestAllowed (decision_part p) = p_bandwidthRequestAllowed p"
  "p_collectiveSchedulingAllowed (decision_part p) = p_collectiveSchedulingAllowed p"
  "p_admissionRestrictionAllowed (decision_part p) = p_admissionRestrictionAllowed p"
  "p_throttleAllowed (decision_part p) = p_throttleAllowed p"
  by (simp_all add: decision_part_def)

lemma workload_part_sel [simp]:
  "wp_nonPreemptible (workload_part wp) = wp_nonPreemptible wp" "wp_value (workload_part wp) = wp_value wp"
  "wp_hardSloFloor (workload_part wp) = wp_hardSloFloor wp"
  "wp_preemptionAllowed (workload_part wp) = wp_preemptionAllowed wp"
  "wp_throttlingAllowed (workload_part wp) = wp_throttlingAllowed wp"
  "wp_deferralAllowed (workload_part wp) = wp_deferralAllowed wp"
  "wp_placementChangeAllowed (workload_part wp) = wp_placementChangeAllowed wp"
  "wp_bandwidthRequestAllowed (workload_part wp) = wp_bandwidthRequestAllowed wp"
  "wp_collectiveSchedulingAllowed (workload_part wp) = wp_collectiveSchedulingAllowed wp"
  "wp_migrationAllowed (workload_part wp) = wp_migrationAllowed wp"
  by (simp_all add: workload_part_def)

lemma workload_policy_part:
  "workload_part (workload_policy_for (decision_part p) w) = workload_part (workload_policy_for p w)"
  by (simp add: workload_policy_for_def decision_part_def split: option.split) (simp add: workload_part_def)

text \<open>Two workload policies with the same part agree in every field that is read.\<close>

lemma workload_policy_sel [simp]:
  "wp_nonPreemptible (workload_policy_for (decision_part p) w) = wp_nonPreemptible (workload_policy_for p w)"
  "wp_value (workload_policy_for (decision_part p) w) = wp_value (workload_policy_for p w)"
  "wp_hardSloFloor (workload_policy_for (decision_part p) w) = wp_hardSloFloor (workload_policy_for p w)"
  "wp_preemptionAllowed (workload_policy_for (decision_part p) w) = wp_preemptionAllowed (workload_policy_for p w)"
  "wp_throttlingAllowed (workload_policy_for (decision_part p) w) = wp_throttlingAllowed (workload_policy_for p w)"
  "wp_deferralAllowed (workload_policy_for (decision_part p) w) = wp_deferralAllowed (workload_policy_for p w)"
  "wp_placementChangeAllowed (workload_policy_for (decision_part p) w) = wp_placementChangeAllowed (workload_policy_for p w)"
  "wp_bandwidthRequestAllowed (workload_policy_for (decision_part p) w) = wp_bandwidthRequestAllowed (workload_policy_for p w)"
  "wp_collectiveSchedulingAllowed (workload_policy_for (decision_part p) w) = wp_collectiveSchedulingAllowed (workload_policy_for p w)"
  "wp_migrationAllowed (workload_policy_for (decision_part p) w) = wp_migrationAllowed (workload_policy_for p w)"
  using workload_policy_part [of p w] workload_part_sel by metis+

lemma class_eligible_part [simp]: "class_eligible (decision_part p) = class_eligible p"
proof
  show "class_eligible (decision_part p) c = class_eligible p c" for c by (cases c) simp_all
qed

lemma better_part [simp]: "better (decision_part p) = better p"
  by (simp add: better_def fun_eq_iff)

lemma revalidate_part [simp]: "revalidate (engine_part s) f target = revalidate s f target"
  by (simp add: revalidate_def)

lemma class_checks_part [simp]:
  "class_checks (decision_part p) (workload_policy_for (decision_part p) w) cls r = class_checks p (workload_policy_for p w) cls r"
  by (cases cls) (simp_all add: throttle_checks_def preemption_checks_def)

lemma fairness_capped_part [simp]: "fairness_capped (engine_part s) target = fairness_capped s target"
  by (simp add: fairness_capped_def split: option.split)

lemma check_feasibility_part [simp]: "check_feasibility (engine_part s) target cls f = check_feasibility s target cls f"
  by (simp add: check_feasibility_def Let_def)

lemma build_candidate_part [simp]: "build_candidate (engine_part s) ctx c primary = build_candidate s ctx c primary"
  by (simp add: build_candidate_def fun_eq_iff)

lemma build_candidates_part [simp]: "build_candidates (engine_part s) ctx c primary ts = build_candidates s ctx c primary ts"
  by (simp add: build_candidates_def)

lemma decide_part [simp]: "decide (engine_part s) ctx c primary ts ev = decide s ctx c primary ts ev"
  by (simp add: decide_def)

lemma evaluate_with_part [simp]: "evaluate_with (engine_part s) ctx c primary ev = evaluate_with s ctx c primary ev"
  by (simp add: evaluate_with_def destructive_gate_def Let_def)

lemma evaluate_conflict_part [simp]: "evaluate_conflict (engine_part s) cid ctx = evaluate_conflict s cid ctx"
  by (simp add: evaluate_conflict_def Let_def cong: list.case_cong option.case_cong)

lemma in_cooldown_part [simp]: "in_cooldown (engine_part s) target cls now = in_cooldown s target cls now"
  by (simp add: in_cooldown_def split: option.split)

lemma commit_intervention_part:
  "commit_intervention cid c ir now (on_engine engine_part st) = on_engine engine_part (commit_intervention cid c ir now st)"
  by (simp add: commit_intervention_def on_engine_def engine_part_def decision_part_def Let_def)

lemma new_intervention_part [simp]:
  "new_intervention cls cid target f adapter now (on_engine g st) = new_intervention cls cid target f adapter now st"
  by (simp add: new_intervention_def on_engine_def)

text \<open>An authorization does with the part that is read what it does with the whole.\<close>

lemma authorize_part:
  "authorize cid cls now (on_engine engine_part st) =
     map_sum id (map_prod id (on_engine engine_part)) (authorize cid cls now st)"
  by (simp add: authorize_def Let_def commit_intervention_part split: option.split list.split)

text \<open>So it is the same under every policy with the same part.\<close>

lemma authorize_unread:
  assumes "authorize cid cls now st = Inr (Some iid, st')"
    "decision_part p = decision_part (es_policy (gs_engine st))"
  obtains st'' where "authorize cid cls now (with_policy p st) = Inr (Some iid, st'')"
    "es_interventions (gs_engine st'') = es_interventions (gs_engine st')"
proof -
  have same: "on_engine engine_part (with_policy p st) = on_engine engine_part st"
    using assms(2) by (simp add: with_policy_def on_engine_def engine_part_def)
  have "map_sum id (map_prod id (on_engine engine_part)) (authorize cid cls now (with_policy p st)) =
      Inr (Some iid, on_engine engine_part st')"
    using authorize_part [of cid cls now "with_policy p st"] authorize_part [of cid cls now st] assms(1)
    by (simp add: same)
  then obtain st'' where st'': "authorize cid cls now (with_policy p st) = Inr (Some iid, st'')"
    "on_engine engine_part st'' = on_engine engine_part st'"
    by (cases "authorize cid cls now (with_policy p st)") auto
  have "es_interventions (gs_engine g) = es_interventions (gs_engine (on_engine engine_part g))" for g
    by (simp add: on_engine_def)
  then have "es_interventions (gs_engine st'') = es_interventions (gs_engine st')" using st''(2) by metis
  then show thesis using st''(1) that by blast
qed

section \<open>Measurements of any age\<close>

text \<open>A measurement of another status and age.\<close>

abbreviation dated :: "EvidenceStatus \<Rightarrow> TimeMs \<Rightarrow> TimeMs \<Rightarrow> InterferenceEvidence \<Rightarrow> InterferenceEvidence" where
  "dated status at age e \<equiv> e\<lparr>ie_status := status, ie_sampledAt := at, ie_maxAgeMs := age\<rparr>"

lemma dated_sel [simp]:
  "validate_evidence (dated status at age e) = validate_evidence e"
  "with_fractions (dated status at age e) = dated status at age (with_fractions e)"
  "concerns (dated status at age e) = concerns e"
  by (simp_all add: validate_evidence_def structurally_valid_def with_fractions_def concerns_def fun_eq_iff)

lemma store_dated:
  assumes "store_evidence e0 st0 = (e, st)"
  obtains st2 where "store_evidence (dated status at age e0) st0 = (dated status at age e, st2)"
    "es_conflicts (gs_engine st2) = es_conflicts (gs_engine st)" "es_policy (gs_engine st2) = es_policy (gs_engine st)"
    "es_interventions (gs_engine st2) = es_interventions (gs_engine st)"
  using assms by (auto simp: store_evidence_def Let_def split: if_splits)

text \<open>The measured conflict itself is no secondary violation.\<close>

lemma secondary_violation_cong:
  assumes "es_conflicts s' = es_conflicts s" "es_policy s' = es_policy s"
  shows "secondary_violation (put_conflict k c' s') k t = secondary_violation (put_conflict k c s) k t"
proof -
  have "list_ex (\<lambda>(k', d). k' \<noteq> k \<and> P d) (om_put k c' m) = list_ex (\<lambda>(k', d). k' \<noteq> k \<and> P d) (om_put k c m)" for P m
    by (induction m) auto
  then show ?thesis by (simp add: secondary_violation_def assms)
qed

lemma submit_states:
  assumes "status_ok (validate_evidence input)" "store_evidence (with_fractions input) st0 = (e, st)"
    "om_first (concerns e) (es_conflicts (gs_engine st)) = Some (k, c)" "cc_id c = k"
    "om_first (verifiable k) (es_interventions (gs_engine st)) = Some (ik, i)"
  shows "map_option ir_state (intervention_of ik (snd (submit_post_action_evidence input st0))) =
      Some (fst (outcome_states (verdict (gs_engine st) e k c i)))"
    "map_option cc_state (conflict_of k (snd (submit_post_action_evidence input st0))) =
      Some (snd (outcome_states (verdict (gs_engine st) e k c i)))"
  using assms by (simp_all add: submit_post_action_evidence_def Let_def intervention_of_def conflict_of_def
      post_action_engine_sel verify_intervention_def)

lemma submit_dated:
  assumes "status_ok (validate_evidence input)" "store_evidence (with_fractions input) st0 = (e, st)"
    "om_first (concerns e) (es_conflicts (gs_engine st)) = Some (k, c)" "cc_id c = k"
    "om_first (verifiable k) (es_interventions (gs_engine st)) = Some (ik, i)"
  shows "map_option ir_state (intervention_of ik (snd (submit_post_action_evidence (dated status at age input) st0))) =
      map_option ir_state (intervention_of ik (snd (submit_post_action_evidence input st0)))"
    "map_option cc_state (conflict_of k (snd (submit_post_action_evidence (dated status at age input) st0))) =
      map_option cc_state (conflict_of k (snd (submit_post_action_evidence input st0)))"
proof -
  obtain st2 where s: "store_evidence (with_fractions (dated status at age input)) st0 = (dated status at age e, st2)"
    "es_conflicts (gs_engine st2) = es_conflicts (gs_engine st)" "es_policy (gs_engine st2) = es_policy (gs_engine st)"
    "es_interventions (gs_engine st2) = es_interventions (gs_engine st)"
    using store_dated [OF assms(2)] unfolding dated_sel(2) by metis
  have "verdict (gs_engine st2) (dated status at age e) k c i = verdict (gs_engine st) e k c i"
    using secondary_violation_cong [OF s(2,3), of k "measure_conflict (dated status at age e) c" "ir_target i" "measure_conflict e c"]
      assms(4) by (simp add: verdict_def s(3))
  then show "map_option ir_state (intervention_of ik (snd (submit_post_action_evidence (dated status at age input) st0))) =
      map_option ir_state (intervention_of ik (snd (submit_post_action_evidence input st0)))"
    "map_option cc_state (conflict_of k (snd (submit_post_action_evidence (dated status at age input) st0))) =
      map_option cc_state (conflict_of k (snd (submit_post_action_evidence input st0)))"
    using submit_states [OF assms] submit_states [OF _ s(1), of k c ik i] assms(1,3-5) s(2-4)
    by (simp_all only: dated_sel)
qed

end
