(* ===== verification/CG_Wire.thy ===== *)
theory CG_Wire
  imports CG_Enums CG_Double CG_Map "HOL-Library.Monad_Syntax"
begin

text \<open>
  The byte writer \<^verbatim>\<open>W\<close> and the bounded reader \<^verbatim>\<open>R\<close> of \<^verbatim>\<open>src/persistence.cpp\<close>. A writer maps a
  value to the bytes it appends; a reader maps the bytes that remain to the value and the
  bytes after it, or \<open>None\<close> when it fails (the code returns on the first failure, so what the
  reader holds afterwards is never used). \<open>round_trip\<close> states that a reader gives back what
  a writer wrote; its instances are in \<open>wire_intros\<close>.
\<close>

unbundle bit_operations_syntax

type_synonym bytes = "u8 list"
type_synonym 'a reader = "bytes \<Rightarrow> ('a \<times> bytes) option"
type_synonym 'a writer = "'a \<Rightarrow> bytes"

section \<open>Integers\<close>

definition w_u8 :: "u8 writer" where "w_u8 v = [v]"

fun le_bytes :: "nat \<Rightarrow> 'a :: len word \<Rightarrow> bytes" where
  "le_bytes 0 v = []"
| "le_bytes (Suc n) v = ucast v # le_bytes n (drop_bit 8 v)"

text \<open>Byte \<open>i\<close> is \<^verbatim>\<open>(v >> (8 * i)) & 0xFF\<close>.\<close>

definition w_u32 :: "u32 writer" where "w_u32 v = le_bytes 4 v"
definition w_u64 :: "u64 writer" where "w_u64 v = le_bytes 8 v"

fun le_value :: "bytes \<Rightarrow> 'a :: len word" where
  "le_value [] = 0"
| "le_value (b # bs) = ucast b OR push_bit 8 (le_value bs)"

fun r_u8 :: "u8 reader" where
  "r_u8 [] = None"
| "r_u8 (b # bs) = Some (b, bs)"

definition r_le :: "nat \<Rightarrow> ('a :: len word) reader" where
  "r_le n bs = (if length bs < n then None else Some (le_value (take n bs), drop n bs))"

definition r_u32 :: "u32 reader" where "r_u32 = r_le 4"
definition r_u64 :: "u64 reader" where "r_u64 = r_le 8"

section \<open>Round trips\<close>

definition round_trip :: "'a writer \<Rightarrow> 'a reader \<Rightarrow> 'a \<Rightarrow> bool" where
  "round_trip w r v \<longleftrightarrow> (\<forall>rest. r (w v @ rest) = Some (v, rest))"

lemma round_tripD: "round_trip w r v \<Longrightarrow> r (w v @ rest) = Some (v, rest)"
  by (simp add: round_trip_def)

lemma le_bytes_length [simp]: "length (le_bytes n v) = n"
  by (induction n arbitrary: v) simp_all

lemma le_value_bytes:
  "LENGTH('a) \<le> 8 * n \<Longrightarrow> le_value (le_bytes n (v :: 'a :: len word)) = v"
proof -
  have "bit (le_value (le_bytes n v) :: 'a word) i \<longleftrightarrow> i < 8 * n \<and> bit v i" for i and v :: "'a word"
  proof (induction n arbitrary: v i)
    case (Suc n)
    show ?case
      using Suc.IH [of "drop_bit 8 v" "i - 8"]
      by (cases "i < 8") (auto simp: bit_simps dest: bit_imp_le_length)
  qed simp
  then show "LENGTH('a) \<le> 8 * n \<Longrightarrow> ?thesis"
    by (intro bit_eqI) (auto dest: bit_imp_le_length)
qed

lemma r_le_bytes [simp]: "LENGTH('a) \<le> 8 * n \<Longrightarrow> r_le n (le_bytes n v @ rest) = Some (v :: 'a :: len word, rest)"
  by (simp add: r_le_def le_value_bytes)

lemma round_trip_u8 [wire_intros]: "round_trip w_u8 r_u8 v"
  by (simp add: round_trip_def w_u8_def)

lemma round_trip_u32 [wire_intros]: "round_trip w_u32 r_u32 v"
  by (simp add: round_trip_def w_u32_def r_u32_def)

lemma round_trip_u64 [wire_intros]: "round_trip w_u64 r_u64 v"
  by (simp add: round_trip_def w_u64_def r_u64_def)

section \<open>Composite values\<close>

definition w_f64 :: "double writer" where "w_f64 v = w_u64 (f64_bits v)"

definition r_f64 :: "double reader" where
  "r_f64 bs = do { (u, bs) \<leftarrow> r_u64 bs; Some (F64 u, bs) }"

definition w_id :: "('tag Id) writer" where "w_id i = w_u64 (id_value i)"

definition r_id :: "('tag Id) reader" where
  "r_id bs = do { (u, bs) \<leftarrow> r_u64 bs; Some (Id u, bs) }"

definition w_bool :: "bool writer" where "w_bool b = w_u8 (if b then 1 else 0)"

definition r_bool :: "bool reader" where
  "r_bool bs = do { (b, bs) \<leftarrow> r_u8 bs; Some (b \<noteq> 0, bs) }"

text \<open>An enumeration as its byte; the reader has the enumerators it accepts.\<close>

definition w_enum :: "('e \<Rightarrow> nat) \<Rightarrow> 'e writer" where "w_enum ord v = w_u8 (enum_u8 ord v)"

definition r_enum :: "'e list \<Rightarrow> 'e reader" where
  "r_enum elems bs = do { (raw, bs) \<leftarrow> r_u8 bs; v \<leftarrow> enum_of_u8 elems raw; Some (v, bs) }"

definition kMaxStringLen :: u64 where "kMaxStringLen = 2 ^ 20"
definition kMaxCollectionLen :: u64 where "kMaxCollectionLen = 2 ^ 20"

definition byte_of_char :: "char \<Rightarrow> u8" where "byte_of_char c = word_of_nat (of_char c)"
definition char_of_byte :: "u8 \<Rightarrow> char" where "char_of_byte b = char_of (unat b)"

definition w_str :: "string writer" where
  "w_str s = w_u64 (word_of_nat (length s)) @ map byte_of_char s"

definition r_str :: "string reader" where
  "r_str bs = do {
     (len, bs) \<leftarrow> r_u64 bs;
     if len > kMaxStringLen then None
     else if length bs < unat len then None
     else Some (map char_of_byte (take (unat len) bs), drop (unat len) bs)
   }"

text \<open>\<^verbatim>\<open>w.u64(xs.size()); for (x : xs) \<dots>\<close> and the loop that reads it back.\<close>

definition w_list :: "'a writer \<Rightarrow> ('a list) writer" where
  "w_list w xs = w_u64 (word_of_nat (length xs)) @ concat (map w xs)"

fun r_times :: "nat \<Rightarrow> 'a reader \<Rightarrow> ('a list) reader" where
  "r_times 0 r bs = Some ([], bs)"
| "r_times (Suc n) r bs = do { (x, bs) \<leftarrow> r bs; (xs, bs) \<leftarrow> r_times n r bs; Some (x # xs, bs) }"

definition r_count :: "u64 reader" where
  "r_count bs = do { (n, bs) \<leftarrow> r_u64 bs; if n > kMaxCollectionLen then None else Some (n, bs) }"

definition r_list :: "'a reader \<Rightarrow> ('a list) reader" where
  "r_list r bs = do { (n, bs) \<leftarrow> r_count bs; r_times (unat n) r bs }"

text \<open>A map is written as its entries in order and read by assigning them in turn.\<close>

definition w_pair :: "'k writer \<Rightarrow> 'v writer \<Rightarrow> ('k \<times> 'v) writer" where
  "w_pair wk wv kv = wk (fst kv) @ wv (snd kv)"

definition r_pair :: "'k reader \<Rightarrow> 'v reader \<Rightarrow> ('k \<times> 'v) reader" where
  "r_pair rk rv bs = do { (k, bs) \<leftarrow> rk bs; (v, bs) \<leftarrow> rv bs; Some ((k, v), bs) }"

definition w_map :: "'v writer \<Rightarrow> (('tag Id, 'v) omap) writer" where
  "w_map w m = w_list (w_pair w_id w) m"

definition r_map :: "'v reader \<Rightarrow> (('tag Id, 'v) omap) reader" where
  "r_map r bs = do { (kvs, bs) \<leftarrow> r_list (r_pair r_id r) bs; Some (om_of_entries kvs, bs) }"

lemma round_trip_f64 [wire_intros]: "round_trip w_f64 r_f64 v"
  by (simp add: round_trip_def w_f64_def r_f64_def round_tripD [OF round_trip_u64])

lemma round_trip_id [wire_intros]: "round_trip w_id r_id v"
  by (simp add: round_trip_def w_id_def r_id_def round_tripD [OF round_trip_u64])

lemma round_trip_bool [wire_intros]: "round_trip w_bool r_bool v"
  by (simp add: round_trip_def w_bool_def r_bool_def round_tripD [OF round_trip_u8])

lemma round_trip_enum: "enum_of_u8 elems (enum_u8 ord v) = Some v \<Longrightarrow> round_trip (w_enum ord) (r_enum elems) v"
  by (simp add: round_trip_def w_enum_def r_enum_def round_tripD [OF round_trip_u8])

lemma unat_kMax: "unat kMaxStringLen = 2 ^ 20" "unat kMaxCollectionLen = 2 ^ 20"
  by (simp_all add: kMaxStringLen_def kMaxCollectionLen_def)

lemma char_of_byte_of_char [simp]: "char_of_byte (byte_of_char c) = c"
proof -
  have "(of_char c :: nat) < 2 ^ LENGTH(8)" by simp
  then show ?thesis unfolding byte_of_char_def char_of_byte_def by (simp add: unat_of_nat_less)
qed

lemma map_char_of_byte [simp]: "map char_of_byte (map byte_of_char s) = s"
  by (simp add: comp_def)

lemma round_trip_str [wire_intros]: "length s \<le> 2 ^ 20 \<Longrightarrow> round_trip w_str r_str s"
  by (simp add: round_trip_def w_str_def r_str_def round_tripD [OF round_trip_u64] word_less_nat_alt
      unat_of_nat_less unat_kMax comp_def)

lemma r_times_write:
  "\<forall>x \<in> set xs. round_trip w r x \<Longrightarrow> r_times (length xs) r (concat (map w xs) @ rest) = Some (xs, rest)"
  by (induction xs) (simp_all add: round_tripD)

lemma r_count_write:
  "n \<le> 2 ^ 20 \<Longrightarrow> r_count (w_u64 (word_of_nat n) @ rest) = Some (word_of_nat n, rest)"
  by (simp add: r_count_def round_tripD [OF round_trip_u64] word_less_nat_alt unat_of_nat_less unat_kMax)

lemma round_trip_list [wire_intros]:
  "length xs \<le> 2 ^ 20 \<Longrightarrow> (\<And>x. x \<in> set xs \<Longrightarrow> round_trip w r x) \<Longrightarrow> round_trip (w_list w) (r_list r) xs"
  by (simp add: round_trip_def [of "w_list w"] w_list_def r_list_def r_count_write unat_of_nat_less r_times_write)

lemma round_trip_pair:
  "round_trip wk rk (fst kv) \<Longrightarrow> round_trip wv rv (snd kv) \<Longrightarrow> round_trip (w_pair wk wv) (r_pair rk rv) kv"
  by (simp add: round_trip_def [of "w_pair wk wv"] w_pair_def r_pair_def round_tripD)

lemma round_trip_map [wire_intros]:
  assumes "om_inv m" "length m \<le> 2 ^ 20" "\<And>k v. (k, v) \<in> set m \<Longrightarrow> round_trip w r v"
  shows "round_trip (w_map w) (r_map r) m"
proof -
  have "round_trip (w_list (w_pair w_id w)) (r_list (r_pair r_id r)) m"
    using assms by (intro round_trip_list round_trip_pair round_trip_id) auto
  then show ?thesis
    by (simp add: round_trip_def w_map_def r_map_def om_of_entries_sorted [OF assms(1)])
qed

end
