(* ===== verification/CG_Persistence.thy ===== *)
theory CG_Persistence
  imports CG_Wire CG_Digest CG_Conflict
begin

text \<open>
  \<^verbatim>\<open>src/persistence.cpp\<close>: the serializers and deserializers of every stored record, field by
  field in the order of the code, the file format (magic, version, payload length, payload,
  CRC-32C) and its loader with every error it reports. The loader gives back every saved
  state within the format's limits, and rejects every file that a saved one becomes by a
  change of at most four adjacent bytes, by truncation or by extension, without touching
  the state it was to replace. \<^verbatim>\<open>CG_Store\<close> reads and writes the file itself.
\<close>

section \<open>Records\<close>

text \<open>An optional double after its presence byte.\<close>

fun w_opt :: "double option writer" where
  "w_opt None = w_bool False"
| "w_opt (Some d) = w_bool True @ w_f64 d"

definition r_opt :: "double option reader" where
  "r_opt bs = do {
     (b, bs) \<leftarrow> r_bool bs;
     if b then do { (d, bs) \<leftarrow> r_f64 bs; Some (Some d, bs) } else Some (None, bs)
   }"

definition w_stats :: "ActionBudgetStats writer" where
  "w_stats u =
     w_u64 (abs_preemptions u) @ w_u64 (abs_migrations u) @ w_u64 (abs_placementChanges u) @
     w_u64 (abs_throttles u) @ w_u64 (abs_collectiveReschedules u) @ w_u64 (abs_all u)"

definition r_stats :: "ActionBudgetStats reader" where
  "r_stats bs = do {
     (pre, bs) \<leftarrow> r_u64 bs; (mig, bs) \<leftarrow> r_u64 bs; (plc, bs) \<leftarrow> r_u64 bs; (thr, bs) \<leftarrow> r_u64 bs;
     (col, bs) \<leftarrow> r_u64 bs; (tot, bs) \<leftarrow> r_u64 bs;
     Some (\<lparr>abs_preemptions = pre, abs_migrations = mig, abs_placementChanges = plc,
            abs_throttles = thr, abs_collectiveReschedules = col, abs_all = tot\<rparr>, bs)
   }"

definition w_status :: "Status writer" where
  "w_status st = w_enum ord_StatusCode (st_code st) @ w_str (st_message st)"

definition r_status :: "Status reader" where
  "r_status bs = do {
     (code, bs) \<leftarrow> r_enum persisted_StatusCode bs; (msg, bs) \<leftarrow> r_str bs;
     Some (\<lparr>st_code = code, st_message = msg\<rparr>, bs)
   }"

definition serialize_workload :: "WorkloadPolicy writer" where
  "serialize_workload wp =
     w_id (wp_workload wp) @ w_id (wp_generation wp) @ w_bool (wp_nonPreemptible wp) @
     w_bool (wp_protectedWorkload wp) @ w_f64 (wp_value wp) @ w_u32 (wp_priority wp) @
     w_f64 (wp_hardSloFloor wp) @ w_opt (wp_softSloTarget wp) @ w_f64 (wp_minServiceFloor wp) @
     w_f64 (wp_costCeiling wp) @ w_f64 (wp_restartCost wp) @ w_f64 (wp_preemptionCost wp) @
     w_f64 (wp_recoveryCost wp) @ w_f64 (wp_maxDegradationTolerated wp) @
     w_u32 (wp_maxInterventionFrequencyPerWindow wp) @ w_bool (wp_preemptionAllowed wp) @
     w_bool (wp_throttlingAllowed wp) @ w_bool (wp_deferralAllowed wp) @
     w_bool (wp_admissionRestrictionAllowed wp) @ w_bool (wp_placementChangeAllowed wp) @
     w_bool (wp_bandwidthRequestAllowed wp) @ w_bool (wp_collectiveSchedulingAllowed wp) @
     w_bool (wp_migrationAllowed wp)"

definition deserialize_workload :: "WorkloadPolicy reader" where
  "deserialize_workload bs = do {
     (x_workload, bs) \<leftarrow> r_id bs; (x_generation, bs) \<leftarrow> r_id bs;
     (x_nonPreemptible, bs) \<leftarrow> r_bool bs;
     (x_protectedWorkload, bs) \<leftarrow> r_bool bs; (x_value, bs) \<leftarrow> r_f64 bs;
     (x_priority, bs) \<leftarrow> r_u32 bs; (x_hardSloFloor, bs) \<leftarrow> r_f64 bs;
     (x_softSloTarget, bs) \<leftarrow> r_opt bs; (x_minServiceFloor, bs) \<leftarrow> r_f64 bs;
     (x_costCeiling, bs) \<leftarrow> r_f64 bs; (x_restartCost, bs) \<leftarrow> r_f64 bs;
     (x_preemptionCost, bs) \<leftarrow> r_f64 bs; (x_recoveryCost, bs) \<leftarrow> r_f64 bs;
     (x_maxDegradationTolerated, bs) \<leftarrow> r_f64 bs;
     (x_maxInterventionFrequencyPerWindow, bs) \<leftarrow> r_u32 bs;
     (x_preemptionAllowed, bs) \<leftarrow> r_bool bs;
     (x_throttlingAllowed, bs) \<leftarrow> r_bool bs;
     (x_deferralAllowed, bs) \<leftarrow> r_bool bs;
     (x_admissionRestrictionAllowed, bs) \<leftarrow> r_bool bs;
     (x_placementChangeAllowed, bs) \<leftarrow> r_bool bs;
     (x_bandwidthRequestAllowed, bs) \<leftarrow> r_bool bs;
     (x_collectiveSchedulingAllowed, bs) \<leftarrow> r_bool bs;
     (x_migrationAllowed, bs) \<leftarrow> r_bool bs;
     Some (\<lparr>wp_workload = x_workload, wp_generation = x_generation,
            wp_nonPreemptible = x_nonPreemptible, wp_protectedWorkload = x_protectedWorkload,
            wp_value = x_value, wp_priority = x_priority, wp_hardSloFloor = x_hardSloFloor,
            wp_softSloTarget = x_softSloTarget, wp_minServiceFloor = x_minServiceFloor,
            wp_costCeiling = x_costCeiling, wp_restartCost = x_restartCost,
            wp_preemptionCost = x_preemptionCost, wp_recoveryCost = x_recoveryCost,
            wp_maxDegradationTolerated = x_maxDegradationTolerated,
            wp_maxInterventionFrequencyPerWindow = x_maxInterventionFrequencyPerWindow,
            wp_preemptionAllowed = x_preemptionAllowed, wp_throttlingAllowed = x_throttlingAllowed,
            wp_deferralAllowed = x_deferralAllowed,
            wp_admissionRestrictionAllowed = x_admissionRestrictionAllowed,
            wp_placementChangeAllowed = x_placementChangeAllowed,
            wp_bandwidthRequestAllowed = x_bandwidthRequestAllowed,
            wp_collectiveSchedulingAllowed = x_collectiveSchedulingAllowed,
            wp_migrationAllowed = x_migrationAllowed\<rparr>, bs)
   }"

text \<open>The part of the policy that is its action budget.\<close>

definition serialize_budget :: "ActionBudget writer" where
  "serialize_budget b =
     w_id (ab_generation b) @ w_u64 (ab_maxPreemptionsPerWindow b) @
     w_u64 (ab_maxMigrationsPerWindow b) @ w_u64 (ab_maxPlacementChangesPerWindow b) @
     w_u64 (ab_maxThrottlesPerWindow b) @ w_u64 (ab_maxCollectiveReschedulesPerWindow b) @
     w_u64 (ab_maxAnyPerWindow b) @ w_u64 (ab_windowMs b) @ w_u64 (ab_windowStart b) @
     w_stats (ab_used b)"

definition deserialize_budget :: "ActionBudget reader" where
  "deserialize_budget bs = do {
     (x_generation, bs) \<leftarrow> r_id bs; (x_maxPreemptionsPerWindow, bs) \<leftarrow> r_u64 bs;
     (x_maxMigrationsPerWindow, bs) \<leftarrow> r_u64 bs;
     (x_maxPlacementChangesPerWindow, bs) \<leftarrow> r_u64 bs;
     (x_maxThrottlesPerWindow, bs) \<leftarrow> r_u64 bs;
     (x_maxCollectiveReschedulesPerWindow, bs) \<leftarrow> r_u64 bs;
     (x_maxAnyPerWindow, bs) \<leftarrow> r_u64 bs; (x_windowMs, bs) \<leftarrow> r_u64 bs;
     (x_windowStart, bs) \<leftarrow> r_u64 bs; (x_used, bs) \<leftarrow> r_stats bs;
     Some (\<lparr>ab_generation = x_generation, ab_maxPreemptionsPerWindow = x_maxPreemptionsPerWindow,
            ab_maxMigrationsPerWindow = x_maxMigrationsPerWindow,
            ab_maxPlacementChangesPerWindow = x_maxPlacementChangesPerWindow,
            ab_maxThrottlesPerWindow = x_maxThrottlesPerWindow,
            ab_maxCollectiveReschedulesPerWindow = x_maxCollectiveReschedulesPerWindow,
            ab_maxAnyPerWindow = x_maxAnyPerWindow, ab_windowMs = x_windowMs,
            ab_windowStart = x_windowStart, ab_used = x_used\<rparr>, bs)
   }"

definition serialize_policy :: "ContentionPolicy writer" where
  "serialize_policy p =
     w_id (p_id p) @ w_id (p_generation p) @ w_f64 (p_actionabilityThreshold p) @
     w_f64 (p_releaseThreshold p) @ w_u64 (p_hysteresisEvidenceCount p) @
     w_enum ord_AttributionStrength (p_minAttributionForDisruptive p) @
     w_f64 (p_minConfidenceForDisruptive p) @ w_f64 (p_fairnessFloor p) @
     w_f64 (p_fairnessWeight p) @ w_u32 (p_maxConsecutiveInterventionsPerWorkload p) @
     w_f64 (p_costCeiling p) @ w_u64 (p_cooldownMs p) @ serialize_budget (p_budget p) @
     w_map serialize_workload (p_workloads p) @ w_bool (p_preemptionAllowed p) @
     w_bool (p_migrationAllowed p) @ w_bool (p_placementChangeAllowed p) @
     w_bool (p_bandwidthRequestAllowed p) @ w_bool (p_collectiveSchedulingAllowed p) @
     w_bool (p_admissionRestrictionAllowed p) @ w_bool (p_throttleAllowed p)"

definition deserialize_policy :: "ContentionPolicy reader" where
  "deserialize_policy bs = do {
     (x_id, bs) \<leftarrow> r_id bs; (x_generation, bs) \<leftarrow> r_id bs;
     (x_actionabilityThreshold, bs) \<leftarrow> r_f64 bs;
     (x_releaseThreshold, bs) \<leftarrow> r_f64 bs;
     (x_hysteresisEvidenceCount, bs) \<leftarrow> r_u64 bs;
     (x_minAttributionForDisruptive, bs) \<leftarrow> r_enum policy_AttributionStrength bs;
     (x_minConfidenceForDisruptive, bs) \<leftarrow> r_f64 bs;
     (x_fairnessFloor, bs) \<leftarrow> r_f64 bs; (x_fairnessWeight, bs) \<leftarrow> r_f64 bs;
     (x_maxConsecutiveInterventionsPerWorkload, bs) \<leftarrow> r_u32 bs;
     (x_costCeiling, bs) \<leftarrow> r_f64 bs; (x_cooldownMs, bs) \<leftarrow> r_u64 bs;
     (x_budget, bs) \<leftarrow> deserialize_budget bs;
     (x_workloads, bs) \<leftarrow> r_map deserialize_workload bs;
     (x_preemptionAllowed, bs) \<leftarrow> r_bool bs;
     (x_migrationAllowed, bs) \<leftarrow> r_bool bs;
     (x_placementChangeAllowed, bs) \<leftarrow> r_bool bs;
     (x_bandwidthRequestAllowed, bs) \<leftarrow> r_bool bs;
     (x_collectiveSchedulingAllowed, bs) \<leftarrow> r_bool bs;
     (x_admissionRestrictionAllowed, bs) \<leftarrow> r_bool bs;
     (x_throttleAllowed, bs) \<leftarrow> r_bool bs;
     Some (\<lparr>p_id = x_id, p_generation = x_generation,
            p_actionabilityThreshold = x_actionabilityThreshold,
            p_releaseThreshold = x_releaseThreshold,
            p_hysteresisEvidenceCount = x_hysteresisEvidenceCount,
            p_minAttributionForDisruptive = x_minAttributionForDisruptive,
            p_minConfidenceForDisruptive = x_minConfidenceForDisruptive,
            p_fairnessFloor = x_fairnessFloor,
            p_maxConsecutiveInterventionsPerWorkload = x_maxConsecutiveInterventionsPerWorkload,
            p_fairnessWeight = x_fairnessWeight, p_costCeiling = x_costCeiling,
            p_cooldownMs = x_cooldownMs, p_budget = x_budget, p_workloads = x_workloads,
            p_preemptionAllowed = x_preemptionAllowed, p_migrationAllowed = x_migrationAllowed,
            p_placementChangeAllowed = x_placementChangeAllowed,
            p_bandwidthRequestAllowed = x_bandwidthRequestAllowed,
            p_collectiveSchedulingAllowed = x_collectiveSchedulingAllowed,
            p_admissionRestrictionAllowed = x_admissionRestrictionAllowed,
            p_throttleAllowed = x_throttleAllowed\<rparr>, bs)
   }"

definition serialize_authority :: "AuthorityContext writer" where
  "serialize_authority a =
     w_id (au_coordinatorEpoch a) @ w_id (au_governorGeneration a) @ w_id (au_policyGeneration a) @
     w_id (au_sloGeneration a) @ w_id (au_valueGeneration a) @ w_id (au_fairnessGeneration a) @
     w_id (au_resourceGeneration a) @ w_id (au_placementGeneration a) @
     w_id (au_topologyGeneration a) @ w_map w_id (au_workloadGenerations a) @
     w_map w_id (au_workloadBoots a)"

definition deserialize_authority :: "AuthorityContext reader" where
  "deserialize_authority bs = do {
     (x_coordinatorEpoch, bs) \<leftarrow> r_id bs; (x_governorGeneration, bs) \<leftarrow> r_id bs;
     (x_policyGeneration, bs) \<leftarrow> r_id bs; (x_sloGeneration, bs) \<leftarrow> r_id bs;
     (x_valueGeneration, bs) \<leftarrow> r_id bs; (x_fairnessGeneration, bs) \<leftarrow> r_id bs;
     (x_resourceGeneration, bs) \<leftarrow> r_id bs;
     (x_placementGeneration, bs) \<leftarrow> r_id bs;
     (x_topologyGeneration, bs) \<leftarrow> r_id bs;
     (x_workloadGenerations, bs) \<leftarrow> r_map r_id bs;
     (x_workloadBoots, bs) \<leftarrow> r_map r_id bs;
     Some (\<lparr>au_coordinatorEpoch = x_coordinatorEpoch, au_governorGeneration = x_governorGeneration,
            au_policyGeneration = x_policyGeneration, au_sloGeneration = x_sloGeneration,
            au_valueGeneration = x_valueGeneration, au_fairnessGeneration = x_fairnessGeneration,
            au_resourceGeneration = x_resourceGeneration,
            au_placementGeneration = x_placementGeneration,
            au_topologyGeneration = x_topologyGeneration,
            au_workloadGenerations = x_workloadGenerations, au_workloadBoots = x_workloadBoots\<rparr>, bs)
   }"

definition serialize_evidence :: "InterferenceEvidence writer" where
  "serialize_evidence e =
     w_id (ie_id e) @ w_id (ie_generation e) @ w_id (ie_victim e) @ w_list w_id (ie_neighbors e) @
     w_enum ord_ResourceDomain (ie_domain e) @ w_enum ord_MetricDirection (ie_metric e) @
     w_f64 (ie_isolatedBaseline e) @ w_f64 (ie_coRunObservation e) @ w_f64 (ie_degradation e) @
     w_f64 (ie_improvement e) @ w_enum ord_AttributionStrength (ie_attribution e) @
     w_f64 (ie_confidence e) @ w_u64 (ie_sampleCount e) @
     w_list w_str (ie_unresolvedConfounders e) @ w_enum ord_EvidenceStatus (ie_status e) @
     w_u64 (ie_sampledAt e) @ w_u64 (ie_maxAgeMs e) @ w_enum ord_EvidenceLabel (ie_label e) @
     w_str (ie_sourceId e) @ w_str (ie_sourceHealth e) @ w_id (ie_workerBoot e) @
     w_id (ie_workloadGeneration e) @ w_id (ie_deviceGeneration e) @ w_id (ie_hostGeneration e) @
     w_id (ie_topologyGeneration e) @ w_id (ie_resourceGeneration e) @
     w_id (ie_placementGeneration e) @ w_u64 (ie_activeFrom e) @ w_u64 (ie_activeUntil e)"

definition deserialize_evidence :: "InterferenceEvidence reader" where
  "deserialize_evidence bs = do {
     (x_id, bs) \<leftarrow> r_id bs; (x_generation, bs) \<leftarrow> r_id bs;
     (x_victim, bs) \<leftarrow> r_id bs; (x_neighbors, bs) \<leftarrow> r_list r_id bs;
     (x_domain, bs) \<leftarrow> r_enum all_ResourceDomain bs;
     (x_metric, bs) \<leftarrow> r_enum all_MetricDirection bs;
     (x_isolatedBaseline, bs) \<leftarrow> r_f64 bs; (x_coRunObservation, bs) \<leftarrow> r_f64 bs;
     (x_degradation, bs) \<leftarrow> r_f64 bs; (x_improvement, bs) \<leftarrow> r_f64 bs;
     (x_attribution, bs) \<leftarrow> r_enum all_AttributionStrength bs;
     (x_confidence, bs) \<leftarrow> r_f64 bs; (x_sampleCount, bs) \<leftarrow> r_u64 bs;
     (x_unresolvedConfounders, bs) \<leftarrow> r_list r_str bs;
     (x_status, bs) \<leftarrow> r_enum all_EvidenceStatus bs;
     (x_sampledAt, bs) \<leftarrow> r_u64 bs; (x_maxAgeMs, bs) \<leftarrow> r_u64 bs;
     (x_label, bs) \<leftarrow> r_enum all_EvidenceLabel bs; (x_sourceId, bs) \<leftarrow> r_str bs;
     (x_sourceHealth, bs) \<leftarrow> r_str bs; (x_workerBoot, bs) \<leftarrow> r_id bs;
     (x_workloadGeneration, bs) \<leftarrow> r_id bs; (x_deviceGeneration, bs) \<leftarrow> r_id bs;
     (x_hostGeneration, bs) \<leftarrow> r_id bs; (x_topologyGeneration, bs) \<leftarrow> r_id bs;
     (x_resourceGeneration, bs) \<leftarrow> r_id bs;
     (x_placementGeneration, bs) \<leftarrow> r_id bs; (x_activeFrom, bs) \<leftarrow> r_u64 bs;
     (x_activeUntil, bs) \<leftarrow> r_u64 bs;
     Some (\<lparr>ie_id = x_id, ie_generation = x_generation, ie_victim = x_victim,
            ie_neighbors = x_neighbors, ie_domain = x_domain, ie_metric = x_metric,
            ie_isolatedBaseline = x_isolatedBaseline, ie_coRunObservation = x_coRunObservation,
            ie_degradation = x_degradation, ie_improvement = x_improvement,
            ie_attribution = x_attribution, ie_confidence = x_confidence,
            ie_sampleCount = x_sampleCount, ie_unresolvedConfounders = x_unresolvedConfounders,
            ie_status = x_status, ie_sampledAt = x_sampledAt, ie_maxAgeMs = x_maxAgeMs,
            ie_label = x_label, ie_sourceId = x_sourceId, ie_sourceHealth = x_sourceHealth,
            ie_workerBoot = x_workerBoot, ie_workloadGeneration = x_workloadGeneration,
            ie_deviceGeneration = x_deviceGeneration, ie_hostGeneration = x_hostGeneration,
            ie_topologyGeneration = x_topologyGeneration,
            ie_resourceGeneration = x_resourceGeneration,
            ie_placementGeneration = x_placementGeneration, ie_activeFrom = x_activeFrom,
            ie_activeUntil = x_activeUntil\<rparr>, bs)
   }"

definition serialize_fence :: "Fence writer" where
  "serialize_fence f =
     w_id (fe_coordinatorEpoch f) @ w_id (fe_governorGeneration f) @ w_id (fe_policyGeneration f) @
     w_id (fe_sloGeneration f) @ w_id (fe_valueGeneration f) @ w_id (fe_fairnessGeneration f) @
     w_id (fe_resourceGeneration f) @ w_id (fe_placementGeneration f) @
     w_id (fe_topologyGeneration f) @ w_id (fe_conflictGeneration f) @
     w_id (fe_evidenceGeneration f) @ w_id (fe_workerBoot f) @ w_id (fe_workloadGeneration f) @
     w_id (fe_interventionGeneration f)"

definition deserialize_fence :: "Fence reader" where
  "deserialize_fence bs = do {
     (x_coordinatorEpoch, bs) \<leftarrow> r_id bs; (x_governorGeneration, bs) \<leftarrow> r_id bs;
     (x_policyGeneration, bs) \<leftarrow> r_id bs; (x_sloGeneration, bs) \<leftarrow> r_id bs;
     (x_valueGeneration, bs) \<leftarrow> r_id bs; (x_fairnessGeneration, bs) \<leftarrow> r_id bs;
     (x_resourceGeneration, bs) \<leftarrow> r_id bs;
     (x_placementGeneration, bs) \<leftarrow> r_id bs;
     (x_topologyGeneration, bs) \<leftarrow> r_id bs;
     (x_conflictGeneration, bs) \<leftarrow> r_id bs;
     (x_evidenceGeneration, bs) \<leftarrow> r_id bs; (x_workerBoot, bs) \<leftarrow> r_id bs;
     (x_workloadGeneration, bs) \<leftarrow> r_id bs;
     (x_interventionGeneration, bs) \<leftarrow> r_id bs;
     Some (\<lparr>fe_coordinatorEpoch = x_coordinatorEpoch, fe_governorGeneration = x_governorGeneration,
            fe_policyGeneration = x_policyGeneration, fe_sloGeneration = x_sloGeneration,
            fe_valueGeneration = x_valueGeneration, fe_fairnessGeneration = x_fairnessGeneration,
            fe_resourceGeneration = x_resourceGeneration,
            fe_placementGeneration = x_placementGeneration,
            fe_topologyGeneration = x_topologyGeneration,
            fe_conflictGeneration = x_conflictGeneration,
            fe_evidenceGeneration = x_evidenceGeneration, fe_workerBoot = x_workerBoot,
            fe_workloadGeneration = x_workloadGeneration,
            fe_interventionGeneration = x_interventionGeneration\<rparr>, bs)
   }"

definition serialize_intervention :: "InterventionRecord writer" where
  "serialize_intervention i =
     w_id (ir_id i) @ w_id (ir_generation i) @ w_enum ord_InterventionClass (ir_cls i) @
     w_id (ir_conflictId i) @ w_id (ir_target i) @ w_enum ord_LifecycleState (ir_state i) @
     serialize_fence (ir_fence i) @ w_str (ir_adapter i) @ w_u64 (ir_authorizedAt i) @
     w_u64 (ir_dispatchedAt i) @ w_u64 (ir_acknowledgedAt i) @ w_u64 (ir_completedAt i) @
     w_id (ir_dispatchId i) @ w_id (ir_attemptId i) @ w_str (ir_ackNote i) @
     w_status (ir_interimStatus i) @ w_enum ord_VerificationOutcome (ir_result i) @
     w_list w_str (ir_trace i) @ w_bool (ir_verificationReported i)"

definition deserialize_intervention :: "InterventionRecord reader" where
  "deserialize_intervention bs = do {
     (x_id, bs) \<leftarrow> r_id bs; (x_generation, bs) \<leftarrow> r_id bs;
     (x_cls, bs) \<leftarrow> r_enum all_InterventionClass bs;
     (x_conflictId, bs) \<leftarrow> r_id bs; (x_target, bs) \<leftarrow> r_id bs;
     (x_state, bs) \<leftarrow> r_enum all_LifecycleState bs;
     (x_fence, bs) \<leftarrow> deserialize_fence bs; (x_adapter, bs) \<leftarrow> r_str bs;
     (x_authorizedAt, bs) \<leftarrow> r_u64 bs; (x_dispatchedAt, bs) \<leftarrow> r_u64 bs;
     (x_acknowledgedAt, bs) \<leftarrow> r_u64 bs; (x_completedAt, bs) \<leftarrow> r_u64 bs;
     (x_dispatchId, bs) \<leftarrow> r_id bs; (x_attemptId, bs) \<leftarrow> r_id bs;
     (x_ackNote, bs) \<leftarrow> r_str bs; (x_interimStatus, bs) \<leftarrow> r_status bs;
     (x_result, bs) \<leftarrow> r_enum all_VerificationOutcome bs;
     (x_trace, bs) \<leftarrow> r_list r_str bs;
     (x_verificationReported, bs) \<leftarrow> r_bool bs;
     Some (\<lparr>ir_id = x_id, ir_generation = x_generation, ir_cls = x_cls,
            ir_conflictId = x_conflictId, ir_target = x_target, ir_state = x_state,
            ir_fence = x_fence, ir_adapter = x_adapter, ir_authorizedAt = x_authorizedAt,
            ir_dispatchedAt = x_dispatchedAt, ir_acknowledgedAt = x_acknowledgedAt,
            ir_completedAt = x_completedAt, ir_dispatchId = x_dispatchId,
            ir_attemptId = x_attemptId, ir_ackNote = x_ackNote, ir_interimStatus = x_interimStatus,
            ir_result = x_result, ir_trace = x_trace,
            ir_verificationReported = x_verificationReported\<rparr>, bs)
   }"

definition serialize_conflict :: "ContentionConflict writer" where
  "serialize_conflict c =
     w_id (cc_id c) @ w_id (cc_generation c) @ w_list w_id (cc_affected c) @
     w_list w_id (cc_associated c) @ w_enum ord_ResourceDomain (cc_domain c) @
     w_f64 (cc_degradation c) @ w_f64 (cc_baseline c) @ w_f64 (cc_confidence c) @
     w_enum ord_BindingObjective (cc_binding c) @ w_enum ord_Severity (cc_severity c) @
     w_list w_id (cc_evidenceIds c) @ w_enum ord_ConflictState (cc_state c) @
     w_u64 (cc_firstDetectedAt c) @ w_u64 (cc_lastUpdatedAt c) @ w_u64 (cc_activeUntil c) @
     w_list w_str (cc_unresolvedConfounders c) @ w_list w_str (cc_blockers c) @
     w_list (w_enum ord_InterventionClass) (cc_candidateClasses c) @
     w_list w_id (cc_proposedIds c) @ w_list w_id (cc_selectedIds c) @
     w_id (cc_policyGeneration c) @ w_id (cc_sloGeneration c) @ w_id (cc_valueGeneration c) @
     w_id (cc_fairnessGeneration c) @ w_id (cc_resourceGeneration c) @
     w_id (cc_placementGeneration c) @ w_id (cc_coordinatorEpoch c) @ w_id (cc_workerBoot c) @
     w_bool (cc_groupEffectExplicit c) @ w_u64 (cc_lastActionAt c) @ w_bool (cc_inActionableState c)"

definition deserialize_conflict :: "ContentionConflict reader" where
  "deserialize_conflict bs = do {
     (x_id, bs) \<leftarrow> r_id bs; (x_generation, bs) \<leftarrow> r_id bs;
     (x_affected, bs) \<leftarrow> r_list r_id bs; (x_associated, bs) \<leftarrow> r_list r_id bs;
     (x_domain, bs) \<leftarrow> r_enum all_ResourceDomain bs;
     (x_degradation, bs) \<leftarrow> r_f64 bs; (x_baseline, bs) \<leftarrow> r_f64 bs;
     (x_confidence, bs) \<leftarrow> r_f64 bs;
     (x_binding, bs) \<leftarrow> r_enum all_BindingObjective bs;
     (x_severity, bs) \<leftarrow> r_enum all_Severity bs;
     (x_evidenceIds, bs) \<leftarrow> r_list r_id bs;
     (x_state, bs) \<leftarrow> r_enum all_ConflictState bs;
     (x_firstDetectedAt, bs) \<leftarrow> r_u64 bs; (x_lastUpdatedAt, bs) \<leftarrow> r_u64 bs;
     (x_activeUntil, bs) \<leftarrow> r_u64 bs;
     (x_unresolvedConfounders, bs) \<leftarrow> r_list r_str bs;
     (x_blockers, bs) \<leftarrow> r_list r_str bs;
     (x_candidateClasses, bs) \<leftarrow> r_list (r_enum all_InterventionClass) bs;
     (x_proposedIds, bs) \<leftarrow> r_list r_id bs;
     (x_selectedIds, bs) \<leftarrow> r_list r_id bs; (x_policyGeneration, bs) \<leftarrow> r_id bs;
     (x_sloGeneration, bs) \<leftarrow> r_id bs; (x_valueGeneration, bs) \<leftarrow> r_id bs;
     (x_fairnessGeneration, bs) \<leftarrow> r_id bs;
     (x_resourceGeneration, bs) \<leftarrow> r_id bs;
     (x_placementGeneration, bs) \<leftarrow> r_id bs;
     (x_coordinatorEpoch, bs) \<leftarrow> r_id bs; (x_workerBoot, bs) \<leftarrow> r_id bs;
     (x_groupEffectExplicit, bs) \<leftarrow> r_bool bs; (x_lastActionAt, bs) \<leftarrow> r_u64 bs;
     (x_inActionableState, bs) \<leftarrow> r_bool bs;
     Some (\<lparr>cc_id = x_id, cc_generation = x_generation, cc_affected = x_affected,
            cc_associated = x_associated, cc_domain = x_domain, cc_degradation = x_degradation,
            cc_baseline = x_baseline, cc_confidence = x_confidence, cc_binding = x_binding,
            cc_severity = x_severity, cc_evidenceIds = x_evidenceIds, cc_state = x_state,
            cc_firstDetectedAt = x_firstDetectedAt, cc_lastUpdatedAt = x_lastUpdatedAt,
            cc_activeUntil = x_activeUntil, cc_unresolvedConfounders = x_unresolvedConfounders,
            cc_blockers = x_blockers, cc_candidateClasses = x_candidateClasses,
            cc_proposedIds = x_proposedIds, cc_selectedIds = x_selectedIds,
            cc_policyGeneration = x_policyGeneration, cc_sloGeneration = x_sloGeneration,
            cc_valueGeneration = x_valueGeneration, cc_fairnessGeneration = x_fairnessGeneration,
            cc_resourceGeneration = x_resourceGeneration,
            cc_placementGeneration = x_placementGeneration,
            cc_coordinatorEpoch = x_coordinatorEpoch, cc_workerBoot = x_workerBoot,
            cc_groupEffectExplicit = x_groupEffectExplicit, cc_lastActionAt = x_lastActionAt,
            cc_inActionableState = x_inActionableState\<rparr>, bs)
   }"

definition serialize_fairness :: "FairnessRecord writer" where
  "serialize_fairness f =
     w_id (fr_workload f) @ w_u64 (fr_interventionCount f) @ w_u32 (fr_consecutiveInterventions f) @
     w_f64 (fr_deprivationDebt f) @ w_u64 (fr_lastInterventionAt f)"

definition deserialize_fairness :: "FairnessRecord reader" where
  "deserialize_fairness bs = do {
     (x_workload, bs) \<leftarrow> r_id bs; (x_interventionCount, bs) \<leftarrow> r_u64 bs;
     (x_consecutiveInterventions, bs) \<leftarrow> r_u32 bs;
     (x_deprivationDebt, bs) \<leftarrow> r_f64 bs;
     (x_lastInterventionAt, bs) \<leftarrow> r_u64 bs;
     Some (\<lparr>fr_workload = x_workload, fr_interventionCount = x_interventionCount,
            fr_consecutiveInterventions = x_consecutiveInterventions,
            fr_deprivationDebt = x_deprivationDebt, fr_lastInterventionAt = x_lastInterventionAt\<rparr>, bs)
   }"

section \<open>Round trips of the records\<close>

text \<open>What the format can hold: strings and collections of at most \<open>2 ^ 20\<close> elements.\<close>

definition short :: "'a list \<Rightarrow> bool" where
  "short xs \<longleftrightarrow> length xs \<le> 2 ^ 20"

definition storable_policy :: "ContentionPolicy \<Rightarrow> bool" where
  "storable_policy p \<longleftrightarrow> om_inv (p_workloads p) \<and> short (p_workloads p)"

definition storable_authority :: "AuthorityContext \<Rightarrow> bool" where
  "storable_authority a \<longleftrightarrow> om_inv (au_workloadGenerations a) \<and> short (au_workloadGenerations a)
     \<and> om_inv (au_workloadBoots a) \<and> short (au_workloadBoots a)"

definition storable_evidence :: "InterferenceEvidence \<Rightarrow> bool" where
  "storable_evidence e \<longleftrightarrow> short (ie_neighbors e) \<and> ie_attribution e \<noteq> AS_OUT_OF_RANGE
     \<and> short (ie_unresolvedConfounders e) \<and> list_all short (ie_unresolvedConfounders e)
     \<and> short (ie_sourceId e) \<and> short (ie_sourceHealth e)"

definition storable_intervention :: "InterventionRecord \<Rightarrow> bool" where
  "storable_intervention i \<longleftrightarrow> short (ir_adapter i) \<and> short (ir_ackNote i)
     \<and> short (st_message (ir_interimStatus i)) \<and> short (ir_trace i) \<and> list_all short (ir_trace i)"

definition storable_conflict :: "ContentionConflict \<Rightarrow> bool" where
  "storable_conflict c \<longleftrightarrow> short (cc_affected c) \<and> short (cc_associated c) \<and> short (cc_evidenceIds c)
     \<and> short (cc_unresolvedConfounders c) \<and> list_all short (cc_unresolvedConfounders c)
     \<and> short (cc_blockers c) \<and> list_all short (cc_blockers c)
     \<and> short (cc_candidateClasses c) \<and> short (cc_proposedIds c) \<and> short (cc_selectedIds c)"

lemma round_trip_enums [wire_intros]:
  "round_trip (w_enum ord_ResourceDomain) (r_enum all_ResourceDomain) rd"
  "round_trip (w_enum ord_MetricDirection) (r_enum all_MetricDirection) md"
  "round_trip (w_enum ord_AttributionStrength) (r_enum policy_AttributionStrength) at"
  "at \<noteq> AS_OUT_OF_RANGE \<Longrightarrow> round_trip (w_enum ord_AttributionStrength) (r_enum all_AttributionStrength) at"
  "round_trip (w_enum ord_EvidenceStatus) (r_enum all_EvidenceStatus) es"
  "round_trip (w_enum ord_EvidenceLabel) (r_enum all_EvidenceLabel) el"
  "round_trip (w_enum ord_InterventionClass) (r_enum all_InterventionClass) ic"
  "round_trip (w_enum ord_LifecycleState) (r_enum all_LifecycleState) ls"
  "round_trip (w_enum ord_VerificationOutcome) (r_enum all_VerificationOutcome) vo"
  "round_trip (w_enum ord_StatusCode) (r_enum persisted_StatusCode) sc"
  "round_trip (w_enum ord_BindingObjective) (r_enum all_BindingObjective) bo"
  "round_trip (w_enum ord_Severity) (r_enum all_Severity) sv"
  "round_trip (w_enum ord_ConflictState) (r_enum all_ConflictState) cs"
  by (simp_all add: round_trip_enum rd_code.of_u8_u8 md_code.of_u8_u8 as_policy_code.of_u8_u8
      as_code.of_u8_u8 all_AttributionStrength_iff es_code.of_u8_u8 el_code.of_u8_u8 ic_code.of_u8_u8
      ls_code.of_u8_u8 vo_code.of_u8_u8 sc_persisted_code.of_u8_u8 bo_code.of_u8_u8 sv_code.of_u8_u8
      cs_code.of_u8_u8)

lemma round_trip_ids [wire_intros]: "short xs \<Longrightarrow> round_trip (w_list w_id) (r_list r_id) xs"
  by (rule round_trip_list) (simp_all add: short_def round_trip_id)

lemma round_trip_strs [wire_intros]:
  "short xs \<Longrightarrow> list_all short xs \<Longrightarrow> round_trip (w_list w_str) (r_list r_str) xs"
  by (rule round_trip_list) (simp_all add: short_def list_all_iff round_trip_str)

lemma round_trip_classes [wire_intros]:
  "short xs \<Longrightarrow> round_trip (w_list (w_enum ord_InterventionClass)) (r_list (r_enum all_InterventionClass)) xs"
  by (rule round_trip_list) (simp_all add: short_def round_trip_enums)

lemma round_trip_idmap [wire_intros]:
  "om_inv m \<Longrightarrow> short m \<Longrightarrow> round_trip (w_map w_id) (r_map r_id) m"
  by (rule round_trip_map) (simp_all add: short_def round_trip_id)

lemma round_trip_short [wire_intros]: "short s \<Longrightarrow> round_trip w_str r_str s"
  by (simp add: short_def round_trip_str)

lemmas basic_reads = round_trip_u8 [THEN round_tripD] round_trip_u32 [THEN round_tripD]
  round_trip_u64 [THEN round_tripD] round_trip_f64 [THEN round_tripD] round_trip_id [THEN round_tripD]
  round_trip_bool [THEN round_tripD] round_trip_enums [THEN round_tripD] round_trip_ids [THEN round_tripD]
  round_trip_strs [THEN round_tripD] round_trip_classes [THEN round_tripD]
  round_trip_idmap [THEN round_tripD] round_trip_short [THEN round_tripD]

lemma round_trip_opt: "round_trip w_opt r_opt v"
  by (cases v) (simp_all add: round_trip_def r_opt_def basic_reads)

lemma round_trip_stats: "round_trip w_stats r_stats v"
  by (simp add: round_trip_def w_stats_def r_stats_def basic_reads)

lemma round_trip_status: "short (st_message v) \<Longrightarrow> round_trip w_status r_status v"
  by (simp add: round_trip_def w_status_def r_status_def basic_reads)

lemmas part_reads = basic_reads round_trip_opt [THEN round_tripD] round_trip_stats [THEN round_tripD]
  round_trip_status [THEN round_tripD]

lemma round_trip_workload: "round_trip serialize_workload deserialize_workload v"
  by (simp add: round_trip_def serialize_workload_def deserialize_workload_def part_reads)

lemma round_trip_budget: "round_trip serialize_budget deserialize_budget v"
  by (simp add: round_trip_def serialize_budget_def deserialize_budget_def part_reads)

lemma round_trip_workloads:
  "om_inv m \<Longrightarrow> short m \<Longrightarrow> round_trip (w_map serialize_workload) (r_map deserialize_workload) m"
  by (rule round_trip_map) (simp_all add: short_def round_trip_workload)

lemma round_trip_policy: "storable_policy v \<Longrightarrow> round_trip serialize_policy deserialize_policy v"
  by (simp add: round_trip_def serialize_policy_def deserialize_policy_def storable_policy_def part_reads
      round_trip_budget [THEN round_tripD] round_trip_workloads [THEN round_tripD])

lemma round_trip_authority: "storable_authority v \<Longrightarrow> round_trip serialize_authority deserialize_authority v"
  by (simp add: round_trip_def serialize_authority_def deserialize_authority_def storable_authority_def part_reads)

lemma round_trip_evidence: "storable_evidence v \<Longrightarrow> round_trip serialize_evidence deserialize_evidence v"
  by (simp add: round_trip_def serialize_evidence_def deserialize_evidence_def storable_evidence_def part_reads)

lemma round_trip_fence: "round_trip serialize_fence deserialize_fence v"
  by (simp add: round_trip_def serialize_fence_def deserialize_fence_def part_reads)

lemma round_trip_intervention:
  "storable_intervention v \<Longrightarrow> round_trip serialize_intervention deserialize_intervention v"
  by (simp add: round_trip_def serialize_intervention_def deserialize_intervention_def storable_intervention_def
      part_reads round_trip_fence [THEN round_tripD])

lemma round_trip_conflict: "storable_conflict v \<Longrightarrow> round_trip serialize_conflict deserialize_conflict v"
  by (simp add: round_trip_def serialize_conflict_def deserialize_conflict_def storable_conflict_def part_reads)

lemma round_trip_fairness: "round_trip serialize_fairness deserialize_fairness v"
  by (simp add: round_trip_def serialize_fairness_def deserialize_fairness_def part_reads)


section \<open>The file format\<close>

definition kMagic :: bytes where "kMagic = [67, 71, 79, 86, 1, 0, 0, 0]"
definition kPersistenceVersion :: u32 where "kPersistenceVersion = 1"

definition w_entries :: "'v writer \<Rightarrow> (('tag Id, 'v) omap) writer" where
  "w_entries w m = w_u64 (word_of_nat (length m)) @ concat (map (w_pair w_id w) m)"

definition save_payload :: "GovernorState writer" where
  "save_payload s =
     serialize_policy (es_policy (gs_engine s)) @ serialize_authority (es_authority (gs_engine s)) @
     w_entries serialize_conflict (es_conflicts (gs_engine s)) @
     w_entries serialize_evidence (es_evidence (gs_engine s)) @
     w_entries serialize_intervention (es_interventions (gs_engine s)) @
     w_entries serialize_fairness (es_fairness (gs_engine s)) @
     w_u64 (gs_nextConflictId s) @ w_u64 (gs_nextEvidenceId s) @ w_u64 (gs_nextInterventionId s) @
     w_u64 (gs_nextDispatchId s) @ w_u64 (gs_nextAttemptId s) @ w_u64 (gs_nextVerificationId s) @
     w_u64 (gs_lastDigest s)"

definition save_to_bytes :: "GovernorState \<Rightarrow> bytes" where
  "save_to_bytes s =
     (let payload = save_payload s
      in kMagic @ w_u32 kPersistenceVersion @ w_u64 (word_of_nat (length payload)) @ payload
           @ w_u32 (crc32c payload))"

definition corrupt :: "string \<Rightarrow> Status" where
  "corrupt msg = status_bad SC_PERSISTENCE_CORRUPT msg"

text \<open>The loop that reads the entries of one of the four maps, with its two error messages.\<close>

fun load_entries ::
  "string \<Rightarrow> string \<Rightarrow> 'v reader \<Rightarrow> nat \<Rightarrow> ('tag Id, 'v) omap \<Rightarrow> bytes \<Rightarrow> string + (('tag Id, 'v) omap \<times> bytes)" where
  "load_entries bad_id bad_value r 0 m bs = Inr (m, bs)"
| "load_entries bad_id bad_value r (Suc n) m bs =
     (case r_id bs of
        None \<Rightarrow> Inl bad_id
      | Some (k, bs) \<Rightarrow>
          (case r bs of
             None \<Rightarrow> Inl bad_value
           | Some (v, bs) \<Rightarrow> load_entries bad_id bad_value r n (om_put k v m) bs))"

definition load_map ::
  "string \<Rightarrow> string \<Rightarrow> string \<Rightarrow> 'v reader \<Rightarrow> bytes \<Rightarrow> string + (('tag Id, 'v) omap \<times> bytes)" where
  "load_map bad_count bad_id bad_value r bs =
     (case r_count bs of
        None \<Rightarrow> Inl bad_count
      | Some (n, bs) \<Rightarrow> load_entries bad_id bad_value r (unat n) [] bs)"

text \<open>A read that reports \<open>msg\<close> when it fails, and sequencing of such reads.\<close>

definition or_fail :: "string \<Rightarrow> ('a \<times> bytes) option \<Rightarrow> string + ('a \<times> bytes)" where
  "or_fail msg r = (case r of None \<Rightarrow> Inl msg | Some x \<Rightarrow> Inr x)"

fun and_then :: "'e + ('a \<times> 'b) \<Rightarrow> ('a \<Rightarrow> 'b \<Rightarrow> 'e + 'c) \<Rightarrow> 'e + 'c" where
  "and_then (Inl e) f = Inl e"
| "and_then (Inr (x, y)) f = f x y"

definition r_counters :: "(u64 \<times> u64 \<times> u64 \<times> u64 \<times> u64 \<times> u64) reader" where
  "r_counters bs = do {
     (c, bs) \<leftarrow> r_u64 bs; (e, bs) \<leftarrow> r_u64 bs; (i, bs) \<leftarrow> r_u64 bs;
     (d, bs) \<leftarrow> r_u64 bs; (a, bs) \<leftarrow> r_u64 bs; (v, bs) \<leftarrow> r_u64 bs;
     Some ((c, e, i, d, a, v), bs)
   }"

definition load_payload :: "bytes \<Rightarrow> string + GovernorState" where
  "load_payload bs =
     and_then (or_fail ''bad policy'' (deserialize_policy bs)) (\<lambda>policy bs.
     and_then (or_fail ''bad authority'' (deserialize_authority bs)) (\<lambda>authority bs.
     and_then (load_map ''bad conflict count'' ''bad conflict id'' ''bad conflict'' deserialize_conflict bs)
       (\<lambda>conflicts bs.
     and_then (load_map ''bad evidence count'' ''bad evidence id'' ''bad evidence'' deserialize_evidence bs)
       (\<lambda>evidence bs.
     and_then (load_map ''bad intervention count'' ''bad intervention id'' ''bad intervention''
       deserialize_intervention bs) (\<lambda>interventions bs.
     and_then (load_map ''bad fairness count'' ''bad fairness id'' ''bad fairness'' deserialize_fairness bs)
       (\<lambda>fairness bs.
     and_then (or_fail ''bad counters'' (r_counters bs)) (\<lambda>(c, e, i, d, a, v) bs.
     and_then (or_fail ''bad digest'' (r_u64 bs)) (\<lambda>digest bs.
       if bs \<noteq> [] then Inl ''unconsumed payload bytes''
       else if \<not> status_ok (validate_policy policy) then Inl ''invalid policy in persistence''
       else Inr \<lparr>gs_engine = \<lparr>es_policy = policy, es_conflicts = conflicts, es_evidence = evidence,
                   es_interventions = interventions, es_fairness = fairness, es_authority = authority\<rparr>,
                 gs_nextConflictId = c, gs_nextEvidenceId = e, gs_nextInterventionId = i,
                 gs_nextDispatchId = d, gs_nextAttemptId = a, gs_nextVerificationId = v,
                 gs_lastDigest = digest\<rparr>))))))))"

text \<open>
  The header checks, with \<open>total\<close> in 64 bits as in the code: it wraps for a payload length
  near \<open>2 ^ 64\<close>. The result is the status and the state \<open>s\<close> is replaced by on success only.
\<close>

definition load_from_bytes :: "bytes \<Rightarrow> GovernorState \<Rightarrow> Status \<times> GovernorState" where
  "load_from_bytes data s =
     (if length data < 24 then (corrupt ''truncated persistence header'', s)
      else if take 8 data \<noteq> kMagic then (corrupt ''bad magic'', s)
      else case r_u32 (drop 8 data) of
        None \<Rightarrow> (corrupt ''bad version'', s)
      | Some (version, h) \<Rightarrow>
          if version \<noteq> kPersistenceVersion then (corrupt ''unknown persistence version'', s)
          else case r_u64 h of
            None \<Rightarrow> (corrupt ''bad payload length'', s)
          | Some (payloadLen, _) \<Rightarrow>
              let total = 20 + payloadLen + 4 :: u64; len = word_of_nat (length data) :: u64
              in if total > len then (corrupt ''truncated payload'', s)
                 else if total \<noteq> len then (corrupt ''trailing garbage'', s)
                 else let payload = take (unat payloadLen) (drop 20 data);
                          crc = le_value (drop (length data - 4) data) :: u32
                      in if crc \<noteq> crc32c payload then (corrupt ''payload checksum mismatch'', s)
                         else (case load_payload payload of
                                 Inl msg \<Rightarrow> (corrupt msg, s)
                               | Inr out \<Rightarrow> (status_good, out)))"

text \<open>\<^verbatim>\<open>Governor::digest\<close> and \<^verbatim>\<open>Governor::persistence_bytes\<close>.\<close>

definition digest :: "GovernorState \<Rightarrow> u64" where
  "digest st = fnv1a_bytes (save_to_bytes (st\<lparr>gs_lastDigest := 0\<rparr>))"

definition persistence_bytes :: "GovernorState \<Rightarrow> nat" where
  "persistence_bytes st = length (save_to_bytes st)"

section \<open>Round trip of the file\<close>

definition storable :: "GovernorState \<Rightarrow> bool" where
  "storable st \<longleftrightarrow>
     (let s = gs_engine st
      in storable_policy (es_policy s) \<and> valid_policy (es_policy s) \<and> storable_authority (es_authority s)
         \<and> om_inv (es_conflicts s) \<and> short (es_conflicts s) \<and> list_all (storable_conflict \<circ> snd) (es_conflicts s)
         \<and> om_inv (es_evidence s) \<and> short (es_evidence s) \<and> list_all (storable_evidence \<circ> snd) (es_evidence s)
         \<and> om_inv (es_interventions s) \<and> short (es_interventions s)
         \<and> list_all (storable_intervention \<circ> snd) (es_interventions s)
         \<and> om_inv (es_fairness s) \<and> short (es_fairness s))
     \<and> length (save_payload st) < 2 ^ 64 - 24"

lemma load_entries_write:
  assumes "\<forall>kv \<in> set kvs. round_trip w r (snd kv)"
  shows "load_entries e1 e2 r (length kvs) m (concat (map (w_pair w_id w) kvs) @ rest) =
    Inr (fold (\<lambda>(k, v). om_put k v) kvs m, rest)"
  using assms
proof (induction kvs arbitrary: m)
  case (Cons kv kvs)
  obtain k v where kv: "kv = (k, v)" by fastforce
  then show ?case
    using Cons by (simp add: kv w_pair_def basic_reads round_tripD)
qed simp

lemma load_map_write:
  assumes "om_inv m" "short m" "\<forall>kv \<in> set m. round_trip w r (snd kv)"
  shows "load_map e0 e1 e2 r (w_entries w m @ rest) = Inr (m, rest)"
  using om_of_entries_sorted [OF assms(1)] assms(2,3)
  by (simp add: load_map_def w_entries_def r_count_write short_def unat_of_nat_less load_entries_write om_of_entries_def)

lemma load_payload_save: "storable st \<Longrightarrow> load_payload (save_payload st) = Inr st"
proof -
  assume st: "storable st"
  let ?s = "gs_engine st"
  have "load_map e0 e1 e2 deserialize_conflict (w_entries serialize_conflict (es_conflicts ?s) @ rest) =
      Inr (es_conflicts ?s, rest)"
    "load_map e0 e1 e2 deserialize_evidence (w_entries serialize_evidence (es_evidence ?s) @ rest) =
      Inr (es_evidence ?s, rest)"
    "load_map e0 e1 e2 deserialize_intervention (w_entries serialize_intervention (es_interventions ?s) @ rest) =
      Inr (es_interventions ?s, rest)"
    "load_map e0 e1 e2 deserialize_fairness (w_entries serialize_fairness (es_fairness ?s) @ rest) =
      Inr (es_fairness ?s, rest)" for e0 e1 e2 rest
    using st by (auto simp: storable_def Let_def list_all_iff intro!: load_map_write round_trip_conflict
        round_trip_evidence round_trip_intervention round_trip_fairness)
  moreover have "deserialize_policy (serialize_policy (es_policy ?s) @ rest) = Some (es_policy ?s, rest)"
    "deserialize_authority (serialize_authority (es_authority ?s) @ rest) = Some (es_authority ?s, rest)" for rest
    using st by (simp_all add: storable_def Let_def round_tripD [OF round_trip_policy] round_tripD [OF round_trip_authority])
  moreover have "status_ok (validate_policy (es_policy ?s))" using st by (simp add: storable_def Let_def validate_policy_ok)
  moreover have "r_u64 (w_u64 v) = Some (v, [])" for v
    using round_trip_u64 [THEN round_tripD, of v "[]"] by simp
  ultimately show ?thesis
    by (simp add: load_payload_def save_payload_def or_fail_def r_counters_def basic_reads)
qed


text \<open>A file as its parts: eight magic bytes, four of version, eight of length, payload, four of CRC.\<close>

definition file_of :: "bytes \<Rightarrow> u32 \<Rightarrow> u64 \<Rightarrow> bytes \<Rightarrow> bytes \<Rightarrow> bytes" where
  "file_of magic version len payload crc = magic @ w_u32 version @ w_u64 len @ payload @ crc"

lemma save_file: "save_to_bytes s = file_of kMagic kPersistenceVersion (word_of_nat (length (save_payload s)))
    (save_payload s) (w_u32 (crc32c (save_payload s)))"
  by (simp add: save_to_bytes_def file_of_def Let_def)

lemma le_value_u32: "le_value (w_u32 v) = v"
  by (simp add: w_u32_def le_value_bytes)

lemma le_value_u64: "le_value (w_u64 v) = v"
  by (simp add: w_u64_def le_value_bytes)

lemma w_u32_length [simp]: "length (w_u32 v) = 4"
  by (simp add: w_u32_def)

lemma w_u64_length [simp]: "length (w_u64 v) = 8"
  by (simp add: w_u64_def)

lemma kMagic_length [simp]: "length kMagic = 8"
  by (simp add: kMagic_def)

text \<open>The loader on a file of the right shape.\<close>

lemma load_file:
  assumes "length magic = 8" "length crc = 4" "length payload < 2 ^ 64 - 24"
  shows "load_from_bytes (file_of magic version len payload crc) s =
    (if magic \<noteq> kMagic then (corrupt ''bad magic'', s)
     else if version \<noteq> kPersistenceVersion then (corrupt ''unknown persistence version'', s)
     else if 20 + len + 4 > word_of_nat (length payload + 24) then (corrupt ''truncated payload'', s)
     else if len \<noteq> word_of_nat (length payload) then (corrupt ''trailing garbage'', s)
     else if le_value crc \<noteq> crc32c payload then (corrupt ''payload checksum mismatch'', s)
     else (case load_payload payload of Inl msg \<Rightarrow> (corrupt msg, s) | Inr out \<Rightarrow> (status_good, out)))"
proof -
  let ?d = "file_of magic version len payload crc"
  have len: "length ?d = length payload + 24" using assms by (simp add: file_of_def)
  have magic: "take 8 ?d = magic" using assms(1) by (simp add: file_of_def)
  have rest: "r_u32 (drop 8 ?d) = Some (version, w_u64 len @ payload @ crc)"
    using assms(1) by (simp add: file_of_def basic_reads)
  have pl: "drop 20 ?d = payload @ crc" "drop (length payload + 24 - 4) ?d = crc"
    using assms by (simp_all add: file_of_def)
  have eq: "20 + len + 4 = (word_of_nat (length payload + 24) :: u64) \<longleftrightarrow> len = word_of_nat (length payload)"
    by (simp add: algebra_simps)
  have un: "unat (word_of_nat (length payload) :: u64) = length payload"
    using assms(3) by (intro unat_of_nat_less) simp
  have short: "\<not> length payload + 24 < 24" by simp
  note go = load_from_bytes_def rest pl magic len short if_False if_True option.case prod.case Let_def
    round_trip_u64 [THEN round_tripD]
  show ?thesis
  proof (cases "len = word_of_nat (length payload)")
    case True
    have "20 + len + 4 = (word_of_nat (length payload + 24) :: u64)" using True eq by blast
    moreover have "take (unat len) (payload @ crc) = payload" using True un by simp
    moreover have "\<not> (20 + len + 4 :: u64) > word_of_nat (length payload + 24)"
      using calculation(1) by (metis less_irrefl)
    ultimately show ?thesis
      unfolding go by (simp only: True [symmetric] pl short refl not_True_eq_False if_False simp_thms)
  next
    case False
    then have "20 + len + 4 \<noteq> (word_of_nat (length payload + 24) :: u64)" using eq by blast
    then show ?thesis using False by (simp only: go not_False_eq_True if_True)
  qed
qed

lemma load_save:
  assumes "storable st"
  shows "load_from_bytes (save_to_bytes st) s = (status_good, st)"
proof -
  let ?p = "save_payload st"
  have n: "length ?p < 2 ^ 64 - 24" using assms by (simp add: storable_def)
  have "(20 + word_of_nat (length ?p) + 4 :: u64) = word_of_nat (length ?p + 24)" by (simp add: algebra_simps)
  then have "\<not> (20 + word_of_nat (length ?p) + 4 :: u64) > word_of_nat (length ?p + 24)" by (metis less_irrefl)
  then show ?thesis
    unfolding save_file
    by (subst load_file) (use n in \<open>simp_all only: le_value_u32 load_payload_save [OF assms] kMagic_length
      w_u32_length refl not_True_eq_False if_False sum.case simp_thms\<close>)
qed

section \<open>Corruption\<close>

text \<open>A burst that starts in the payload and ends in its checksum.\<close>

lemma crc_burst_straddle:
  assumes "length a = length a'" "length b = length b'" "length a + length b \<le> 4"
    "crc_update c a XOR le_word b = crc_update c a' XOR le_word b'"
  shows "a = a' \<and> b = b'"
proof -
  let ?n = "8 * length a"
  define x where "x = le_word a XOR le_word a'"
  define y where "y = le_word b XOR le_word b'"
  have x: "\<not> bit x i" if "?n \<le> i" for i
    using that le_word_bit [of a i] le_word_bit [of a' i] assms(1) by (auto simp: x_def bit_xor_iff)
  have y: "i < 8 * length b" if "bit y i" for i
    using that le_word_bit [of b i] le_word_bit [of b' i] assms(2) by (auto simp: y_def bit_xor_iff)
  have "crc_update c a XOR crc_update c a' = (crc_bit ^^ ?n) x"
    using assms(1,3) by (simp add: crc_update_word x_def flip: crc_bits_xor) (simp add: ac_simps xor.left_commute)
  moreover have "crc_update c a XOR crc_update c a' = y"
    using assms(4) by (simp add: y_def) (metis (no_types, lifting) xor.assoc xor.commute xor_self_eq xor.right_neutral)
  moreover have "(crc_bit ^^ ?n) (push_bit ?n y) = y"
  proof -
    have "drop_bit ?n (push_bit ?n y) = y"
      using y assms(3) by (intro bit_eqI) (fastforce simp: bit_simps)
    then show ?thesis by (subst crc_bits_shift) (simp_all add: bit_simps)
  qed
  ultimately have eq: "x = push_bit ?n y" by (metis crc_bits_inject)
  have "\<not> bit x i" for i using x [of i] by (cases "i < ?n") (auto simp: eq bit_simps)
  then have "x = 0" by (intro bit_eqI) simp
  moreover from this have "y = 0" using \<open>(crc_bit ^^ ?n) (push_bit ?n y) = y\<close> eq
    by (metis crc_bits_zero)
  ultimately have "le_word a = le_word a'" "le_word b = le_word b'"
    by (simp_all add: x_def y_def) (metis xor_cancel_right xor_self_eq)+
  then show ?thesis using assms(1,2,3) le_word_inject [of a a'] le_word_inject [of b b'] by simp
qed


lemma le_bytes_value:
  "8 * length bs \<le> LENGTH('a) \<Longrightarrow> le_bytes (length bs) (le_value bs :: 'a :: len word) = bs"
proof (induction bs)
  case (Cons b bs)
  have len: "8 + 8 * length bs \<le> LENGTH('a)" using Cons.prems by simp
  have bits: "bit (le_value bs :: 'a word) i \<Longrightarrow> i < 8 * length bs" for i
    by (induction bs arbitrary: i) (fastforce simp: bit_simps dest: bit_imp_le_length)+
  have "(ucast (ucast b OR push_bit 8 (le_value bs) :: 'a word) :: u8) = b"
    using len by (intro bit_eqI) (auto simp: bit_simps dest: bit_imp_le_length)
  moreover have "drop_bit 8 (ucast b OR push_bit 8 (le_value bs) :: 'a word) = le_value bs"
    using len bits by (intro bit_eqI) (fastforce simp: bit_simps dest: bit_imp_le_length)
  ultimately show ?case using Cons by simp
qed simp

lemma w_u32_value: "length bs = 4 \<Longrightarrow> w_u32 (le_value bs) = bs"
  using le_bytes_value [of bs, where 'a = 32] by (simp add: w_u32_def)

lemma w_u64_value: "length bs = 8 \<Longrightarrow> w_u64 (le_value bs) = bs"
  using le_bytes_value [of bs, where 'a = 64] by (simp add: w_u64_def)

text \<open>Every byte string of sufficient length is a file of some header, payload and checksum.\<close>

lemma file_of_bytes:
  assumes "length data = n + 24"
  shows "data = file_of (take 8 data) (le_value (take 4 (drop 8 data))) (le_value (take 8 (drop 12 data)))
     (take n (drop 20 data)) (drop n (drop 20 data))"
proof -
  have "data = take 8 data @ drop 8 data" by simp
  also have "drop 8 data = take 4 (drop 8 data) @ drop 12 data" using append_take_drop_id [of 4 "drop 8 data"] by simp
  also have "drop 12 data = take 8 (drop 12 data) @ drop 20 data" using append_take_drop_id [of 8 "drop 12 data"] by simp
  finally have parts: "take 8 data @ take 4 (drop 8 data) @ take 8 (drop 12 data) @ drop 20 data = data" by simp
  have "length (take 4 (drop 8 data)) = 4" "length (take 8 (drop 12 data)) = 8" using assms by simp_all
  then show ?thesis by (simp only: file_of_def w_u32_value w_u64_value append_take_drop_id parts)
qed

lemma le_value_word: "le_value bs = le_word bs"
proof (induction bs)
  case (Cons b bs)
  show ?case
    by (rule bit_eqI) (auto simp: Cons bit_simps dest: bit_imp_le_length)
qed simp

lemma le_word_append:
  "le_word (xs @ ys) = le_word xs XOR push_bit (8 * length xs) (le_word ys)"
  by (induction xs) (simp_all add: push_bit_xor xor.assoc add.commute flip: push_bit_push_bit)

lemma not_xor_move:
  assumes "NOT (r :: 'a :: len word) = l XOR p"
  shows "r XOR l = NOT p"
proof -
  have "r = NOT (l XOR p)" using assms by (metis bit.double_compl)
  then show ?thesis by (intro bit_eqI) (auto simp: bit_simps)
qed

lemma crc_burst_inside:
  assumes "length w = length w'" "length w \<le> 4" "crc_update c (w @ post) = crc_update c (w' @ post)"
  shows "w = w'"
  using assms le_word_inject [of w w']
  by (simp add: crc_update_append crc_update_inject crc_update_word crc_bits_inject xor_cancel_left)

text \<open>Payload and checksum together: no other valid pair differs in a window of four bytes.\<close>

lemma crc_window:
  assumes "pre @ w @ post = P @ C" "pre @ w' @ post = P' @ C'" "length P' = length P"
    "length C = 4" "length w = length w'" "length w \<le> 4"
    "le_value C = crc32c P" "le_value C' = crc32c P'"
  shows "w = w'"
proof -
  let ?c = "crc_update 0xFFFFFFFF pre"
  have P: "P = take (length P) (pre @ w @ post)" "P' = take (length P) (pre @ w' @ post)"
    and C: "C = drop (length P) (pre @ w @ post)" "C' = drop (length P) (pre @ w' @ post)"
    using assms(1,2,3) by simp_all
  consider "length pre + length w \<le> length P" | "length P \<le> length pre"
    | "length pre < length P" "length P < length pre + length w" by linarith
  then show ?thesis
  proof cases
    case 1
    define k where "k = length P - length pre - length w"
    have "P = pre @ w @ take k post" using 1 by (subst P(1)) (simp add: k_def)
    moreover have "P' = pre @ w' @ take k post" using 1 assms(5) by (subst P(2)) (simp add: k_def)
    moreover have "C = C'" using 1 assms(5) by (subst C(1), subst C(2)) simp
    ultimately have eqs: "P = pre @ w @ take k post" "P' = pre @ w' @ take k post" "C = C'" .
    then have "crc_update ?c (w @ take k post) = crc_update ?c (w' @ take k post)"
      using assms(7,8) by (simp add: eqs crc32c_def not_inject crc_update_append)
    then show ?thesis using crc_burst_inside assms(5,6) by blast
  next
    case 2
    then have "P = P'" using P by simp
    then have "le_value C = (le_value C' :: u32)" using assms(7,8) by simp
    moreover have "length C' = 4" using assms(3,4,5) arg_cong [OF assms(1), of length] arg_cong [OF assms(2), of length] by simp
    ultimately have "C = C'" using w_u32_value assms(4) by metis
    then have "pre @ w @ post = pre @ w' @ post" using \<open>P = P'\<close> assms(1,2) by simp
    then show ?thesis using assms(5) by simp
  next
    case 3
    define j where "j = length P - length pre"
    have P3: "P = pre @ take j w" using 3 by (subst P(1)) (simp add: j_def)
    have P3': "P' = pre @ take j w'" using 3 assms(5) by (subst P(2)) (simp add: j_def)
    have C3: "C = drop j w @ post" using 3 by (subst C(1)) (simp add: j_def)
    have C3': "C' = drop j w' @ post" using 3 assms(5) by (subst C(2)) (simp add: j_def)
    have "NOT (crc_update ?c (take j w)) = le_word (drop j w) XOR push_bit (8 * length (drop j w)) (le_word post)"
      "NOT (crc_update ?c (take j w')) = le_word (drop j w') XOR push_bit (8 * length (drop j w)) (le_word post)"
      using assms(5,7,8) by (simp_all add: P3 P3' C3 C3' le_value_word le_word_append crc32c_def crc_update_append)
    then have "crc_update ?c (take j w) XOR le_word (drop j w) = crc_update ?c (take j w') XOR le_word (drop j w')"
      by (simp add: not_xor_move)
    then have "take j w = take j w' \<and> drop j w = drop j w'"
      by (rule crc_burst_straddle [rotated 3]) (use assms(5,6) in auto)
    then show ?thesis by (metis append_take_drop_id)
  qed
qed


text \<open>A loader that does not reject a file found it whole.\<close>

lemma load_accepts:
  assumes "length data = n + 24" "n < 2 ^ 64 - 24" "\<And>msg. load_from_bytes data s \<noteq> (corrupt msg, s)"
  shows "\<exists>payload crc. data = file_of kMagic kPersistenceVersion (word_of_nat n) payload crc
    \<and> length payload = n \<and> length crc = 4 \<and> le_value crc = crc32c payload"
proof -
  let ?payload = "take n (drop 20 data)" and ?crc = "drop n (drop 20 data)"
  note shape = file_of_bytes [OF assms(1)]
  have len: "length (take 8 data) = 8" "length ?crc = 4" "length ?payload = n"
    using assms(1) by simp_all
  have "load_from_bytes data s = load_from_bytes (file_of (take 8 data) (le_value (take 4 (drop 8 data)))
      (le_value (take 8 (drop 12 data))) ?payload ?crc) s"
    using shape by simp
  also have "length ?payload < 2 ^ 64 - 24" using len(3) assms(2) by simp
  note load_file [OF len(1,2) this]
  finally have "take 8 data = kMagic \<and> le_value (take 4 (drop 8 data)) = kPersistenceVersion
      \<and> le_value (take 8 (drop 12 data)) = (word_of_nat n :: u64) \<and> le_value ?crc = crc32c ?payload"
    using assms(1,3) by (auto split: if_splits)
  then show ?thesis using shape len by (intro exI [of _ ?payload] exI [of _ ?crc]) simp
qed

lemma load_detects_window:
  assumes "length (save_payload st) < 2 ^ 64 - 24"
    "save_to_bytes st = pre @ w @ post" "length w' = length w" "length w \<le> 4" "w' \<noteq> w"
  shows "\<exists>msg. load_from_bytes (pre @ w' @ post) s = (corrupt msg, s)"
proof (rule ccontr)
  let ?n = "length (save_payload st)" and ?data = "pre @ w' @ post"
  let ?head = "kMagic @ w_u32 kPersistenceVersion @ w_u64 (word_of_nat ?n)"
  assume "\<nexists>msg. load_from_bytes ?data s = (corrupt msg, s)"
  moreover have len: "length ?data = ?n + 24"
    using arg_cong [OF assms(2), of length] assms(3) by (simp add: save_file file_of_def)
  ultimately have "\<exists>payload crc. ?data = file_of kMagic kPersistenceVersion (word_of_nat ?n) payload crc
      \<and> length payload = ?n \<and> length crc = 4 \<and> le_value crc = crc32c payload"
    using load_accepts [OF len assms(1), of s] by blast
  then obtain payload crc where good: "?data = ?head @ payload @ crc" "length payload = ?n"
    "length crc = 4" "le_value crc = crc32c payload"
    unfolding file_of_def by auto
  have orig: "pre @ w @ post = ?head @ save_payload st @ w_u32 (crc32c (save_payload st))"
    using assms(2) by (simp add: save_file file_of_def)
  define m where "m = 20 - length pre"
  have head: "length ?head = 20" by simp
  have body: "drop 20 pre @ drop m w @ drop (m - length w) post = save_payload st @ w_u32 (crc32c (save_payload st))"
    "drop 20 pre @ drop m w' @ drop (m - length w) post = payload @ crc"
    using arg_cong [OF orig, of "drop 20"] arg_cong [OF good(1), of "drop 20"] assms(3) head by (simp_all add: m_def)
  have "drop m w = drop m w'"
    by (rule crc_window [OF body good(2) _ _ _ _ good(4)]) (use assms(3,4) in \<open>simp_all add: le_value_u32\<close>)
  moreover have "take m w = take m w'"
  proof (cases "length pre \<le> 20")
    case True
    have "take 20 (?head @ rest) = ?head" for rest by simp
    then have "take 20 (pre @ w @ post) = take 20 (pre @ w' @ post)" by (simp only: orig good(1))
    then show ?thesis using True assms(3) by (simp add: m_def)
  qed (simp add: m_def)
  ultimately show False using assms(5) by (metis append_take_drop_id)
qed

text \<open>Truncated and extended files.\<close>

lemma load_detects_length:
  assumes "length (save_payload st) < 2 ^ 64 - 24" "length data \<noteq> length (save_to_bytes st)"
    "length data < 2 ^ 64" "take 20 data = take 20 (save_to_bytes st)"
  shows "\<exists>msg. load_from_bytes data s = (corrupt msg, s)"
proof (cases "length data < 24")
  case True
  then show ?thesis by (auto simp: load_from_bytes_def)
next
  case False
  define n where "n = length data - 24"
  have n: "length data = n + 24" using False by (simp add: n_def)
  then have bound: "n < 2 ^ 64 - 24" using assms(3) by simp
  let ?m = "length (save_payload st)"
  have "n \<noteq> ?m" using assms(2) n by (simp add: save_file file_of_def)
  then have ne: "(word_of_nat n :: u64) \<noteq> word_of_nat ?m"
    using bound assms(1) unat_of_nat_less [of n, where 'a = 64] unat_of_nat_less [of ?m, where 'a = 64] by auto
  show ?thesis
  proof (rule ccontr)
    assume "\<nexists>msg. load_from_bytes data s = (corrupt msg, s)"
    then obtain payload crc where "data = file_of kMagic kPersistenceVersion (word_of_nat n) payload crc"
      using load_accepts [OF n bound] by blast
    then have "w_u64 (word_of_nat n) = w_u64 (word_of_nat ?m :: u64)"
      using assms(4) by (simp add: save_file file_of_def)
    then show False using ne arg_cong [of _ _ "le_value :: bytes \<Rightarrow> u64"] by (metis le_value_u64)
  qed
qed

end
