(* ===== verification/CG_Net.thy ===== *)
theory CG_Net
  imports CG_Persistence
begin

text \<open>
  \<^verbatim>\<open>src/net.cpp\<close>: the framed protocol. \<open>encode_frame\<close> and \<open>decode_frames\<close> are the codec;
  \<open>write_all\<close> is the partial-write loop over the results of \<^verbatim>\<open>send(2)\<close>, and \<open>receive\<close> the
  buffered read loop of \<^verbatim>\<open>Connection\<close> over the results of \<^verbatim>\<open>recv(2)\<close>, both given as inputs.
  Decoding undoes encoding, reading is independent of how the stream is cut into chunks (for
  frames that leave room for a chunk in the receive buffer), and damage outside the length
  field is noticed. The message type is any 32 bit value, as the code casts it unchecked.
\<close>

section \<open>Frames\<close>

definition kProtocolMagic :: u32 where "kProtocolMagic = 0x00C64E01"
definition kProtocolVersion :: u32 where "kProtocolVersion = 1"
definition kMaxFramePayload :: u32 where "kMaxFramePayload = 2 ^ 20"
definition kFrameHeaderLen :: nat where "kFrameHeaderLen = 16"
definition kFrameCrcLen :: nat where "kFrameCrcLen = 4"

type_synonym MsgType = u32

definition MT_HELLO :: MsgType where "MT_HELLO = 1"
definition MT_WORKER_STATUS :: MsgType where "MT_WORKER_STATUS = 2"
definition MT_EVIDENCE :: MsgType where "MT_EVIDENCE = 3"
definition MT_ACTION_AUTHORIZE :: MsgType where "MT_ACTION_AUTHORIZE = 4"
definition MT_ACTION_ACK :: MsgType where "MT_ACTION_ACK = 5"
definition MT_ACTION_COMPLETE :: MsgType where "MT_ACTION_COMPLETE = 6"
definition MT_POLICY_UPDATE :: MsgType where "MT_POLICY_UPDATE = 7"
definition MT_SHUTDOWN :: MsgType where "MT_SHUTDOWN = 8"
definition MT_RPC_REQUEST :: MsgType where "MT_RPC_REQUEST = 9"
definition MT_RPC_RESPONSE :: MsgType where "MT_RPC_RESPONSE = 10"

definition to_string_MsgType :: "MsgType \<Rightarrow> string" where
  "to_string_MsgType v =
     (case map_of [(MT_HELLO, ''HELLO''), (MT_WORKER_STATUS, ''WORKER_STATUS''), (MT_EVIDENCE, ''EVIDENCE''),
        (MT_ACTION_AUTHORIZE, ''ACTION_AUTHORIZE''), (MT_ACTION_ACK, ''ACTION_ACK''),
        (MT_ACTION_COMPLETE, ''ACTION_COMPLETE''), (MT_POLICY_UPDATE, ''POLICY_UPDATE''),
        (MT_SHUTDOWN, ''SHUTDOWN''), (MT_RPC_REQUEST, ''RPC_REQUEST''), (MT_RPC_RESPONSE, ''RPC_RESPONSE'')] v of
        Some s \<Rightarrow> s | None \<Rightarrow> ''UNKNOWN'')"

record Frame =
  fm_type :: MsgType
  fm_payload :: bytes

definition encode_frame :: "MsgType \<Rightarrow> bytes \<Rightarrow> bytes" where
  "encode_frame type payload =
     (let out = w_u32 kProtocolMagic @ w_u32 kProtocolVersion @ w_u32 type
                  @ w_u32 (word_of_nat (length payload)) @ payload
      in out @ w_u32 (crc32c (take (kFrameHeaderLen - 8 + length payload) (drop 8 out))))"

text \<open>Little-endian words at fixed offsets of a header that is complete.\<close>

definition u32_at :: "bytes \<Rightarrow> nat \<Rightarrow> u32" where
  "u32_at h i = le_value (take 4 (drop i h))"

definition parse_header :: "bytes \<Rightarrow> (u32 \<times> u32 \<times> u32) option" where
  "parse_header h = (if u32_at h 0 \<noteq> kProtocolMagic then None else Some (u32_at h 4, u32_at h 8, u32_at h 12))"

text \<open>
  The checks of a frame at the start of a buffer, which \<open>Connection::receive\<close> and
  \<open>decode_frames\<close> make in the same order: either a part is missing, or the frame is bad, or
  it is taken off the buffer.
\<close>

datatype scan = Short_header | Short_frame | Bad_frame string | Scanned Frame bytes

definition scan_frame :: "bytes \<Rightarrow> scan" where
  "scan_frame buf =
     (if length buf < kFrameHeaderLen then Short_header
      else case parse_header buf of
        None \<Rightarrow> Bad_frame ''malformed frame magic/version''
      | Some (version, type, len) \<Rightarrow>
          if version \<noteq> kProtocolVersion then Bad_frame ''unsupported protocol version''
          else if len > kMaxFramePayload then Bad_frame ''oversized frame''
          else let need = kFrameHeaderLen + unat len + kFrameCrcLen
               in if length buf < need then Short_frame
                  else if u32_at buf (kFrameHeaderLen + unat len)
                          \<noteq> crc32c (take (kFrameHeaderLen - 8 + unat len) (drop 8 buf))
                  then Bad_frame ''frame checksum mismatch''
                  else Scanned \<lparr>fm_type = type, fm_payload = take (unat len) (drop kFrameHeaderLen buf)\<rparr>
                         (drop need buf))"

lemma scan_frame_shorter: "scan_frame buf = Scanned f rest \<Longrightarrow> length rest < length buf"
  by (auto simp: scan_frame_def Let_def kFrameHeaderLen_def kFrameCrcLen_def split: option.splits if_splits)

definition protocol_error :: "string \<Rightarrow> Status" where
  "protocol_error msg = status_bad SC_PROTOCOL_ERROR msg"

text \<open>The loop of \<open>decode_frames\<close>, with the frames appended so far.\<close>

function decode_frames :: "bytes \<Rightarrow> Frame list \<Rightarrow> Status \<times> Frame list" where
  "decode_frames buf out =
     (if buf = [] then (status_good, out)
      else case scan_frame buf of
        Short_header \<Rightarrow> (protocol_error ''truncated frame header'', out)
      | Short_frame \<Rightarrow> (protocol_error ''truncated frame'', out)
      | Bad_frame msg \<Rightarrow> (protocol_error msg, out)
      | Scanned f rest \<Rightarrow> decode_frames rest (out @ [f]))"
  by pat_completeness auto
termination by (relation "measure (\<lambda>(buf, out). length buf)") (auto dest: scan_frame_shorter)

declare decode_frames.simps [simp del]

section \<open>The connection\<close>

text \<open>
  \<^verbatim>\<open>write_all\<close> with the \<open>i\<close>-th result of \<^verbatim>\<open>send(2)\<close> as \<open>sent i\<close>: the bytes handed over and
  whether all were.
\<close>

function write_all :: "(nat \<Rightarrow> int) \<Rightarrow> nat \<Rightarrow> bytes \<Rightarrow> bytes \<times> bool" where
  "write_all sent i buf =
     (if buf = [] then ([], True)
      else if sent i \<le> 0 then ([], False)
      else let (handed, ok) = write_all sent (Suc i) (drop (nat (sent i)) buf)
           in (take (nat (sent i)) buf @ handed, ok))"
  by pat_completeness auto
termination by (relation "measure (\<lambda>(sent, i, buf). length buf)") auto

declare write_all.simps [simp del]

text \<open>\<^verbatim>\<open>Connection::send\<close>, with the bytes that went out.\<close>

definition send :: "bool \<Rightarrow> (nat \<Rightarrow> int) \<Rightarrow> MsgType \<Rightarrow> bytes \<Rightarrow> Status \<times> bytes" where
  "send valid sent type payload =
     (if length payload > unat kMaxFramePayload then (protocol_error ''frame too large'', [])
      else if \<not> valid then (protocol_error ''connection closed'', [])
      else let (handed, ok) = write_all sent 0 (encode_frame type payload)
           in if ok then (status_good, handed) else (protocol_error ''write failed'', handed))"

datatype recv_result = Recv bytes | Peer_closed | Recv_failed

text \<open>
  \<^verbatim>\<open>Connection::receive\<close>: the status, the frame when there is one, the buffer left in the
  connection and the results of \<^verbatim>\<open>recv(2)\<close> not yet consumed. \<open>None\<close>: the call blocks, waiting
  for more results than there are.
\<close>

fun receive :: "bool \<Rightarrow> bytes \<Rightarrow> recv_result list \<Rightarrow> (Status \<times> Frame option \<times> bytes \<times> recv_result list) option" where
  "receive blocking rbuf evs =
     (case scan_frame rbuf of
        Bad_frame msg \<Rightarrow> Some (protocol_error msg, None, rbuf, evs)
      | Scanned f rest \<Rightarrow> Some (status_good, Some f, rest, evs)
      | _ \<Rightarrow>
          (case evs of
             [] \<Rightarrow> None
           | Peer_closed # evs \<Rightarrow>
               Some (protocol_error (if rbuf = [] then ''peer closed'' else ''peer closed with partial frame''),
                     None, rbuf, evs)
           | Recv_failed # evs \<Rightarrow> Some (protocol_error ''recv failed'', None, rbuf, evs)
           | Recv chunk # evs \<Rightarrow>
               let rbuf = rbuf @ chunk
               in if length rbuf > unat kMaxFramePayload + kFrameHeaderLen + kFrameCrcLen
                  then Some (protocol_error ''oversized receive buffer'', None, rbuf, evs)
                  else if \<not> blocking
                  then Some (protocol_error ''no complete frame (nonblocking)'', None, rbuf, evs)
                  else receive blocking rbuf evs))"

declare receive.simps [simp del]


section \<open>Decoding undoes encoding\<close>

text \<open>The parts of a frame, with the length field and the checksum as arbitrary values.\<close>

definition frame_of :: "bytes \<Rightarrow> MsgType \<Rightarrow> u32 \<Rightarrow> bytes \<Rightarrow> bytes \<Rightarrow> bytes" where
  "frame_of head type len payload crc = head @ w_u32 type @ w_u32 len @ payload @ crc"

definition frame_head :: bytes where
  "frame_head = w_u32 kProtocolMagic @ w_u32 kProtocolVersion"

definition covered :: "MsgType \<Rightarrow> bytes \<Rightarrow> bytes" where
  "covered type payload = w_u32 type @ w_u32 (word_of_nat (length payload)) @ payload"

definition fits :: "bytes \<Rightarrow> bool" where
  "fits payload \<longleftrightarrow> length payload \<le> 2 ^ 20"

lemma frame_head_length [simp]: "length frame_head = 8"
  by (simp add: frame_head_def)

lemma covered_length [simp]: "length (covered type payload) = 8 + length payload"
  by (simp add: covered_def)

lemma encode_frame_parts:
  "encode_frame type payload = frame_head @ covered type payload @ w_u32 (crc32c (covered type payload))"
  by (simp add: encode_frame_def Let_def frame_head_def covered_def kFrameHeaderLen_def)

lemma encode_frame_length [simp]: "length (encode_frame type payload) = length payload + 20"
  by (simp add: encode_frame_parts)

lemma encode_frame_neq [simp]: "encode_frame type payload \<noteq> []"
  by (metis encode_frame_length list.size(3) add_is_0 zero_neq_numeral)

lemma fits_len:
  assumes "fits payload"
  shows "unat (word_of_nat (length payload) :: u32) = length payload"
    "\<not> kMaxFramePayload < (word_of_nat (length payload) :: u32)"
proof -
  show un: "unat (word_of_nat (length payload) :: u32) = length payload"
    using assms by (intro unat_of_nat_less) (simp add: fits_def)
  then show "\<not> kMaxFramePayload < (word_of_nat (length payload) :: u32)"
    using assms by (simp add: word_less_nat_alt kMaxFramePayload_def fits_def)
qed

lemma header_fields:
  "parse_header (frame_head @ w_u32 type @ w_u32 len @ rest) = Some (kProtocolVersion, type, len)"
  by (simp add: parse_header_def u32_at_def frame_head_def le_value_u32)

lemma u32_at_append: "length pre = i \<Longrightarrow> u32_at (pre @ w_u32 v @ rest) i = v"
  by (simp add: u32_at_def le_value_u32)

lemma scan_encode:
  assumes "fits payload"
  shows "scan_frame (encode_frame type payload @ rest) = Scanned \<lparr>fm_type = type, fm_payload = payload\<rparr> rest"
proof -
  let ?crc = "crc32c (covered type payload)" and ?buf = "encode_frame type payload @ rest"
  have head: "parse_header ?buf = Some (kProtocolVersion, type, word_of_nat (length payload))"
    by (simp add: encode_frame_parts covered_def header_fields)
  have crc: "u32_at ?buf (16 + length payload) = ?crc"
    using u32_at_append [of "frame_head @ covered type payload" "16 + length payload" ?crc rest]
    by (simp add: encode_frame_parts)
  have cov: "take (8 + length payload) (drop 8 ?buf) = covered type payload"
    by (simp add: encode_frame_parts)
  have pay: "take (length payload) (drop 16 ?buf) = payload"
    by (simp add: encode_frame_parts covered_def)
  have rest: "drop (20 + length payload) ?buf = rest"
    by simp
  show ?thesis
    using crc cov pay rest
    by (simp add: scan_frame_def kFrameHeaderLen_def kFrameCrcLen_def head fits_len [OF assms] Let_def del: drop_append take_append)
qed

text \<open>Any part of a frame that is not the whole of it: more is needed.\<close>

lemma scan_partial:
  assumes "fits payload" "buf @ missing = encode_frame type payload @ rest" "length buf < length payload + 20"
  shows "scan_frame buf = (if length buf < 16 then Short_header else Short_frame)"
proof (cases "length buf < 16")
  case False
  have "take 16 buf = take 16 (encode_frame type payload @ rest)"
    using False by (metis assms(2) append_Nil2 diff_is_0_eq not_less take0 take_append)
  then have h: "take 16 buf = frame_head @ w_u32 type @ w_u32 (word_of_nat (length payload))"
    by (simp add: encode_frame_parts covered_def)
  have "buf = take 16 buf @ drop 16 buf" by simp
  then have "parse_header buf = Some (kProtocolVersion, type, word_of_nat (length payload))"
    by (metis h header_fields append.assoc)
  then show ?thesis
    using False assms(3)
    by (simp add: scan_frame_def kFrameHeaderLen_def kFrameCrcLen_def fits_len [OF assms(1)] Let_def)
qed (simp add: scan_frame_def kFrameHeaderLen_def)

definition encode_frames :: "Frame list \<Rightarrow> bytes" where
  "encode_frames fs = concat (map (\<lambda>f. encode_frame (fm_type f) (fm_payload f)) fs)"

lemma encode_frames_simps [simp]:
  "encode_frames [] = []"
  "encode_frames (f # fs) = encode_frame (fm_type f) (fm_payload f) @ encode_frames fs"
  by (simp_all add: encode_frames_def)

lemma decode_encode:
  "\<forall>f \<in> set fs. fits (fm_payload f) \<Longrightarrow> decode_frames (encode_frames fs) out = (status_good, out @ fs)"
proof (induction fs arbitrary: out)
  case Nil
  show ?case by (simp add: decode_frames.simps)
next
  case (Cons f fs)
  then show ?case by (subst decode_frames.simps) (simp add: scan_encode)
qed

text \<open>A frame cut short at the end: what came before it is delivered, with an error.\<close>

lemma decode_truncated:
  assumes "\<forall>f \<in> set fs. fits (fm_payload f)" "fits payload" "0 < k" "k < length payload + 20"
  shows "decode_frames (encode_frames fs @ take k (encode_frame type payload)) out =
    (protocol_error (if k < 16 then ''truncated frame header'' else ''truncated frame''), out @ fs)"
  using assms(1)
proof (induction fs arbitrary: out)
  case Nil
  have "scan_frame (take k (encode_frame type payload)) = (if k < 16 then Short_header else Short_frame)"
    using scan_partial [OF assms(2), of "take k (encode_frame type payload)" "drop k (encode_frame type payload)" type "[]"]
      assms(4) by simp
  then show ?case using assms(3) by (simp add: decode_frames.simps)
next
  case (Cons f fs)
  then show ?case by (subst decode_frames.simps) (simp add: scan_encode)
qed


section \<open>Damage\<close>

text \<open>Damage that leaves the length field alone and stays within four adjacent bytes is noticed.\<close>

lemma scan_detects_window:
  assumes "fits payload" "encode_frame type payload = pre @ w @ post"
    "length w' = length w" "length w \<le> 4" "w' \<noteq> w"
    "take 4 (drop 12 (pre @ w' @ post)) = w_u32 (word_of_nat (length payload))"
  shows "\<exists>msg. scan_frame ((pre @ w' @ post) @ rest) = Bad_frame msg"
proof (rule ccontr)
  let ?n = "length payload"
  define d where "d = pre @ w' @ post"
  assume "\<nexists>msg. scan_frame ((pre @ w' @ post) @ rest) = Bad_frame msg"
  then have no: "\<nexists>msg. scan_frame (d @ rest) = Bad_frame msg" by (simp add: d_def)
  have len: "length d = ?n + 20" using arg_cong [OF assms(2), of length] assms(3) by (simp add: d_def)
  have at: "u32_at (d @ rest) i = u32_at d i" if "i + 4 \<le> ?n + 20" for i
    using that len by (simp add: u32_at_def)
  have "u32_at d 12 = word_of_nat ?n" using assms(6) by (simp add: u32_at_def d_def le_value_u32)
  then have good: "u32_at d 0 = kProtocolMagic" "u32_at d 4 = kProtocolVersion"
      "u32_at d (16 + ?n) = crc32c (take (8 + ?n) (drop 8 d))"
    using no fits_len [OF assms(1)] len at [of 0] at [of 4] at [of 12] at [of "16 + ?n"]
    by (auto simp: scan_frame_def parse_header_def kFrameHeaderLen_def kFrameCrcLen_def Let_def split: if_splits)
  have "take 4 d = w_u32 kProtocolMagic" "take 4 (drop 4 d) = w_u32 kProtocolVersion"
    using good(1,2) len w_u32_value [of "take 4 d"] w_u32_value [of "take 4 (drop 4 d)"] by (simp_all add: u32_at_def)
  then have head: "take 8 d = frame_head"
    using take_add [of 4 4 d] by (simp add: frame_head_def)
  let ?C = "drop (8 + ?n) (drop 8 d)" and ?P = "take (8 + ?n) (drop 8 d)"
  have C: "le_value ?C = crc32c ?P"
    using good(3) len by (simp add: u32_at_def add.commute)
  define m where "m = 8 - length pre"
  have body: "drop 8 pre @ drop m w @ drop (m - length w) post =
      covered type payload @ w_u32 (crc32c (covered type payload))"
    using arg_cong [OF assms(2), of "drop 8"] by (simp add: encode_frame_parts m_def)
  have body': "drop 8 pre @ drop m w' @ drop (m - length w) post = ?P @ ?C"
    using assms(3) by (simp only: append_take_drop_id) (simp add: m_def d_def)
  have "drop m w = drop m w'"
    by (rule crc_window [OF body body' _ _ _ _ _ C]) (use assms(3,4) len in \<open>simp_all add: le_value_u32\<close>)
  moreover have "take m w = take m w'"
  proof (cases "length pre \<le> 8")
    case True
    have "take 8 (pre @ w @ post) = take 8 d" by (simp only: head flip: assms(2)) (simp add: encode_frame_parts)
    then show ?thesis using True assms(3) by (simp add: m_def d_def)
  qed (simp add: m_def)
  ultimately show False using assms(5) by (metis append_take_drop_id)
qed

section \<open>Sending\<close>

text \<open>What is handed over is a beginning of the buffer, and all of it exactly on success.\<close>

lemma write_all_prefix:
  "\<exists>k. fst (write_all sent i buf) = take k buf \<and> (snd (write_all sent i buf) \<longleftrightarrow> fst (write_all sent i buf) = buf)"
proof (induction sent i buf rule: write_all.induct)
  case (1 sent i buf)
  show ?case
  proof (cases "buf = [] \<or> sent i \<le> 0")
    case True
    then show ?thesis by (subst (1 2 3) write_all.simps) (auto intro: exI [of _ 0])
  next
    case False
    let ?n = "nat (sent i)"
    obtain handed ok where w: "write_all sent (Suc i) (drop ?n buf) = (handed, ok)" by fastforce
    with 1 False obtain k where k: "handed = take k (drop ?n buf)" "ok \<longleftrightarrow> handed = drop ?n buf" by auto
    have "write_all sent i buf = (take ?n buf @ handed, ok)"
      using False w by (subst write_all.simps) simp
    moreover have "take ?n buf @ handed = take (?n + k) buf" using k(1) by (simp add: take_add)
    moreover have "handed = drop ?n buf \<longleftrightarrow> take ?n buf @ handed = buf" by (metis append_take_drop_id same_append_eq)
    ultimately show ?thesis using k(2) by auto
  qed
qed

lemma write_all_progress:
  "\<forall>i. 0 < sent i \<Longrightarrow> write_all sent i buf = (buf, True)"
proof (induction sent i buf rule: write_all.induct)
  case (1 sent i buf)
  then show ?case
    by (subst write_all.simps) (metis (no_types, lifting) append_take_drop_id case_prod_conv linorder_not_less)
qed

section \<open>Receiving\<close>

lemma receive_scanned:
  "scan_frame rbuf = Scanned f rest \<Longrightarrow> receive blocking rbuf evs = Some (status_good, Some f, rest, evs)"
  by (subst receive.simps) simp

lemma receive_more:
  assumes "fits payload" "rbuf @ missing = encode_frame type payload @ rest" "length rbuf < length payload + 20"
  shows "receive True rbuf (Recv chunk # evs) =
    (if length (rbuf @ chunk) > 2 ^ 20 + 20
     then Some (protocol_error ''oversized receive buffer'', None, rbuf @ chunk, evs)
     else receive True (rbuf @ chunk) evs)"
  using scan_partial [OF assms]
  by (subst receive.simps) (simp add: kMaxFramePayload_def kFrameHeaderLen_def kFrameCrcLen_def Let_def split: scan.split)

text \<open>Chunks as \<^verbatim>\<open>recv(2)\<close> gives them: not empty, and at most as long as the buffer passed to it.\<close>

definition chunk_ok :: "bytes \<Rightarrow> bool" where
  "chunk_ok chunk \<longleftrightarrow> chunk \<noteq> [] \<and> length chunk \<le> 4096"

text \<open>A payload that leaves room for a chunk beyond its frame.\<close>

definition roomy :: "bytes \<Rightarrow> bool" where
  "roomy payload \<longleftrightarrow> length payload \<le> 2 ^ 20 - 4095"

lemma roomy_fits: "roomy payload \<Longrightarrow> fits payload"
  by (simp add: roomy_def fits_def)

lemma receive_frame:
  assumes "roomy payload" "\<forall>chunk \<in> set chunks. chunk_ok chunk"
    "rbuf @ concat chunks = encode_frame type payload @ rest"
  shows "\<exists>rbuf' chunks'. receive True rbuf (map Recv chunks) =
      Some (status_good, Some \<lparr>fm_type = type, fm_payload = payload\<rparr>, rbuf', map Recv chunks')
    \<and> rbuf' @ concat chunks' = rest \<and> set chunks' \<subseteq> set chunks"
  using assms(2,3)
proof (induction chunks arbitrary: rbuf)
  case Nil
  then show ?case
    by (intro exI [of _ rest] exI [of _ "[]"])
      (simp add: receive_scanned [OF scan_encode [OF roomy_fits [OF assms(1)]]])
next
  case (Cons chunk chunks)
  show ?case
  proof (cases "length rbuf < length payload + 20")
    case True
    have "receive True rbuf (map Recv (chunk # chunks)) = receive True (rbuf @ chunk) (map Recv chunks)"
      using receive_more [OF roomy_fits [OF assms(1)] _ True] Cons.prems True assms(1)
      by (simp add: chunk_ok_def roomy_def)
    then show ?thesis using Cons.IH [of "rbuf @ chunk"] Cons.prems by auto
  next
    case False
    then obtain rbuf' where "rbuf = encode_frame type payload @ rbuf'"
      using Cons.prems(2) encode_frame_length [of type payload]
      by (metis append_eq_append_conv_if append_take_drop_id linorder_not_less)
    then show ?thesis
      using Cons.prems(2) receive_scanned [OF scan_encode [OF roomy_fits [OF assms(1)]]]
      by (intro exI [of _ rbuf'] exI [of _ "chunk # chunks"]) auto
  qed
qed

text \<open>The reader's loop: receive until \<open>n\<close> frames have come.\<close>

fun receive_frames :: "nat \<Rightarrow> bytes \<Rightarrow> recv_result list \<Rightarrow> (Frame list \<times> bytes \<times> recv_result list) option" where
  "receive_frames 0 rbuf evs = Some ([], rbuf, evs)"
| "receive_frames (Suc n) rbuf evs =
     (case receive True rbuf evs of
        Some (_, Some f, rbuf, evs) \<Rightarrow>
          (case receive_frames n rbuf evs of Some (fs, rest) \<Rightarrow> Some (f # fs, rest) | None \<Rightarrow> None)
      | _ \<Rightarrow> None)"

lemma receive_stream:
  assumes "\<forall>f \<in> set fs. roomy (fm_payload f)" "\<forall>chunk \<in> set chunks. chunk_ok chunk"
    "rbuf @ concat chunks = encode_frames fs"
  shows "receive_frames (length fs) rbuf (map Recv chunks) = Some (fs, [], [])"
  using assms
proof (induction fs arbitrary: rbuf chunks)
  case Nil
  then have "chunks = []" by (cases chunks) (auto simp: chunk_ok_def)
  then show ?case using Nil by simp
next
  case (Cons f fs)
  from Cons.prems obtain rbuf' chunks' where
    "receive True rbuf (map Recv chunks) = Some (status_good, Some f, rbuf', map Recv chunks')"
    "rbuf' @ concat chunks' = encode_frames fs" "set chunks' \<subseteq> set chunks"
    using receive_frame [of "fm_payload f" chunks rbuf "fm_type f" "encode_frames fs"] by auto
  then show ?case using Cons.IH [of chunks' rbuf'] Cons.prems by (auto simp: subset_iff)
qed

text \<open>A frame of the largest size with anything behind it in the last chunk is refused.\<close>

lemma receive_oversized:
  assumes "length payload = 2 ^ 20" "rbuf @ chunk = encode_frame type payload @ rest" "rest \<noteq> []"
    "length rbuf < 2 ^ 20 + 20"
  shows "receive True rbuf (Recv chunk # evs) =
    Some (protocol_error ''oversized receive buffer'', None, rbuf @ chunk, evs)"
proof -
  have "0 < length rest" using assms(3) by simp
  then have "2 ^ 20 + 20 < length (rbuf @ chunk)" by (simp add: assms(1,2))
  then show ?thesis
    using receive_more [OF _ assms(2), of chunk evs] assms(1,4) by (simp add: fits_def)
qed

section \<open>Reading ends and stays bounded\<close>

text \<open>A connection that closes or fails, or delivers more than the buffer may hold, ends the read.\<close>

lemma receive_cases:
  "receive blocking rbuf evs =
     (case scan_frame rbuf of
        Bad_frame msg \<Rightarrow> Some (protocol_error msg, None, rbuf, evs)
      | Scanned f rest \<Rightarrow> Some (status_good, Some f, rest, evs)
      | _ \<Rightarrow>
          (case evs of
             Recv chunk # evs \<Rightarrow>
               if length rbuf + length chunk > 2 ^ 20 + 20
               then Some (protocol_error ''oversized receive buffer'', None, rbuf @ chunk, evs)
               else if \<not> blocking
               then Some (protocol_error ''no complete frame (nonblocking)'', None, rbuf @ chunk, evs)
               else receive blocking (rbuf @ chunk) evs
           | Peer_closed # evs \<Rightarrow>
               Some (protocol_error (if rbuf = [] then ''peer closed'' else ''peer closed with partial frame''),
                     None, rbuf, evs)
           | Recv_failed # evs \<Rightarrow> Some (protocol_error ''recv failed'', None, rbuf, evs)
           | [] \<Rightarrow> None))"
  by (subst receive.simps)
    (simp add: kMaxFramePayload_def kFrameHeaderLen_def kFrameCrcLen_def Let_def split: scan.split list.split recv_result.split)

definition ends_stream :: "recv_result \<Rightarrow> bool" where
  "ends_stream ev \<longleftrightarrow> ev = Peer_closed \<or> ev = Recv_failed"

fun chunk_length :: "recv_result \<Rightarrow> nat" where
  "chunk_length (Recv chunk) = length chunk"
| "chunk_length _ = 0"

lemma scan_short: "scan_frame buf = Short_header \<or> scan_frame buf = Short_frame \<Longrightarrow> length buf < 2 ^ 20 + 20"
  by (auto simp: scan_frame_def kFrameHeaderLen_def kFrameCrcLen_def kMaxFramePayload_def Let_def word_less_nat_alt
      split: option.splits if_splits)

lemma receive_returns:
  "list_ex ends_stream evs \<or> length rbuf + sum_list (map chunk_length evs) > 2 ^ 20 + 20 \<Longrightarrow>
     receive blocking rbuf evs \<noteq> None"
proof (induction evs arbitrary: rbuf)
  case Nil
  then show ?case
    using scan_short [of rbuf] by (subst receive_cases) (auto split: scan.split)
next
  case (Cons ev evs)
  then show ?case
    by (subst receive_cases) (auto simp: ends_stream_def split: scan.split recv_result.split)
qed

lemma receive_bounded:
  assumes "receive blocking rbuf evs = Some (st, f, rbuf', evs')"
    "\<forall>chunk. Recv chunk \<in> set evs \<longrightarrow> chunk_ok chunk" "length rbuf \<le> 2 ^ 20 + 20 + 4096"
  shows "length rbuf' \<le> 2 ^ 20 + 20 + 4096"
  using assms
proof (induction evs arbitrary: rbuf)
  case Nil
  then show ?case
    by (subst (asm) receive_cases) (auto dest: scan_frame_shorter split: scan.splits)
next
  case (Cons ev evs)
  show ?case
  proof (cases "scan_frame rbuf = Short_header \<or> scan_frame rbuf = Short_frame")
    case True
    have "length rbuf < 2 ^ 20 + 20" by (rule scan_short [OF True])
    moreover have "length chunk \<le> 4096" if "ev = Recv chunk" for chunk
      using Cons.prems(2) that by (auto simp: chunk_ok_def)
    ultimately show ?thesis
      using True Cons.prems Cons.IH [of "rbuf @ chunk" for chunk]
      by (subst (asm) receive_cases) (auto split: recv_result.splits if_splits)
  next
    case False
    then show ?thesis
      using Cons.prems by (subst (asm) receive_cases) (auto dest: scan_frame_shorter split: scan.splits)
  qed
qed

end
