(* ===== verification/CG_Dist.thy ===== *)
theory CG_Dist
  imports CG_Persistence
begin

text \<open>
  \<^verbatim>\<open>dist/protocol.cpp\<close>: the messages between the coordinator and the workers. The byte helpers
  \<^verbatim>\<open>dist::Writer\<close> and \<^verbatim>\<open>dist::Reader\<close> are those of \<open>CG_Wire\<close>, a decoder returns \<open>None\<close> where
  the code returns false and the bytes it leaves unread where the code returns true: the
  callers ignore them. Every decoder undoes its encoder, and accepts nothing but encodings
  followed by anything (an acknowledgement may write its flag in several ways).
\<close>

section \<open>Messages\<close>

record WorkerHello =
  wh_worker :: WorkerId
  wh_boot :: WorkerBootId
  wh_workloadGen :: WorkloadGeneration
  wh_role :: string

record WireAction =
  wa_id :: InterventionId
  wa_cls :: InterventionClass
  wa_target :: WorkloadId
  wa_attempt :: AttemptId
  wa_intensity :: double

record WireAck =
  wk_id :: InterventionId
  wk_attempt :: AttemptId
  wk_acknowledged :: bool
  wk_note :: string

definition encode_hello :: "WorkerHello writer" where
  "encode_hello h = w_id (wh_worker h) @ w_id (wh_boot h) @ w_id (wh_workloadGen h) @ w_str (wh_role h)"

definition decode_hello :: "WorkerHello reader" where
  "decode_hello bs = do {
     (worker, bs) \<leftarrow> r_id bs; (boot, bs) \<leftarrow> r_id bs; (gen, bs) \<leftarrow> r_id bs; (role, bs) \<leftarrow> r_str bs;
     Some (\<lparr>wh_worker = worker, wh_boot = boot, wh_workloadGen = gen, wh_role = role\<rparr>, bs)
   }"

text \<open>A count that must not exceed \<open>limit\<close>, and that many values.\<close>

definition r_list_upto :: "u64 \<Rightarrow> 'a reader \<Rightarrow> ('a list) reader" where
  "r_list_upto limit r bs = do { (n, bs) \<leftarrow> r_u64 bs; if n > limit then None else r_times (unat n) r bs }"

definition encode_evidence :: "InterferenceEvidence writer" where
  "encode_evidence e =
     w_id (ie_id e) @ w_id (ie_generation e) @ w_id (ie_victim e) @ w_list w_id (ie_neighbors e) @
     w_enum ord_ResourceDomain (ie_domain e) @ w_enum ord_MetricDirection (ie_metric e) @
     w_f64 (ie_isolatedBaseline e) @ w_f64 (ie_coRunObservation e) @
     w_enum ord_AttributionStrength (ie_attribution e) @ w_f64 (ie_confidence e) @ w_u64 (ie_sampleCount e) @
     w_enum ord_EvidenceStatus (ie_status e) @ w_u64 (ie_sampledAt e) @ w_u64 (ie_maxAgeMs e) @
     w_enum ord_EvidenceLabel (ie_label e) @ w_str (ie_sourceId e) @ w_str (ie_sourceHealth e) @
     w_id (ie_workerBoot e) @ w_id (ie_workloadGeneration e) @ w_id (ie_deviceGeneration e) @
     w_id (ie_hostGeneration e) @ w_id (ie_topologyGeneration e) @ w_id (ie_resourceGeneration e) @
     w_id (ie_placementGeneration e) @ w_u64 (ie_activeFrom e) @ w_u64 (ie_activeUntil e) @
     w_list w_str (ie_unresolvedConfounders e)"

text \<open>
  The fields of \<open>e0\<close>, the caller's default-initialised structure, that the message does not
  carry stay as they are: the fractions the governor recomputes.
\<close>

definition decode_evidence :: "InterferenceEvidence \<Rightarrow> InterferenceEvidence reader" where
  "decode_evidence e0 bs = do {
     (x_id, bs) \<leftarrow> r_id bs; (x_generation, bs) \<leftarrow> r_id bs; (x_victim, bs) \<leftarrow> r_id bs;
     (x_neighbors, bs) \<leftarrow> r_list_upto 1024 r_id bs;
     (x_domain, bs) \<leftarrow> r_enum all_ResourceDomain bs;
     (x_metric, bs) \<leftarrow> r_enum all_MetricDirection bs;
     (x_isolatedBaseline, bs) \<leftarrow> r_f64 bs; (x_coRunObservation, bs) \<leftarrow> r_f64 bs;
     (x_attribution, bs) \<leftarrow> r_enum all_AttributionStrength bs;
     (x_confidence, bs) \<leftarrow> r_f64 bs; (x_sampleCount, bs) \<leftarrow> r_u64 bs;
     (x_status, bs) \<leftarrow> r_enum all_EvidenceStatus bs;
     (x_sampledAt, bs) \<leftarrow> r_u64 bs; (x_maxAgeMs, bs) \<leftarrow> r_u64 bs;
     (x_label, bs) \<leftarrow> r_enum all_EvidenceLabel bs;
     (x_sourceId, bs) \<leftarrow> r_str bs; (x_sourceHealth, bs) \<leftarrow> r_str bs;
     (x_workerBoot, bs) \<leftarrow> r_id bs; (x_workloadGeneration, bs) \<leftarrow> r_id bs; (x_deviceGeneration, bs) \<leftarrow> r_id bs;
     (x_hostGeneration, bs) \<leftarrow> r_id bs; (x_topologyGeneration, bs) \<leftarrow> r_id bs;
     (x_resourceGeneration, bs) \<leftarrow> r_id bs; (x_placementGeneration, bs) \<leftarrow> r_id bs;
     (x_activeFrom, bs) \<leftarrow> r_u64 bs; (x_activeUntil, bs) \<leftarrow> r_u64 bs;
     (x_unresolvedConfounders, bs) \<leftarrow> r_list_upto 1024 r_str bs;
     Some (\<lparr>ie_id = x_id, ie_generation = x_generation, ie_victim = x_victim, ie_neighbors = x_neighbors,
            ie_domain = x_domain, ie_metric = x_metric, ie_isolatedBaseline = x_isolatedBaseline,
            ie_coRunObservation = x_coRunObservation, ie_degradation = ie_degradation e0,
            ie_improvement = ie_improvement e0, ie_attribution = x_attribution,
            ie_confidence = x_confidence, ie_sampleCount = x_sampleCount,
            ie_unresolvedConfounders = x_unresolvedConfounders, ie_status = x_status,
            ie_sampledAt = x_sampledAt, ie_maxAgeMs = x_maxAgeMs, ie_label = x_label,
            ie_sourceId = x_sourceId, ie_sourceHealth = x_sourceHealth, ie_workerBoot = x_workerBoot,
            ie_workloadGeneration = x_workloadGeneration, ie_deviceGeneration = x_deviceGeneration,
            ie_hostGeneration = x_hostGeneration, ie_topologyGeneration = x_topologyGeneration,
            ie_resourceGeneration = x_resourceGeneration, ie_placementGeneration = x_placementGeneration,
            ie_activeFrom = x_activeFrom, ie_activeUntil = x_activeUntil\<rparr>, bs)
   }"

definition encode_action :: "WireAction writer" where
  "encode_action a = w_id (wa_id a) @ w_id (wa_target a) @ w_id (wa_attempt a) @
     w_enum ord_InterventionClass (wa_cls a) @ w_f64 (wa_intensity a)"

definition decode_action :: "WireAction reader" where
  "decode_action bs = do {
     (i, bs) \<leftarrow> r_id bs; (target, bs) \<leftarrow> r_id bs; (attempt, bs) \<leftarrow> r_id bs;
     (cls, bs) \<leftarrow> r_enum all_InterventionClass bs; (intensity, bs) \<leftarrow> r_f64 bs;
     Some (\<lparr>wa_id = i, wa_cls = cls, wa_target = target, wa_attempt = attempt, wa_intensity = intensity\<rparr>, bs)
   }"

definition encode_ack :: "WireAck writer" where
  "encode_ack a = w_id (wk_id a) @ w_id (wk_attempt a) @ w_bool (wk_acknowledged a) @ w_str (wk_note a)"

definition decode_ack :: "WireAck reader" where
  "decode_ack bs = do {
     (i, bs) \<leftarrow> r_id bs; (attempt, bs) \<leftarrow> r_id bs; (ok, bs) \<leftarrow> r_bool bs; (text, bs) \<leftarrow> r_str bs;
     Some (\<lparr>wk_id = i, wk_attempt = attempt, wk_acknowledged = ok, wk_note = text\<rparr>, bs)
   }"

text \<open>The limits the decoders test are the numbers of enumerators.\<close>

lemma enum_limits:
  "length all_ResourceDomain = 14" "length all_MetricDirection = 2" "length all_AttributionStrength = 6"
  "length all_EvidenceStatus = 8" "length all_EvidenceLabel = 6" "length all_InterventionClass = 21"
  by (simp_all add: all_ResourceDomain_def all_MetricDirection_def all_AttributionStrength_def
      all_EvidenceStatus_def all_EvidenceLabel_def all_InterventionClass_def)

section \<open>Decoding undoes encoding\<close>

lemma round_trip_list_upto:
  "length xs \<le> unat limit \<Longrightarrow> (\<And>x. x \<in> set xs \<Longrightarrow> round_trip w r x) \<Longrightarrow>
     round_trip (w_list w) (r_list_upto limit r) xs"
proof -
  assume n: "length xs \<le> unat limit" and r: "\<And>x. x \<in> set xs \<Longrightarrow> round_trip w r x"
  have "length xs < 2 ^ LENGTH(64)" by (rule le_less_trans [OF n unsigned_less])
  then have "unat (word_of_nat (length xs) :: u64) = length xs" by (rule unat_of_nat_less)
  then show ?thesis
    using n r by (simp add: round_trip_def [of "w_list w"] w_list_def r_list_upto_def basic_reads
        word_less_nat_alt r_times_write)
qed

lemma round_trip_hello: "short (wh_role h) \<Longrightarrow> round_trip encode_hello decode_hello h"
  by (simp add: round_trip_def encode_hello_def decode_hello_def basic_reads)

lemma round_trip_action: "round_trip encode_action decode_action a"
  by (simp add: round_trip_def encode_action_def decode_action_def basic_reads)

lemma round_trip_ack: "short (wk_note a) \<Longrightarrow> round_trip encode_ack decode_ack a"
  by (simp add: round_trip_def encode_ack_def decode_ack_def basic_reads)

text \<open>What fits in an evidence message: the counts the decoder allows, and texts up to \<open>2 ^ 20\<close> bytes.\<close>

definition sendable_evidence :: "InterferenceEvidence \<Rightarrow> bool" where
  "sendable_evidence e \<longleftrightarrow> length (ie_neighbors e) \<le> 1024 \<and> ie_attribution e \<noteq> AS_OUT_OF_RANGE
     \<and> length (ie_unresolvedConfounders e) \<le> 1024 \<and> list_all short (ie_unresolvedConfounders e)
     \<and> short (ie_sourceId e) \<and> short (ie_sourceHealth e)"

lemma decode_encode_evidence:
  assumes "sendable_evidence e"
  shows "decode_evidence e0 (encode_evidence e @ rest) =
    Some (e\<lparr>ie_degradation := ie_degradation e0, ie_improvement := ie_improvement e0\<rparr>, rest)"
proof -
  have "round_trip (w_list w_id) (r_list_upto 1024 r_id) (ie_neighbors e)"
    using assms by (intro round_trip_list_upto round_trip_id) (simp add: sendable_evidence_def)
  moreover have "round_trip (w_list w_str) (r_list_upto 1024 r_str) (ie_unresolvedConfounders e)"
    using assms by (intro round_trip_list_upto round_trip_short) (simp_all add: sendable_evidence_def list_all_iff)
  ultimately show ?thesis
    using assms by (simp add: sendable_evidence_def encode_evidence_def decode_evidence_def basic_reads round_tripD)
qed

section \<open>What is accepted\<close>

text \<open>A reader is \<open>exact\<close> when it accepts nothing but what the writer produces.\<close>

definition exact :: "'a writer \<Rightarrow> 'a reader \<Rightarrow> bool" where
  "exact w r \<longleftrightarrow> (\<forall>bs v rest. r bs = Some (v, rest) \<longrightarrow> bs = w v @ rest)"

lemma exactD: "exact w r \<Longrightarrow> r bs = Some (v, rest) \<Longrightarrow> bs = w v @ rest"
  by (simp add: exact_def)

lemma exact_u8: "exact w_u8 r_u8"
  unfolding exact_def
proof (intro allI impI)
  show "r_u8 bs = Some (v, rest) \<Longrightarrow> bs = w_u8 v @ rest" for bs v rest
    by (cases bs) (simp_all add: w_u8_def)
qed

lemma exact_u64: "exact w_u64 r_u64"
  by (auto simp: exact_def r_u64_def r_le_def w_u64_value split: if_splits)

lemma exact_f64: "exact w_f64 r_f64"
  by (auto simp: exact_def r_f64_def w_f64_def split: bind_splits dest!: exactD [OF exact_u64])

lemma exact_id: "exact w_id r_id"
  by (auto simp: exact_def r_id_def w_id_def split: bind_splits dest!: exactD [OF exact_u64])

lemma byte_of_char_of_byte: "byte_of_char (char_of_byte b) = b"
proof -
  have "unat b < 256" using unsigned_less [of b] by simp
  then have "(of_char (char_of (unat b)) :: nat) = unat b" by simp
  then show ?thesis by (simp add: byte_of_char_def char_of_byte_def)
qed

lemma exact_str: "exact w_str r_str"
proof -
  have "bs = w_str v @ rest" if r: "r_str bs = Some (v, rest)" for bs v rest
  proof -
    from r obtain len bs' where len: "r_u64 bs = Some (len, bs')" "unat len \<le> length bs'"
      "v = map char_of_byte (take (unat len) bs')" "rest = drop (unat len) bs'"
      by (auto simp: r_str_def not_less split: bind_splits if_splits)
    then have "bs = w_u64 len @ bs'" using exactD [OF exact_u64] by blast
    moreover have "length v = unat len" "map byte_of_char v = take (unat len) bs'"
      using len by (simp_all add: comp_def byte_of_char_of_byte)
    ultimately show ?thesis using len(4) by (simp add: w_str_def)
  qed
  then show ?thesis by (simp add: exact_def)
qed

lemma exact_times:
  assumes "exact w r"
  shows "r_times n r bs = Some (xs, rest) \<Longrightarrow> bs = concat (map w xs) @ rest \<and> length xs = n"
proof (induction n arbitrary: bs xs)
  case (Suc n)
  then obtain x bs' ys where "r bs = Some (x, bs')" "r_times n r bs' = Some (ys, rest)" "xs = x # ys"
    by (auto split: bind_splits)
  then show ?case using Suc.IH exactD [OF assms] by fastforce
qed simp

lemma exact_list_upto: "exact w r \<Longrightarrow> exact (w_list w) (r_list_upto limit r)"
proof -
  assume e: "exact w r"
  have "bs = w_list w xs @ rest" if r: "r_list_upto limit r bs = Some (xs, rest)" for bs xs rest
  proof -
    from r obtain n bs' where "r_u64 bs = Some (n, bs')" "r_times (unat n) r bs' = Some (xs, rest)"
      by (auto simp: r_list_upto_def split: bind_splits if_splits)
    then show ?thesis using exactD [OF exact_u64] exact_times [OF e] by (fastforce simp: w_list_def)
  qed
  then show ?thesis by (simp add: exact_def)
qed

lemma exact_enum:
  assumes "\<And>raw v. enum_of_u8 elems raw = Some v \<Longrightarrow> enum_u8 ord v = raw"
  shows "exact (w_enum ord) (r_enum elems)"
  using assms by (auto simp: exact_def r_enum_def w_enum_def split: bind_splits dest!: exactD [OF exact_u8])

lemma exact_enums:
  "exact (w_enum ord_ResourceDomain) (r_enum all_ResourceDomain)"
  "exact (w_enum ord_MetricDirection) (r_enum all_MetricDirection)"
  "exact (w_enum ord_AttributionStrength) (r_enum all_AttributionStrength)"
  "exact (w_enum ord_EvidenceStatus) (r_enum all_EvidenceStatus)"
  "exact (w_enum ord_EvidenceLabel) (r_enum all_EvidenceLabel)"
  "exact (w_enum ord_InterventionClass) (r_enum all_InterventionClass)"
  by (rule exact_enum, blast dest: rd_code.of_u8_Some md_code.of_u8_Some as_code.of_u8_Some
      es_code.of_u8_Some el_code.of_u8_Some ic_code.of_u8_Some)+

lemmas exact_reads = exactD [OF exact_u64] exactD [OF exact_f64] exactD [OF exact_id] exactD [OF exact_str]
  exactD [OF exact_list_upto [OF exact_id]] exactD [OF exact_list_upto [OF exact_str]]
  exact_enums [THEN exactD]

lemma exact_hello: "exact encode_hello decode_hello"
  by (auto simp: exact_def decode_hello_def encode_hello_def split: bind_splits dest!: exact_reads)

lemma exact_action: "exact encode_action decode_action"
  by (auto simp: exact_def decode_action_def encode_action_def split: bind_splits dest!: exact_reads)

text \<open>Two acknowledgements of one message differ at most in how they write the flag.\<close>

lemma decode_ack_exact:
  assumes "decode_ack bs = Some (a, rest)"
  shows "\<exists>flag. bs = w_id (wk_id a) @ w_id (wk_attempt a) @ w_u8 flag @ w_str (wk_note a) @ rest
    \<and> (wk_acknowledged a \<longleftrightarrow> flag \<noteq> 0)"
  using assms by (fastforce simp: decode_ack_def r_bool_def split: bind_splits dest!: exact_reads exactD [OF exact_u8])

text \<open>An evidence message where an acknowledgement is expected: its neighbour count reads as a huge length.\<close>

lemma le_value_top: "le_value (bs @ [b]) = (le_value bs OR push_bit (8 * length bs) (ucast b) :: 'a :: len word)"
proof (induction bs)
  case (Cons x bs)
  show ?case by (rule bit_eqI) (auto simp: Cons bit_simps dest: bit_imp_le_length)
qed simp

lemma unat_bit_ge: "bit (w :: 'a :: len word) n \<Longrightarrow> 2 ^ n \<le> unat w"
proof -
  assume "bit w n"
  then have "bit (unat w) n" by (simp add: bit_unsigned_iff)
  then have "odd (unat w div 2 ^ n)" by (simp add: bit_iff_odd)
  then have "unat w div 2 ^ n \<noteq> 0" by (metis even_zero)
  then show ?thesis by (simp add: div_eq_0_iff not_less)
qed

lemma decode_ack_evidence:
  assumes "odd (length (ie_neighbors e))"
  shows "decode_ack (encode_evidence e @ rest) = None"
proof -
  obtain b0 bs b1 where v: "w_id (ie_victim e) = b0 # bs" "length bs = 7"
    by (cases "w_id (ie_victim e)") (auto simp: w_id_def dest: arg_cong [where f = length])
  obtain n0 ns where n: "w_u64 (word_of_nat (length (ie_neighbors e))) = n0 # ns" "bit n0 0"
  proof -
    have "w_u64 (word_of_nat (length (ie_neighbors e))) =
        ucast (word_of_nat (length (ie_neighbors e)) :: u64) # le_bytes 7 (drop_bit 8 (word_of_nat (length (ie_neighbors e)) :: u64))"
      by (simp add: w_u64_def numeral_eq_Suc)
    moreover have "bit (word_of_nat (length (ie_neighbors e)) :: u64) 0" using assms by (simp add: bit_0)
    then have "bit (ucast (word_of_nat (length (ie_neighbors e)) :: u64) :: u8) 0"
      by (simp only: bit_ucast_iff) simp
    ultimately show thesis by (rule that)
  qed
  have "r_str (bs @ [n0] @ tl) = None" for tl
  proof -
    have len: "r_u64 (bs @ [n0] @ tl) = Some (le_value (bs @ [n0]), tl)"
      using v(2) by (simp add: r_u64_def r_le_def)
    have "bit (le_value (bs @ [n0]) :: u64) 56"
      using v(2) n(2) by (simp add: le_value_top bit_simps)
    then have "2 ^ 56 \<le> unat (le_value (bs @ [n0]) :: u64)" by (rule unat_bit_ge)
    then have "kMaxStringLen < (le_value (bs @ [n0]) :: u64)"
      by (simp add: word_less_nat_alt unat_kMax)
    then show ?thesis using len by (simp add: r_str_def)
  qed
  moreover have "\<exists>tl. encode_evidence e @ rest =
      w_u64 (id_value (ie_id e)) @ w_u64 (id_value (ie_generation e)) @ [b0] @ bs @ [n0] @ tl"
    by (simp add: encode_evidence_def w_list_def v(1) n(1)) (simp add: w_id_def)
  ultimately show ?thesis by (auto simp: decode_ack_def basic_reads r_bool_def r_id_def)
qed

lemma decode_evidence_exact:
  assumes "decode_evidence e0 bs = Some (e, rest)"
  shows "bs = encode_evidence e @ rest \<and> ie_degradation e = ie_degradation e0 \<and> ie_improvement e = ie_improvement e0"
  using assms
  by (auto simp: decode_evidence_def encode_evidence_def split: bind_splits dest!: exact_reads)

section \<open>Sizes\<close>

lemma writer_lengths [simp]:
  "length (w_id i) = 8" "length (w_f64 d) = 8" "length (w_enum ord v) = 1" "length (w_bool b) = 1"
  "length (w_str s) = 8 + length s" "length (w_list w xs) = 8 + sum_list (map (length \<circ> w) xs)"
  by (simp_all add: w_id_def w_f64_def w_enum_def w_bool_def w_u8_def w_str_def w_list_def length_concat comp_def)

lemma encode_action_length: "length (encode_action a) = 33"
  by (simp add: encode_action_def)

lemma encode_ack_length: "length (encode_ack a) = 25 + length (wk_note a)"
  by (simp add: encode_ack_def)

lemma encode_evidence_length:
  "length (encode_evidence e) = 181 + 8 * length (ie_neighbors e) + length (ie_sourceId e)
     + length (ie_sourceHealth e) + sum_list (map (\<lambda>s. 8 + length s) (ie_unresolvedConfounders e))"
  by (simp add: encode_evidence_def comp_def sum_list_triv)

end
