(* ===== verification/CG_Store.thy ===== *)
theory CG_Store
  imports CG_Persistence CG_Governor
begin

text \<open>
  The state file: \<^verbatim>\<open>save_state\<close> and \<^verbatim>\<open>load_state\<close> of \<^verbatim>\<open>src/persistence.cpp\<close> and the operations
  \<^verbatim>\<open>open\<close>, \<^verbatim>\<open>save\<close> and \<^verbatim>\<open>load\<close> of \<^verbatim>\<open>src/governor.cpp\<close>. A file system maps paths to contents; what the
  operating system answers is an input. A save is the sequence of changes it makes, so that a
  crash is a prefix of it. The lemmas say what a crash leaves behind, and that what was saved
  is loaded.
\<close>

type_synonym files = "string \<Rightarrow> bytes option"

section \<open>Saving\<close>

datatype fs_op = Truncate string | Append string u8 | Remove string | Rename string string

fun apply_op :: "fs_op \<Rightarrow> files \<Rightarrow> files" where
  "apply_op (Truncate p) fs = fs(p \<mapsto> [])"
| "apply_op (Append p b) fs = fs(p \<mapsto> (case fs p of Some bs \<Rightarrow> bs | None \<Rightarrow> []) @ [b])"
| "apply_op (Remove p) fs = fs(p := None)"
| "apply_op (Rename p q) fs = (case fs p of None \<Rightarrow> fs | Some bs \<Rightarrow> fs(p := None, q \<mapsto> bs))"

text \<open>
  The answers of the operating system: whether the file can be opened, how many bytes are
  written before an error, whether the old file can be removed and the new one renamed.
\<close>

record SaveIo =
  si_open :: bool
  si_written :: nat
  si_remove :: bool
  si_rename :: bool

definition tmp_path :: "string \<Rightarrow> string" where
  "tmp_path path = path @ ''.tmp''"

text \<open>The changes of the file system in order. Only the Windows build removes the old file.\<close>

definition save_ops :: "bool \<Rightarrow> SaveIo \<Rightarrow> string \<Rightarrow> bytes \<Rightarrow> fs_op list" where
  "save_ops windows io path data =
     (if \<not> si_open io then []
      else Truncate (tmp_path path) # map (Append (tmp_path path)) (take (si_written io) data) @
        (if si_written io < length data then []
         else (if windows \<and> si_remove io then [Remove path] else []) @
              (if si_rename io then [Rename (tmp_path path) path] else [])))"

definition save_state :: "bool \<Rightarrow> SaveIo \<Rightarrow> string \<Rightarrow> GovernorState \<Rightarrow> files \<Rightarrow> bool \<times> Status \<times> files" where
  "save_state windows io path s fs =
     (let data = save_to_bytes s; fs' = fold apply_op (save_ops windows io path data) fs
      in if \<not> si_open io then (False, corrupt ''cannot open temp file'', fs')
         else if si_written io < length data then (False, corrupt ''write failed'', fs')
         else (True, status_good, fs'))"

section \<open>Loading\<close>

text \<open>Whether the file can be opened, its size determined and its contents read.\<close>

record LoadIo =
  li_open :: bool
  li_tell :: bool
  li_read :: bool

text \<open>When \<^verbatim>\<open>tellg\<close> fails it gives \<open>-1\<close>, as a size larger than any limit.\<close>

definition load_state :: "LoadIo \<Rightarrow> string \<Rightarrow> files \<Rightarrow> GovernorState \<Rightarrow> Status \<times> GovernorState" where
  "load_state io path fs s =
     (case (li_open io, fs path) of
        (True, Some buf) \<Rightarrow>
          if \<not> li_tell io \<or> length buf > 2 ^ 31 then (corrupt ''persistence file too large'', s)
          else if buf \<noteq> [] \<and> \<not> li_read io then (corrupt ''read failed'', s)
          else load_from_bytes buf s
      | _ \<Rightarrow> (corrupt ''cannot open persistence file'', s))"

section \<open>The governor's operations\<close>

text \<open>The state of \<^verbatim>\<open>Governor::Impl\<close>; the clock and the adapters are inputs of the operations.\<close>

record Governor =
  gv_state :: GovernorState
  gv_persistPath :: string
  gv_persistEnable :: bool

definition new_Governor :: "bool \<Rightarrow> string \<Rightarrow> Governor" where
  "new_Governor persistEnable persistPath =
     \<lparr>gv_state = default_GovernorState, gv_persistPath = persistPath, gv_persistEnable = persistEnable\<rparr>"

definition load_governor :: "LoadIo \<Rightarrow> files \<Rightarrow> Governor \<Rightarrow> Status \<times> Governor" where
  "load_governor io fs g =
     (if \<not> gv_persistEnable g \<or> gv_persistPath g = [] then (status_good, g)
      else let (st, s) = load_state io (gv_persistPath g) fs (gv_state g) in (st, g\<lparr>gv_state := s\<rparr>))"

text \<open>\<^verbatim>\<open>open\<close> does what \<^verbatim>\<open>load\<close> does.\<close>

definition open_governor :: "LoadIo \<Rightarrow> files \<Rightarrow> Governor \<Rightarrow> Status \<times> Governor" where
  "open_governor io fs g =
     (if \<not> gv_persistEnable g \<or> gv_persistPath g = [] then (status_good, g)
      else let (st, s) = load_state io (gv_persistPath g) fs (gv_state g) in (st, g\<lparr>gv_state := s\<rparr>))"

definition save_governor :: "bool \<Rightarrow> SaveIo \<Rightarrow> Governor \<Rightarrow> files \<Rightarrow> Status \<times> files" where
  "save_governor windows io g fs =
     (if \<not> gv_persistEnable g \<or> gv_persistPath g = [] then (status_good, fs)
      else let (_, st, fs') = save_state windows io (gv_persistPath g) (gv_state g) fs in (st, fs'))"

section \<open>What a save leaves behind\<close>

lemma tmp_path_neq [simp]: "tmp_path path \<noteq> path" "path \<noteq> tmp_path path"
  by (simp_all add: tmp_path_def)

text \<open>The writing of the temporary file.\<close>

lemma fold_append:
  "fold apply_op (map (Append p) bs) fs = (if bs = [] then fs else fs(p \<mapsto> (case fs p of Some xs \<Rightarrow> xs | None \<Rightarrow> []) @ bs))"
  by (induction bs arbitrary: fs) (auto simp: fun_eq_iff split: option.splits)

lemma fold_write:
  "fold apply_op (Truncate p # map (Append p) bs) fs = fs(p \<mapsto> bs)"
  by (simp add: fold_append)

text \<open>Operations that only concern the temporary file.\<close>

fun temporary :: "string \<Rightarrow> fs_op \<Rightarrow> bool" where
  "temporary p (Truncate q) \<longleftrightarrow> q = p"
| "temporary p (Append q b) \<longleftrightarrow> q = p"
| "temporary p (Remove q) \<longleftrightarrow> q = p"
| "temporary p (Rename q r) \<longleftrightarrow> q = p \<and> r = p"

lemma temporary_other: "list_all (temporary p) ops \<Longrightarrow> q \<noteq> p \<Longrightarrow> fold apply_op ops fs q = fs q"
proof (induction ops arbitrary: fs)
  case (Cons op ops)
  then show ?case by (cases op) (auto split: option.splits)
qed simp

definition written_ops :: "SaveIo \<Rightarrow> string \<Rightarrow> bytes \<Rightarrow> fs_op list" where
  "written_ops io path data = Truncate (tmp_path path) # map (Append (tmp_path path)) (take (si_written io) data)"

lemma written_ops_temporary: "list_all (temporary (tmp_path path)) (take k (written_ops io path data))"
  by (auto simp: written_ops_def list_all_iff dest!: in_set_takeD)

lemma fold_written: "fold apply_op (written_ops io path data) fs = fs(tmp_path path \<mapsto> take (si_written io) data)"
  by (simp only: written_ops_def fold_write)

lemma save_ops_written:
  "save_ops windows io path data =
     (if si_open io
      then written_ops io path data @
        (if si_written io < length data then []
         else (if windows \<and> si_remove io then [Remove path] else []) @
              (if si_rename io then [Rename (tmp_path path) path] else []))
      else [])"
  by (simp add: save_ops_def written_ops_def)

text \<open>A crash before the rename, with the temporary file in any state, and after it.\<close>

lemma save_posix_prefix:
  obtains (before) "list_all (temporary (tmp_path path)) (take k (save_ops False io path data))"
  | (after) "fold apply_op (take k (save_ops False io path data)) fs = fs(tmp_path path := None, path \<mapsto> data)"
proof (cases "k \<le> length (written_ops io path data) \<or> \<not> si_open io \<or> si_written io < length data \<or> \<not> si_rename io")
  case True
  have "take k (save_ops False io path data) = take (if si_open io then k else 0) (written_ops io path data)"
    using True by (auto simp: save_ops_written)
  then show thesis using before written_ops_temporary by metis
next
  case False
  then have "take k (save_ops False io path data) = written_ops io path data @ [Rename (tmp_path path) path]"
    by (simp add: save_ops_written take_Cons')
  then show thesis using False after by (simp add: fold_written)
qed

lemma save_crash:
  assumes "fs' = fold apply_op (take k (save_ops False io path data)) fs"
  shows "(fs' path = fs path \<or> fs' path = Some data) \<and> (p \<noteq> path \<and> p \<noteq> tmp_path path \<longrightarrow> fs' p = fs p)"
proof (cases rule: save_posix_prefix [where k = k and io = io and path = path and data = data and fs = fs])
  case before
  then show ?thesis using assms by (simp add: temporary_other)
next
  case after
  then show ?thesis using assms by simp
qed

text \<open>A crash on either platform. On Windows the old file may be gone, but then the temporary file is complete.\<close>

lemma save_crash_any:
  assumes "fs' = fold apply_op (take k (save_ops windows io path data)) fs"
  shows "fs' path = fs path \<or> fs' path = Some data
    \<or> windows \<and> si_remove io \<and> fs' path = None \<and> fs' (tmp_path path) = Some data"
proof (cases "k \<le> length (written_ops io path data) \<or> \<not> si_open io \<or> si_written io < length data")
  case True
  have "take k (save_ops windows io path data) = take (if si_open io then k else 0) (written_ops io path data)"
    using True by (auto simp: save_ops_written)
  then have "list_all (temporary (tmp_path path)) (take k (save_ops windows io path data))" using written_ops_temporary by metis
  then show ?thesis using assms by (simp add: temporary_other)
next
  case False
  define tail where "tail = (if windows \<and> si_remove io then [Remove path] else []) @ (if si_rename io then [Rename (tmp_path path) path] else [])"
  have "take k (save_ops windows io path data) = written_ops io path data @ take (k - length (written_ops io path data)) tail"
    using False by (simp add: save_ops_written tail_def)
  then show ?thesis
    using assms False by (auto simp: fold_written tail_def take_Cons')
qed

text \<open>A save that ran to its end.\<close>

lemma save_complete:
  assumes "si_open io" "length data \<le> si_written io"
  shows "fold apply_op (save_ops windows io path data) fs =
    (if si_rename io then fs(tmp_path path := None, path \<mapsto> data)
     else if windows \<and> si_remove io then fs(tmp_path path \<mapsto> data, path := None)
     else fs(tmp_path path \<mapsto> data))"
  using assms by (auto simp: save_ops_written fold_written fun_eq_iff)

lemma load_saved:
  assumes "storable st" "fs path = Some (save_to_bytes st)" "length (save_to_bytes st) \<le> 2 ^ 31"
    "li_open io" "li_tell io" "li_read io"
  shows "load_state io path fs s = (status_good, st)"
  using assms by (simp add: load_state_def load_save)

end
