(* ===== verification/CG_Cluster.thy ===== *)
theory CG_Cluster
  imports CG_Guarantees CG_Net CG_Dist CG_Store
begin

text \<open>
  The processes of \<^verbatim>\<open>dist/\<close>: the worker of \<^verbatim>\<open>worker.cpp\<close> as its first messages and its reaction
  to a frame, the throttle adapter and the run of \<^verbatim>\<open>coordinator.cpp\<close>. A connection holds the
  results of \<^verbatim>\<open>send(2)\<close> and \<^verbatim>\<open>recv(2)\<close> to come; a step that would wait for more of them is
  \<open>None\<close>. Configurations are given here; \<^verbatim>\<open>CG_Process\<close> reads them from the command line. The lemmas compose the parts: the answer of a
  worker, framed, cut into chunks and read back, is what the governor records.
\<close>

section \<open>Connections\<close>

record Connection =
  cn_valid :: bool
  cn_send :: "nat \<Rightarrow> nat \<Rightarrow> int"
  cn_calls :: nat
  cn_out :: bytes
  cn_rbuf :: bytes
  cn_recv :: "recv_result list"

text \<open>\<open>cn_send c k i\<close> is the result of the \<open>i\<close>-th \<^verbatim>\<open>send(2)\<close> within the \<open>k\<close>-th call of \<^verbatim>\<open>send\<close>.\<close>

definition conn_send :: "MsgType \<Rightarrow> bytes \<Rightarrow> Connection \<Rightarrow> Status \<times> Connection" where
  "conn_send type payload c =
     (let (st, sent) = send (cn_valid c) (cn_send c (cn_calls c)) type payload
      in (st, c\<lparr>cn_calls := cn_calls c + 1, cn_out := cn_out c @ sent\<rparr>))"

definition conn_receive :: "bool \<Rightarrow> Connection \<Rightarrow> (Status \<times> Frame option \<times> Connection) option" where
  "conn_receive blocking c =
     (case receive blocking (cn_rbuf c) (cn_recv c) of
        None \<Rightarrow> None
      | Some (st, f, rbuf, evs) \<Rightarrow> Some (st, f, c\<lparr>cn_rbuf := rbuf, cn_recv := evs\<rparr>))"

type_synonym connections = "(WorkloadId, Connection) omap"

section \<open>The worker\<close>

record WorkerConfig =
  wc_role :: string
  wc_boot :: u64
  wc_workerId :: u64
  wc_victim :: u64
  wc_neighbor :: u64
  wc_baseline :: double
  wc_corun :: double
  wc_postCorun :: double
  wc_dieAfterAck :: bool

definition worker_hello :: "WorkerConfig \<Rightarrow> WorkerHello" where
  "worker_hello cfg =
     \<lparr>wh_worker = Id (wc_workerId cfg), wh_boot = Id (wc_boot cfg), wh_workloadGen = Id 1, wh_role = wc_role cfg\<rparr>"

text \<open>
  A default-initialised \<^verbatim>\<open>InterferenceEvidence\<close>. Its \<^verbatim>\<open>domain\<close> has no initialiser; both users below
  assign it.
\<close>

definition default_InterferenceEvidence :: InterferenceEvidence where
  "default_InterferenceEvidence =
     \<lparr>ie_id = id_zero, ie_generation = id_zero, ie_victim = id_zero, ie_neighbors = [],
      ie_domain = RD_UNKNOWN, ie_metric = MD_HIGHER_IS_BETTER, ie_isolatedBaseline = f64_zero,
      ie_coRunObservation = f64_zero, ie_degradation = f64_zero, ie_improvement = f64_zero,
      ie_attribution = AS_UNKNOWN, ie_confidence = f64_zero, ie_sampleCount = 0,
      ie_unresolvedConfounders = [], ie_status = ES_UNKNOWN, ie_sampledAt = 0, ie_maxAgeMs = 0,
      ie_label = EL_SYNTHETIC, ie_sourceId = '''', ie_sourceHealth = '''', ie_workerBoot = id_zero,
      ie_workloadGeneration = id_zero, ie_deviceGeneration = id_zero, ie_hostGeneration = id_zero,
      ie_topologyGeneration = id_zero, ie_resourceGeneration = id_zero, ie_placementGeneration = id_zero,
      ie_activeFrom = 0, ie_activeUntil = 0\<rparr>"

text \<open>The local \<^verbatim>\<open>sample\<close> is 0 and never assigned.\<close>

definition worker_evidence :: "WorkerConfig \<Rightarrow> InterferenceEvidence" where
  "worker_evidence cfg = default_InterferenceEvidence
     \<lparr>ie_id := Id (1000 + wc_workerId cfg), ie_generation := Id 1,
      ie_victim := Id (if wc_victim cfg \<noteq> 0 then wc_victim cfg else wc_workerId cfg),
      ie_neighbors := [Id (if wc_neighbor cfg \<noteq> 0 then wc_neighbor cfg else wc_workerId cfg)],
      ie_domain := RD_COMPUTE, ie_metric := MD_HIGHER_IS_BETTER,
      ie_isolatedBaseline := wc_baseline cfg, ie_coRunObservation := wc_corun cfg,
      ie_degradation := compute_degradation MD_HIGHER_IS_BETTER (wc_baseline cfg) (wc_corun cfg),
      ie_attribution := AS_CONTROLLED_COMPARISON, ie_confidence := f64_lit 9 10, ie_sampleCount := 100 + 0,
      ie_status := ES_CURRENT, ie_sampledAt := 1000, ie_maxAgeMs := 5000, ie_label := EL_CONTROLLED,
      ie_workerBoot := Id (wc_boot cfg), ie_workloadGeneration := Id 1\<rparr>"

definition worker_post_evidence :: "WorkerConfig \<Rightarrow> InterferenceEvidence" where
  "worker_post_evidence cfg =
     (let e = worker_evidence cfg
      in e\<lparr>ie_id := Id (2000 + wc_workerId cfg), ie_generation := Id 2, ie_sampledAt := 3000,
           ie_coRunObservation := wc_postCorun cfg,
           ie_degradation := compute_degradation (ie_metric e) (ie_isolatedBaseline e) (wc_postCorun cfg)\<rparr>)"

text \<open>What a connected worker sends first.\<close>

definition worker_start :: "WorkerConfig \<Rightarrow> Frame list" where
  "worker_start cfg =
     [\<lparr>fm_type = MT_WORKER_STATUS, fm_payload = encode_hello (worker_hello cfg)\<rparr>,
      \<lparr>fm_type = MT_EVIDENCE, fm_payload = encode_evidence (worker_evidence cfg)\<rparr>]"

text \<open>The body of the loop: the frames sent in answer and whether the loop ends.\<close>

definition worker_react :: "WorkerConfig \<Rightarrow> Frame \<Rightarrow> Frame list \<times> bool" where
  "worker_react cfg f =
     (let post = \<lparr>fm_type = MT_EVIDENCE, fm_payload = encode_evidence (worker_post_evidence cfg)\<rparr>
      in if fm_type f = MT_ACTION_AUTHORIZE
         then (case decode_action (fm_payload f) of
                 None \<Rightarrow> ([], False)
               | Some (a, _) \<Rightarrow>
                   let ack = \<lparr>wk_id = wa_id a, wk_attempt = wa_attempt a, wk_acknowledged = True, wk_note = ''''\<rparr>
                   in ((if wc_role cfg = ''A'' then [post] else [])
                         @ [\<lparr>fm_type = MT_ACTION_ACK, fm_payload = encode_ack ack\<rparr>],
                       wc_dieAfterAck cfg))
         else if fm_type f = MT_SHUTDOWN then ([], True)
         else if fm_type f = MT_RPC_REQUEST then ([post], False)
         else ([], False))"

fun worker_loop :: "WorkerConfig \<Rightarrow> Frame list \<Rightarrow> Frame list" where
  "worker_loop cfg [] = []"
| "worker_loop cfg (f # fs) =
     (let (out, stop) = worker_react cfg f in out @ (if stop then [] else worker_loop cfg fs))"

section \<open>The throttle adapter over TCP\<close>

text \<open>
  \<^verbatim>\<open>TcpAdapters::Throttle::apply\<close>. The type of the answering frame and the ids in it are not
  looked at.
\<close>

definition adapter_result :: "AdapterOutcome \<Rightarrow> string \<Rightarrow> AttemptId \<Rightarrow> AdapterResult" where
  "adapter_result outcome text attempt = \<lparr>ar_outcome = outcome, ar_note = text, ar_attemptId = attempt\<rparr>"

definition tcp_apply ::
  "connections \<Rightarrow> AttemptId \<Rightarrow> WorkloadId \<Rightarrow> InterventionClass \<Rightarrow> double \<Rightarrow> (AdapterResult \<times> connections) option" where
  "tcp_apply conns attempt target cls intensity =
     (case om_find conns target of
        None \<Rightarrow> Some (adapter_result AO_UNAVAILABLE ''no worker for target'' attempt, conns)
      | Some conn \<Rightarrow>
      (let a = \<lparr>wa_id = Id 1, wa_cls = cls, wa_target = target, wa_attempt = attempt, wa_intensity = intensity\<rparr>;
           (st, conn) = conn_send MT_ACTION_AUTHORIZE (encode_action a) conn
       in if \<not> status_ok st
          then Some (adapter_result AO_UNKNOWN ''send failed'' attempt, om_put target conn conns)
          else case conn_receive True conn of
            None \<Rightarrow> None
          | Some (st, f, conn) \<Rightarrow>
              let conns = om_put target conn conns
              in (case (status_ok st, f) of
                    (True, Some f) \<Rightarrow>
                      (case decode_ack (fm_payload f) of
                         None \<Rightarrow> Some (adapter_result AO_UNKNOWN ''bad ack'' attempt, conns)
                       | Some (ack, _) \<Rightarrow>
                           Some (adapter_result (if wk_acknowledged ack then AO_ACCEPTED else AO_REJECTED)
                                   (wk_note ack) attempt, conns))
                  | _ \<Rightarrow> Some (adapter_result AO_UNKNOWN ''no ack'' attempt, conns))))"

text \<open>\<^verbatim>\<open>g.dispatch\<close> with this adapter behind the registry.\<close>

definition tcp_dispatch ::
  "connections \<Rightarrow> InterventionId \<Rightarrow> TimeMs \<Rightarrow> GovernorState \<Rightarrow> ((Status \<times> GovernorState) \<times> connections) option" where
  "tcp_dispatch conns iid now st =
     (case dispatch_begin iid now st of
        (Inl refused, st') \<Rightarrow> Some ((refused, st'), conns)
      | (Inr (cls, target, attempt), st') \<Rightarrow>
          if throttle_class cls
          then (case tcp_apply conns attempt target cls f64_one of
                  None \<Rightarrow> None
                | Some (res, conns') \<Rightarrow> Some (dispatch_finish iid res st', conns'))
          else Some (dispatch_finish iid (call_adapter (Some (throttle_registry None)) cls target attempt) st', conns))"

section \<open>The coordinator\<close>

text \<open>
  The end of a run: exit code, the lines written to standard output, the connections and the
  governor's last state, or the undefined behaviour it ran into.
\<close>

datatype coordinator_end = Exit nat "string list" connections GovernorState | Undefined undefined_behaviour

text \<open>
  The loop over the two workers. Each element of \<open>accepted\<close> is the result of
  \<^verbatim>\<open>listener.accept\<close>; \<open>Inl\<close> is the exit code of an early return.
\<close>

fun collect_workers ::
  "nat \<Rightarrow> Connection option list \<Rightarrow> connections \<Rightarrow> GovernorState
    \<Rightarrow> ((nat \<times> connections \<times> GovernorState) + (connections \<times> GovernorState)) option" where
  "collect_workers 0 accepted conns g = Some (Inr (conns, g))"
| "collect_workers (Suc n) [] conns g = None"
| "collect_workers (Suc n) (None # accepted) conns g = Some (Inl (4, conns, g))"
| "collect_workers (Suc n) (Some c # accepted) conns g =
     (case conn_receive True c of
        None \<Rightarrow> None
      | Some (rs, f, c) \<Rightarrow>
      (case (status_ok rs, f) of
         (True, Some f) \<Rightarrow>
           if fm_type f \<noteq> MT_WORKER_STATUS then Some (Inl (5, conns, g))
           else (case decode_hello (fm_payload f) of
             None \<Rightarrow> Some (Inl (6, conns, g))
           | Some (hello, _) \<Rightarrow>
           (let wl = Id (id_value (wh_worker hello)) :: WorkloadId;
                g = snd (record_worker_boot wl (wh_boot hello) g);
                g = snd (record_workload_generation wl (wh_workloadGen hello) g)
            in case conn_receive True c of
                 None \<Rightarrow> None
               | Some (es, ev, c) \<Rightarrow>
               (case (status_ok es, ev) of
                  (True, Some ev) \<Rightarrow>
                    if fm_type ev \<noteq> MT_EVIDENCE then Some (Inl (7, om_put wl c conns, g))
                    else (case decode_evidence default_InterferenceEvidence (fm_payload ev) of
                      None \<Rightarrow> Some (Inl (8, om_put wl c conns, g))
                    | Some (e, _) \<Rightarrow>
                        collect_workers n accepted (om_put wl c conns) (snd (ingest_evidence e g)))
                | _ \<Rightarrow> Some (Inl (7, om_put wl c conns, g)))))
       | _ \<Rightarrow> Some (Inl (5, conns, g))))"

text \<open>The loop of the mode \<^verbatim>\<open>persist\<close> on the first connection, which it leaves so when it ends.\<close>

lemma conn_receive_shorter:
  "conn_receive False c = Some (st, f, c') \<Longrightarrow> status_ok st \<Longrightarrow> length (cn_rbuf c') < length (cn_rbuf c)"
  by (auto simp: conn_receive_def receive.simps [of False] protocol_error_def status_bad_def status_ok_def Let_def
      dest: scan_frame_shorter split: option.splits scan.splits list.splits recv_result.splits if_splits)

function drain :: "Connection \<Rightarrow> Connection option" where
  "drain c =
     (case conn_receive False c of
        None \<Rightarrow> None
      | Some (st, f, c') \<Rightarrow> if status_ok st then drain c' else Some c')"
  by pat_completeness auto
termination by (relation "measure (\<lambda>c. length (cn_rbuf c))") (auto dest: conn_receive_shorter)

declare drain.simps [simp del]

fun drain_first :: "connections \<Rightarrow> connections option" where
  "drain_first [] = Some []"
| "drain_first ((w, c) # conns) = map_option (\<lambda>c'. (w, c') # conns) (drain c)"

text \<open>The measurement asked of the victim after the action.\<close>

definition request_post_evidence ::
  "connections \<Rightarrow> WorkloadId \<Rightarrow> GovernorState \<Rightarrow> (connections \<times> GovernorState) option" where
  "request_post_evidence conns victim g =
     (case om_find conns victim of
        None \<Rightarrow> Some (conns, g)
      | Some c \<Rightarrow>
          (case conn_receive True (snd (conn_send MT_RPC_REQUEST [1] c)) of
             None \<Rightarrow> None
           | Some (ps, pe, c) \<Rightarrow>
               let conns = om_put victim c conns
               in (case pe of
                     Some pe \<Rightarrow>
                       if status_ok ps \<and> fm_type pe = MT_EVIDENCE
                       then (case decode_evidence default_InterferenceEvidence (fm_payload pe) of
                               Some (post, _) \<Rightarrow> Some (conns, snd (submit_post_action_evidence post g))
                             | None \<Rightarrow> Some (conns, g))
                       else Some (conns, g)
                   | None \<Rightarrow> Some (conns, g))))"

text \<open>
  The rest of a run once the intervention is authorized and dispatched. The result is the end of
  the run, unless it waits for the network, and the file system then; \<open>save\<close> is the effect of
  \<^verbatim>\<open>g.save()\<close> on it.
\<close>

definition coordinator_after ::
  "(GovernorState \<Rightarrow> files \<Rightarrow> files) \<Rightarrow> string \<Rightarrow> ConflictId \<Rightarrow> InterventionId \<Rightarrow> TimeMs \<Rightarrow> connections
    \<Rightarrow> GovernorState \<Rightarrow> files \<Rightarrow> coordinator_end option \<times> files" where
  "coordinator_after save mode cid iid now conns g fs =
     (if mode = ''persist''
      then (case drain_first conns of
              None \<Rightarrow> None
            | Some conns \<Rightarrow> Some (Exit 0 [''PERSISTED '' @ dec_string (id_value iid)] conns g), save g fs)
      else if mode = ''resume''
      then (case tcp_dispatch conns iid now g of
              None \<Rightarrow> None
            | Some ((stale, g), conns) \<Rightarrow>
                Some (Exit 0 [''RESUME_DISPATCH '' @ to_string_StatusCode (st_code stale)] conns g), fs)
      else (case conflict_of cid g of
             None \<Rightarrow> Some (Undefined Deref_end)
           | Some c \<Rightarrow>
               if cc_affected c = [] then Some (Undefined Deref_end)
               else (case request_post_evidence conns (last (cc_affected c)) g of
                       None \<Rightarrow> None
                     | Some (conns, g) \<Rightarrow>
                         Some (Exit 0 [''OK '' @ (case conflict_of cid g of
                             Some c \<Rightarrow> to_string_ConflictState (cc_state c) | None \<Rightarrow> ''missing'')] conns g)), fs))"

text \<open>From the list of conflicts on.\<close>

definition coordinator_act ::
  "(GovernorState \<Rightarrow> files \<Rightarrow> files) \<Rightarrow> string \<Rightarrow> connections \<Rightarrow> TimeMs \<Rightarrow> TimeMs \<Rightarrow> TimeMs \<Rightarrow> GovernorState \<Rightarrow> files
    \<Rightarrow> coordinator_end option \<times> files" where
  "coordinator_act save mode conns now now' now'' g fs =
     (case conflict_ids g of
        [] \<Rightarrow> (Some (Exit 9 [] conns g), fs)
      | cid # _ \<Rightarrow>
          (case authorize cid IC_THROTTLE now g of
             Inl ub \<Rightarrow> (Some (Undefined ub), fs)
           | Inr (None, g) \<Rightarrow> (Some (Exit 0 [''NO_LEGAL_INTERVENTION''] conns g), fs)
           | Inr (Some iid, g) \<Rightarrow>
               (case tcp_dispatch conns iid now' g of
                  None \<Rightarrow> (None, fs)
                | Some ((ds, g), conns) \<Rightarrow>
                    if st_code ds \<noteq> SC_OK
                    then (Some (Exit 0 [''DISPATCH_REJECTED '' @ to_string_StatusCode (st_code ds)] conns g), fs)
                    else coordinator_after save mode cid iid now'' conns g fs)))"

text \<open>
  \<^verbatim>\<open>main\<close> after the listener is up. \<open>loaded\<close> is the result of \<^verbatim>\<open>g.load()\<close> in the mode
  \<^verbatim>\<open>resume\<close>, and \<open>now\<close>, \<open>now'\<close>, \<open>now''\<close> are what the clock reads in the authorization and the
  dispatches.
\<close>

definition coordinator_start :: "string \<Rightarrow> Status \<times> GovernorState \<Rightarrow> GovernorState" where
  "coordinator_start mode loaded =
     (if mode = ''resume'' then snd (advance_epoch (snd loaded)) else default_GovernorState)"

definition coordinator ::
  "(GovernorState \<Rightarrow> files \<Rightarrow> files) \<Rightarrow> string \<Rightarrow> Status \<times> GovernorState \<Rightarrow> Connection option list
    \<Rightarrow> TimeMs \<Rightarrow> TimeMs \<Rightarrow> TimeMs \<Rightarrow> files \<Rightarrow> coordinator_end option \<times> files" where
  "coordinator save mode loaded accepted now now' now'' fs =
     (if mode = ''resume'' \<and> \<not> status_ok (fst loaded) then (Some (Exit 3 [] [] default_GovernorState), fs)
      else case collect_workers 2 accepted [] (coordinator_start mode loaded) of
             None \<Rightarrow> (None, fs)
           | Some (Inl (code, conns, g)) \<Rightarrow> (Some (Exit code [] conns g), fs)
           | Some (Inr (conns, g)) \<Rightarrow> coordinator_act save mode conns now now' now'' g fs)"

section \<open>An action and its answer\<close>

definition action_of :: "AttemptId \<Rightarrow> WorkloadId \<Rightarrow> InterventionClass \<Rightarrow> double \<Rightarrow> WireAction" where
  "action_of attempt target cls intensity =
     \<lparr>wa_id = Id 1, wa_cls = cls, wa_target = target, wa_attempt = attempt, wa_intensity = intensity\<rparr>"

definition action_frame :: "AttemptId \<Rightarrow> WorkloadId \<Rightarrow> InterventionClass \<Rightarrow> double \<Rightarrow> Frame" where
  "action_frame attempt target cls intensity =
     \<lparr>fm_type = MT_ACTION_AUTHORIZE, fm_payload = encode_action (action_of attempt target cls intensity)\<rparr>"

text \<open>A connection over which sends make progress.\<close>

definition ready :: "Connection \<Rightarrow> bool" where
  "ready c \<longleftrightarrow> cn_valid c \<and> (\<forall>k i. 0 < cn_send c k i)"

text \<open>The peer's frames, cut into chunks in any way, are what is to be received.\<close>

definition answers :: "Connection \<Rightarrow> Frame list \<Rightarrow> bool" where
  "answers c fs \<longleftrightarrow> (\<exists>chunks. (\<forall>chunk \<in> set chunks. chunk_ok chunk) \<and> cn_recv c = map Recv chunks
     \<and> cn_rbuf c @ concat chunks = encode_frames fs)"

lemma conn_send_ready:
  assumes "ready c" "fits payload"
  shows "conn_send type payload c =
    (status_good, c\<lparr>cn_calls := cn_calls c + 1, cn_out := cn_out c @ encode_frame type payload\<rparr>)"
  using assms by (simp add: conn_send_def send_def ready_def fits_def kMaxFramePayload_def write_all_progress)

lemma conn_receive_answer:
  assumes "answers c (f # fs)" "roomy (fm_payload f)"
  shows "\<exists>rbuf evs. conn_receive True c = Some (status_good, Some f, c\<lparr>cn_rbuf := rbuf, cn_recv := evs\<rparr>)
    \<and> answers (c\<lparr>cn_rbuf := rbuf, cn_recv := evs\<rparr>) fs"
proof -
  from assms(1) obtain chunks where "\<forall>chunk \<in> set chunks. chunk_ok chunk" "cn_recv c = map Recv chunks"
    "cn_rbuf c @ concat chunks = encode_frame (fm_type f) (fm_payload f) @ encode_frames fs"
    by (auto simp: answers_def)
  from receive_frame [OF assms(2) this(1,3)] this(1,2) show ?thesis
    by (fastforce simp: conn_receive_def answers_def)
qed

text \<open>The adapter's result is what its peer's first frame decodes to.\<close>

lemma tcp_apply_answer:
  assumes "om_find conns target = Some c" "ready c" "answers c (f # fs)" "roomy (fm_payload f)"
  shows "\<exists>conns'. tcp_apply conns attempt target cls intensity = Some (
      (case decode_ack (fm_payload f) of
         None \<Rightarrow> adapter_result AO_UNKNOWN ''bad ack'' attempt
       | Some (ack, _) \<Rightarrow> adapter_result (if wk_acknowledged ack then AO_ACCEPTED else AO_REJECTED) (wk_note ack) attempt),
      conns')
    \<and> (\<exists>c'. conns' = om_put target c' conns \<and> answers c' fs
         \<and> cn_out c' = cn_out c @ encode_frames [action_frame attempt target cls intensity])"
proof -
  let ?p = "encode_action (action_of attempt target cls intensity)"
  define c1 where "c1 = c\<lparr>cn_calls := cn_calls c + 1, cn_out := cn_out c @ encode_frame MT_ACTION_AUTHORIZE ?p\<rparr>"
  have send: "conn_send MT_ACTION_AUTHORIZE ?p c = (status_good, c1)"
    unfolding c1_def by (rule conn_send_ready [OF assms(2)]) (simp add: fits_def encode_action_length)
  have "answers c1 (f # fs)" using assms(3) by (simp add: answers_def c1_def)
  from conn_receive_answer [OF this assms(4)] obtain rbuf evs where
    recv: "conn_receive True c1 = Some (status_good, Some f, c1\<lparr>cn_rbuf := rbuf, cn_recv := evs\<rparr>)"
      "answers (c1\<lparr>cn_rbuf := rbuf, cn_recv := evs\<rparr>) fs" by blast
  show ?thesis
    using send recv
    by (auto simp: tcp_apply_def assms(1) Let_def c1_def action_frame_def action_of_def split: option.split
        intro!: exI [of _ "c1\<lparr>cn_rbuf := rbuf, cn_recv := evs\<rparr>"])
qed

text \<open>What a worker answers to the adapter's frame, and how that decodes.\<close>

lemma worker_answer:
  "fst (worker_react cfg (action_frame attempt target cls intensity)) =
     (if wc_role cfg = ''A''
      then [\<lparr>fm_type = MT_EVIDENCE, fm_payload = encode_evidence (worker_post_evidence cfg)\<rparr>] else [])
     @ [\<lparr>fm_type = MT_ACTION_ACK, fm_payload = encode_ack
          \<lparr>wk_id = Id 1, wk_attempt = attempt, wk_acknowledged = True, wk_note = ''''\<rparr>\<rparr>]"
  using round_trip_action [THEN round_tripD, of "action_of attempt target cls intensity" "[]"]
  by (simp add: worker_react_def action_frame_def action_of_def Let_def)

lemma worker_evidence_sel:
  "ie_unresolvedConfounders (worker_evidence cfg) = []" "length (ie_neighbors (worker_evidence cfg)) = 1"
  "ie_sourceId (worker_evidence cfg) = ''''" "ie_sourceHealth (worker_evidence cfg) = ''''"
  "ie_attribution (worker_evidence cfg) = AS_CONTROLLED_COMPARISON"
  by (simp_all add: worker_evidence_def default_InterferenceEvidence_def)

lemma worker_post_evidence_sel:
  "ie_unresolvedConfounders (worker_post_evidence cfg) = []" "length (ie_neighbors (worker_post_evidence cfg)) = 1"
  "ie_sourceId (worker_post_evidence cfg) = ''''" "ie_sourceHealth (worker_post_evidence cfg) = ''''"
  "ie_attribution (worker_post_evidence cfg) = AS_CONTROLLED_COMPARISON"
  by (simp_all add: worker_post_evidence_def worker_evidence_sel Let_def)

lemma worker_messages_sendable:
  "sendable_evidence (worker_evidence cfg)" "sendable_evidence (worker_post_evidence cfg)"
  by (simp_all add: sendable_evidence_def worker_evidence_sel worker_post_evidence_sel short_def)

lemma worker_messages_roomy:
  "roomy (encode_evidence (worker_evidence cfg))" "roomy (encode_evidence (worker_post_evidence cfg))"
  "roomy (encode_ack \<lparr>wk_id = i, wk_attempt = attempt, wk_acknowledged = ok, wk_note = ''''\<rparr>)"
  by (simp_all add: roomy_def encode_evidence_length worker_evidence_sel worker_post_evidence_sel encode_ack_length)

text \<open>What of the answer is still to be read: the acknowledgement behind a role \<^verbatim>\<open>A\<close> worker's evidence.\<close>

definition unread_answer :: "WorkerConfig \<Rightarrow> AttemptId \<Rightarrow> Frame list" where
  "unread_answer cfg attempt =
     (if wc_role cfg = ''A''
      then [\<lparr>fm_type = MT_ACTION_ACK, fm_payload = encode_ack
              \<lparr>wk_id = Id 1, wk_attempt = attempt, wk_acknowledged = True, wk_note = ''''\<rparr>\<rparr>]
      else [])"

lemma tcp_apply_worker:
  assumes "om_find conns target = Some c" "ready c"
    "answers c (fst (worker_react cfg (action_frame attempt target cls intensity)))"
  shows "\<exists>c'. tcp_apply conns attempt target cls intensity =
    Some (if wc_role cfg = ''A'' then adapter_result AO_UNKNOWN ''bad ack'' attempt
          else adapter_result AO_ACCEPTED '''' attempt, om_put target c' conns)
    \<and> cn_out c' = cn_out c @ encode_frames [action_frame attempt target cls intensity]
    \<and> answers c' (unread_answer cfg attempt)"
proof (cases "wc_role cfg = ''A''")
  case True
  have "decode_ack (encode_evidence (worker_post_evidence cfg)) = None"
    using decode_ack_evidence [of "worker_post_evidence cfg" "[]"] by (simp add: worker_post_evidence_sel)
  with True tcp_apply_answer [OF assms(1,2)] assms(3) worker_messages_roomy(2) show ?thesis
    by (fastforce simp: worker_answer unread_answer_def)
next
  case False
  let ?ack = "\<lparr>wk_id = Id 1, wk_attempt = attempt, wk_acknowledged = True, wk_note = ''''\<rparr>"
  have "decode_ack (encode_ack ?ack) = Some (?ack, [])"
    using round_trip_ack [THEN round_tripD, of ?ack "[]"] by (simp add: short_def)
  with False tcp_apply_answer [OF assms(1,2)] assms(3) worker_messages_roomy(3) show ?thesis
    by (fastforce simp: worker_answer unread_answer_def)
qed

section \<open>The adapter behind the governor\<close>

text \<open>A dispatch over TCP is a dispatch with some adapter: what holds for all adapters holds for it.\<close>

lemma tcp_dispatch_dispatch:
  assumes "tcp_dispatch conns iid now st = Some (r, conns')"
  shows "\<exists>adapters. r = dispatch adapters iid now st"
proof (cases "dispatch_begin iid now st")
  case (Pair what st')
  show ?thesis
  proof (cases what)
    case (Inl refused)
    then show ?thesis using assms Pair by (auto simp: tcp_dispatch_def dispatch_def)
  next
    case (Inr call)
    obtain cls target attempt where call: "call = (cls, target, attempt)" by (cases call)
    show ?thesis
    proof (cases "throttle_class cls")
      case True
      then obtain res where "r = dispatch_finish iid res st'"
        using assms Pair Inr call by (auto simp: tcp_dispatch_def split: option.splits)
      then show ?thesis
        using True Pair Inr call
        by (intro exI [of _ "Some (throttle_registry (Some \<lparr>throttle_name = '''', throttle_apply = \<lambda>_ _ _ _. res\<rparr>))"]) (auto simp: dispatch_def call_adapter_def)
    next
      case False
      then show ?thesis
        using assms Pair Inr call
        by (intro exI [of _ "Some (throttle_registry None)"]) (simp add: tcp_dispatch_def dispatch_def)
    qed
  qed
qed

lemma tcp_dispatch_inv: "gov_inv st \<Longrightarrow> tcp_dispatch conns iid now st = Some ((status, st'), conns') \<Longrightarrow> gov_inv st'"
  using tcp_dispatch_dispatch dispatch_inv by (metis snd_conv)

text \<open>A current authorization of a throttling class, dispatched to a worker.\<close>

lemma tcp_dispatch_worker:
  assumes i: "om_find (es_interventions (gs_engine st)) iid = Some i" "ir_state i = LS_AUTHORIZED"
    "fence_current (es_authority (gs_engine st)) (ir_fence i) (ir_target i)" "throttle_class (ir_cls i)"
    and c: "om_find conns (ir_target i) = Some c" "ready c"
    "answers c (fst (worker_react cfg (action_frame (ir_attemptId i) (ir_target i) (ir_cls i) f64_one)))"
  shows "\<exists>st' c' i'. tcp_dispatch conns iid now st = Some ((status_good, st'), om_put (ir_target i) c' conns)
    \<and> cn_out c' = cn_out c @ encode_frames [action_frame (ir_attemptId i) (ir_target i) (ir_cls i) f64_one]
    \<and> answers c' (unread_answer cfg (ir_attemptId i))
    \<and> om_find (es_interventions (gs_engine st')) iid = Some i'
    \<and> ir_state i' = (if wc_role cfg = ''A'' then LS_OUTCOME_UNKNOWN else LS_ACKNOWLEDGED)"
proof -
  obtain c' where c': "tcp_apply conns (ir_attemptId i) (ir_target i) (ir_cls i) f64_one =
    Some (if wc_role cfg = ''A'' then adapter_result AO_UNKNOWN ''bad ack'' (ir_attemptId i)
          else adapter_result AO_ACCEPTED '''' (ir_attemptId i), om_put (ir_target i) c' conns)"
    "cn_out c' = cn_out c @ encode_frames [action_frame (ir_attemptId i) (ir_target i) (ir_cls i) f64_one]"
    "answers c' (unread_answer cfg (ir_attemptId i))"
    using tcp_apply_worker [OF c] by blast
  have "\<exists>st' i'. tcp_dispatch conns iid now st = Some ((status_good, st'), om_put (ir_target i) c' conns)
    \<and> om_find (es_interventions (gs_engine st')) iid = Some i'
    \<and> ir_state i' = (if wc_role cfg = ''A'' then LS_OUTCOME_UNKNOWN else LS_ACKNOWLEDGED)"
    using c'(1) i by (simp add: tcp_dispatch_def dispatch_begin_def revalidate_good Let_def dispatch_finish_def
        put_intervention_def apply_outcome_def adapter_result_def status_good_def del: throttle_class.simps)
  then show ?thesis using c'(2,3) by blast
qed

section \<open>Runs of the coordinator\<close>

lemma collect_workers_inv:
  "gov_inv g \<Longrightarrow> collect_workers n accepted conns g = Some r \<Longrightarrow>
     (case r of Inl (code, conns', g') \<Rightarrow> gov_inv g' | Inr (conns', g') \<Rightarrow> gov_inv g')"
  by (induction n accepted conns g rule: collect_workers.induct)
    (auto simp: Let_def record_worker_boot_inv record_workload_generation_inv ingest_evidence_inv
      split: option.splits if_splits bool.splits)

lemma request_post_evidence_inv:
  "gov_inv g \<Longrightarrow> request_post_evidence conns victim g = Some (conns', g') \<Longrightarrow> gov_inv g'"
  by (auto simp: request_post_evidence_def submit_post_action_evidence_inv Let_def split: option.splits if_splits)

text \<open>A dispatch leaves the conflicts as they are.\<close>

lemma dispatch_conflicts:
  "es_conflicts (gs_engine (snd (dispatch adapters iid now st))) = es_conflicts (gs_engine st)"
  by (auto simp: dispatch_def dispatch_begin_def dispatch_finish_def put_intervention_def Let_def
      split: option.splits sum.splits prod.splits)

text \<open>An end without undefined behaviour and in a well formed state.\<close>

definition proper_end :: "coordinator_end option \<Rightarrow> bool" where
  "proper_end r \<longleftrightarrow> (case r of None \<Rightarrow> True | Some (Exit code out conns g) \<Rightarrow> gov_inv g | Some (Undefined _) \<Rightarrow> False)"

text \<open>The file system is as before, or a well formed state was saved.\<close>

definition proper_files :: "(GovernorState \<Rightarrow> files \<Rightarrow> files) \<Rightarrow> files \<Rightarrow> files \<Rightarrow> bool" where
  "proper_files save fs fs' \<longleftrightarrow> fs' = fs \<or> (\<exists>g. gov_inv g \<and> fs' = save g fs)"

lemma proper_simps [simp]:
  "proper_end None" "proper_end (Some (Exit code out conns g)) \<longleftrightarrow> gov_inv g" "\<not> proper_end (Some (Undefined u))"
  "proper_files save fs fs"
  by (simp_all add: proper_end_def proper_files_def)

lemma coordinator_after_inv:
  assumes "gov_inv g" "om_find (es_conflicts (gs_engine g)) cid = Some c"
    "coordinator_after save mode cid iid now conns g fs = (r, fs')"
  shows "proper_end r \<and> proper_files save fs fs'"
proof -
  have "cc_affected c \<noteq> []"
    using engine_invD(4) [of "gs_engine g"] assms(1,2) by (auto simp: gov_inv_def conflict_ok_def)
  then show ?thesis
    using assms tcp_dispatch_inv [OF assms(1)] request_post_evidence_inv [OF assms(1)]
    by (auto simp: coordinator_after_def conflict_of_def proper_files_def split: if_splits option.splits)
qed

lemma conflict_ids_stored: "om_find (es_conflicts (gs_engine g)) cid \<noteq> None \<longleftrightarrow> cid \<in> set (conflict_ids g)"
  by (simp add: conflict_ids_def map_of_eq_None_iff)

lemma authorize_conflict_kept:
  "authorize cid cls now st = Inr (Some iid, st') \<Longrightarrow> om_find (es_conflicts (gs_engine st')) cid \<noteq> None"
  by (auto elim!: authorize_granted)

lemma coordinator_act_inv:
  assumes g: "gov_inv g" and run: "coordinator_act save mode conns now now' now'' g fs = (r, fs')"
  shows "proper_end r \<and> proper_files save fs fs'"
proof (cases "conflict_ids g")
  case (Cons cid rest)
  obtain ires g1 where auth: "authorize cid IC_THROTTLE now g = Inr (ires, g1)"
    using authorize_defined [OF g] by blast
  have g1: "gov_inv g1" by (rule authorize_inv [OF g auth])
  show ?thesis
  proof (cases "\<exists>iid ds g2 conns2. ires = Some iid \<and> tcp_dispatch conns iid now' g1 = Some ((ds, g2), conns2)")
    case True
    then obtain iid ds g2 conns2 where Some: "ires = Some iid"
      and dis: "tcp_dispatch conns iid now' g1 = Some ((ds, g2), conns2)" by blast
    have g2: "gov_inv g2" by (rule tcp_dispatch_inv [OF g1 dis])
    have "es_conflicts (gs_engine g2) = es_conflicts (gs_engine g1)"
      using tcp_dispatch_dispatch [OF dis] dispatch_conflicts by (metis snd_conv)
    then obtain c where "om_find (es_conflicts (gs_engine g2)) cid = Some c"
      using authorize_conflict_kept [of cid IC_THROTTLE now g iid g1] auth Some by auto
    then show ?thesis
      using coordinator_after_inv [OF g2] run Cons auth Some dis g2
      by (auto simp: coordinator_act_def split: if_splits)
  qed (use run Cons auth g1 in \<open>auto simp: coordinator_act_def split: option.splits\<close>)
qed (use g run in \<open>auto simp: coordinator_act_def\<close>)

lemma coordinator_inv:
  assumes "mode = ''resume'' \<Longrightarrow> gov_inv (snd loaded)"
    "coordinator save mode loaded accepted now now' now'' fs = (r, fs')"
  shows "proper_end r \<and> proper_files save fs fs'"
proof -
  have "gov_inv (coordinator_start mode loaded)"
    using assms(1) by (simp add: coordinator_start_def default_state_inv advance_epoch_inv)
  note coll = collect_workers_inv [OF this]
  show ?thesis
  proof (cases "collect_workers 2 accepted [] (coordinator_start mode loaded)")
    case (Some cr)
    then show ?thesis
      using assms(2) coll [OF Some] coordinator_act_inv [of _ save mode]
      by (auto simp: coordinator_def default_state_inv split: if_splits sum.splits)
  qed (use assms(2) in \<open>auto simp: coordinator_def default_state_inv split: if_splits\<close>)
qed

section \<open>The handshake\<close>

text \<open>What the governor makes of a worker's first messages.\<close>

definition join :: "WorkerConfig \<Rightarrow> GovernorState \<Rightarrow> GovernorState" where
  "join cfg g =
     (let wl = Id (wc_workerId cfg)
      in snd (ingest_evidence (worker_evidence cfg)
           (snd (record_workload_generation wl (Id 1) (snd (record_worker_boot wl (Id (wc_boot cfg)) g))))))"

text \<open>A worker whose measurement has a finite degradation and whose role is not a megabyte long.\<close>

definition regular :: "WorkerConfig \<Rightarrow> bool" where
  "regular cfg \<longleftrightarrow> f64_isfinite (ie_degradation (worker_evidence cfg)) \<and> length (wc_role cfg) \<le> 2 ^ 19"

lemma ingest_recomputes:
  assumes "f64_isfinite (ie_degradation e)" "\<not> f64_lt (ie_degradation e) f64_zero"
  shows "ingest_evidence (e\<lparr>ie_degradation := f64_zero, ie_improvement := i\<rparr>) st = ingest_evidence e st"
proof -
  let ?e = "e\<lparr>ie_degradation := f64_zero, ie_improvement := i\<rparr>"
  have same: "validate_evidence ?e = validate_evidence e" "with_fractions ?e = with_fractions e"
    using assms by (simp_all add: structurally_valid_def with_fractions_def validate_evidence_def)
  show ?thesis unfolding ingest_evidence_def same ..
qed

lemma worker_degradation_nonneg: "\<not> f64_lt (ie_degradation (worker_evidence cfg)) f64_zero"
proof -
  have "f64_le f64_zero (ie_degradation (worker_evidence cfg))"
    by (simp add: worker_evidence_def compute_degradation_nonneg)
  then show ?thesis by (auto simp: f64_cmp_defs)
qed

lemma collect_worker:
  assumes "regular cfg" "answers c (worker_start cfg @ fs)"
  shows "\<exists>c'. answers c' fs \<and> (ready c \<longrightarrow> ready c') \<and> cn_out c' = cn_out c
    \<and> collect_workers (Suc n) (Some c # accepted) conns g =
        collect_workers n accepted (om_put (Id (wc_workerId cfg)) c' conns) (join cfg g)"
proof -
  let ?h = "encode_hello (worker_hello cfg)" and ?e = "encode_evidence (worker_evidence cfg)"
  have h: "decode_hello ?h = Some (worker_hello cfg, [])"
    using round_trip_hello [THEN round_tripD, of "worker_hello cfg" "[]"] assms(1)
    by (simp add: regular_def worker_hello_def short_def)
  have e: "decode_evidence default_InterferenceEvidence ?e =
      Some ((worker_evidence cfg)\<lparr>ie_degradation := f64_zero, ie_improvement := f64_zero\<rparr>, [])"
    using decode_encode_evidence [OF worker_messages_sendable(1), of default_InterferenceEvidence cfg "[]"]
    by (simp add: default_InterferenceEvidence_def)
  have a: "answers c (\<lparr>fm_type = MT_WORKER_STATUS, fm_payload = ?h\<rparr> # \<lparr>fm_type = MT_EVIDENCE, fm_payload = ?e\<rparr> # fs)"
    using assms(2) by (simp add: worker_start_def)
  have "roomy ?h"
    using assms(1) by (simp add: roomy_def regular_def encode_hello_def worker_hello_def)
  then obtain b1 v1 where r1: "conn_receive True c =
      Some (status_good, Some \<lparr>fm_type = MT_WORKER_STATUS, fm_payload = ?h\<rparr>, c\<lparr>cn_rbuf := b1, cn_recv := v1\<rparr>)"
    "answers (c\<lparr>cn_rbuf := b1, cn_recv := v1\<rparr>) (\<lparr>fm_type = MT_EVIDENCE, fm_payload = ?e\<rparr> # fs)"
    using conn_receive_answer [OF a] by auto
  obtain b2 v2 where r2: "conn_receive True (c\<lparr>cn_rbuf := b1, cn_recv := v1\<rparr>) =
      Some (status_good, Some \<lparr>fm_type = MT_EVIDENCE, fm_payload = ?e\<rparr>, c\<lparr>cn_rbuf := b2, cn_recv := v2\<rparr>)"
    "answers (c\<lparr>cn_rbuf := b2, cn_recv := v2\<rparr>) fs"
    using conn_receive_answer [OF r1(2)] worker_messages_roomy(1) by auto
  have "collect_workers (Suc n) (Some c # accepted) conns g =
      collect_workers n accepted (om_put (Id (wc_workerId cfg)) (c\<lparr>cn_rbuf := b2, cn_recv := v2\<rparr>) conns) (join cfg g)"
    using assms(1) worker_degradation_nonneg
    by (simp add: r1(1) r2(1) h e Let_def join_def regular_def ingest_recomputes)
      (simp add: worker_hello_def status_good_def)
  then show ?thesis using r2(2) by (intro exI [of _ "c\<lparr>cn_rbuf := b2, cn_recv := v2\<rparr>"]) (simp add: ready_def)
qed

lemma collect_all:
  assumes "\<forall>(cfg, c, fs) \<in> set ps. regular cfg \<and> answers c (worker_start cfg @ fs)"
    "distinct (map (wc_workerId \<circ> fst) ps)"
  shows "\<exists>conns'. collect_workers (length ps) (map (Some \<circ> fst \<circ> snd) ps) conns g =
      Some (Inr (conns', fold (join \<circ> fst) ps g))
    \<and> (\<forall>(cfg, c, fs) \<in> set ps. \<exists>c'. om_find conns' (Id (wc_workerId cfg)) = Some c' \<and> answers c' fs
         \<and> (ready c \<longrightarrow> ready c') \<and> cn_out c' = cn_out c)
    \<and> (\<forall>w. id_value w \<notin> set (map (wc_workerId \<circ> fst) ps) \<longrightarrow> om_find conns' w = om_find conns w)"
  using assms
proof (induction ps arbitrary: conns g)
  case (Cons p ps)
  obtain cfg c fs where p: "p = (cfg, c, fs)" by (cases p)
  then obtain c' where c': "answers c' fs" "ready c \<longrightarrow> ready c'" "cn_out c' = cn_out c" "collect_workers (length (p # ps)) (map (Some \<circ> fst \<circ> snd) (p # ps)) conns g =
      collect_workers (length ps) (map (Some \<circ> fst \<circ> snd) ps) (om_put (Id (wc_workerId cfg)) c' conns) (join cfg g)"
    using Cons.prems(1) collect_worker [of cfg c fs "length ps" "map (Some \<circ> fst \<circ> snd) ps" conns g]
    by (auto simp del: collect_workers.simps)
  obtain conns' where IH: "collect_workers (length ps) (map (Some \<circ> fst \<circ> snd) ps)
      (om_put (Id (wc_workerId cfg)) c' conns) (join cfg g) = Some (Inr (conns', fold (join \<circ> fst) ps (join cfg g)))"
    "\<forall>(cfg, c, fs) \<in> set ps. \<exists>c'. om_find conns' (Id (wc_workerId cfg)) = Some c' \<and> answers c' fs
       \<and> (ready c \<longrightarrow> ready c') \<and> cn_out c' = cn_out c"
    "\<forall>w. id_value w \<notin> set (map (wc_workerId \<circ> fst) ps) \<longrightarrow>
       om_find conns' w = om_find (om_put (Id (wc_workerId cfg)) c' conns) w"
  proof -
    have "\<forall>(cfg, c, fs) \<in> set ps. regular cfg \<and> answers c (worker_start cfg @ fs)"
      "distinct (map (wc_workerId \<circ> fst) ps)" using Cons.prems by (simp_all del: comp_apply)
    from Cons.IH [OF this, of "om_put (Id (wc_workerId cfg)) c' conns" "join cfg g"] that show thesis by blast
  qed
  have "om_find conns' (Id (wc_workerId cfg)) = Some c'"
    using IH(3) Cons.prems(2) p by simp
  moreover have "\<forall>w. id_value w \<notin> set (map (wc_workerId \<circ> fst) (p # ps)) \<longrightarrow> om_find conns' w = om_find conns w"
    using IH(3) p by auto
  ultimately show ?case
    using c' IH(1,2) p by (intro exI [of _ conns']) (simp add: comp_def del: collect_workers.simps)
qed simp

section \<open>A second dispatch\<close>

lemma dispatch_again:
  assumes "dispatch adapters iid now st = (ds, st')" "st_code ds = SC_OK"
  shows "dispatch_begin iid now' st' =
    (Inl (status_bad SC_STALE_AUTHORITY ''intervention not in AUTHORIZED state''), st')"
proof -
  have bad: "\<And>msg. st_code (status_bad SC_INVALID_INPUT msg) \<noteq> SC_OK" by simp
  from assms obtain i where "om_find (es_interventions (gs_engine st')) iid = Some i" "ir_state i \<noteq> LS_AUTHORIZED"
    by (fastforce simp: dispatch_def dispatch_begin_def dispatch_finish_def put_intervention_def apply_outcome_def
        Let_def split: option.splits sum.splits prod.splits if_splits)
  then show ?thesis by (simp add: dispatch_begin_def)
qed

end
