(* ===== verification/CG_Socket.thy ===== *)
theory CG_Socket
  imports CG_Net
begin

text \<open>
  The sockets of \<^verbatim>\<open>src/net.cpp\<close>: \<^verbatim>\<open>Listener\<close>, \<^verbatim>\<open>connect_to\<close> and the closing of a \<^verbatim>\<open>Connection\<close>, in the
  POSIX build. The state is the set of the process's open descriptors; the results of the
  system calls are inputs. The lemmas say who owns a descriptor: what an operation opens it
  closes again on every error path, or hands to its result.
\<close>

section \<open>Descriptors\<close>

definition kInvalidSock :: int where "kInvalidSock = -1"

definition socket_valid :: "int \<Rightarrow> bool" where "socket_valid s \<longleftrightarrow> s \<noteq> kInvalidSock"

definition close_sock :: "int \<Rightarrow> int set \<Rightarrow> int set" where "close_sock s fds = fds - {s}"

text \<open>What \<^verbatim>\<open>socket(2)\<close> and \<^verbatim>\<open>accept(2)\<close> return: \<open>-1\<close> or a descriptor that is not in use.\<close>

definition fresh_fd :: "int set \<Rightarrow> int \<Rightarrow> bool" where
  "fresh_fd fds s \<longleftrightarrow> s = -1 \<or> (0 \<le> s \<and> s \<notin> fds)"

section \<open>Start and end of the library\<close>

text \<open>
  The Winsock flag and the result of \<^verbatim>\<open>WSAStartup\<close>; elsewhere both functions do nothing.
\<close>

definition socket_init :: "bool \<Rightarrow> int \<Rightarrow> bool \<Rightarrow> Status \<times> bool" where
  "socket_init windows startup started =
     (if \<not> windows \<or> started then (status_good, started)
      else if startup \<noteq> 0 then (status_bad SC_PROTOCOL_ERROR ''WSAStartup failed'', started)
      else (status_good, True))"

definition socket_shutdown :: "bool \<Rightarrow> bool \<Rightarrow> bool" where
  "socket_shutdown windows started = (if windows \<and> started then False else started)"

lemma socket_init_started: "status_ok (fst (socket_init windows startup started)) \<longleftrightarrow>
    \<not> windows \<or> snd (socket_init windows startup started)"
  by (simp add: socket_init_def)

section \<open>The listener\<close>

record Listener =
  ln_sock :: int
  ln_port :: u16

definition default_Listener :: Listener where
  "default_Listener = \<lparr>ln_sock = 0, ln_port = 0\<rparr>"

text \<open>The results of \<^verbatim>\<open>socket\<close>, \<^verbatim>\<open>bind\<close>, \<^verbatim>\<open>getsockname\<close> (the port, if it succeeds) and \<^verbatim>\<open>listen\<close>.\<close>

record BindIo =
  bi_socket :: int
  bi_bind :: int
  bi_name :: "u16 option"
  bi_listen :: int

definition bind_and_listen :: "BindIo \<Rightarrow> Listener \<Rightarrow> int set \<Rightarrow> Status \<times> Listener \<times> int set" where
  "bind_and_listen io l fds =
     (let s = bi_socket io
      in if \<not> socket_valid s then (protocol_error ''socket failed'', l, fds)
         else let fds = insert s fds
         in if bi_bind io \<noteq> 0 then (protocol_error ''bind failed'', l, close_sock s fds)
            else case bi_name io of
              None \<Rightarrow> (protocol_error ''getsockname failed'', l, close_sock s fds)
            | Some port \<Rightarrow>
                let l = l\<lparr>ln_port := port\<rparr>
                in if bi_listen io \<noteq> 0 then (protocol_error ''listen failed'', l, close_sock s fds)
                   else (status_good, l\<lparr>ln_sock := s\<rparr>, fds))"

definition bound_port :: "Listener \<Rightarrow> u16" where "bound_port l = ln_port l"

text \<open>The results of \<^verbatim>\<open>select\<close> and \<^verbatim>\<open>accept\<close>; the connection is its socket.\<close>

record AcceptIo =
  ai_select :: int
  ai_accept :: int

definition accept_connection :: "AcceptIo \<Rightarrow> TimeMs \<Rightarrow> Listener \<Rightarrow> int set \<Rightarrow> int option \<times> int set" where
  "accept_connection io timeoutMs l fds =
     (if \<not> socket_valid (ln_sock l) then (None, fds)
      else if timeoutMs \<noteq> 0 \<and> ai_select io \<le> 0 then (None, fds)
      else let cs = ai_accept io
      in if \<not> socket_valid cs then (None, fds) else (Some cs, insert cs fds))"

definition destroy_Listener :: "Listener \<Rightarrow> int set \<Rightarrow> int set" where
  "destroy_Listener l fds = (if socket_valid (ln_sock l) then close_sock (ln_sock l) fds else fds)"

section \<open>Connections\<close>

text \<open>\<^verbatim>\<open>Connection::close\<close>, which the destructor calls: the socket the object holds afterwards.\<close>

definition close_connection :: "int \<Rightarrow> int set \<Rightarrow> int \<times> int set" where
  "close_connection s fds = (if socket_valid s then (kInvalidSock, close_sock s fds) else (s, fds))"

text \<open>
  The results of \<^verbatim>\<open>socket\<close>, \<^verbatim>\<open>inet_pton\<close>, \<^verbatim>\<open>getaddrinfo\<close> (whether it gave an address) and
  \<^verbatim>\<open>connect\<close>.
\<close>

record ConnectIo =
  ci_socket :: int
  ci_pton :: int
  ci_addrinfo :: bool
  ci_connect :: int

definition connect_to :: "ConnectIo \<Rightarrow> int set \<Rightarrow> int option \<times> int set" where
  "connect_to io fds =
     (let s = ci_socket io
      in if \<not> socket_valid s then (None, fds)
         else let fds = insert s fds
         in if ci_pton io \<noteq> 1 \<and> \<not> ci_addrinfo io then (None, close_sock s fds)
            else if ci_connect io \<noteq> 0 then (None, close_sock s fds)
            else (Some s, fds))"

section \<open>Ownership\<close>

lemmas socket_defs = socket_valid_def kInvalidSock_def close_sock_def

lemma close_fresh: "s \<notin> fds \<Longrightarrow> close_sock s (insert s fds) = fds"
  by (simp add: close_sock_def)

lemma bind_and_listen_owns:
  assumes "fresh_fd fds (bi_socket io)" "bind_and_listen io l fds = (st, l', fds')"
  shows "if status_ok st then ln_sock l' \<notin> fds \<and> fds' = insert (ln_sock l') fds \<and> destroy_Listener l' fds' = fds
    else fds' = fds \<and> ln_sock l' = ln_sock l"
  using assms
  by (auto simp: bind_and_listen_def fresh_fd_def destroy_Listener_def socket_defs Let_def protocol_error_def
      status_bad_def status_good_def status_ok_def split: if_splits option.splits)

lemma accept_owns:
  assumes "fresh_fd fds (ai_accept io)" "accept_connection io t l fds = (c, fds')"
  shows "case c of None \<Rightarrow> fds' = fds | Some s \<Rightarrow> s \<notin> fds \<and> fds' = insert s fds \<and> close_connection s fds' = (kInvalidSock, fds)"
  using assms by (auto simp: accept_connection_def fresh_fd_def close_connection_def socket_defs Let_def split: if_splits)

lemma connect_owns:
  assumes "fresh_fd fds (ci_socket io)" "connect_to io fds = (c, fds')"
  shows "case c of None \<Rightarrow> fds' = fds | Some s \<Rightarrow> s \<notin> fds \<and> fds' = insert s fds \<and> close_connection s fds' = (kInvalidSock, fds)"
  using assms by (auto simp: connect_to_def fresh_fd_def close_connection_def socket_defs Let_def split: if_splits)

lemma close_again: "close_connection (fst (close_connection s fds)) fds' = (fst (close_connection s fds), fds')"
  by (simp add: close_connection_def socket_defs)

end
