(* ===== verification/CG_CLib.thy ===== *)
theory CG_CLib
  imports CG_Double CG_Prelude
begin

text \<open>
  The functions of the C library that read numbers from command lines, in the C locale:
  \<^verbatim>\<open>strtoull\<close>, \<^verbatim>\<open>atoi\<close> and \<^verbatim>\<open>atof\<close> as the GNU library implements them, with correct rounding. They read
  the longest prefix that is a number and give 0 when there is none.
\<close>

section \<open>Characters\<close>

definition is_space :: "char \<Rightarrow> bool" where
  "is_space c \<longleftrightarrow> (of_char c :: nat) \<in> {9, 10, 11, 12, 13, 32}"

definition is_digit :: "char \<Rightarrow> bool" where
  "is_digit c \<longleftrightarrow> 48 \<le> (of_char c :: nat) \<and> (of_char c :: nat) \<le> 57"

definition to_lower :: "char \<Rightarrow> char" where
  "to_lower c = (let n = of_char c :: nat in if 65 \<le> n \<and> n \<le> 90 then char_of (n + 32) else c)"

definition is_xdigit :: "char \<Rightarrow> bool" where
  "is_xdigit c \<longleftrightarrow> is_digit c \<or> to_lower c \<in> set ''abcdef''"

definition digit_value :: "char \<Rightarrow> nat" where
  "digit_value c = (if is_digit c then of_char c - 48 else of_char (to_lower c) - 87)"

definition digits_value :: "nat \<Rightarrow> string \<Rightarrow> nat" where
  "digits_value base ds = foldl (\<lambda>v c. base * v + digit_value c) 0 ds"

text \<open>An optional sign: whether it is a minus, and the rest.\<close>

definition split_sign :: "string \<Rightarrow> bool \<times> string" where
  "split_sign s = (case s of CHR ''-'' # r \<Rightarrow> (True, r) | CHR ''+'' # r \<Rightarrow> (False, r) | _ \<Rightarrow> (False, s))"

section \<open>Integers\<close>

text \<open>\<^verbatim>\<open>ULLONG_MAX\<close> on overflow, otherwise the value, negated in the unsigned type after a minus.\<close>

definition strtoull :: "string \<Rightarrow> u64" where
  "strtoull s =
     (let (neg, s) = split_sign (dropWhile is_space s);
          v = digits_value 10 (takeWhile is_digit s)
      in if v > unat u64_max then u64_max
         else if neg then - word_of_nat v else word_of_nat v)"

text \<open>\<^verbatim>\<open>static_cast<std::uint16_t>(std::atoi(s))\<close>: \<^verbatim>\<open>strtol\<close>, which saturates, cut to 16 bits.\<close>

definition strtol :: "string \<Rightarrow> int" where
  "strtol s =
     (let (neg, s) = split_sign (dropWhile is_space s);
          v = int (digits_value 10 (takeWhile is_digit s))
      in if neg then max (- (2 ^ 63)) (- v) else min (2 ^ 63 - 1) v)"

definition port_of :: "string \<Rightarrow> u16" where
  "port_of s = word_of_int (strtol s)"

section \<open>Doubles\<close>

text \<open>Digits with an optional point: the integer they form, the places after the point, the rest.\<close>

definition read_mantissa :: "(char \<Rightarrow> bool) \<Rightarrow> nat \<Rightarrow> string \<Rightarrow> (nat \<times> nat \<times> string) option" where
  "read_mantissa dig base s =
     (let whole = takeWhile dig s; r = dropWhile dig s;
          (frac, r') = (case r of CHR ''.'' # t \<Rightarrow> (takeWhile dig t, dropWhile dig t) | _ \<Rightarrow> ([], r))
      in if whole = [] \<and> frac = [] then None
         else Some (digits_value base (whole @ frac), length frac, r'))"

text \<open>An exponent, which counts only if it has a digit.\<close>

definition read_exponent :: "char \<Rightarrow> string \<Rightarrow> int" where
  "read_exponent mark s =
     (case s of
        c # t \<Rightarrow>
          if to_lower c = mark
          then (let (neg, t) = split_sign t; v = int (digits_value 10 (takeWhile is_digit t))
                in if neg then - v else v)
          else 0
      | [] \<Rightarrow> 0)"

text \<open>\<open>m * base ^ e\<close>, rounded once.\<close>

definition scaled_double :: "bool \<Rightarrow> nat \<Rightarrow> nat \<Rightarrow> int \<Rightarrow> double" where
  "scaled_double neg m base e =
     f64_make neg (if 0 \<le> e then f64_round (m * base ^ nat e * 2 ^ 1074) 1
                   else f64_round (m * 2 ^ 1074) (base ^ nat (- e)))"

text \<open>
  \<^verbatim>\<open>atof\<close>. Of a NaN with a character sequence in parentheses, whose payload is the
  implementation's choice, the default NaN is taken.
\<close>

definition atof :: "string \<Rightarrow> double" where
  "atof s =
     (let (neg, s) = split_sign (dropWhile is_space s);
          hex = (case s of CHR ''0'' # c # t \<Rightarrow>
                   if to_lower c = CHR ''x'' then read_mantissa is_xdigit 16 t else None
                 | _ \<Rightarrow> None)
      in if map to_lower (take 3 s) = ''inf'' then f64_make neg f64_inf_mag
         else if map to_lower (take 3 s) = ''nan'' then f64_make neg (f64_mag f64_nan)
         else case hex of
           Some (m, places, r) \<Rightarrow> scaled_double neg m 2 (read_exponent CHR ''p'' r - 4 * int places)
         | None \<Rightarrow>
             (case read_mantissa is_digit 10 s of
                Some (m, places, r) \<Rightarrow> scaled_double neg m 10 (read_exponent CHR ''e'' r - int places)
              | None \<Rightarrow> f64_zero))"

end
