(* ===== verification/CG_Process.thy ===== *)
theory CG_Process
  imports CG_Cluster CG_Socket CG_CLib
begin

text \<open>
  \<^verbatim>\<open>main\<close> of \<^verbatim>\<open>dist/worker.cpp\<close> and \<^verbatim>\<open>dist/coordinator.cpp\<close> as processes: from the command line to the
  exit code, the worker over its connection and the coordinator over its listener and the
  state file. The lemmas show that the worker's process is the frame-level worker of
  \<^verbatim>\<open>CG_Cluster\<close>, and what a coordinator leaves for the one that resumes.
\<close>

section \<open>The worker\<close>

text \<open>The port and the configuration, with the initial values of the variables.\<close>

definition default_worker :: "u16 \<times> WorkerConfig" where
  "default_worker =
     (0, \<lparr>wc_role = ''A'', wc_boot = 1, wc_workerId = 0, wc_victim = 0, wc_neighbor = 0,
          wc_baseline = f64_lit 100 1, wc_corun = f64_lit 60 1, wc_postCorun = f64_lit 98 1, wc_dieAfterAck = False\<rparr>)"

definition worker_option :: "string \<Rightarrow> string \<Rightarrow> u16 \<times> WorkerConfig \<Rightarrow> u16 \<times> WorkerConfig" where
  "worker_option k v pc =
     (let (port, cfg) = pc
      in if k = ''--port'' then (port_of v, cfg)
         else (port,
           if k = ''--role'' then cfg\<lparr>wc_role := v\<rparr>
           else if k = ''--boot'' then cfg\<lparr>wc_boot := strtoull v\<rparr>
           else if k = ''--workerid'' then cfg\<lparr>wc_workerId := strtoull v\<rparr>
           else if k = ''--victim'' then cfg\<lparr>wc_victim := strtoull v\<rparr>
           else if k = ''--neighbor'' then cfg\<lparr>wc_neighbor := strtoull v\<rparr>
           else if k = ''--baseline'' then cfg\<lparr>wc_baseline := atof v\<rparr>
           else if k = ''--corun'' then cfg\<lparr>wc_corun := atof v\<rparr>
           else if k = ''--post-corun'' then cfg\<lparr>wc_postCorun := atof v\<rparr>
           else if k = ''--die-after-ack'' then cfg\<lparr>wc_dieAfterAck := True\<rparr>
           else cfg))"

text \<open>The loop takes the arguments in pairs; one that is left over is not looked at.\<close>

fun worker_options :: "string list \<Rightarrow> u16 \<times> WorkerConfig \<Rightarrow> u16 \<times> WorkerConfig" where
  "worker_options (k # v # args) pc = worker_options args (worker_option k v pc)"
| "worker_options _ pc = pc"

definition send_frame :: "Frame \<Rightarrow> Connection \<Rightarrow> Connection" where
  "send_frame f c = snd (conn_send (fm_type f) (fm_payload f) c)"

text \<open>What is still to be received over a connection; it shrinks with every frame.\<close>

definition pending :: "Connection \<Rightarrow> nat" where
  "pending c = length (cn_rbuf c) + sum_list (map chunk_length (cn_recv c))"

lemma receive_consumes:
  "receive blocking rbuf evs = Some (st, f, rbuf', evs') \<Longrightarrow> status_ok st \<Longrightarrow>
     length rbuf' + sum_list (map chunk_length evs') < length rbuf + sum_list (map chunk_length evs)"
proof (induction evs arbitrary: rbuf)
  case Nil
  then show ?case
    by (subst (asm) receive_cases) (auto simp: protocol_error_def status_bad_def status_ok_def dest: scan_frame_shorter
        split: scan.splits)
next
  case (Cons ev evs)
  have IH: "length rbuf' + sum_list (map chunk_length evs') < length rbuf + (length chunk + sum_list (map chunk_length evs))"
    if "receive True (rbuf @ chunk) evs = Some (st, f, rbuf', evs')" blocking for chunk
    using Cons.IH [of "rbuf @ chunk"] Cons.prems(2) that by simp
  show ?case
    using Cons.prems
    by (auto simp: receive_cases [of blocking rbuf "ev # evs"] protocol_error_def status_bad_def status_ok_def
        dest: scan_frame_shorter IH split: scan.splits recv_result.splits if_splits)
qed

lemma pending_receive: "conn_receive b c = Some (st, f, c') \<Longrightarrow> status_ok st \<Longrightarrow> pending c' < pending c"
  by (auto simp: conn_receive_def pending_def dest: receive_consumes split: option.splits)

lemma pending_send [simp]: "pending (send_frame f c) = pending c"
  by (simp add: send_frame_def conn_send_def pending_def split: prod.split)

lemma pending_sends [simp]: "pending (fold send_frame fs c) = pending c"
  by (induction fs arbitrary: c) simp_all

text \<open>The loop; the results of its sends are not looked at.\<close>

function worker_run :: "WorkerConfig \<Rightarrow> Connection \<Rightarrow> Connection option" where
  "worker_run cfg c =
     (case conn_receive True c of
        None \<Rightarrow> None
      | Some (st, f, c') \<Rightarrow>
          (case (status_ok st, f) of
             (True, Some f) \<Rightarrow>
               let (out, stop) = worker_react cfg f; c' = fold send_frame out c'
               in if stop then Some c' else worker_run cfg c'
           | _ \<Rightarrow> Some c'))"
  by pat_completeness auto
termination
  by (relation "measure (\<lambda>(cfg, c). pending c)") (auto dest: pending_receive)

declare worker_run.simps [simp del]

definition worker_main :: "WorkerConfig \<Rightarrow> Connection \<Rightarrow> (nat \<times> Connection) option" where
  "worker_main cfg c =
     (let (st, c) = conn_send MT_WORKER_STATUS (encode_hello (worker_hello cfg)) c
      in if \<not> status_ok st then Some (1, c)
         else let (st, c) = conn_send MT_EVIDENCE (encode_evidence (worker_evidence cfg)) c
         in if \<not> status_ok st then Some (1, c)
            else case worker_run cfg c of None \<Rightarrow> None | Some c \<Rightarrow> Some (0, c))"

text \<open>The exit code, and the connection if there was one; \<open>connected\<close> is what \<^verbatim>\<open>connect_to\<close> gives.\<close>

definition worker_process :: "string list \<Rightarrow> (u16 \<Rightarrow> Connection option) \<Rightarrow> (nat \<times> Connection option) option" where
  "worker_process argv connected =
     (let (port, cfg) = worker_options (drop 1 argv) default_worker
      in if port = 0 \<or> wc_workerId cfg = 0 then Some (2, None)
         else case connected port of
           None \<Rightarrow> Some (1, None)
         | Some c \<Rightarrow> map_option (\<lambda>(code, c). (code, Some c)) (worker_main cfg c))"

section \<open>The worker's process and its frames\<close>

text \<open>A peer that sends the frames, cut into chunks in any way, and closes the connection.\<close>

definition delivers :: "Connection \<Rightarrow> Frame list \<Rightarrow> bool" where
  "delivers c fs \<longleftrightarrow> (\<exists>chunks. (\<forall>chunk \<in> set chunks. chunk_ok chunk) \<and> cn_recv c = map Recv chunks @ [Peer_closed]
     \<and> cn_rbuf c @ concat chunks = encode_frames fs)"

lemma receive_extend:
  "receive b rbuf evs = Some (st, f, rbuf', evs') \<Longrightarrow> receive b rbuf (evs @ later) = Some (st, f, rbuf', evs' @ later)"
proof (induction evs arbitrary: rbuf)
  case Nil
  then have "scan_frame rbuf \<noteq> Short_header \<and> scan_frame rbuf \<noteq> Short_frame"
    by (auto simp: receive_cases [of b rbuf "[]"])
  then show ?case
    using Nil by (auto simp: receive_cases [of b rbuf "[]"] receive_cases [of b rbuf later] split: scan.splits)
next
  case (Cons ev evs)
  show ?case
    unfolding receive_cases [of b rbuf "(ev # evs) @ later"]
    using Cons.prems [unfolded receive_cases [of b rbuf "ev # evs"]] Cons.IH
    by (cases "scan_frame rbuf"; cases ev) (simp_all split: if_splits)
qed

lemma encode_frames_append: "encode_frames (fs @ gs) = encode_frames fs @ encode_frames gs"
  by (simp add: encode_frames_def)

lemma send_frames_open:
  "ready c \<Longrightarrow> \<forall>f \<in> set fs. fits (fm_payload f) \<Longrightarrow>
     ready (fold send_frame fs c) \<and> cn_out (fold send_frame fs c) = cn_out c @ encode_frames fs
     \<and> cn_rbuf (fold send_frame fs c) = cn_rbuf c \<and> cn_recv (fold send_frame fs c) = cn_recv c"
proof (induction fs arbitrary: c)
  case (Cons f fs)
  have "ready (send_frame f c)" "cn_out (send_frame f c) = cn_out c @ encode_frame (fm_type f) (fm_payload f)"
    "cn_rbuf (send_frame f c) = cn_rbuf c" "cn_recv (send_frame f c) = cn_recv c"
    using conn_send_ready [of c "fm_payload f"] Cons.prems by (simp_all add: send_frame_def ready_def)
  then show ?case using Cons.IH [of "send_frame f c"] Cons.prems(2) by simp
qed simp

lemma conn_receive_delivers:
  assumes "delivers c (f # fs)" "roomy (fm_payload f)"
  shows "\<exists>rbuf evs. conn_receive True c = Some (status_good, Some f, c\<lparr>cn_rbuf := rbuf, cn_recv := evs\<rparr>)
    \<and> delivers (c\<lparr>cn_rbuf := rbuf, cn_recv := evs\<rparr>) fs"
proof -
  from assms(1) obtain chunks where c: "\<forall>chunk \<in> set chunks. chunk_ok chunk" "cn_recv c = map Recv chunks @ [Peer_closed]"
    "cn_rbuf c @ concat chunks = encode_frame (fm_type f) (fm_payload f) @ encode_frames fs"
    by (auto simp: delivers_def)
  from receive_frame [OF assms(2) c(1,3)] obtain rbuf' chunks' where
    r: "receive True (cn_rbuf c) (map Recv chunks) = Some (status_good, Some f, rbuf', map Recv chunks')"
      "rbuf' @ concat chunks' = encode_frames fs" "set chunks' \<subseteq> set chunks" by auto
  from receive_extend [OF r(1), of "[Peer_closed]"] r(2,3) c(1,2) show ?thesis
    by (intro exI [of _ rbuf'] exI [of _ "map Recv chunks' @ [Peer_closed]"])
      (auto simp: conn_receive_def delivers_def)
qed

lemma worker_react_fits: "f \<in> set (fst (worker_react cfg g)) \<Longrightarrow> fits (fm_payload f)"
  using worker_messages_roomy roomy_fits
  by (auto simp: worker_react_def Let_def split: if_splits option.splits)

lemma worker_run_delivers:
  assumes "\<forall>f \<in> set fs. roomy (fm_payload f)" "ready c" "delivers c fs"
  shows "\<exists>c'. worker_run cfg c = Some c' \<and> cn_out c' = cn_out c @ encode_frames (worker_loop cfg fs)"
  using assms
proof (induction fs arbitrary: c)
  case Nil
  then have "cn_rbuf c = [] \<and> cn_recv c = [Peer_closed]"
    by (auto simp: delivers_def chunk_ok_def)
  then have "conn_receive True c = Some (protocol_error ''peer closed'', None, c\<lparr>cn_rbuf := [], cn_recv := []\<rparr>)"
    by (simp add: conn_receive_def receive_cases scan_frame_def kFrameHeaderLen_def)
  then show ?case
    by (subst worker_run.simps) (simp add: protocol_error_def status_bad_def status_ok_def)
next
  case (Cons f fs)
  obtain rbuf evs where r: "conn_receive True c = Some (status_good, Some f, c\<lparr>cn_rbuf := rbuf, cn_recv := evs\<rparr>)"
    "delivers (c\<lparr>cn_rbuf := rbuf, cn_recv := evs\<rparr>) fs"
    using conn_receive_delivers [OF Cons.prems(3)] Cons.prems(1) by auto
  obtain out stop where react: "worker_react cfg f = (out, stop)" by fastforce
  define c1 where "c1 = fold send_frame out (c\<lparr>cn_rbuf := rbuf, cn_recv := evs\<rparr>)"
  have c1: "ready c1" "cn_out c1 = cn_out c @ encode_frames out" "delivers c1 fs"
    using send_frames_open [of "c\<lparr>cn_rbuf := rbuf, cn_recv := evs\<rparr>" out] Cons.prems(2) r(2)
      worker_react_fits [of _ cfg f] react by (simp_all add: c1_def ready_def delivers_def)
  have run: "worker_run cfg c = (if stop then Some c1 else worker_run cfg c1)"
    by (subst worker_run.simps) (simp add: r(1) react c1_def status_good_def status_ok_def)
  show ?case
    using Cons.IH [OF _ c1(1,3)] Cons.prems(1) run c1(2) react by (auto simp: encode_frames_append)
qed

lemma worker_main_delivers:
  assumes "\<forall>f \<in> set fs. roomy (fm_payload f)" "ready c" "delivers c fs" "length (wc_role cfg) \<le> 2 ^ 19"
  shows "\<exists>c'. worker_main cfg c = Some (0, c') \<and> cn_out c' = cn_out c @ encode_frames (worker_start cfg @ worker_loop cfg fs)"
proof -
  let ?h = "encode_hello (worker_hello cfg)" and ?e = "encode_evidence (worker_evidence cfg)"
  have "fits ?h" using assms(4) by (simp add: fits_def encode_hello_def worker_hello_def)
  note s1 = conn_send_ready [OF assms(2) this, of MT_WORKER_STATUS]
  define c1 where "c1 = c\<lparr>cn_calls := cn_calls c + 1, cn_out := cn_out c @ encode_frame MT_WORKER_STATUS ?h\<rparr>"
  define c2 where "c2 = c1\<lparr>cn_calls := cn_calls c1 + 1, cn_out := cn_out c1 @ encode_frame MT_EVIDENCE ?e\<rparr>"
  have o: "ready c1" "ready c2" "delivers c2 fs"
    using assms(2,3) by (simp_all add: c2_def c1_def ready_def delivers_def)
  note s2 = conn_send_ready [OF o(1) roomy_fits [OF worker_messages_roomy(1)], of MT_EVIDENCE]
  from worker_run_delivers [OF assms(1) o(2,3)] obtain c' where
    "worker_run cfg c2 = Some c'" "cn_out c' = cn_out c2 @ encode_frames (worker_loop cfg fs)" by blast
  then show ?thesis
    using s1 s2 by (simp add: worker_main_def c1_def [symmetric] c2_def [symmetric] status_good_def status_ok_def)
      (simp add: c2_def c1_def worker_start_def)
qed

section \<open>The coordinator\<close>

record CoordinatorArgs =
  ca_mode :: string
  ca_persist :: string
  ca_port :: u16
  ca_ready :: string

definition default_coordinator :: CoordinatorArgs where
  "default_coordinator = \<lparr>ca_mode = ''basic'', ca_persist = '''', ca_port = 0, ca_ready = ''''\<rparr>"

definition coordinator_option :: "string \<Rightarrow> string \<Rightarrow> CoordinatorArgs \<Rightarrow> CoordinatorArgs" where
  "coordinator_option k v args =
     (if k = ''--mode'' then args\<lparr>ca_mode := v\<rparr>
      else if k = ''--persist'' then args\<lparr>ca_persist := v\<rparr>
      else if k = ''--port'' then args\<lparr>ca_port := port_of v\<rparr>
      else if k = ''--ready'' then args\<lparr>ca_ready := v\<rparr>
      else args)"

fun coordinator_options :: "string list \<Rightarrow> CoordinatorArgs \<Rightarrow> CoordinatorArgs" where
  "coordinator_options (k # v # rest) args = coordinator_options rest (coordinator_option k v args)"
| "coordinator_options _ args = args"

text \<open>
  What the environment gives: the result of \<^verbatim>\<open>bind_and_listen\<close> and the port bound, whether the ready
  file can be opened, the answers to the load and the save, the accepted connections and the
  readings of the clock.
\<close>

record CoordinatorIo =
  co_bind :: Status
  co_port :: u16
  co_ready :: bool
  co_load :: LoadIo
  co_windows :: bool
  co_save :: SaveIo
  co_accepted :: "Connection option list"
  co_times :: "TimeMs \<times> TimeMs \<times> TimeMs"

definition write_ready :: "CoordinatorIo \<Rightarrow> string \<Rightarrow> files \<Rightarrow> files" where
  "write_ready io path fs =
     (if path \<noteq> '''' \<and> co_ready io
      then fs(path \<mapsto> map byte_of_char (dec_digits (unat (co_port io))) @ [10]) else fs)"

definition coordinator_process ::
  "string list \<Rightarrow> CoordinatorIo \<Rightarrow> files \<Rightarrow> coordinator_end option \<times> files" where
  "coordinator_process argv io fs =
     (let args = coordinator_options (drop 1 argv) default_coordinator; mode = ca_mode args
      in if \<not> status_ok (co_bind io) then (Some (Exit 2 [] [] default_GovernorState), fs)
         else let fs = write_ready io (ca_ready args) fs;
                  g = new_Governor (ca_persist args \<noteq> '''') (ca_persist args);
                  (ls, g) = (if mode = ''resume'' then load_governor (co_load io) fs g else (status_good, g));
                  save = (\<lambda>s fs. snd (save_governor (co_windows io) (co_save io) (g\<lparr>gv_state := s\<rparr>) fs));
                  (now, now', now'') = co_times io
              in coordinator save mode (ls, gv_state g) (co_accepted io) now now' now'' fs)"

section \<open>From one coordinator to the next\<close>

text \<open>
  A state file that is absent, that the loader rejects, or that holds a well formed state within the
  limits of the format.
\<close>

definition resumable :: "bytes option \<Rightarrow> bool" where
  "resumable c \<longleftrightarrow> c = None \<or> (\<exists>bs. c = Some bs \<and> (\<forall>s. snd (load_from_bytes bs s) = s))
     \<or> (\<exists>st. gov_inv st \<and> storable st \<and> c = Some (save_to_bytes st))"

lemma load_state_inv:
  assumes "resumable (fs path)" "gov_inv s"
  shows "gov_inv (snd (load_state io path fs s))"
  using assms by (cases "li_open io") (auto simp: resumable_def load_state_def load_save)

lemma load_governor_inv:
  assumes "gv_persistEnable g \<Longrightarrow> gv_persistPath g \<noteq> '''' \<Longrightarrow> resumable (fs (gv_persistPath g))" "gov_inv (gv_state g)"
  shows "gov_inv (gv_state (snd (load_governor io fs g)))"
  using load_state_inv [where fs = fs and path = "gv_persistPath g" and io = io, OF assms(1,2)] assms(2)
  by (auto simp: load_governor_def split: prod.split)

text \<open>The ready file is too short to be a state file.\<close>

lemma length_dec_digits: "n < 10 ^ Suc k \<Longrightarrow> length (dec_digits n) \<le> Suc k"
proof (induction k arbitrary: n)
  case (Suc k)
  then have "n div 10 < 10 ^ Suc k" by (simp add: div_less_iff_less_mult)
  then show ?case using Suc.IH [of "n div 10"] by (subst dec_digits.simps) simp
qed (subst dec_digits.simps, simp)

lemma write_ready_resumable:
  assumes "resumable (fs path)"
  shows "resumable (write_ready io file fs path)"
proof -
  let ?text = "map byte_of_char (dec_digits (unat (co_port io))) @ [10]"
  have "unat (co_port io) < 2 ^ 16" by (rule order.strict_trans2 [OF unsigned_less]) simp
  then have "length (dec_digits (unat (co_port io))) \<le> 5" using length_dec_digits [of "unat (co_port io)" 4] by simp
  then have "snd (load_from_bytes ?text s) = s" for s by (simp add: load_from_bytes_def)
  then have "resumable (Some ?text)" unfolding resumable_def by blast
  then show ?thesis using assms by (auto simp: write_ready_def)
qed

text \<open>What a save leaves at its path.\<close>

lemma save_governor_path:
  "snd (save_governor windows io g fs) (gv_persistPath g) \<in>
    {fs (gv_persistPath g), None, Some (save_to_bytes (gv_state g))}"
proof -
  let ?path = "gv_persistPath g" and ?data = "save_to_bytes (gv_state g)"
  have "fold apply_op (save_ops windows io ?path ?data) fs ?path \<in> {fs ?path, None, Some ?data}"
    using save_complete [of io ?data windows ?path fs]
    by (cases "si_open io \<and> length ?data \<le> si_written io") (auto simp: save_ops_written fold_written)
  then show ?thesis by (auto simp: save_governor_def save_state_def Let_def)
qed

lemma coordinator_process_proper:
  fixes argv :: "string list"
  defines "args \<equiv> coordinator_options (drop 1 argv) default_coordinator"
  assumes "coordinator_process argv io fs = (r, fs')"
    "ca_mode args = ''resume'' \<and> ca_persist args \<noteq> '''' \<Longrightarrow> resumable (fs (ca_persist args))"
  shows "proper_end r \<and> (fs' (ca_persist args) \<in> {fs (ca_persist args), write_ready io (ca_ready args) fs (ca_persist args), None}
    \<or> (\<exists>st. gov_inv st \<and> fs' (ca_persist args) = Some (save_to_bytes st)))"
proof (cases "status_ok (co_bind io)")
  case True
  let ?p = "ca_persist args"
  define fs1 where "fs1 = write_ready io (ca_ready args) fs"
  define g where "g = new_Governor (?p \<noteq> '''') ?p"
  obtain ls g1 where lg: "(if ca_mode args = ''resume'' then load_governor (co_load io) fs1 g else (status_good, g)) = (ls, g1)"
    by fastforce
  define save where "save = (\<lambda>s fs. snd (save_governor (co_windows io) (co_save io) (g1\<lparr>gv_state := s\<rparr>) fs))"
  obtain now now' now'' where t: "co_times io = (now, now', now'')" by (cases "co_times io")
  have g: "gov_inv (gv_state g)" "gv_persistPath g = ?p" "gv_persistEnable g \<longleftrightarrow> ?p \<noteq> ''''"
    by (simp_all add: g_def new_Governor_def default_state_inv)
  then have "gov_inv (gv_state (snd (load_governor (co_load io) fs1 g)))" if "ca_mode args = ''resume''"
    using that by (intro load_governor_inv) (simp_all add: fs1_def write_ready_resumable assms(3))
  then have inv: "gov_inv (gv_state g1)" and g1: "gv_persistPath g1 = ?p"
    using g lg by (auto simp: load_governor_def split: if_splits prod.splits)
  have "coordinator save (ca_mode args) (ls, gv_state g1) (co_accepted io) now now' now'' fs1 = (r, fs')"
    using assms(2) True
    unfolding coordinator_process_def Let_def args_def [symmetric] fs1_def [symmetric] g_def [symmetric] t
    by (simp add: lg save_def)
  then have "proper_end r" "proper_files save fs1 fs'" using coordinator_inv [of "ca_mode args" "(ls, gv_state g1)"] inv by auto
  moreover have "save s fs1 ?p \<in> {fs1 ?p, None, Some (save_to_bytes s)}" for s
    using save_governor_path [of "co_windows io" "co_save io" "g1\<lparr>gv_state := s\<rparr>" fs1] g1 by (simp add: save_def)
  ultimately show ?thesis by (auto simp: proper_files_def fs1_def)
qed (use assms(2) in \<open>auto simp: coordinator_process_def Let_def default_state_inv\<close>)

text \<open>The last of an odd number of arguments has no effect.\<close>

lemma worker_options_odd: "even (length args) \<Longrightarrow> worker_options (args @ [a]) pc = worker_options args pc"
  by (induction args pc rule: worker_options.induct) simp_all

lemma worker_process_odd:
  "odd (length argv) \<Longrightarrow> worker_process (argv @ [a]) connected = worker_process argv connected"
  by (cases argv) (simp_all add: worker_process_def worker_options_odd)

end
