(* ===== verification/CG_Cursor.thy ===== *)
theory CG_Cursor
  imports CG_Persistence
begin

text \<open>
  The two bounded readers as the code has them: a pointer, a length, a position and a flag, the
  struct \<^verbatim>\<open>R\<close> of \<^verbatim>\<open>src/persistence.cpp\<close> and the class \<^verbatim>\<open>dist::Reader\<close> of
  \<^verbatim>\<open>dist/protocol.hpp\<close>. Every access goes to the bytes the pointer addresses, and one outside
  them is an error of the model, as it has no meaning in the code. \<open>implements\<close> states that
  a reader with a position reads what a reader of \<open>CG_Wire\<close> reads of the bytes that remain, and
  that it never leaves the buffer. The locale \<open>bounded_reader\<close> is what both provide, and
  derives the reads that the code builds from them.
\<close>

named_theorems cursor_intros \<open>readers with a position that implement readers of bytes\<close>

section \<open>Positions and accesses\<close>

datatype mem_error = OutOfBounds

record Cursor =
  cu_d :: bytes
  cu_n :: u64
  cu_p :: u64
  cu_ok :: bool

text \<open>A call that may return false: the value it stores when it returns true, and the reader after it.\<close>

type_synonym 'a cread = "Cursor \<Rightarrow> mem_error + ('a option \<times> Cursor)"

definition reader_at :: "bytes \<Rightarrow> u64 \<Rightarrow> Cursor" where
  "reader_at d n = \<lparr>cu_d = d, cu_n = n, cu_p = 0, cu_ok = True\<rparr>"

definition byte_at :: "bytes \<Rightarrow> u64 \<Rightarrow> mem_error + u8" where
  "byte_at d i = (if unat i < length d then Inr (d ! unat i) else Inl OutOfBounds)"

definition range_at :: "bytes \<Rightarrow> u64 \<Rightarrow> u64 \<Rightarrow> mem_error + bytes" where
  "range_at d i k = (if unat i + unat k \<le> length d then Inr (take (unat k) (drop (unat i) d)) else Inl OutOfBounds)"

text \<open>\<^verbatim>\<open>for (int i = 0; i < k; ++i) v |= static_cast<T>(d[p + i]) << (8 * i)\<close>, from \<open>i\<close> on.\<close>

fun load_from :: "bytes \<Rightarrow> u64 \<Rightarrow> nat \<Rightarrow> nat \<Rightarrow> 'a :: len word \<Rightarrow> mem_error + 'a word" where
  "load_from d p i 0 v = Inr v"
| "load_from d p i (Suc k) v =
     (case byte_at d (p + word_of_nat i) of
        Inl e \<Rightarrow> Inl e
      | Inr b \<Rightarrow> load_from d p (Suc i) k (v OR push_bit (8 * i) (ucast b)))"

text \<open>\<^verbatim>\<open>if (!read(v)) return false;\<close> and the final \<^verbatim>\<open>return true\<close>.\<close>

definition c_fail :: "'a cread" where
  "c_fail c = Inr (None, c\<lparr>cu_ok := False\<rparr>)"

definition c_false :: "'a cread" where
  "c_false c = Inr (None, c)"

definition c_return :: "'a \<Rightarrow> 'a cread" where
  "c_return v c = Inr (Some v, c)"

definition c_bind :: "'a cread \<Rightarrow> ('a \<Rightarrow> 'b cread) \<Rightarrow> 'b cread" where
  "c_bind m f c = (case m c of
     Inl e \<Rightarrow> Inl e
   | Inr (None, c) \<Rightarrow> Inr (None, c)
   | Inr (Some v, c) \<Rightarrow> f v c)"

section \<open>The reader of \<^verbatim>\<open>dist/protocol.hpp\<close>\<close>

definition Reader_u8 :: "u8 cread" where
  "Reader_u8 c =
     (if cu_p c + 1 > cu_n c then c_fail c
      else case byte_at (cu_d c) (cu_p c) of
        Inl e \<Rightarrow> Inl e
      | Inr v \<Rightarrow> Inr (Some v, c\<lparr>cu_p := cu_p c + 1\<rparr>))"

definition Reader_u32 :: "u32 cread" where
  "Reader_u32 c =
     (if cu_p c + 4 > cu_n c then c_fail c
      else case load_from (cu_d c) (cu_p c) 0 4 0 of
        Inl e \<Rightarrow> Inl e
      | Inr v \<Rightarrow> Inr (Some v, c\<lparr>cu_p := cu_p c + 4\<rparr>))"

definition Reader_u64 :: "u64 cread" where
  "Reader_u64 c =
     (if cu_p c + 8 > cu_n c then c_fail c
      else case load_from (cu_d c) (cu_p c) 0 8 0 of
        Inl e \<Rightarrow> Inl e
      | Inr v \<Rightarrow> Inr (Some v, c\<lparr>cu_p := cu_p c + 8\<rparr>))"

definition Reader_str :: "string cread" where
  "Reader_str = c_bind Reader_u64 (\<lambda>len c.
     if len > 2 ^ 20 \<or> cu_p c + len > cu_n c then c_fail c
     else case range_at (cu_d c) (cu_p c) len of
       Inl e \<Rightarrow> Inl e
     | Inr bs \<Rightarrow> Inr (Some (map char_of_byte bs), c\<lparr>cu_p := cu_p c + len\<rparr>))"

section \<open>The reader of \<^verbatim>\<open>src/persistence.cpp\<close>\<close>

text \<open>Unlike the other it stays failed once it has failed.\<close>

definition R_u8 :: "u8 cread" where
  "R_u8 c =
     (if \<not> cu_ok c \<or> cu_p c + 1 > cu_n c then c_fail c
      else case byte_at (cu_d c) (cu_p c) of
        Inl e \<Rightarrow> Inl e
      | Inr v \<Rightarrow> Inr (Some v, c\<lparr>cu_p := cu_p c + 1\<rparr>))"

definition R_u32 :: "u32 cread" where
  "R_u32 c =
     (if \<not> cu_ok c \<or> cu_p c + 4 > cu_n c then c_fail c
      else case load_from (cu_d c) (cu_p c) 0 4 0 of
        Inl e \<Rightarrow> Inl e
      | Inr v \<Rightarrow> Inr (Some v, c\<lparr>cu_p := cu_p c + 4\<rparr>))"

definition R_u64 :: "u64 cread" where
  "R_u64 c =
     (if \<not> cu_ok c \<or> cu_p c + 8 > cu_n c then c_fail c
      else case load_from (cu_d c) (cu_p c) 0 8 0 of
        Inl e \<Rightarrow> Inl e
      | Inr v \<Rightarrow> Inr (Some v, c\<lparr>cu_p := cu_p c + 8\<rparr>))"

definition R_str :: "string cread" where
  "R_str = c_bind R_u64 (\<lambda>len c.
     if len > kMaxStringLen then c_fail c
     else if cu_p c + len > cu_n c then c_fail c
     else case range_at (cu_d c) (cu_p c) len of
       Inl e \<Rightarrow> Inl e
     | Inr bs \<Rightarrow> Inr (Some (map char_of_byte bs), c\<lparr>cu_p := cu_p c + len\<rparr>))"

definition R_done :: "Cursor \<Rightarrow> bool" where
  "R_done c \<longleftrightarrow> cu_ok c \<and> cu_p c = cu_n c"

section \<open>What is built from the reads\<close>

definition c_f64 :: "u64 cread \<Rightarrow> double cread" where
  "c_f64 u64 = c_bind u64 (\<lambda>u. c_return (F64 u))"

definition c_id :: "u64 cread \<Rightarrow> ('tag Id) cread" where
  "c_id u64 = c_bind u64 (\<lambda>u. c_return (Id u))"

definition c_bool :: "u8 cread \<Rightarrow> bool cread" where
  "c_bool u8 = c_bind u8 (\<lambda>b. c_return (b \<noteq> 0))"

text \<open>\<^verbatim>\<open>if (!r.u8(raw) || raw >= limit) return false; x = static_cast<T>(raw);\<close>\<close>

definition c_enum :: "u8 cread \<Rightarrow> u8 \<Rightarrow> 'e list \<Rightarrow> 'e cread" where
  "c_enum u8 limit elems = c_bind u8 (\<lambda>raw. if raw \<ge> limit then c_false else c_return (elems ! unat raw))"

text \<open>\<^verbatim>\<open>for (i = 0; i < n; ++i) { T x; if (!read(x)) return false; xs.push_back(x); }\<close>\<close>

fun c_times :: "nat \<Rightarrow> 'a cread \<Rightarrow> 'a list \<Rightarrow> ('a list) cread" where
  "c_times 0 r xs = c_return xs"
| "c_times (Suc n) r xs = c_bind r (\<lambda>x. c_times n r (xs @ [x]))"

text \<open>\<^verbatim>\<open>if (!r.u64(n) || n > limit) return false;\<close>\<close>

definition c_count :: "u64 cread \<Rightarrow> u64 \<Rightarrow> u64 cread" where
  "c_count u64 limit = c_bind u64 (\<lambda>n. if n > limit then c_false else c_return n)"

definition c_list :: "u64 cread \<Rightarrow> u64 \<Rightarrow> 'a cread \<Rightarrow> ('a list) cread" where
  "c_list u64 limit r = c_bind (c_count u64 limit) (\<lambda>n. c_times (unat n) r [])"

text \<open>\<^verbatim>\<open>for (i = 0; i < n; ++i) { Id k; T v; if (!read(k)) return false; if (!read(v)) return false; m[k] = v; }\<close>\<close>

fun c_entries :: "nat \<Rightarrow> ('tag Id) cread \<Rightarrow> 'v cread \<Rightarrow> ('tag Id, 'v) omap \<Rightarrow> (('tag Id, 'v) omap) cread" where
  "c_entries 0 rk rv m = c_return m"
| "c_entries (Suc n) rk rv m = c_bind rk (\<lambda>k. c_bind rv (\<lambda>v. c_entries n rk rv (om_put k v m)))"

definition c_map :: "u64 cread \<Rightarrow> u64 \<Rightarrow> 'v cread \<Rightarrow> (('tag Id, 'v) omap) cread" where
  "c_map u64 limit r = c_bind (c_count u64 limit) (\<lambda>n. c_entries (unat n) (c_id u64) r [])"

section \<open>Implementing a reader of bytes\<close>

definition cursor_ok :: "Cursor \<Rightarrow> bool" where
  "cursor_ok c \<longleftrightarrow> cu_ok c \<and> cu_p c \<le> cu_n c \<and> unat (cu_n c) \<le> length (cu_d c) \<and> unat (cu_n c) < 2 ^ 63"

definition remaining :: "Cursor \<Rightarrow> bytes" where
  "remaining c = drop (unat (cu_p c)) (take (unat (cu_n c)) (cu_d c))"

definition implements :: "'a cread \<Rightarrow> 'a reader \<Rightarrow> bool" where
  "implements cr r \<longleftrightarrow> (\<forall>c. cursor_ok c \<longrightarrow>
     (case r (remaining c) of
        None \<Rightarrow> \<exists>c'. cr c = Inr (None, c')
      | Some (v, bs) \<Rightarrow> \<exists>c'. cr c = Inr (Some v, c') \<and> cursor_ok c' \<and> remaining c' = bs))"

lemma implementsI:
  assumes "\<And>c. cursor_ok c \<Longrightarrow> r (remaining c) = None \<Longrightarrow> \<exists>c'. cr c = Inr (None, c')"
    and "\<And>c v bs. cursor_ok c \<Longrightarrow> r (remaining c) = Some (v, bs) \<Longrightarrow>
      \<exists>c'. cr c = Inr (Some v, c') \<and> cursor_ok c' \<and> remaining c' = bs"
  shows "implements cr r"
  unfolding implements_def using assms by (auto split: option.splits)

lemma implements_None: "implements cr r \<Longrightarrow> cursor_ok c \<Longrightarrow> r (remaining c) = None \<Longrightarrow> \<exists>c'. cr c = Inr (None, c')"
  by (auto simp: implements_def split: option.splits)

lemma implements_Some: "implements cr r \<Longrightarrow> cursor_ok c \<Longrightarrow> r (remaining c) = Some (v, bs) \<Longrightarrow>
    \<exists>c'. cr c = Inr (Some v, c') \<and> cursor_ok c' \<and> remaining c' = bs"
  by (fastforce simp: implements_def)

lemma implements_bind [cursor_intros]:
  assumes "implements m r" "\<And>v. implements (f v) (g v)"
  shows "implements (c_bind m f) (\<lambda>bs. Option.bind (r bs) (\<lambda>(v, bs). g v bs))"
proof (rule implementsI)
  fix c assume ok: "cursor_ok c"
  show "\<exists>c'. c_bind m f c = Inr (None, c')" if "Option.bind (r (remaining c)) (\<lambda>(v, bs). g v bs) = None"
  proof (cases "r (remaining c)")
    case None
    then show ?thesis using implements_None [OF assms(1) ok] by (auto simp: c_bind_def)
  next
    case (Some vb)
    obtain v bs where vb: "vb = (v, bs)" by fastforce
    obtain c' where "m c = Inr (Some v, c')" "cursor_ok c'" "remaining c' = bs"
      using implements_Some [OF assms(1) ok] Some vb by blast
    then show ?thesis using implements_None [OF assms(2)] that Some vb by (auto simp: c_bind_def)
  qed
  show "\<exists>c'. c_bind m f c = Inr (Some w, c') \<and> cursor_ok c' \<and> remaining c' = bs'"
    if some: "Option.bind (r (remaining c)) (\<lambda>(v, bs). g v bs) = Some (w, bs')" for w bs'
  proof -
    obtain v bs where vb: "r (remaining c) = Some (v, bs)" "g v bs = Some (w, bs')"
      using some by (auto split: bind_splits)
    obtain c' where "m c = Inr (Some v, c')" "cursor_ok c'" "remaining c' = bs"
      using implements_Some [OF assms(1) ok vb(1)] by blast
    then show ?thesis using implements_Some [OF assms(2)] vb(2) by (auto simp: c_bind_def)
  qed
qed

lemma implements_return [cursor_intros]: "implements (c_return v) (\<lambda>bs. Some (v, bs))"
  by (rule implementsI) (auto simp: c_return_def)

lemma implements_false [cursor_intros]: "implements c_false (\<lambda>bs. None)"
  by (rule implementsI) (auto simp: c_false_def)

lemma implements_if [cursor_intros]:
  "(P \<Longrightarrow> implements m r) \<Longrightarrow> (\<not> P \<Longrightarrow> implements m' r') \<Longrightarrow>
     implements (if P then m else m') (\<lambda>bs. if P then r bs else r' bs)"
  by simp

section \<open>One step of a position\<close>

lemma remaining_length: "cursor_ok c \<Longrightarrow> length (remaining c) = unat (cu_n c) - unat (cu_p c)"
  by (simp add: remaining_def cursor_ok_def)

lemma step_unat: "cursor_ok c \<Longrightarrow> unat k < 2 ^ 62 \<Longrightarrow> unat (cu_p c + k) = unat (cu_p c) + unat k"
proof -
  assume "cursor_ok c" "unat k < 2 ^ 62"
  then have "unat (cu_p c) + unat k < 2 ^ LENGTH(64)" by (simp add: cursor_ok_def word_le_nat_alt)
  then show ?thesis by (rule unat_add_lem [THEN iffD1])
qed

lemma step_over:
  "cursor_ok c \<Longrightarrow> unat k < 2 ^ 62 \<Longrightarrow> cu_p c + k > cu_n c \<longleftrightarrow> length (remaining c) < unat k"
  by (auto simp: word_less_nat_alt step_unat remaining_length cursor_ok_def word_le_nat_alt)

lemma step_ok:
  assumes "cursor_ok c" "unat k < 2 ^ 62" "unat k \<le> length (remaining c)"
  shows "cursor_ok (c\<lparr>cu_p := cu_p c + k\<rparr>)" "remaining (c\<lparr>cu_p := cu_p c + k\<rparr>) = drop (unat k) (remaining c)"
proof -
  have "\<not> cu_n c < cu_p c + k" using assms(3) step_over [OF assms(1,2)] by simp
  then show "cursor_ok (c\<lparr>cu_p := cu_p c + k\<rparr>)" using assms(1) by (simp add: cursor_ok_def not_less)
  show "remaining (c\<lparr>cu_p := cu_p c + k\<rparr>) = drop (unat k) (remaining c)"
    by (simp add: remaining_def step_unat [OF assms(1,2)] add.commute [of "unat k"])
qed

lemma take_remaining:
  assumes "cursor_ok c" "k \<le> length (remaining c)"
  shows "take k (remaining c) = take k (drop (unat (cu_p c)) (cu_d c))"
    and "unat (cu_p c) + k \<le> unat (cu_n c)" "unat (cu_n c) \<le> length (cu_d c)" "unat (cu_n c) < 2 ^ 63"
proof -
  have c: "unat (cu_p c) \<le> unat (cu_n c)" "unat (cu_n c) \<le> length (cu_d c)" "unat (cu_n c) < 2 ^ 63"
    using assms(1) by (simp_all add: cursor_ok_def word_le_nat_alt)
  then show n: "unat (cu_p c) + k \<le> unat (cu_n c)" using assms remaining_length by simp
  show "unat (cu_n c) \<le> length (cu_d c)" "unat (cu_n c) < 2 ^ 63" by (rule c)+
  show "take k (remaining c) = take k (drop (unat (cu_p c)) (cu_d c))"
    using n by (simp add: remaining_def take_drop add.commute [of k] min_absorb1)
qed

lemma load_from_value:
  assumes "unat p + i + k \<le> length d" "unat p + i + k < 2 ^ 64"
  shows "load_from d p i k v = Inr (v OR push_bit (8 * i) (le_value (take k (drop (unat p + i) d))))"
  using assms
proof (induction k arbitrary: i v)
  case (Suc k)
  have "unat p + i < 2 ^ LENGTH(64)" using Suc.prems by simp
  then have at: "unat (p + word_of_nat i) = unat p + i"
    by (simp add: unat_word_ariths unat_of_nat)
  have "take (Suc k) (drop (unat p + i) d) = d ! (unat p + i) # take k (drop (unat p + Suc i) d)"
    using Suc.prems by (simp add: Cons_nth_drop_Suc [symmetric])
  moreover have "byte_at d (p + word_of_nat i) = Inr (d ! (unat p + i))"
    using Suc.prems by (simp add: byte_at_def at)
  ultimately show ?case
    using Suc.IH [of "Suc i"] Suc.prems by (simp add: push_bit_or push_bit_push_bit or.assoc add.commute)
qed simp

lemma byte_remaining:
  assumes "cursor_ok c" "remaining c = b # bs"
  shows "byte_at (cu_d c) (cu_p c) = Inr b"
proof -
  have r: "take 1 (drop (unat (cu_p c)) (cu_d c)) = [b]" "unat (cu_p c) < length (cu_d c)"
    using take_remaining [of c 1] assms by simp_all
  then show ?thesis by (simp add: byte_at_def Cons_nth_drop_Suc [symmetric])
qed

lemma load_remaining:
  assumes "cursor_ok c" "k \<le> length (remaining c)"
  shows "load_from (cu_d c) (cu_p c) 0 k 0 = Inr (le_value (take k (remaining c)))"
  using take_remaining [OF assms] load_from_value [of "cu_p c" 0 k "cu_d c" 0] by simp

lemma range_remaining:
  assumes "cursor_ok c" "unat k \<le> length (remaining c)"
  shows "range_at (cu_d c) (cu_p c) k = Inr (take (unat k) (remaining c))"
  using take_remaining [OF assms] by (simp add: range_at_def)

lemma reader_at_ok: "unat n \<le> length d \<Longrightarrow> unat n < 2 ^ 63 \<Longrightarrow> cursor_ok (reader_at d n)"
  by (simp add: cursor_ok_def reader_at_def)

lemma remaining_reader_at: "remaining (reader_at d n) = take (unat n) d"
  by (simp add: remaining_def reader_at_def)

section \<open>The reads of both readers\<close>



lemma implements_Reader_u8: "implements Reader_u8 r_u8"
proof (rule implementsI)
  fix c assume ok: "cursor_ok c"
  show "\<exists>c'. Reader_u8 c = Inr (None, c')" if "r_u8 (remaining c) = None"
    using that step_over [OF ok, of 1] by (cases "remaining c") (simp_all add: Reader_u8_def c_fail_def)
  show "\<exists>c'. Reader_u8 c = Inr (Some v, c') \<and> cursor_ok c' \<and> remaining c' = bs"
    if "r_u8 (remaining c) = Some (v, bs)" for v bs
    using that step_over [OF ok, of 1] step_ok [OF ok, of 1] byte_remaining [OF ok]
    by (cases "remaining c") (simp_all add: Reader_u8_def)
qed

lemma implements_load:
  assumes "unat k = m" "m < 2 ^ 62"
  shows "implements (\<lambda>c. if cu_p c + k > cu_n c then c_fail c
     else case load_from (cu_d c) (cu_p c) 0 m 0 of
       Inl e \<Rightarrow> Inl e
     | Inr v \<Rightarrow> Inr (Some v, c\<lparr>cu_p := cu_p c + k\<rparr>)) (r_le m)"
  using assms
  by (auto intro!: implementsI simp: r_le_def c_fail_def step_over step_ok load_remaining split: if_splits)

lemma implements_Reader_u32: "implements Reader_u32 r_u32"
  unfolding Reader_u32_def [abs_def] r_u32_def by (rule implements_load) simp_all

lemma implements_Reader_u64: "implements Reader_u64 r_u64"
  unfolding Reader_u64_def [abs_def] r_u64_def by (rule implements_load) simp_all

text \<open>On a reader that has not failed the two agree.\<close>

lemma R_reads:
  "cu_ok c \<Longrightarrow> R_u8 c = Reader_u8 c" "cu_ok c \<Longrightarrow> R_u32 c = Reader_u32 c" "cu_ok c \<Longrightarrow> R_u64 c = Reader_u64 c"
  by (simp_all add: R_u8_def Reader_u8_def R_u32_def Reader_u32_def R_u64_def Reader_u64_def)

lemma implements_cong: "(\<And>c. cu_ok c \<Longrightarrow> cr c = cr' c) \<Longrightarrow> implements cr' r \<Longrightarrow> implements cr r"
  unfolding implements_def by (simp add: cursor_ok_def cong: option.case_cong)

lemma implements_R_u8: "implements R_u8 r_u8"
  by (rule implements_cong [OF _ implements_Reader_u8]) (rule R_reads)

lemma implements_R_u32: "implements R_u32 r_u32"
  by (rule implements_cong [OF _ implements_Reader_u32]) (rule R_reads)

lemma implements_R_u64: "implements R_u64 r_u64"
  by (rule implements_cong [OF _ implements_Reader_u64]) (rule R_reads)

text \<open>Taking \<open>len\<close> bytes as a string, or failing.\<close>

definition chars_upto :: "u64 \<Rightarrow> string reader" where
  "chars_upto len bs =
     (if len > kMaxStringLen then None
      else if length bs < unat len then None
      else Some (map char_of_byte (take (unat len) bs), drop (unat len) bs))"

lemma r_str_chars: "r_str = (\<lambda>bs. do { (len, bs) \<leftarrow> r_u64 bs; chars_upto len bs })"
  by (simp add: fun_eq_iff r_str_def chars_upto_def)

lemma implements_chars:
  "implements (\<lambda>c. if len > kMaxStringLen \<or> cu_p c + len > cu_n c then c_fail c
     else case range_at (cu_d c) (cu_p c) len of
       Inl e \<Rightarrow> Inl e
     | Inr bs \<Rightarrow> Inr (Some (map char_of_byte bs), c\<lparr>cu_p := cu_p c + len\<rparr>)) (chars_upto len)"
proof (cases "len > kMaxStringLen")
  case True
  then show ?thesis by (auto intro!: implementsI simp: chars_upto_def c_fail_def)
next
  case False
  then have "unat len < 2 ^ 62" by (simp add: word_less_nat_alt unat_kMax)
  then show ?thesis
    using False
    by (auto intro!: implementsI simp: chars_upto_def c_fail_def step_over step_ok range_remaining split: if_splits)
qed

lemma implements_Reader_str: "implements Reader_str r_str"
  unfolding Reader_str_def r_str_chars kMaxStringLen_def [symmetric]
  by (rule implements_bind [OF implements_Reader_u64 implements_chars])

lemma implements_R_str: "implements R_str r_str"
  unfolding R_str_def r_str_chars
  by (rule implements_bind [OF implements_R_u64 implements_cong [OF _ implements_chars]]) simp

section \<open>What every bounded reader gives\<close>

locale bounded_reader =
  fixes rd_u8 :: "u8 cread" and rd_u64 :: "u64 cread"
  assumes byte [cursor_intros]: "implements rd_u8 r_u8"
    and word64 [cursor_intros]: "implements rd_u64 r_u64"
begin

lemma f64 [cursor_intros]: "implements (c_f64 rd_u64) r_f64"
  unfolding c_f64_def r_f64_def [abs_def] by (intro cursor_intros)

lemma ident [cursor_intros]: "implements (c_id rd_u64) r_id"
  unfolding c_id_def r_id_def [abs_def] by (intro cursor_intros)

lemma bool [cursor_intros]: "implements (c_bool rd_u8) r_bool"
  unfolding c_bool_def r_bool_def [abs_def] by (intro cursor_intros)

lemma enum:
  assumes "unat limit = length elems"
  shows "implements (c_enum rd_u8 limit elems) (r_enum elems)"
proof -
  have "implements (if raw \<ge> limit then c_false else c_return (elems ! unat raw))
      (\<lambda>bs. Option.bind (enum_of_u8 elems raw) (\<lambda>v. Some (v, bs)))" for raw
    using assms by (simp add: enum_of_u8_def word_le_nat_alt implements_false implements_return)
  then show ?thesis unfolding c_enum_def r_enum_def [abs_def] by (intro cursor_intros)
qed

lemma times:
  assumes "implements cr r"
  shows "implements (c_times n cr xs) (\<lambda>bs. do { (ys, bs) \<leftarrow> r_times n r bs; Some (xs @ ys, bs) })"
proof (induction n arbitrary: xs)
  case 0
  show ?case by (simp add: implements_return)
next
  case (Suc n)
  have step: "(\<lambda>bs. do { (ys, bs) \<leftarrow> r_times (Suc n) r bs; Some (xs @ ys, bs) }) =
      (\<lambda>bs. do { (x, bs) \<leftarrow> r bs; (ys, bs) \<leftarrow> r_times n r bs; Some ((xs @ [x]) @ ys, bs) })"
    by (auto simp: fun_eq_iff split: bind_splits)
  show ?case unfolding step c_times.simps by (rule implements_bind [OF assms Suc.IH])
qed

lemma bounded_count:
  "implements (c_count rd_u64 limit) (\<lambda>bs. do { (n, bs) \<leftarrow> r_u64 bs; if n > limit then None else Some (n, bs) })"
  unfolding c_count_def by (intro cursor_intros)

lemma list_upto:
  assumes "implements cr r"
  shows "implements (c_list rd_u64 limit cr)
    (\<lambda>bs. do { (n, bs) \<leftarrow> r_u64 bs; if n > limit then None else r_times (unat n) r bs })"
proof -
  have step: "(\<lambda>bs. do { (n, bs) \<leftarrow> r_u64 bs; if n > limit then None else r_times (unat n) r bs }) =
      (\<lambda>bs. do { (n, bs) \<leftarrow> do { (n, bs) \<leftarrow> r_u64 bs; if n > limit then None else Some (n, bs) };
                 (ys, bs) \<leftarrow> r_times (unat n) r bs; Some ([] @ ys, bs) })"
    by (auto simp: fun_eq_iff split: bind_splits)
  show ?thesis unfolding c_list_def step by (rule implements_bind [OF bounded_count times [OF assms]])
qed

lemma list:
  assumes "implements cr r"
  shows "implements (c_list rd_u64 kMaxCollectionLen cr) (r_list r)"
proof -
  have step: "r_list r = (\<lambda>bs. do { (n, bs) \<leftarrow> r_u64 bs; if n > kMaxCollectionLen then None else r_times (unat n) r bs })"
    by (auto simp: fun_eq_iff r_list_def r_count_def split: bind_splits)
  show ?thesis unfolding step by (rule list_upto [OF assms])
qed

lemma entries:
  assumes "implements cr r"
  shows "implements (c_entries n (c_id rd_u64) cr m)
    (\<lambda>bs. do { (kvs, bs) \<leftarrow> r_times n (r_pair r_id r) bs; Some (fold (\<lambda>(k, v). om_put k v) kvs m, bs) })"
proof (induction n arbitrary: m)
  case 0
  show ?case by (simp add: implements_return)
next
  case (Suc n)
  have step: "(\<lambda>bs. do { (kvs, bs) \<leftarrow> r_times (Suc n) (r_pair r_id r) bs; Some (fold (\<lambda>(k, v). om_put k v) kvs m, bs) }) =
      (\<lambda>bs. do { (k, bs) \<leftarrow> r_id bs; (v, bs) \<leftarrow> r bs;
                 (kvs, bs) \<leftarrow> r_times n (r_pair r_id r) bs; Some (fold (\<lambda>(k, v). om_put k v) kvs (om_put k v m), bs) })"
    by (auto simp: fun_eq_iff r_pair_def split: bind_splits)
  show ?case unfolding step c_entries.simps by (rule implements_bind [OF ident implements_bind [OF assms Suc.IH]])
qed

lemma map:
  assumes "implements cr r"
  shows "implements (c_map rd_u64 kMaxCollectionLen cr) (r_map r)"
proof -
  have step: "r_map r = (\<lambda>bs. do { (n, bs) \<leftarrow> do { (n, bs) \<leftarrow> r_u64 bs; if n > kMaxCollectionLen then None else Some (n, bs) };
      (kvs, bs) \<leftarrow> r_times (unat n) (r_pair r_id r) bs; Some (fold (\<lambda>(k, v). om_put k v) kvs [], bs) })"
    by (auto simp: fun_eq_iff r_map_def r_list_def r_count_def om_of_entries_def split: bind_splits)
  show ?thesis unfolding c_map_def step by (rule implements_bind [OF bounded_count entries [OF assms]])
qed

end

interpretation dist_reader: bounded_reader Reader_u8 Reader_u64
  by unfold_locales (rule implements_Reader_u8 implements_Reader_u64)+

interpretation state_reader: bounded_reader R_u8 R_u64
  by unfold_locales (rule implements_R_u8 implements_R_u64)+

end
