(* ===== verification/CG_Codec.thy ===== *)
theory CG_Codec
  imports CG_Cursor CG_Dist
begin

text \<open>
  The encoders and decoders of \<^verbatim>\<open>dist/protocol.cpp\<close> over the code's own \<^verbatim>\<open>dist::Writer\<close>, which
  appends byte after byte to a vector, and \<^verbatim>\<open>dist::Reader\<close>, which walks a buffer it must not
  leave. They are the encoders and decoders of \<open>CG_Dist\<close>, on every buffer.
\<close>

section \<open>The writer\<close>

definition Writer_u8 :: "bytes \<Rightarrow> u8 \<Rightarrow> bytes" where
  "Writer_u8 b v = b @ [v]"

text \<open>\<^verbatim>\<open>for (i = 0; i < k; ++i) b.push_back((v >> (8 * i)) & 0xFF)\<close>\<close>

definition push_bytes :: "nat \<Rightarrow> bytes \<Rightarrow> 'a :: len word \<Rightarrow> bytes" where
  "push_bytes k b v = foldl (\<lambda>b i. b @ [ucast (drop_bit (8 * i) v AND 0xFF)]) b [0..<k]"

definition Writer_u32 :: "bytes \<Rightarrow> u32 \<Rightarrow> bytes" where "Writer_u32 b v = push_bytes 4 b v"
definition Writer_u64 :: "bytes \<Rightarrow> u64 \<Rightarrow> bytes" where "Writer_u64 b v = push_bytes 8 b v"
definition Writer_f64 :: "bytes \<Rightarrow> double \<Rightarrow> bytes" where "Writer_f64 b v = Writer_u64 b (f64_bits v)"
definition Writer_wid :: "bytes \<Rightarrow> 'tag Id \<Rightarrow> bytes" where "Writer_wid b i = Writer_u64 b (id_value i)"

definition Writer_str :: "bytes \<Rightarrow> string \<Rightarrow> bytes" where
  "Writer_str b s = Writer_u64 b (word_of_nat (length s)) @ map byte_of_char s"

definition Writer_encode_hello :: "WorkerHello \<Rightarrow> bytes" where
  "Writer_encode_hello h =
     (let b = []; b = Writer_wid b (wh_worker h); b = Writer_wid b (wh_boot h); b = Writer_wid b (wh_workloadGen h)
      in Writer_str b (wh_role h))"

definition Writer_encode_evidence :: "InterferenceEvidence \<Rightarrow> bytes" where
  "Writer_encode_evidence e =
     (let b = [];
          b = Writer_wid b (ie_id e); b = Writer_wid b (ie_generation e); b = Writer_wid b (ie_victim e);
          b = Writer_u64 b (word_of_nat (length (ie_neighbors e)));
          b = foldl Writer_wid b (ie_neighbors e);
          b = Writer_u8 b (enum_u8 ord_ResourceDomain (ie_domain e));
          b = Writer_u8 b (enum_u8 ord_MetricDirection (ie_metric e));
          b = Writer_f64 b (ie_isolatedBaseline e); b = Writer_f64 b (ie_coRunObservation e);
          b = Writer_u8 b (enum_u8 ord_AttributionStrength (ie_attribution e));
          b = Writer_f64 b (ie_confidence e); b = Writer_u64 b (ie_sampleCount e);
          b = Writer_u8 b (enum_u8 ord_EvidenceStatus (ie_status e));
          b = Writer_u64 b (ie_sampledAt e); b = Writer_u64 b (ie_maxAgeMs e);
          b = Writer_u8 b (enum_u8 ord_EvidenceLabel (ie_label e));
          b = Writer_str b (ie_sourceId e); b = Writer_str b (ie_sourceHealth e);
          b = Writer_wid b (ie_workerBoot e); b = Writer_wid b (ie_workloadGeneration e);
          b = Writer_wid b (ie_deviceGeneration e); b = Writer_wid b (ie_hostGeneration e);
          b = Writer_wid b (ie_topologyGeneration e); b = Writer_wid b (ie_resourceGeneration e);
          b = Writer_wid b (ie_placementGeneration e);
          b = Writer_u64 b (ie_activeFrom e); b = Writer_u64 b (ie_activeUntil e);
          b = Writer_u64 b (word_of_nat (length (ie_unresolvedConfounders e)))
      in foldl Writer_str b (ie_unresolvedConfounders e))"

definition Writer_encode_action :: "WireAction \<Rightarrow> bytes" where
  "Writer_encode_action a =
     (let b = []; b = Writer_wid b (wa_id a); b = Writer_wid b (wa_target a); b = Writer_wid b (wa_attempt a);
          b = Writer_u8 b (enum_u8 ord_InterventionClass (wa_cls a))
      in Writer_f64 b (wa_intensity a))"

definition Writer_encode_ack :: "WireAck \<Rightarrow> bytes" where
  "Writer_encode_ack a =
     (let b = []; b = Writer_wid b (wk_id a); b = Writer_wid b (wk_attempt a);
          b = Writer_u8 b (if wk_acknowledged a then 1 else 0)
      in Writer_str b (wk_note a))"

section \<open>The reader\<close>

definition Reader_f64 :: "double cread" where "Reader_f64 = c_f64 Reader_u64"
definition Reader_id :: "('tag Id) cread" where "Reader_id = c_id Reader_u64"
definition Reader_bool :: "bool cread" where "Reader_bool = c_bool Reader_u8"
definition Reader_enum :: "u8 \<Rightarrow> 'e list \<Rightarrow> 'e cread" where "Reader_enum = c_enum Reader_u8"
definition Reader_list :: "u64 \<Rightarrow> 'a cread \<Rightarrow> ('a list) cread" where "Reader_list = c_list Reader_u64"

text \<open>\<^verbatim>\<open>Reader r(d, n);\<close> then the reads, then \<^verbatim>\<open>return r.ok\<close>: \<open>None\<close> is false.\<close>

definition c_run :: "'a cread \<Rightarrow> bytes \<Rightarrow> u64 \<Rightarrow> mem_error + 'a option" where
  "c_run r d n = (case r (reader_at d n) of
     Inl e \<Rightarrow> Inl e
   | Inr (None, _) \<Rightarrow> Inr None
   | Inr (Some v, c) \<Rightarrow> Inr (if cu_ok c then Some v else None))"

definition Reader_hello :: "WorkerHello cread" where
  "Reader_hello =
     c_bind Reader_id (\<lambda>worker. c_bind Reader_id (\<lambda>boot. c_bind Reader_id (\<lambda>gen.
     c_bind Reader_str (\<lambda>role.
     c_return
      \<lparr>wh_worker = worker, wh_boot = boot, wh_workloadGen = gen, wh_role = role\<rparr>))))"

definition Reader_evidence :: "InterferenceEvidence \<Rightarrow> InterferenceEvidence cread" where
  "Reader_evidence e0 =
     c_bind Reader_id (\<lambda>x_id. c_bind Reader_id (\<lambda>x_generation. c_bind Reader_id (\<lambda>x_victim.
     c_bind (Reader_list 1024 Reader_id) (\<lambda>x_neighbors.
     c_bind (Reader_enum 14 all_ResourceDomain) (\<lambda>x_domain.
     c_bind (Reader_enum 2 all_MetricDirection) (\<lambda>x_metric. c_bind Reader_f64 (\<lambda>x_isolatedBaseline.
     c_bind Reader_f64 (\<lambda>x_coRunObservation.
     c_bind (Reader_enum 6 all_AttributionStrength) (\<lambda>x_attribution.
     c_bind Reader_f64 (\<lambda>x_confidence. c_bind Reader_u64 (\<lambda>x_sampleCount.
     c_bind (Reader_enum 8 all_EvidenceStatus) (\<lambda>x_status. c_bind Reader_u64 (\<lambda>x_sampledAt.
     c_bind Reader_u64 (\<lambda>x_maxAgeMs. c_bind (Reader_enum 6 all_EvidenceLabel) (\<lambda>x_label.
     c_bind Reader_str (\<lambda>x_sourceId. c_bind Reader_str (\<lambda>x_sourceHealth.
     c_bind Reader_id (\<lambda>x_workerBoot. c_bind Reader_id (\<lambda>x_workloadGeneration.
     c_bind Reader_id (\<lambda>x_deviceGeneration. c_bind Reader_id (\<lambda>x_hostGeneration.
     c_bind Reader_id (\<lambda>x_topologyGeneration. c_bind Reader_id (\<lambda>x_resourceGeneration.
     c_bind Reader_id (\<lambda>x_placementGeneration. c_bind Reader_u64 (\<lambda>x_activeFrom.
     c_bind Reader_u64 (\<lambda>x_activeUntil.
     c_bind (Reader_list 1024 Reader_str) (\<lambda>x_unresolvedConfounders.
     c_return
      \<lparr>ie_id = x_id, ie_generation = x_generation, ie_victim = x_victim, ie_neighbors = x_neighbors,
        ie_domain = x_domain, ie_metric = x_metric, ie_isolatedBaseline = x_isolatedBaseline,
        ie_coRunObservation = x_coRunObservation, ie_degradation = ie_degradation e0,
        ie_improvement = ie_improvement e0, ie_attribution = x_attribution,
        ie_confidence = x_confidence, ie_sampleCount = x_sampleCount,
        ie_unresolvedConfounders = x_unresolvedConfounders, ie_status = x_status,
        ie_sampledAt = x_sampledAt, ie_maxAgeMs = x_maxAgeMs, ie_label = x_label,
        ie_sourceId = x_sourceId, ie_sourceHealth = x_sourceHealth, ie_workerBoot = x_workerBoot,
        ie_workloadGeneration = x_workloadGeneration, ie_deviceGeneration = x_deviceGeneration,
        ie_hostGeneration = x_hostGeneration, ie_topologyGeneration = x_topologyGeneration,
        ie_resourceGeneration = x_resourceGeneration, ie_placementGeneration = x_placementGeneration,
        ie_activeFrom = x_activeFrom, ie_activeUntil = x_activeUntil\<rparr>)))))))))))))))))))))))))))"

definition Reader_action :: "WireAction cread" where
  "Reader_action =
     c_bind Reader_id (\<lambda>i. c_bind Reader_id (\<lambda>target. c_bind Reader_id (\<lambda>attempt.
     c_bind (Reader_enum 21 all_InterventionClass) (\<lambda>cls. c_bind Reader_f64 (\<lambda>intensity.
     c_return
      \<lparr>wa_id = i, wa_cls = cls, wa_target = target, wa_attempt = attempt, wa_intensity = intensity\<rparr>)))))"

definition Reader_ack :: "WireAck cread" where
  "Reader_ack =
     c_bind Reader_id (\<lambda>i. c_bind Reader_id (\<lambda>attempt. c_bind Reader_bool (\<lambda>ok.
     c_bind Reader_str (\<lambda>text.
     c_return
      \<lparr>wk_id = i, wk_attempt = attempt, wk_acknowledged = ok, wk_note = text\<rparr>))))"

definition Reader_decode_hello :: "bytes \<Rightarrow> u64 \<Rightarrow> mem_error + WorkerHello option" where
  "Reader_decode_hello d n = c_run Reader_hello d n"

definition Reader_decode_evidence :: "InterferenceEvidence \<Rightarrow> bytes \<Rightarrow> u64 \<Rightarrow> mem_error + InterferenceEvidence option" where
  "Reader_decode_evidence e0 d n = c_run (Reader_evidence e0) d n"

definition Reader_decode_action :: "bytes \<Rightarrow> u64 \<Rightarrow> mem_error + WireAction option" where
  "Reader_decode_action d n = c_run Reader_action d n"

definition Reader_decode_ack :: "bytes \<Rightarrow> u64 \<Rightarrow> mem_error + WireAck option" where
  "Reader_decode_ack d n = c_run Reader_ack d n"

section \<open>The writer appends what the writers of bytes produce\<close>

lemma byte_of_shift: "ucast (drop_bit (8 * i) v AND 0xFF) = (ucast (drop_bit (8 * i) v) :: u8)"
  for v :: "'a :: len word"
proof -
  have ff: "(0xFF :: 'a word) = mask 8" by (simp add: mask_eq_exp_minus_1)
  have "bit (ucast (drop_bit (8 * i) v AND 0xFF) :: u8) n \<longleftrightarrow> bit (ucast (drop_bit (8 * i) v) :: u8) n"
    if "n < LENGTH(8)" for n
    using that unfolding ff bit_ucast_iff bit_and_iff bit_drop_bit_eq bit_mask_iff
    by (auto dest: bit_imp_le_length)
  then show ?thesis by (auto intro: bit_eqI)
qed

lemma le_bytes_map: "le_bytes k v = map (\<lambda>i. ucast (drop_bit (8 * i) v)) [0..<k]"
proof (induction k arbitrary: v)
  case (Suc k)
  have "map (\<lambda>i. ucast (drop_bit (8 * i) v)) [0..<Suc k] =
      (ucast v :: u8) # map (\<lambda>i. ucast (drop_bit (8 * Suc i) v)) [0..<k]"
    by (simp add: upt_conv_Cons map_Suc_upt [symmetric] del: upt_Suc)
  then show ?case using Suc.IH by (simp add: drop_bit_drop_bit add.commute)
qed simp

lemma push_bytes_le: "push_bytes k b v = b @ le_bytes k v"
proof -
  have "foldl (\<lambda>b i. b @ [f i]) b is = b @ map f is" for b and f :: "nat \<Rightarrow> u8" and "is"
    by (induction "is" arbitrary: b) simp_all
  then show ?thesis by (simp add: push_bytes_def le_bytes_map byte_of_shift)
qed

lemma Writer_writes:
  "Writer_u8 b v8 = b @ w_u8 v8" "Writer_u32 b v32 = b @ w_u32 v32" "Writer_u64 b v64 = b @ w_u64 v64" "Writer_f64 b x = b @ w_f64 x"
  "Writer_wid b i = b @ w_id i" "Writer_str b s = b @ w_str s"
  by (simp_all add: Writer_u8_def w_u8_def Writer_u32_def w_u32_def Writer_u64_def w_u64_def push_bytes_le Writer_f64_def w_f64_def
      Writer_wid_def w_id_def Writer_str_def w_str_def)

lemma foldl_writer:
  assumes "\<And>b x. f b x = b @ w x"
  shows "foldl f b xs = b @ concat (map w xs)"
  by (induction xs arbitrary: b) (simp_all add: assms)

lemma Writer_encodes:
  "Writer_encode_hello h = encode_hello h" "Writer_encode_action a = encode_action a"
  "Writer_encode_ack k = encode_ack k"
  by (simp_all add: Writer_encode_hello_def encode_hello_def Writer_encode_action_def encode_action_def
      Writer_encode_ack_def encode_ack_def Writer_writes w_enum_def w_bool_def Let_def)

lemma Writer_encodes_evidence: "Writer_encode_evidence e = encode_evidence e"
  by (simp add: Writer_encode_evidence_def encode_evidence_def Writer_writes w_enum_def w_list_def Let_def
      foldl_writer [of Writer_wid w_id] foldl_writer [of Writer_str w_str])

section \<open>The reader reads what the readers of bytes read\<close>

lemma implements_Reader [cursor_intros]:
  "implements Reader_f64 r_f64" "implements Reader_id r_id" "implements Reader_bool r_bool"
  "implements Reader_str r_str"
  by (simp_all add: Reader_f64_def Reader_id_def Reader_bool_def dist_reader.f64 dist_reader.ident dist_reader.bool
      implements_Reader_str)

lemma implements_Reader_list [cursor_intros]:
  "implements cr r \<Longrightarrow> implements (Reader_list limit cr) (r_list_upto limit r)"
  unfolding Reader_list_def r_list_upto_def [abs_def] by (rule dist_reader.list_upto)

lemma implements_Reader_enum [cursor_intros]:
  "implements (Reader_enum 14 all_ResourceDomain) (r_enum all_ResourceDomain)"
  "implements (Reader_enum 2 all_MetricDirection) (r_enum all_MetricDirection)"
  "implements (Reader_enum 6 all_AttributionStrength) (r_enum all_AttributionStrength)"
  "implements (Reader_enum 8 all_EvidenceStatus) (r_enum all_EvidenceStatus)"
  "implements (Reader_enum 6 all_EvidenceLabel) (r_enum all_EvidenceLabel)"
  "implements (Reader_enum 21 all_InterventionClass) (r_enum all_InterventionClass)"
  unfolding Reader_enum_def by (rule dist_reader.enum, simp add: enum_limits)+

lemma implements_Reader_messages:
  "implements Reader_hello decode_hello" "implements (Reader_evidence e0) (decode_evidence e0)"
  "implements Reader_action decode_action" "implements Reader_ack decode_ack"
  unfolding Reader_hello_def decode_hello_def [abs_def] Reader_evidence_def decode_evidence_def [abs_def]
    Reader_action_def decode_action_def [abs_def] Reader_ack_def decode_ack_def [abs_def]
  by (intro cursor_intros)+

lemma c_run_implements:
  assumes "implements cr r" "unat n \<le> length d" "unat n < 2 ^ 63"
  shows "c_run cr d n = Inr (map_option fst (r (take (unat n) d)))"
proof -
  have ok: "cursor_ok (reader_at d n)" "remaining (reader_at d n) = take (unat n) d"
    using assms by (simp_all add: reader_at_ok remaining_reader_at)
  show ?thesis
  proof (cases "r (take (unat n) d)")
    case None
    then show ?thesis using implements_None [OF assms(1) ok(1)] ok(2) by (auto simp: c_run_def)
  next
    case (Some vb)
    then show ?thesis
      using implements_Some [OF assms(1) ok(1), of "fst vb" "snd vb"] ok(2) by (auto simp: c_run_def cursor_ok_def)
  qed
qed

lemmas Reader_decodes = implements_Reader_messages [THEN c_run_implements]

end
