(* ===== verification/CG_Load.thy ===== *)
theory CG_Load
  imports CG_Cursor
begin

text \<open>
  \<^verbatim>\<open>load_from_bytes\<close> and the deserializers of \<^verbatim>\<open>src/persistence.cpp\<close> once more, now over the
  pointer, the length and the reader \<^verbatim>\<open>R\<close> of the code: every byte they look at is an access
  that must lie in the buffer. They never leave it and give what the loader of
  \<open>CG_Persistence\<close> gives, whatever the bytes.
\<close>

section \<open>Reads\<close>

definition R_f64 :: "double cread" where "R_f64 = c_f64 R_u64"
definition R_id :: "('tag Id) cread" where "R_id = c_id R_u64"
definition R_bool :: "bool cread" where "R_bool = c_bool R_u8"
definition R_enum :: "u8 \<Rightarrow> 'e list \<Rightarrow> 'e cread" where "R_enum = c_enum R_u8"
definition R_list :: "'a cread \<Rightarrow> ('a list) cread" where "R_list = c_list R_u64 kMaxCollectionLen"
definition R_map :: "'v cread \<Rightarrow> (('tag Id, 'v) omap) cread" where "R_map = c_map R_u64 kMaxCollectionLen"

definition R_opt :: "double option cread" where
  "R_opt = c_bind R_bool (\<lambda>b. if b then c_bind R_f64 (\<lambda>d. c_return (Some d)) else c_return None)"

definition R_stats :: "ActionBudgetStats cread" where
  "R_stats =
     c_bind R_u64 (\<lambda>pre. c_bind R_u64 (\<lambda>mig. c_bind R_u64 (\<lambda>plc. c_bind R_u64 (\<lambda>thr.
     c_bind R_u64 (\<lambda>col. c_bind R_u64 (\<lambda>tot.
     c_return
      \<lparr>abs_preemptions = pre, abs_migrations = mig, abs_placementChanges = plc,
        abs_throttles = thr, abs_collectiveReschedules = col, abs_all = tot\<rparr>))))))"

definition R_status :: "Status cread" where
  "R_status =
     c_bind (R_enum 21 persisted_StatusCode) (\<lambda>code. c_bind R_str (\<lambda>msg.
     c_return
      \<lparr>st_code = code, st_message = msg\<rparr>))"

section \<open>Records\<close>

definition R_deserialize_workload :: "WorkloadPolicy cread" where
  "R_deserialize_workload =
     c_bind R_id (\<lambda>x_workload. c_bind R_id (\<lambda>x_generation. c_bind R_bool (\<lambda>x_nonPreemptible.
     c_bind R_bool (\<lambda>x_protectedWorkload. c_bind R_f64 (\<lambda>x_value. c_bind R_u32 (\<lambda>x_priority.
     c_bind R_f64 (\<lambda>x_hardSloFloor. c_bind R_opt (\<lambda>x_softSloTarget.
     c_bind R_f64 (\<lambda>x_minServiceFloor. c_bind R_f64 (\<lambda>x_costCeiling. c_bind R_f64 (\<lambda>x_restartCost.
     c_bind R_f64 (\<lambda>x_preemptionCost. c_bind R_f64 (\<lambda>x_recoveryCost.
     c_bind R_f64 (\<lambda>x_maxDegradationTolerated. c_bind R_u32 (\<lambda>x_maxInterventionFrequencyPerWindow.
     c_bind R_bool (\<lambda>x_preemptionAllowed. c_bind R_bool (\<lambda>x_throttlingAllowed.
     c_bind R_bool (\<lambda>x_deferralAllowed. c_bind R_bool (\<lambda>x_admissionRestrictionAllowed.
     c_bind R_bool (\<lambda>x_placementChangeAllowed. c_bind R_bool (\<lambda>x_bandwidthRequestAllowed.
     c_bind R_bool (\<lambda>x_collectiveSchedulingAllowed. c_bind R_bool (\<lambda>x_migrationAllowed.
     c_return
      \<lparr>wp_workload = x_workload, wp_generation = x_generation,
        wp_nonPreemptible = x_nonPreemptible, wp_protectedWorkload = x_protectedWorkload,
        wp_value = x_value, wp_priority = x_priority, wp_hardSloFloor = x_hardSloFloor,
        wp_softSloTarget = x_softSloTarget, wp_minServiceFloor = x_minServiceFloor,
        wp_costCeiling = x_costCeiling, wp_restartCost = x_restartCost,
        wp_preemptionCost = x_preemptionCost, wp_recoveryCost = x_recoveryCost,
        wp_maxDegradationTolerated = x_maxDegradationTolerated,
        wp_maxInterventionFrequencyPerWindow = x_maxInterventionFrequencyPerWindow,
        wp_preemptionAllowed = x_preemptionAllowed, wp_throttlingAllowed = x_throttlingAllowed,
        wp_deferralAllowed = x_deferralAllowed,
        wp_admissionRestrictionAllowed = x_admissionRestrictionAllowed,
        wp_placementChangeAllowed = x_placementChangeAllowed,
        wp_bandwidthRequestAllowed = x_bandwidthRequestAllowed,
        wp_collectiveSchedulingAllowed = x_collectiveSchedulingAllowed,
        wp_migrationAllowed = x_migrationAllowed\<rparr>)))))))))))))))))))))))"

definition R_deserialize_budget :: "ActionBudget cread" where
  "R_deserialize_budget =
     c_bind R_id (\<lambda>x_generation. c_bind R_u64 (\<lambda>x_maxPreemptionsPerWindow.
     c_bind R_u64 (\<lambda>x_maxMigrationsPerWindow. c_bind R_u64 (\<lambda>x_maxPlacementChangesPerWindow.
     c_bind R_u64 (\<lambda>x_maxThrottlesPerWindow. c_bind R_u64 (\<lambda>x_maxCollectiveReschedulesPerWindow.
     c_bind R_u64 (\<lambda>x_maxAnyPerWindow. c_bind R_u64 (\<lambda>x_windowMs. c_bind R_u64 (\<lambda>x_windowStart.
     c_bind R_stats (\<lambda>x_used.
     c_return
      \<lparr>ab_generation = x_generation, ab_maxPreemptionsPerWindow = x_maxPreemptionsPerWindow,
        ab_maxMigrationsPerWindow = x_maxMigrationsPerWindow,
        ab_maxPlacementChangesPerWindow = x_maxPlacementChangesPerWindow,
        ab_maxThrottlesPerWindow = x_maxThrottlesPerWindow,
        ab_maxCollectiveReschedulesPerWindow = x_maxCollectiveReschedulesPerWindow,
        ab_maxAnyPerWindow = x_maxAnyPerWindow, ab_windowMs = x_windowMs,
        ab_windowStart = x_windowStart, ab_used = x_used\<rparr>))))))))))"

definition R_deserialize_policy :: "ContentionPolicy cread" where
  "R_deserialize_policy =
     c_bind R_id (\<lambda>x_id. c_bind R_id (\<lambda>x_generation. c_bind R_f64 (\<lambda>x_actionabilityThreshold.
     c_bind R_f64 (\<lambda>x_releaseThreshold. c_bind R_u64 (\<lambda>x_hysteresisEvidenceCount.
     c_bind (R_enum 7 policy_AttributionStrength) (\<lambda>x_minAttributionForDisruptive.
     c_bind R_f64 (\<lambda>x_minConfidenceForDisruptive. c_bind R_f64 (\<lambda>x_fairnessFloor.
     c_bind R_f64 (\<lambda>x_fairnessWeight. c_bind R_u32 (\<lambda>x_maxConsecutiveInterventionsPerWorkload.
     c_bind R_f64 (\<lambda>x_costCeiling. c_bind R_u64 (\<lambda>x_cooldownMs.
     c_bind R_deserialize_budget (\<lambda>x_budget. c_bind (R_map R_deserialize_workload) (\<lambda>x_workloads.
     c_bind R_bool (\<lambda>x_preemptionAllowed. c_bind R_bool (\<lambda>x_migrationAllowed.
     c_bind R_bool (\<lambda>x_placementChangeAllowed. c_bind R_bool (\<lambda>x_bandwidthRequestAllowed.
     c_bind R_bool (\<lambda>x_collectiveSchedulingAllowed. c_bind R_bool (\<lambda>x_admissionRestrictionAllowed.
     c_bind R_bool (\<lambda>x_throttleAllowed.
     c_return
      \<lparr>p_id = x_id, p_generation = x_generation,
        p_actionabilityThreshold = x_actionabilityThreshold,
        p_releaseThreshold = x_releaseThreshold,
        p_hysteresisEvidenceCount = x_hysteresisEvidenceCount,
        p_minAttributionForDisruptive = x_minAttributionForDisruptive,
        p_minConfidenceForDisruptive = x_minConfidenceForDisruptive,
        p_fairnessFloor = x_fairnessFloor,
        p_maxConsecutiveInterventionsPerWorkload = x_maxConsecutiveInterventionsPerWorkload,
        p_fairnessWeight = x_fairnessWeight, p_costCeiling = x_costCeiling,
        p_cooldownMs = x_cooldownMs, p_budget = x_budget, p_workloads = x_workloads,
        p_preemptionAllowed = x_preemptionAllowed, p_migrationAllowed = x_migrationAllowed,
        p_placementChangeAllowed = x_placementChangeAllowed,
        p_bandwidthRequestAllowed = x_bandwidthRequestAllowed,
        p_collectiveSchedulingAllowed = x_collectiveSchedulingAllowed,
        p_admissionRestrictionAllowed = x_admissionRestrictionAllowed,
        p_throttleAllowed = x_throttleAllowed\<rparr>)))))))))))))))))))))"

definition R_deserialize_authority :: "AuthorityContext cread" where
  "R_deserialize_authority =
     c_bind R_id (\<lambda>x_coordinatorEpoch. c_bind R_id (\<lambda>x_governorGeneration.
     c_bind R_id (\<lambda>x_policyGeneration. c_bind R_id (\<lambda>x_sloGeneration.
     c_bind R_id (\<lambda>x_valueGeneration. c_bind R_id (\<lambda>x_fairnessGeneration.
     c_bind R_id (\<lambda>x_resourceGeneration. c_bind R_id (\<lambda>x_placementGeneration.
     c_bind R_id (\<lambda>x_topologyGeneration. c_bind (R_map R_id) (\<lambda>x_workloadGenerations.
     c_bind (R_map R_id) (\<lambda>x_workloadBoots.
     c_return
      \<lparr>au_coordinatorEpoch = x_coordinatorEpoch, au_governorGeneration = x_governorGeneration,
        au_policyGeneration = x_policyGeneration, au_sloGeneration = x_sloGeneration,
        au_valueGeneration = x_valueGeneration, au_fairnessGeneration = x_fairnessGeneration,
        au_resourceGeneration = x_resourceGeneration,
        au_placementGeneration = x_placementGeneration,
        au_topologyGeneration = x_topologyGeneration,
        au_workloadGenerations = x_workloadGenerations, au_workloadBoots = x_workloadBoots\<rparr>)))))))))))"

definition R_deserialize_evidence :: "InterferenceEvidence cread" where
  "R_deserialize_evidence =
     c_bind R_id (\<lambda>x_id. c_bind R_id (\<lambda>x_generation. c_bind R_id (\<lambda>x_victim.
     c_bind (R_list R_id) (\<lambda>x_neighbors. c_bind (R_enum 14 all_ResourceDomain) (\<lambda>x_domain.
     c_bind (R_enum 2 all_MetricDirection) (\<lambda>x_metric. c_bind R_f64 (\<lambda>x_isolatedBaseline.
     c_bind R_f64 (\<lambda>x_coRunObservation. c_bind R_f64 (\<lambda>x_degradation. c_bind R_f64 (\<lambda>x_improvement.
     c_bind (R_enum 6 all_AttributionStrength) (\<lambda>x_attribution. c_bind R_f64 (\<lambda>x_confidence.
     c_bind R_u64 (\<lambda>x_sampleCount. c_bind (R_list R_str) (\<lambda>x_unresolvedConfounders.
     c_bind (R_enum 8 all_EvidenceStatus) (\<lambda>x_status. c_bind R_u64 (\<lambda>x_sampledAt.
     c_bind R_u64 (\<lambda>x_maxAgeMs. c_bind (R_enum 6 all_EvidenceLabel) (\<lambda>x_label.
     c_bind R_str (\<lambda>x_sourceId. c_bind R_str (\<lambda>x_sourceHealth. c_bind R_id (\<lambda>x_workerBoot.
     c_bind R_id (\<lambda>x_workloadGeneration. c_bind R_id (\<lambda>x_deviceGeneration.
     c_bind R_id (\<lambda>x_hostGeneration. c_bind R_id (\<lambda>x_topologyGeneration.
     c_bind R_id (\<lambda>x_resourceGeneration. c_bind R_id (\<lambda>x_placementGeneration.
     c_bind R_u64 (\<lambda>x_activeFrom. c_bind R_u64 (\<lambda>x_activeUntil.
     c_return
      \<lparr>ie_id = x_id, ie_generation = x_generation, ie_victim = x_victim,
        ie_neighbors = x_neighbors, ie_domain = x_domain, ie_metric = x_metric,
        ie_isolatedBaseline = x_isolatedBaseline, ie_coRunObservation = x_coRunObservation,
        ie_degradation = x_degradation, ie_improvement = x_improvement,
        ie_attribution = x_attribution, ie_confidence = x_confidence,
        ie_sampleCount = x_sampleCount, ie_unresolvedConfounders = x_unresolvedConfounders,
        ie_status = x_status, ie_sampledAt = x_sampledAt, ie_maxAgeMs = x_maxAgeMs,
        ie_label = x_label, ie_sourceId = x_sourceId, ie_sourceHealth = x_sourceHealth,
        ie_workerBoot = x_workerBoot, ie_workloadGeneration = x_workloadGeneration,
        ie_deviceGeneration = x_deviceGeneration, ie_hostGeneration = x_hostGeneration,
        ie_topologyGeneration = x_topologyGeneration,
        ie_resourceGeneration = x_resourceGeneration,
        ie_placementGeneration = x_placementGeneration, ie_activeFrom = x_activeFrom,
        ie_activeUntil = x_activeUntil\<rparr>)))))))))))))))))))))))))))))"

definition R_deserialize_fence :: "Fence cread" where
  "R_deserialize_fence =
     c_bind R_id (\<lambda>x_coordinatorEpoch. c_bind R_id (\<lambda>x_governorGeneration.
     c_bind R_id (\<lambda>x_policyGeneration. c_bind R_id (\<lambda>x_sloGeneration.
     c_bind R_id (\<lambda>x_valueGeneration. c_bind R_id (\<lambda>x_fairnessGeneration.
     c_bind R_id (\<lambda>x_resourceGeneration. c_bind R_id (\<lambda>x_placementGeneration.
     c_bind R_id (\<lambda>x_topologyGeneration. c_bind R_id (\<lambda>x_conflictGeneration.
     c_bind R_id (\<lambda>x_evidenceGeneration. c_bind R_id (\<lambda>x_workerBoot.
     c_bind R_id (\<lambda>x_workloadGeneration. c_bind R_id (\<lambda>x_interventionGeneration.
     c_return
      \<lparr>fe_coordinatorEpoch = x_coordinatorEpoch, fe_governorGeneration = x_governorGeneration,
        fe_policyGeneration = x_policyGeneration, fe_sloGeneration = x_sloGeneration,
        fe_valueGeneration = x_valueGeneration, fe_fairnessGeneration = x_fairnessGeneration,
        fe_resourceGeneration = x_resourceGeneration,
        fe_placementGeneration = x_placementGeneration,
        fe_topologyGeneration = x_topologyGeneration,
        fe_conflictGeneration = x_conflictGeneration,
        fe_evidenceGeneration = x_evidenceGeneration, fe_workerBoot = x_workerBoot,
        fe_workloadGeneration = x_workloadGeneration,
        fe_interventionGeneration = x_interventionGeneration\<rparr>))))))))))))))"

definition R_deserialize_intervention :: "InterventionRecord cread" where
  "R_deserialize_intervention =
     c_bind R_id (\<lambda>x_id. c_bind R_id (\<lambda>x_generation.
     c_bind (R_enum 21 all_InterventionClass) (\<lambda>x_cls. c_bind R_id (\<lambda>x_conflictId.
     c_bind R_id (\<lambda>x_target. c_bind (R_enum 12 all_LifecycleState) (\<lambda>x_state.
     c_bind R_deserialize_fence (\<lambda>x_fence. c_bind R_str (\<lambda>x_adapter. c_bind R_u64 (\<lambda>x_authorizedAt.
     c_bind R_u64 (\<lambda>x_dispatchedAt. c_bind R_u64 (\<lambda>x_acknowledgedAt. c_bind R_u64 (\<lambda>x_completedAt.
     c_bind R_id (\<lambda>x_dispatchId. c_bind R_id (\<lambda>x_attemptId. c_bind R_str (\<lambda>x_ackNote.
     c_bind R_status (\<lambda>x_interimStatus. c_bind (R_enum 9 all_VerificationOutcome) (\<lambda>x_result.
     c_bind (R_list R_str) (\<lambda>x_trace. c_bind R_bool (\<lambda>x_verificationReported.
     c_return
      \<lparr>ir_id = x_id, ir_generation = x_generation, ir_cls = x_cls,
        ir_conflictId = x_conflictId, ir_target = x_target, ir_state = x_state,
        ir_fence = x_fence, ir_adapter = x_adapter, ir_authorizedAt = x_authorizedAt,
        ir_dispatchedAt = x_dispatchedAt, ir_acknowledgedAt = x_acknowledgedAt,
        ir_completedAt = x_completedAt, ir_dispatchId = x_dispatchId,
        ir_attemptId = x_attemptId, ir_ackNote = x_ackNote, ir_interimStatus = x_interimStatus,
        ir_result = x_result, ir_trace = x_trace,
        ir_verificationReported = x_verificationReported\<rparr>)))))))))))))))))))"

definition R_deserialize_conflict :: "ContentionConflict cread" where
  "R_deserialize_conflict =
     c_bind R_id (\<lambda>x_id. c_bind R_id (\<lambda>x_generation. c_bind (R_list R_id) (\<lambda>x_affected.
     c_bind (R_list R_id) (\<lambda>x_associated. c_bind (R_enum 14 all_ResourceDomain) (\<lambda>x_domain.
     c_bind R_f64 (\<lambda>x_degradation. c_bind R_f64 (\<lambda>x_baseline. c_bind R_f64 (\<lambda>x_confidence.
     c_bind (R_enum 12 all_BindingObjective) (\<lambda>x_binding.
     c_bind (R_enum 6 all_Severity) (\<lambda>x_severity. c_bind (R_list R_id) (\<lambda>x_evidenceIds.
     c_bind (R_enum 13 all_ConflictState) (\<lambda>x_state. c_bind R_u64 (\<lambda>x_firstDetectedAt.
     c_bind R_u64 (\<lambda>x_lastUpdatedAt. c_bind R_u64 (\<lambda>x_activeUntil.
     c_bind (R_list R_str) (\<lambda>x_unresolvedConfounders. c_bind (R_list R_str) (\<lambda>x_blockers.
     c_bind (R_list (R_enum 21 all_InterventionClass)) (\<lambda>x_candidateClasses.
     c_bind (R_list R_id) (\<lambda>x_proposedIds. c_bind (R_list R_id) (\<lambda>x_selectedIds.
     c_bind R_id (\<lambda>x_policyGeneration. c_bind R_id (\<lambda>x_sloGeneration.
     c_bind R_id (\<lambda>x_valueGeneration. c_bind R_id (\<lambda>x_fairnessGeneration.
     c_bind R_id (\<lambda>x_resourceGeneration. c_bind R_id (\<lambda>x_placementGeneration.
     c_bind R_id (\<lambda>x_coordinatorEpoch. c_bind R_id (\<lambda>x_workerBoot.
     c_bind R_bool (\<lambda>x_groupEffectExplicit. c_bind R_u64 (\<lambda>x_lastActionAt.
     c_bind R_bool (\<lambda>x_inActionableState.
     c_return
      \<lparr>cc_id = x_id, cc_generation = x_generation, cc_affected = x_affected,
        cc_associated = x_associated, cc_domain = x_domain, cc_degradation = x_degradation,
        cc_baseline = x_baseline, cc_confidence = x_confidence, cc_binding = x_binding,
        cc_severity = x_severity, cc_evidenceIds = x_evidenceIds, cc_state = x_state,
        cc_firstDetectedAt = x_firstDetectedAt, cc_lastUpdatedAt = x_lastUpdatedAt,
        cc_activeUntil = x_activeUntil, cc_unresolvedConfounders = x_unresolvedConfounders,
        cc_blockers = x_blockers, cc_candidateClasses = x_candidateClasses,
        cc_proposedIds = x_proposedIds, cc_selectedIds = x_selectedIds,
        cc_policyGeneration = x_policyGeneration, cc_sloGeneration = x_sloGeneration,
        cc_valueGeneration = x_valueGeneration, cc_fairnessGeneration = x_fairnessGeneration,
        cc_resourceGeneration = x_resourceGeneration,
        cc_placementGeneration = x_placementGeneration,
        cc_coordinatorEpoch = x_coordinatorEpoch, cc_workerBoot = x_workerBoot,
        cc_groupEffectExplicit = x_groupEffectExplicit, cc_lastActionAt = x_lastActionAt,
        cc_inActionableState = x_inActionableState\<rparr>)))))))))))))))))))))))))))))))"

definition R_deserialize_fairness :: "FairnessRecord cread" where
  "R_deserialize_fairness =
     c_bind R_id (\<lambda>x_workload. c_bind R_u64 (\<lambda>x_interventionCount.
     c_bind R_u32 (\<lambda>x_consecutiveInterventions. c_bind R_f64 (\<lambda>x_deprivationDebt.
     c_bind R_u64 (\<lambda>x_lastInterventionAt.
     c_return
      \<lparr>fr_workload = x_workload, fr_interventionCount = x_interventionCount,
        fr_consecutiveInterventions = x_consecutiveInterventions,
        fr_deprivationDebt = x_deprivationDebt, fr_lastInterventionAt = x_lastInterventionAt\<rparr>)))))"

section \<open>The reads implement the readers of bytes\<close>

lemma implements_R [cursor_intros]:
  "implements R_f64 r_f64" "implements R_id r_id" "implements R_bool r_bool"
  "implements R_u32 r_u32" "implements R_str r_str"
  by (simp_all add: R_f64_def R_id_def R_bool_def state_reader.f64 state_reader.ident state_reader.bool
      implements_R_u32 implements_R_str)

lemma implements_R_list [cursor_intros]: "implements cr r \<Longrightarrow> implements (R_list cr) (r_list r)"
  unfolding R_list_def by (rule state_reader.list)

lemma implements_R_map [cursor_intros]: "implements cr r \<Longrightarrow> implements (R_map cr) (r_map r)"
  unfolding R_map_def by (rule state_reader.map)

text \<open>The limits the code tests are the numbers of enumerators it accepts.\<close>

lemma implements_R_enum [cursor_intros]:
  "implements (R_enum 7 policy_AttributionStrength) (r_enum policy_AttributionStrength)"
  "implements (R_enum 14 all_ResourceDomain) (r_enum all_ResourceDomain)"
  "implements (R_enum 2 all_MetricDirection) (r_enum all_MetricDirection)"
  "implements (R_enum 6 all_AttributionStrength) (r_enum all_AttributionStrength)"
  "implements (R_enum 8 all_EvidenceStatus) (r_enum all_EvidenceStatus)"
  "implements (R_enum 6 all_EvidenceLabel) (r_enum all_EvidenceLabel)"
  "implements (R_enum 21 all_InterventionClass) (r_enum all_InterventionClass)"
  "implements (R_enum 12 all_LifecycleState) (r_enum all_LifecycleState)"
  "implements (R_enum 21 persisted_StatusCode) (r_enum persisted_StatusCode)"
  "implements (R_enum 9 all_VerificationOutcome) (r_enum all_VerificationOutcome)"
  "implements (R_enum 12 all_BindingObjective) (r_enum all_BindingObjective)"
  "implements (R_enum 6 all_Severity) (r_enum all_Severity)"
  "implements (R_enum 13 all_ConflictState) (r_enum all_ConflictState)"
  unfolding R_enum_def
  by (rule state_reader.enum, simp add: policy_AttributionStrength_def all_ResourceDomain_def all_MetricDirection_def all_AttributionStrength_def all_EvidenceStatus_def all_EvidenceLabel_def all_InterventionClass_def all_LifecycleState_def persisted_StatusCode_def all_StatusCode_def all_VerificationOutcome_def all_BindingObjective_def all_Severity_def all_ConflictState_def)+

lemma implements_R_opt [cursor_intros]: "implements R_opt r_opt"
  unfolding R_opt_def r_opt_def [abs_def] by (intro cursor_intros)

lemma implements_R_stats [cursor_intros]: "implements R_stats r_stats"
  unfolding R_stats_def r_stats_def [abs_def] by (intro cursor_intros)

lemma implements_R_status [cursor_intros]: "implements R_status r_status"
  unfolding R_status_def r_status_def [abs_def] by (intro cursor_intros)

lemma implements_R_deserialize_workload [cursor_intros]: "implements R_deserialize_workload deserialize_workload"
  unfolding R_deserialize_workload_def deserialize_workload_def [abs_def] by (intro cursor_intros)

lemma implements_R_deserialize_budget [cursor_intros]: "implements R_deserialize_budget deserialize_budget"
  unfolding R_deserialize_budget_def deserialize_budget_def [abs_def] by (intro cursor_intros)

lemma implements_R_deserialize_policy [cursor_intros]: "implements R_deserialize_policy deserialize_policy"
  unfolding R_deserialize_policy_def deserialize_policy_def [abs_def] by (intro cursor_intros)

lemma implements_R_deserialize_authority [cursor_intros]: "implements R_deserialize_authority deserialize_authority"
  unfolding R_deserialize_authority_def deserialize_authority_def [abs_def] by (intro cursor_intros)

lemma implements_R_deserialize_evidence [cursor_intros]: "implements R_deserialize_evidence deserialize_evidence"
  unfolding R_deserialize_evidence_def deserialize_evidence_def [abs_def] by (intro cursor_intros)

lemma implements_R_deserialize_fence [cursor_intros]: "implements R_deserialize_fence deserialize_fence"
  unfolding R_deserialize_fence_def deserialize_fence_def [abs_def] by (intro cursor_intros)

lemma implements_R_deserialize_intervention [cursor_intros]: "implements R_deserialize_intervention deserialize_intervention"
  unfolding R_deserialize_intervention_def deserialize_intervention_def [abs_def] by (intro cursor_intros)

lemma implements_R_deserialize_conflict [cursor_intros]: "implements R_deserialize_conflict deserialize_conflict"
  unfolding R_deserialize_conflict_def deserialize_conflict_def [abs_def] by (intro cursor_intros)

lemma implements_R_deserialize_fairness [cursor_intros]: "implements R_deserialize_fairness deserialize_fairness"
  unfolding R_deserialize_fairness_def deserialize_fairness_def [abs_def] by (intro cursor_intros)

section \<open>The payload\<close>

text \<open>\<^verbatim>\<open>if (!read(rd, x)) return Status::bad(..., msg);\<close> before what follows.\<close>

definition c_try :: "string \<Rightarrow> 'a cread \<Rightarrow> Cursor \<Rightarrow> ('a \<Rightarrow> Cursor \<Rightarrow> mem_error + (string + 'b)) \<Rightarrow> mem_error + (string + 'b)" where
  "c_try msg r c k = (case r c of
     Inl e \<Rightarrow> Inl e
   | Inr (None, _) \<Rightarrow> Inr (Inl msg)
   | Inr (Some v, c) \<Rightarrow> k v c)"

fun R_load_entries :: "string \<Rightarrow> string \<Rightarrow> 'v cread \<Rightarrow> nat \<Rightarrow> ('tag Id, 'v) omap \<Rightarrow> Cursor \<Rightarrow>
    (('tag Id, 'v) omap \<Rightarrow> Cursor \<Rightarrow> mem_error + (string + 'b)) \<Rightarrow> mem_error + (string + 'b)" where
  "R_load_entries bad_id bad_value r 0 m c k = k m c"
| "R_load_entries bad_id bad_value r (Suc n) m c k =
     c_try bad_id R_id c (\<lambda>i c. c_try bad_value r c (\<lambda>v c. R_load_entries bad_id bad_value r n (om_put i v m) c k))"

definition R_load_map :: "string \<Rightarrow> string \<Rightarrow> string \<Rightarrow> 'v cread \<Rightarrow> Cursor \<Rightarrow>
    (('tag Id, 'v) omap \<Rightarrow> Cursor \<Rightarrow> mem_error + (string + 'b)) \<Rightarrow> mem_error + (string + 'b)" where
  "R_load_map bad_count bad_id bad_value r c k =
     c_try bad_count (c_count R_u64 kMaxCollectionLen) c (\<lambda>n c. R_load_entries bad_id bad_value r (unat n) [] c k)"

definition R_counters :: "(u64 \<times> u64 \<times> u64 \<times> u64 \<times> u64 \<times> u64) cread" where
  "R_counters =
     c_bind R_u64 (\<lambda>c. c_bind R_u64 (\<lambda>e. c_bind R_u64 (\<lambda>i. c_bind R_u64 (\<lambda>d. c_bind R_u64 (\<lambda>a.
     c_bind R_u64 (\<lambda>v. c_return (c, e, i, d, a, v)))))))"

definition R_load_payload :: "Cursor \<Rightarrow> mem_error + (string + GovernorState)" where
  "R_load_payload c =
     c_try ''bad policy'' R_deserialize_policy c (\<lambda>policy c.
     c_try ''bad authority'' R_deserialize_authority c (\<lambda>authority c.
     R_load_map ''bad conflict count'' ''bad conflict id'' ''bad conflict'' R_deserialize_conflict c (\<lambda>conflicts c.
     R_load_map ''bad evidence count'' ''bad evidence id'' ''bad evidence'' R_deserialize_evidence c (\<lambda>evidence c.
     R_load_map ''bad intervention count'' ''bad intervention id'' ''bad intervention''
       R_deserialize_intervention c (\<lambda>interventions c.
     R_load_map ''bad fairness count'' ''bad fairness id'' ''bad fairness'' R_deserialize_fairness c (\<lambda>fairness c.
     c_try ''bad counters'' R_counters c (\<lambda>(nc, ne, ni, nd, na, nv) c.
     c_try ''bad digest'' R_u64 c (\<lambda>digest c.
       Inr (if \<not> R_done c then Inl ''unconsumed payload bytes''
            else if \<not> status_ok (validate_policy policy) then Inl ''invalid policy in persistence''
            else Inr \<lparr>gs_engine = \<lparr>es_policy = policy, es_conflicts = conflicts, es_evidence = evidence,
                        es_interventions = interventions, es_fairness = fairness, es_authority = authority\<rparr>,
                      gs_nextConflictId = nc, gs_nextEvidenceId = ne, gs_nextInterventionId = ni,
                      gs_nextDispatchId = nd, gs_nextAttemptId = na, gs_nextVerificationId = nv,
                      gs_lastDigest = digest\<rparr>)))))))))"

section \<open>The file\<close>

text \<open>The parameter \<open>data\<close> is \<open>None\<close> for a null pointer, and \<^verbatim>\<open>len\<close> bytes of it are the file.\<close>

definition R_load_from_bytes :: "bytes option \<Rightarrow> u64 \<Rightarrow> GovernorState \<Rightarrow> mem_error + (Status \<times> GovernorState)" where
  "R_load_from_bytes data len s =
     (case data of
        None \<Rightarrow> Inr (corrupt ''truncated persistence header'', s)
      | Some d \<Rightarrow>
          if len < 20 + 4 then Inr (corrupt ''truncated persistence header'', s)
          else case range_at d 0 8 of Inl e \<Rightarrow> Inl e | Inr magic \<Rightarrow>
            if magic \<noteq> kMagic then Inr (corrupt ''bad magic'', s)
            else case R_u32 (reader_at (drop 8 d) (len - 8)) of
              Inl e \<Rightarrow> Inl e
            | Inr (None, _) \<Rightarrow> Inr (corrupt ''bad version'', s)
            | Inr (Some version, h) \<Rightarrow>
                if version \<noteq> kPersistenceVersion then Inr (corrupt ''unknown persistence version'', s)
                else case R_u64 h of
                  Inl e \<Rightarrow> Inl e
                | Inr (None, _) \<Rightarrow> Inr (corrupt ''bad payload length'', s)
                | Inr (Some payloadLen, _) \<Rightarrow>
                    let total = 20 + payloadLen + 4
                    in if total > len then Inr (corrupt ''truncated payload'', s)
                       else if total \<noteq> len then Inr (corrupt ''trailing garbage'', s)
                       else case range_at d (len - 4) 4 of Inl e \<Rightarrow> Inl e | Inr crc \<Rightarrow>
                         (case range_at d 20 payloadLen of Inl e \<Rightarrow> Inl e | Inr payload \<Rightarrow>
                            if le_value crc \<noteq> crc32c payload then Inr (corrupt ''payload checksum mismatch'', s)
                            else case R_load_payload (reader_at (drop 20 d) payloadLen) of
                              Inl e \<Rightarrow> Inl e
                            | Inr (Inl msg) \<Rightarrow> Inr (corrupt msg, s)
                            | Inr (Inr out) \<Rightarrow> Inr (status_good, out)))"

section \<open>It is the loader of the bytes\<close>

lemma c_try_implements:
  assumes "implements cr r" "cursor_ok c"
    and "\<And>v c'. cursor_ok c' \<Longrightarrow> k v c' = Inr (g v (remaining c'))"
  shows "c_try msg cr c k = Inr (and_then (or_fail msg (r (remaining c))) g)"
proof (cases "r (remaining c)")
  case None
  then show ?thesis using implements_None [OF assms(1,2)] by (auto simp: c_try_def or_fail_def)
next
  case (Some vb)
  obtain v bs where vb: "vb = (v, bs)" by fastforce
  obtain c' where "cr c = Inr (Some v, c')" "cursor_ok c'" "remaining c' = bs"
    using implements_Some [OF assms(1,2)] Some vb by blast
  then show ?thesis using assms(3) [of c' v] Some vb by (simp add: c_try_def or_fail_def)
qed

lemma load_entries_Suc:
  "and_then (load_entries e1 e2 r (Suc n) m bs) g = and_then (or_fail e1 (r_id bs)) (\<lambda>i bs.
     and_then (or_fail e2 (r bs)) (\<lambda>v bs. and_then (load_entries e1 e2 r n (om_put i v m) bs) g))"
  by (auto simp: or_fail_def split: option.splits)

lemma load_entries_implements:
  assumes "implements cr r" "\<And>m c. cursor_ok c \<Longrightarrow> k m c = Inr (g m (remaining c))"
  shows "cursor_ok c \<Longrightarrow> R_load_entries e1 e2 cr n m c k = Inr (and_then (load_entries e1 e2 r n m (remaining c)) g)"
proof (induction n arbitrary: m c)
  case 0
  then show ?case using assms(2) by simp
next
  case (Suc n)
  show ?case unfolding load_entries_Suc R_load_entries.simps
    by (rule c_try_implements [OF implements_R(2) Suc.prems], rule c_try_implements [OF assms(1)], assumption, rule Suc.IH)
qed

lemma load_map_implements:
  assumes "implements cr r" "cursor_ok c" "\<And>m c. cursor_ok c \<Longrightarrow> k m c = Inr (g m (remaining c))"
  shows "R_load_map e0 e1 e2 cr c k = Inr (and_then (load_map e0 e1 e2 r (remaining c)) g)"
proof -
  have count: "implements (c_count R_u64 kMaxCollectionLen) r_count"
    using state_reader.bounded_count [of kMaxCollectionLen] by (simp add: r_count_def [abs_def])
  have split: "and_then (load_map e0 e1 e2 r bs) g =
      and_then (or_fail e0 (r_count bs)) (\<lambda>n bs. and_then (load_entries e1 e2 r (unat n) [] bs) g)" for bs
    by (auto simp: load_map_def or_fail_def split: option.splits)
  show ?thesis unfolding R_load_map_def split
    by (rule c_try_implements [OF count assms(2)], rule load_entries_implements [OF assms(1)], erule assms(3), assumption)
qed

lemma implements_R_counters: "implements R_counters r_counters"
  unfolding R_counters_def r_counters_def [abs_def] by (intro cursor_intros)

lemma R_done_remaining: "cursor_ok c \<Longrightarrow> R_done c \<longleftrightarrow> remaining c = []"
proof -
  assume c: "cursor_ok c"
  have "remaining c = [] \<longleftrightarrow> length (remaining c) = 0" by simp
  also have "\<dots> \<longleftrightarrow> cu_p c = cu_n c"
    using c remaining_length [OF c] by (auto simp: cursor_ok_def word_le_nat_alt intro: word_unat_eq_iff [THEN iffD2])
  finally show ?thesis using c by (simp add: R_done_def cursor_ok_def)
qed

lemma load_payload_implements: "cursor_ok c \<Longrightarrow> R_load_payload c = Inr (load_payload (remaining c))"
  unfolding R_load_payload_def load_payload_def
  apply (rule c_try_implements [OF implements_R_deserialize_policy], assumption)
  apply (rule c_try_implements [OF implements_R_deserialize_authority], assumption)
  apply (rule load_map_implements [OF implements_R_deserialize_conflict], assumption)
  apply (rule load_map_implements [OF implements_R_deserialize_evidence], assumption)
  apply (rule load_map_implements [OF implements_R_deserialize_intervention], assumption)
  apply (rule load_map_implements [OF implements_R_deserialize_fairness], assumption)
  apply (rule c_try_implements [OF implements_R_counters], assumption)
  apply (simp only: split_paired_all prod.case)
  apply (rule c_try_implements [OF implements_R_u64], assumption)
  apply (simp add: R_done_remaining)
  done

text \<open>The header: eight bytes of magic, then the version and the payload length.\<close>

lemma read_version:
  assumes "24 \<le> unat len" "unat len \<le> length d" "unat len < 2 ^ 63"
  obtains v h where "R_u32 (reader_at (drop 8 d) (len - 8)) = Inr (Some v, h)" "cursor_ok h"
    "r_u32 (drop 8 (take (unat len) d)) = Some (v, remaining h)"
proof -
  have len: "unat (len - 8) = unat len - 8" using assms(1) by (simp add: unat_sub word_le_nat_alt)
  have ok: "cursor_ok (reader_at (drop 8 d) (len - 8))" using assms by (intro reader_at_ok) (simp_all add: len)
  have rest: "remaining (reader_at (drop 8 d) (len - 8)) = drop 8 (take (unat len) d)"
    by (simp add: remaining_reader_at len drop_take)
  have "\<not> unat len - 8 < 4" using assms(1) by simp
  then obtain v bs where r: "r_u32 (drop 8 (take (unat len) d)) = Some (v, bs)"
    using assms(2) by (simp add: r_u32_def r_le_def)
  then obtain h where "R_u32 (reader_at (drop 8 d) (len - 8)) = Inr (Some v, h)" "cursor_ok h" "remaining h = bs"
    using implements_Some [OF implements_R_u32 ok] rest by metis
  then show thesis using that r by blast
qed

lemma R_load_from_bytes_loads:
  assumes "unat len \<le> length d" "unat len < 2 ^ 63"
  shows "R_load_from_bytes (Some d) len s = Inr (load_from_bytes (take (unat len) d) s)"
proof (cases "len < 24 \<or> take 8 d \<noteq> kMagic")
  case True
  have "range_at d 0 8 = Inr (take 8 d)" if "\<not> len < 24"
    using that assms by (simp add: range_at_def word_less_nat_alt)
  then show ?thesis
    using True assms by (auto simp: R_load_from_bytes_def load_from_bytes_def word_less_nat_alt min_def)
next
  case False
  let ?b = "take (unat len) d"
  have n: "24 \<le> unat len" "length ?b = unat len" "take 8 ?b = kMagic"
    using False assms by (simp_all add: word_less_nat_alt min_def)
  obtain v h where v: "R_u32 (reader_at (drop 8 d) (len - 8)) = Inr (Some v, h)" "cursor_ok h"
    "r_u32 (drop 8 ?b) = Some (v, remaining h)"
    by (rule read_version [OF n(1) assms])
  have magic: "range_at d 0 8 = Inr kMagic" using False assms n(1) by (simp add: range_at_def)
  have h: "remaining h = drop 12 ?b"
    using v(3) n by (simp add: r_u32_def r_le_def split: if_splits)
  have "\<not> unat len - 12 < 8" using n(1) by simp
  then obtain p bs where p: "r_u64 (remaining h) = Some (p, bs)"
    using n(2) unfolding h by (simp add: r_u64_def r_le_def)
  then obtain h' where p': "R_u64 h = Inr (Some p, h')"
    using implements_Some [OF implements_R_u64 v(2)] by blast
  have payload: "unat p = unat len - 24" "R_load_payload (reader_at (drop 20 d) p) = Inr (load_payload (take (unat p) (drop 20 ?b)))"
    "range_at d (len - 4) 4 = Inr (drop (unat len - 4) ?b)" "range_at d 20 p = Inr (take (unat p) (drop 20 ?b))"
    if "20 + p + 4 = len"
  proof -
    have "p = len - 24" using that by (simp add: algebra_simps)
    then show p: "unat p = unat len - 24" using n(1) by (simp add: unat_sub word_le_nat_alt)
    have take: "take (unat p) (drop 20 ?b) = take (unat p) (drop 20 d)"
      using p n(1) by (simp add: drop_take)
    show "R_load_payload (reader_at (drop 20 d) p) = Inr (load_payload (take (unat p) (drop 20 ?b)))"
      using p n(1) assms unfolding take
      by (subst load_payload_implements) (simp_all add: reader_at_ok remaining_reader_at)
    have "unat (len - 4) = unat len - 4" using n(1) by (simp add: unat_sub word_le_nat_alt)
    then show "range_at d (len - 4) 4 = Inr (drop (unat len - 4) ?b)"
      using n(1) assms by (simp add: range_at_def drop_take)
    show "range_at d 20 p = Inr (take (unat p) (drop 20 ?b))"
      using p n(1) assms unfolding take by (simp add: range_at_def)
  qed
  show ?thesis
    using n False payload
    by (simp add: R_load_from_bytes_def load_from_bytes_def Let_def magic v(1,3) p p' word_less_nat_alt
        split: sum.splits)
qed

lemma R_load_null: "R_load_from_bytes None len s = Inr (load_from_bytes [] s)"
  by (simp add: R_load_from_bytes_def load_from_bytes_def)

end
