(* ===== verification/CG_Frames.thy ===== *)
theory CG_Frames
  imports CG_Cursor CG_Net
begin

text \<open>
  \<^verbatim>\<open>decode_frames\<close> and \<^verbatim>\<open>Connection::receive\<close> of \<^verbatim>\<open>src/net.cpp\<close> over the bytes in memory: the
  header, the checksum and the payload of a frame are accesses at 64-bit offsets, one outside
  the buffer is an error. No access is, and the results are those of \<open>CG_Net\<close>.
\<close>

section \<open>A frame in memory\<close>

text \<open>\<^verbatim>\<open>parse_header(h, ...)\<close> at \<open>h = data + p\<close>; \<open>None\<close> is false.\<close>

definition parse_header_at :: "bytes \<Rightarrow> u64 \<Rightarrow> mem_error + (u32 \<times> u32 \<times> u32) option" where
  "parse_header_at d p =
     (case load_from d p 0 4 0 of Inl e \<Rightarrow> Inl e | Inr magic \<Rightarrow>
        if magic \<noteq> kProtocolMagic then Inr None
        else case load_from d (p + 4) 0 4 0 of Inl e \<Rightarrow> Inl e | Inr version \<Rightarrow>
          (case load_from d (p + 8) 0 4 0 of Inl e \<Rightarrow> Inl e | Inr type \<Rightarrow>
             (case load_from d (p + 12) 0 4 0 of Inl e \<Rightarrow> Inl e | Inr len \<Rightarrow> Inr (Some (version, type, len)))))"

text \<open>
  The checks on the bytes from \<open>p\<close> to \<open>n\<close>, which both functions make: a frame and the bytes it takes.
\<close>

datatype found = Header_missing | Frame_missing | Frame_bad string | Frame_found Frame u64

definition frame_at :: "bytes \<Rightarrow> u64 \<Rightarrow> u64 \<Rightarrow> mem_error + found" where
  "frame_at d n p =
     (if n - p < 16 then Inr Header_missing
      else case parse_header_at d p of
        Inl e \<Rightarrow> Inl e
      | Inr None \<Rightarrow> Inr (Frame_bad ''malformed frame magic/version'')
      | Inr (Some (version, type, len)) \<Rightarrow>
          if version \<noteq> kProtocolVersion then Inr (Frame_bad ''unsupported protocol version'')
          else if len > kMaxFramePayload then Inr (Frame_bad ''oversized frame'')
          else let need = 16 + ucast len + 4
               in if n - p < need then Inr Frame_missing
                  else case load_from d (p + 16 + ucast len) 0 4 0 of Inl e \<Rightarrow> Inl e | Inr crc \<Rightarrow>
                    (case range_at d (p + 8) (16 - 8 + ucast len) of Inl e \<Rightarrow> Inl e | Inr summed \<Rightarrow>
                       if crc \<noteq> crc32c summed then Inr (Frame_bad ''frame checksum mismatch'')
                       else case range_at d (p + 16) (ucast len) of Inl e \<Rightarrow> Inl e | Inr payload \<Rightarrow>
                         Inr (Frame_found \<lparr>fm_type = type, fm_payload = payload\<rparr> need)))"

lemma unat_up [simp]: "unat (ucast (w :: u32) :: u64) = unat w"
proof -
  have "unat w < 2 ^ LENGTH(32)" by (rule unsigned_less)
  then have "unat w < 2 ^ 64" by simp
  then show ?thesis by (simp add: unsigned_ucast_eq take_bit_nat_eq_self)
qed

lemma need_unat: "\<not> kMaxFramePayload < w \<Longrightarrow> unat (16 + ucast w + 4 :: u64) = 20 + unat w"
  by (simp add: kMaxFramePayload_def word_less_nat_alt unat_word_ariths)

lemma frame_at_found:
  assumes "frame_at d n p = Inr (Frame_found f k)"
  shows "16 \<le> unat k" "unat k \<le> unat (n - p)"
proof -
  obtain len :: u32 where len: "k = 16 + ucast len + 4" "\<not> kMaxFramePayload < len" "\<not> n - p < k"
    using assms by (auto simp: frame_at_def Let_def split: if_splits sum.splits option.splits)
  then have "unat k = 20 + unat len" using need_unat by blast
  then show "16 \<le> unat k" by simp
  show "unat k \<le> unat (n - p)" using len(3) by (simp add: word_less_nat_alt)
qed

lemma frames_step:
  assumes "p < n" "frame_at d n p = Inr (Frame_found f k)"
  shows "unat (p + k) = unat p + unat k" "unat p + unat k \<le> unat n"
proof -
  have "unat (n - p) = unat n - unat p" using assms(1) by (simp add: unat_sub word_le_nat_alt word_less_nat_alt)
  then show n: "unat p + unat k \<le> unat n"
    using frame_at_found(2) [OF assms(2)] assms(1) by (simp add: word_less_nat_alt)
  have "unat n < 2 ^ LENGTH(64)" by (rule unsigned_less)
  then show "unat (p + k) = unat p + unat k" using n by (intro unat_add_lem [THEN iffD1]) simp
qed

text \<open>The loop of \<^verbatim>\<open>decode_frames\<close> from position \<open>p\<close> on.\<close>

function frames_from :: "bytes \<Rightarrow> u64 \<Rightarrow> u64 \<Rightarrow> Frame list \<Rightarrow> mem_error + (Status \<times> Frame list)" where
  "frames_from d n p out =
     (if \<not> p < n then Inr (status_good, out)
      else case frame_at d n p of
        Inl e \<Rightarrow> Inl e
      | Inr Header_missing \<Rightarrow> Inr (protocol_error ''truncated frame header'', out)
      | Inr Frame_missing \<Rightarrow> Inr (protocol_error ''truncated frame'', out)
      | Inr (Frame_bad msg) \<Rightarrow> Inr (protocol_error msg, out)
      | Inr (Frame_found f k) \<Rightarrow> frames_from d n (p + k) (out @ [f]))"
  by pat_completeness auto

termination
proof (relation "measure (\<lambda>(d, n, p, out). unat n - unat p)", simp)
  fix d n p out x y f k
  assume "\<not> \<not> p < n" "frame_at d n p = Inr y" "y = Frame_found f k"
  then have "unat p < unat n" "unat (p + k) = unat p + unat k" "16 \<le> unat k"
    using frames_step [of p n d f k] frame_at_found [of d n p f k] by (simp_all add: word_less_nat_alt)
  then show "((d, n, p + k, out @ [f]), d, n, p, out) \<in> measure (\<lambda>(d, n, p, out). unat n - unat p)"
    by simp
qed

declare frames_from.simps [simp del]

definition decode_frames_at :: "bytes \<Rightarrow> u64 \<Rightarrow> mem_error + (Status \<times> Frame list)" where
  "decode_frames_at d len = frames_from d len 0 []"

section \<open>The receive buffer\<close>

text \<open>\<^verbatim>\<open>Connection::receive\<close>: the arguments and results are those of \<open>CG_Net\<close>.\<close>

fun receive_at :: "bool \<Rightarrow> bytes \<Rightarrow> recv_result list \<Rightarrow>
    mem_error + (Status \<times> Frame option \<times> bytes \<times> recv_result list) option" where
  "receive_at blocking rbuf evs =
     (case frame_at rbuf (word_of_nat (length rbuf)) 0 of
        Inl e \<Rightarrow> Inl e
      | Inr (Frame_bad msg) \<Rightarrow> Inr (Some (protocol_error msg, None, rbuf, evs))
      | Inr (Frame_found f k) \<Rightarrow> Inr (Some (status_good, Some f, drop (unat k) rbuf, evs))
      | Inr _ \<Rightarrow>
          (case evs of
             [] \<Rightarrow> Inr None
           | Peer_closed # evs \<Rightarrow>
               Inr (Some (protocol_error (if rbuf = [] then ''peer closed'' else ''peer closed with partial frame''),
                          None, rbuf, evs))
           | Recv_failed # evs \<Rightarrow> Inr (Some (protocol_error ''recv failed'', None, rbuf, evs))
           | Recv chunk # evs \<Rightarrow>
               let rbuf = rbuf @ chunk
               in if length rbuf > unat kMaxFramePayload + kFrameHeaderLen + kFrameCrcLen
                  then Inr (Some (protocol_error ''oversized receive buffer'', None, rbuf, evs))
                  else if \<not> blocking
                  then Inr (Some (protocol_error ''no complete frame (nonblocking)'', None, rbuf, evs))
                  else receive_at blocking rbuf evs))"

declare receive_at.simps [simp del]

section \<open>No access leaves the buffer\<close>

text \<open>The frame checks of \<open>CG_Net\<close> as a result of \<open>frame_at\<close>.\<close>

fun as_found :: "bytes \<Rightarrow> scan \<Rightarrow> found" where
  "as_found buf Short_header = Header_missing"
| "as_found buf Short_frame = Frame_missing"
| "as_found buf (Bad_frame msg) = Frame_bad msg"
| "as_found buf (Scanned f rest) = Frame_found f (word_of_nat (length buf - length rest))"

lemma in_window:
  fixes p i n :: u64
  assumes "unat p \<le> unat n" "unat n \<le> length d" "unat n < 2 ^ 63" "unat i + k \<le> unat n - unat p"
  shows "unat (p + i) = unat p + unat i" "unat p + unat i + k \<le> length d"
    "take k (drop (unat p + unat i) d) = take k (drop (unat i) (drop (unat p) (take (unat n) d)))"
proof -
  have "unat p + unat i < 2 ^ LENGTH(64)" using assms by simp
  then show "unat (p + i) = unat p + unat i" by (rule unat_add_lem [THEN iffD1])
  show "unat p + unat i + k \<le> length d" using assms by linarith
  show "take k (drop (unat p + unat i) d) = take k (drop (unat i) (drop (unat p) (take (unat n) d)))"
    using assms by (simp add: drop_take add.commute min_absorb1)
qed

lemma load_window:
  fixes p i n :: u64
  assumes "unat p \<le> unat n" "unat n \<le> length d" "unat n < 2 ^ 63" "unat i + 4 \<le> unat n - unat p"
  shows "load_from d (p + i) 0 4 0 = Inr (u32_at (drop (unat p) (take (unat n) d)) (unat i))"
proof -
  note w = in_window [OF assms]
  have "unat (p + i) + 0 + 4 < 2 ^ 64" using assms by (simp add: w(1))
  then have "load_from d (p + i) 0 4 0 = Inr (0 OR push_bit 0 (le_value (take 4 (drop (unat (p + i)) d))))"
    using load_from_value [of "p + i" 0 4 d 0] w(2) by (simp add: w(1))
  then show ?thesis by (simp add: u32_at_def w(1,3))
qed

lemma range_window:
  fixes p i n :: u64
  assumes "unat p \<le> unat n" "unat n \<le> length d" "unat n < 2 ^ 63" "unat i + unat k \<le> unat n - unat p"
  shows "range_at d (p + i) k = Inr (take (unat k) (drop (unat i) (drop (unat p) (take (unat n) d))))"
  using in_window [OF assms] by (simp add: range_at_def)

text \<open>What remains from position \<open>p\<close> on.\<close>

lemma frame_at_scans:
  fixes n p :: u64
  assumes "unat p \<le> unat n" "unat n \<le> length d" "unat n < 2 ^ 63"
  shows "frame_at d n p = Inr (as_found (drop (unat p) (take (unat n) d)) (scan_frame (drop (unat p) (take (unat n) d))))"
proof -
  let ?b = "drop (unat p) (take (unat n) d)"
  have left: "unat (n - p) = unat n - unat p" using assms(1) by (simp add: unat_sub word_le_nat_alt)
  have len: "length ?b = unat n - unat p" using assms by (simp add: min_absorb2)
  show ?thesis
  proof (cases "n - p < 16")
    case True
    then show ?thesis
      using len left by (simp add: frame_at_def scan_frame_def kFrameHeaderLen_def word_less_nat_alt)
  next
    case False
    then have room: "16 \<le> unat n - unat p" using left by (simp add: word_less_nat_alt)
    have parsed: "parse_header_at d p = Inr (parse_header ?b)"
      using load_window [OF assms, of 0] load_window [OF assms, of 4] load_window [OF assms, of 8]
        load_window [OF assms, of 12] room
      by (simp add: parse_header_at_def parse_header_def)
    show ?thesis
    proof (cases "parse_header ?b")
      case None
      then show ?thesis
        using False parsed len room by (simp add: frame_at_def scan_frame_def kFrameHeaderLen_def)
    next
      case (Some h)
      obtain version type flen where h: "h = (version, type, flen)" by (cases h)
      show ?thesis
      proof (cases "version = kProtocolVersion \<and> \<not> kMaxFramePayload < flen")
        case bad: False
        then show ?thesis
          using False parsed len room by (auto simp: frame_at_def scan_frame_def kFrameHeaderLen_def Some h)
      next
        case ok: True
        then have need: "unat (16 + ucast flen + 4 :: u64) = 20 + unat flen" using need_unat by blast
        show ?thesis
        proof (cases "n - p < 16 + ucast flen + 4")
          case True
          then show ?thesis
            using False parsed len room ok need left
            by (simp add: frame_at_def scan_frame_def kFrameHeaderLen_def kFrameCrcLen_def Some h word_less_nat_alt Let_def)
        next
          case enough: False
          then have fits: "20 + unat flen \<le> unat n - unat p" using need left by (simp add: word_less_nat_alt)
          have k16: "unat (16 + ucast flen :: u64) = 16 + unat flen" "unat (8 + ucast flen :: u64) = 8 + unat flen"
            using ok by (simp_all add: kMaxFramePayload_def word_less_nat_alt unat_word_ariths)
          have crc: "load_from d (p + 16 + ucast flen) 0 4 0 = Inr (u32_at ?b (16 + unat flen))"
            using load_window [OF assms, of "16 + ucast flen"] fits by (simp add: k16 add.assoc)
          have summed: "range_at d (p + 8) (8 + ucast flen) = Inr (take (8 + unat flen) (drop 8 ?b))"
            using range_window [OF assms, of 8 "8 + ucast flen"] fits by (simp add: k16)
          have payload: "range_at d (p + 16) (ucast flen) = Inr (take (unat flen) (drop 16 ?b))"
            using range_window [OF assms, of 16 "ucast flen"] fits by simp
          show ?thesis
            using False enough parsed len room ok fits
            by (simp add: frame_at_def scan_frame_def kFrameHeaderLen_def kFrameCrcLen_def Some h Let_def crc summed payload)
        qed
      qed
    qed
  qed
qed

lemma scan_rest:
  assumes "scan_frame b = Scanned f rest" "length b < 2 ^ 63"
  shows "rest = drop (unat (word_of_nat (length b - length rest) :: u64)) b"
proof -
  obtain m where m: "rest = drop m b"
    using assms(1) by (auto simp: scan_frame_def Let_def split: option.splits if_splits)
  then have "rest = drop (length b - length rest) b" by (cases "m \<le> length b") simp_all
  moreover have "unat (word_of_nat (length b - length rest) :: u64) = length b - length rest"
    using assms(2) by (intro unat_of_nat_less) simp
  ultimately show ?thesis by simp
qed

lemma frames_from_decodes:
  "unat p \<le> unat n \<Longrightarrow> unat n \<le> length d \<Longrightarrow> unat n < 2 ^ 63 \<Longrightarrow>
     frames_from d n p out = Inr (decode_frames (drop (unat p) (take (unat n) d)) out)"
proof (induction d n p out rule: frames_from.induct)
  case (1 d n p out)
  let ?b = "drop (unat p) (take (unat n) d)"
  note found = frame_at_scans [OF 1(2-4)]
  have empty: "?b = [] \<longleftrightarrow> \<not> p < n" using 1(2-4) by (auto simp: word_less_nat_alt)
  show ?case
  proof (cases "p < n")
    case False
    then show ?thesis using empty by (simp add: frames_from.simps decode_frames.simps)
  next
    case True
    show ?thesis
    proof (cases "scan_frame ?b")
      case (Scanned f rest)
      let ?k = "word_of_nat (length ?b - length rest) :: u64"
      have at: "frame_at d n p = Inr (Frame_found f ?k)" using found Scanned by simp
      note step = frames_step [OF True at]
      have "rest = drop (unat ?k) ?b" using 1(3,4) by (intro scan_rest [OF Scanned]) simp
      then have rest: "drop (unat (p + ?k)) (take (unat n) d) = rest"
        unfolding step(1) drop_drop by (simp only: add.commute)
      have "frames_from d n (p + ?k) (out @ [f]) = Inr (decode_frames rest (out @ [f]))"
        using 1(1) [OF _ at refl] True step 1(3,4) unfolding rest by (simp add: rest)
      then show ?thesis using True Scanned empty at by (simp add: frames_from.simps decode_frames.simps)
    qed (use True empty found in \<open>simp_all add: frames_from.simps decode_frames.simps\<close>)
  qed
qed

lemma decode_frames_at_decodes:
  "unat n \<le> length d \<Longrightarrow> unat n < 2 ^ 63 \<Longrightarrow> decode_frames_at d n = Inr (decode_frames (take (unat n) d) [])"
  using frames_from_decodes [of 0 n d "[]"] by (simp add: decode_frames_at_def)

lemma receive_at_receives:
  "length rbuf < 2 ^ 63 \<Longrightarrow> receive_at blocking rbuf evs = Inr (receive blocking rbuf evs)"
proof (induction blocking rbuf evs rule: receive.induct)
  case (1 blocking rbuf evs)
  have n: "unat (word_of_nat (length rbuf) :: u64) = length rbuf" using "1.prems" by (intro unat_of_nat_less) simp
  have found: "frame_at rbuf (word_of_nat (length rbuf)) 0 = Inr (as_found rbuf (scan_frame rbuf))"
    using frame_at_scans [of 0 "word_of_nat (length rbuf)" rbuf] "1.prems" by (simp add: n)
  have more: "receive_at blocking (rbuf @ chunk) evs' = Inr (receive blocking (rbuf @ chunk) evs')"
    if "scan_frame rbuf = Short_header \<or> scan_frame rbuf = Short_frame" "evs = Recv chunk # evs'" blocking
      "\<not> length (rbuf @ chunk) > unat kMaxFramePayload + kFrameHeaderLen + kFrameCrcLen" for chunk evs'
  proof -
    have "length (rbuf @ chunk) < 2 ^ 63"
      using that(4) by (simp add: kMaxFramePayload_def kFrameHeaderLen_def kFrameCrcLen_def)
    then show ?thesis using "1.IH" that by blast
  qed
  show ?case
  proof (cases "scan_frame rbuf")
    case (Scanned f rest)
    then show ?thesis
      using scan_rest [OF Scanned] "1.prems" found by (simp add: receive.simps receive_at.simps)
  qed (use found more in \<open>auto simp: receive.simps [of blocking rbuf] receive_at.simps [of blocking rbuf] Let_def
      split: list.split recv_result.split\<close>)
qed

end
