(* ===== verification/CG_Loaded.thy ===== *)
theory CG_Loaded
  imports CG_Store
begin

text \<open>
  What the loader accepts is well formed: every reader of \<^verbatim>\<open>CG_Wire\<close> and \<^verbatim>\<open>CG_Persistence\<close> gives
  only values that its writer can write back, in no more bytes than were read. One lemma per reader,
  composed to the one on \<open>load_from_bytes\<close>: a state it gives can be saved and is loaded again.
\<close>

section \<open>Well formed results\<close>

text \<open>A reader whose values satisfy \<open>P\<close> and are written in at most the bytes that were read.\<close>

definition gives :: "'a writer \<Rightarrow> 'a reader \<Rightarrow> ('a \<Rightarrow> bool) \<Rightarrow> bool" where
  "gives w r P \<longleftrightarrow> (\<forall>bs v rest. r bs = Some (v, rest) \<longrightarrow> P v \<and> length (w v) + length rest \<le> length bs)"

lemma givesI:
  "(\<And>bs v rest. r bs = Some (v, rest) \<Longrightarrow> P v \<and> length (w v) + length rest \<le> length bs) \<Longrightarrow> gives w r P"
  by (auto simp: gives_def)

lemma givesD: "gives w r P \<Longrightarrow> r bs = Some (v, rest) \<Longrightarrow> P v \<and> length (w v) + length rest \<le> length bs"
  by (auto simp: gives_def)

section \<open>Basic values\<close>

lemma fixed_lengths [simp]:
  "length (w_u8 b) = 1" "length (w_f64 d) = 8" "length (w_id i) = 8" "length (w_bool t) = 1" "length (w_enum ord v) = 1"
  by (simp_all add: w_u8_def w_f64_def w_id_def w_bool_def w_enum_def)

lemma read_u8: "r_u8 bs = Some (v, rest) \<Longrightarrow> length bs = 1 + length rest"
  by (cases bs) auto

lemma read_u32: "r_u32 bs = Some (v, rest) \<Longrightarrow> length bs = 4 + length rest"
  by (auto simp: r_u32_def r_le_def split: if_splits)

lemma read_u64: "r_u64 bs = Some (v, rest) \<Longrightarrow> length bs = 8 + length rest"
  by (auto simp: r_u64_def r_le_def split: if_splits)

lemma read_f64: "r_f64 bs = Some (v, rest) \<Longrightarrow> length bs = 8 + length rest"
  by (auto simp: r_f64_def bind_eq_Some_conv dest: read_u64)

lemma read_id: "r_id bs = Some (v, rest) \<Longrightarrow> length bs = 8 + length rest"
  by (auto simp: r_id_def bind_eq_Some_conv dest: read_u64)

lemma read_bool: "r_bool bs = Some (v, rest) \<Longrightarrow> length bs = 1 + length rest"
  by (auto simp: r_bool_def bind_eq_Some_conv dest: read_u8)

lemma read_enum: "r_enum elems bs = Some (v, rest) \<Longrightarrow> v \<in> set elems \<and> length bs = 1 + length rest"
  by (auto simp: r_enum_def bind_eq_Some_conv enum_of_u8_def dest: read_u8 split: if_splits)

lemma gives_id: "gives w_id r_id (\<lambda>_. True)"
  by (auto intro!: givesI dest: read_id)

lemma gives_class: "gives (w_enum ord_InterventionClass) (r_enum all_InterventionClass) (\<lambda>_. True)"
  by (auto intro!: givesI dest: read_enum)

lemma gives_str: "gives w_str r_str short"
  by (rule givesI)
    (auto simp: r_str_def w_str_def bind_eq_Some_conv short_def not_less word_le_nat_alt unat_kMax dest: read_u64 split: if_splits)

lemma gives_times:
  assumes "gives w r P"
  shows "r_times n r bs = Some (xs, rest) \<Longrightarrow>
    length xs = n \<and> list_all P xs \<and> length (concat (map w xs)) + length rest \<le> length bs"
proof (induction n arbitrary: bs xs)
  case (Suc n)
  then show ?case by (fastforce simp: bind_eq_Some_conv dest!: givesD [OF assms])
qed simp

lemma read_count: "r_count bs = Some (n, rest) \<Longrightarrow> unat n \<le> 2 ^ 20 \<and> length bs = 8 + length rest"
  by (auto simp: r_count_def bind_eq_Some_conv not_less word_le_nat_alt unat_kMax dest: read_u64 split: if_splits)

lemma gives_list:
  assumes "gives w r P"
  shows "gives (w_list w) (r_list r) (\<lambda>xs. short xs \<and> list_all P xs)"
proof (rule givesI)
  fix bs xs rest
  assume "r_list r bs = Some (xs, rest)"
  then obtain n bs' where "r_count bs = Some (n, bs')" "r_times (unat n) r bs' = Some (xs, rest)"
    by (auto simp: r_list_def bind_eq_Some_conv)
  then show "(short xs \<and> list_all P xs) \<and> length (w_list w xs) + length rest \<le> length bs"
    using read_count gives_times [OF assms] by (fastforce simp: w_list_def short_def)
qed

lemma gives_pair:
  "gives wk rk P \<Longrightarrow> gives wv rv Q \<Longrightarrow> gives (w_pair wk wv) (r_pair rk rv) (\<lambda>kv. P (fst kv) \<and> Q (snd kv))"
  by (rule givesI) (auto simp: r_pair_def w_pair_def bind_eq_Some_conv dest!: givesD)

lemma w_pair_length [simp]: "length (w_pair w_id w kv) = 8 + length (w (snd kv))"
  by (simp add: w_pair_def)

text \<open>An assignment replaces an entry or adds one.\<close>

lemma om_put_entries:
  "length (om_put k v m) \<le> Suc (length m)"
  "length (concat (map (w_pair w_id w) (om_put k v m))) \<le> 8 + length (w v) + length (concat (map (w_pair w_id w) m))"
  "list_all P (map snd m) \<Longrightarrow> P v \<Longrightarrow> list_all P (map snd (om_put k v m))"
  by (induction m rule: om_put.induct) (auto split: if_splits)

lemma om_puts_entries:
  "length (fold (\<lambda>(k, v). om_put k v) kvs m) \<le> length kvs + length m
   \<and> length (concat (map (w_pair w_id w) (fold (\<lambda>(k, v). om_put k v) kvs m))) \<le>
       length (concat (map (w_pair w_id w) kvs)) + length (concat (map (w_pair w_id w) m))
   \<and> (list_all P (map snd kvs) \<longrightarrow> list_all P (map snd m) \<longrightarrow> list_all P (map snd (fold (\<lambda>(k, v). om_put k v) kvs m)))"
proof (induction kvs arbitrary: m)
  case (Cons kv kvs)
  obtain k v where kv: "kv = (k, v)" by (cases kv)
  show ?case
    using Cons.IH [of "om_put k v m"] om_put_entries(1) [of k v m] om_put_entries(2) [of w k v m]
      om_put_entries(3) [of P m v k]
    by (auto simp: kv)
qed simp

lemma gives_map:
  fixes w :: "'v writer"
  assumes "gives w r P"
  shows "gives (w_map w) (r_map r) (\<lambda>m :: ('tag Id, 'v) omap. om_inv m \<and> short m \<and> list_all P (map snd m))"
proof (rule givesI)
  fix bs rest and m :: "('tag Id, 'v) omap"
  assume "r_map r bs = Some (m, rest)"
  then obtain kvs where kvs: "r_list (r_pair r_id r) bs = Some (kvs, rest)" "m = om_of_entries kvs"
    by (auto simp: r_map_def bind_eq_Some_conv)
  have g: "short kvs \<and> list_all (\<lambda>kv. P (snd kv)) kvs \<and> length (w_list (w_pair w_id w) kvs) + length rest \<le> length bs"
    using givesD [OF gives_list [OF gives_pair [OF gives_id assms]] kvs(1)] by simp
  then show "(om_inv m \<and> short m \<and> list_all P (map snd m)) \<and> length (w_map w m) + length rest \<le> length bs"
    using om_puts_entries [of kvs "[]" w P]
    by (simp add: kvs(2) om_of_entries_def [symmetric] short_def w_map_def w_list_def list.pred_map comp_def)
qed

section \<open>Records\<close>

text \<open>The facts about the readers, in the form in which a chain of reads uses them.\<close>

lemmas read_fixed = read_u32 read_u64 read_f64 read_id read_bool read_enum

lemma gives_ids: "gives (w_list w_id) (r_list r_id) short"
  using gives_list [OF gives_id] by (auto simp: gives_def)

lemma gives_strs: "gives (w_list w_str) (r_list r_str) (\<lambda>xs. short xs \<and> list_all short xs)"
  by (rule gives_list [OF gives_str])

lemma gives_classes: "gives (w_list (w_enum ord_InterventionClass)) (r_list (r_enum all_InterventionClass)) short"
  using gives_list [OF gives_class] by (auto simp: gives_def)

lemma gives_idmap: "gives (w_map w_id) (r_map r_id) (\<lambda>m. om_inv m \<and> short m)"
  using gives_map [OF gives_id] by (auto simp: gives_def)

lemma read_opt: "r_opt bs = Some (v, rest) \<Longrightarrow> length bs = length (w_opt v) + length rest"
  by (auto simp: r_opt_def bind_eq_Some_conv dest!: read_bool read_f64 split: if_splits)

lemma read_stats: "r_stats bs = Some (v, rest) \<Longrightarrow> length bs = 48 + length rest"
  by (auto simp: r_stats_def bind_eq_Some_conv dest!: read_u64)

lemma gives_status: "gives w_status r_status (\<lambda>st. short (st_message st))"
  by (auto intro!: givesI simp: r_status_def w_status_def bind_eq_Some_conv dest!: read_enum givesD [OF gives_str])

lemmas read_parts = read_fixed read_opt read_stats givesD [OF gives_str] givesD [OF gives_ids] givesD [OF gives_strs]
  givesD [OF gives_classes] givesD [OF gives_idmap] givesD [OF gives_status]

lemma fixed_record_lengths [simp]: "length (w_stats u) = 48" "length (serialize_fence f) = 112" "length (serialize_fairness fr) = 36"
  "length (serialize_budget b) = 120"
  by (simp_all add: w_stats_def serialize_fence_def serialize_fairness_def serialize_budget_def)

lemma read_fence: "deserialize_fence bs = Some (v, rest) \<Longrightarrow> length bs = 112 + length rest"
  by (auto simp: deserialize_fence_def bind_eq_Some_conv dest!: read_id)

lemma read_fairness: "deserialize_fairness bs = Some (v, rest) \<Longrightarrow> length bs = 36 + length rest"
  by (auto simp: deserialize_fairness_def bind_eq_Some_conv dest!: read_parts)

lemma read_budget: "deserialize_budget bs = Some (v, rest) \<Longrightarrow> length bs = 120 + length rest"
  by (auto simp: deserialize_budget_def bind_eq_Some_conv dest!: read_parts)

lemma gives_workload: "gives serialize_workload deserialize_workload (\<lambda>_. True)"
  by (auto intro!: givesI simp: deserialize_workload_def serialize_workload_def bind_eq_Some_conv dest!: read_fixed read_opt)

lemma gives_policy: "gives serialize_policy deserialize_policy storable_policy"
  by (auto intro!: givesI simp: deserialize_policy_def serialize_policy_def storable_policy_def bind_eq_Some_conv
      dest!: read_fixed read_budget givesD [OF gives_map [OF gives_workload]])

lemma gives_authority: "gives serialize_authority deserialize_authority storable_authority"
  by (auto intro!: givesI simp: deserialize_authority_def serialize_authority_def storable_authority_def bind_eq_Some_conv
      dest!: read_id givesD [OF gives_idmap])

lemma gives_evidence: "gives serialize_evidence deserialize_evidence storable_evidence"
  by (auto intro!: givesI simp: deserialize_evidence_def serialize_evidence_def storable_evidence_def bind_eq_Some_conv
      all_AttributionStrength_iff dest!: read_fixed givesD [OF gives_str] givesD [OF gives_ids] givesD [OF gives_strs])

lemma gives_intervention: "gives serialize_intervention deserialize_intervention storable_intervention"
  by (auto intro!: givesI simp: deserialize_intervention_def serialize_intervention_def storable_intervention_def
      bind_eq_Some_conv dest!: read_fixed read_fence givesD [OF gives_str] givesD [OF gives_status] givesD [OF gives_strs])

lemma gives_conflict: "gives serialize_conflict deserialize_conflict storable_conflict"
  by (auto intro!: givesI simp: deserialize_conflict_def serialize_conflict_def storable_conflict_def bind_eq_Some_conv
      dest!: read_fixed givesD [OF gives_ids] givesD [OF gives_strs] givesD [OF gives_classes])

lemma gives_fairness: "gives serialize_fairness deserialize_fairness (\<lambda>_. True)"
  by (auto intro!: givesI dest: read_fairness)

section \<open>The payload and the file\<close>

lemma load_entries_gives:
  assumes "gives w r P"
  shows "load_entries e1 e2 r n m bs = Inr (m', rest) \<Longrightarrow> om_inv m \<Longrightarrow> list_all P (map snd m) \<Longrightarrow>
    om_inv m' \<and> length m' \<le> n + length m \<and> list_all P (map snd m')
      \<and> length (concat (map (w_pair w_id w) m')) + length rest \<le> length (concat (map (w_pair w_id w) m)) + length bs"
proof (induction n arbitrary: m bs)
  case (Suc n)
  then obtain k bs1 v bs2 where s: "r_id bs = Some (k, bs1)" "r bs1 = Some (v, bs2)"
    "load_entries e1 e2 r n (om_put k v m) bs2 = Inr (m', rest)"
    by (auto split: option.splits)
  have v: "P v" "length (w v) + length bs2 \<le> length bs1" using givesD [OF assms s(2)] by auto
  show ?case
    using Suc.IH [OF s(3)] Suc.prems(2,3) v read_id [OF s(1)] om_put_entries(1) [of k v m] om_put_entries(2) [of w k v m]
      om_put_entries(3) [of P m v k]
    by (auto simp: om_inv_put)
qed simp

lemma load_map_gives:
  assumes "gives w r P" "load_map e0 e1 e2 r bs = Inr (m, rest)"
  shows "om_inv m \<and> short m \<and> list_all (P \<circ> snd) m \<and> length (w_entries w m) + length rest \<le> length bs"
proof -
  obtain n bs' where n: "r_count bs = Some (n, bs')" "load_entries e1 e2 r (unat n) [] bs' = Inr (m, rest)"
    using assms(2) by (auto simp: load_map_def split: option.splits)
  then show ?thesis
    using load_entries_gives [OF assms(1) n(2)] read_count [OF n(1)]
    by (auto simp: short_def w_entries_def list.pred_map)
qed

lemma or_fail_Inr: "or_fail msg r = Inr x \<longleftrightarrow> r = Some x"
  by (simp add: or_fail_def split: option.splits)

lemma and_then_Inr: "and_then r f = Inr y \<longleftrightarrow> (\<exists>v bs. r = Inr (v, bs) \<and> f v bs = Inr y)"
  by (cases r) auto

lemma read_counters: "r_counters bs = Some (v, rest) \<Longrightarrow> length bs = 48 + length rest"
  by (auto simp: r_counters_def bind_eq_Some_conv dest!: read_u64)

lemma load_payload_gives:
  assumes "load_payload bs = Inr st"
  shows "length (save_payload st) \<le> length bs \<and> (length bs < 2 ^ 64 - 24 \<longrightarrow> storable st)"
proof -
  obtain b1 b2 b3 b4 b5 b6 b7 b8 c e i d a v where r:
    "deserialize_policy bs = Some (es_policy (gs_engine st), b1)"
    "deserialize_authority b1 = Some (es_authority (gs_engine st), b2)"
    "load_map ''bad conflict count'' ''bad conflict id'' ''bad conflict'' deserialize_conflict b2 = Inr (es_conflicts (gs_engine st), b3)"
    "load_map ''bad evidence count'' ''bad evidence id'' ''bad evidence'' deserialize_evidence b3 = Inr (es_evidence (gs_engine st), b4)"
    "load_map ''bad intervention count'' ''bad intervention id'' ''bad intervention'' deserialize_intervention b4 =
       Inr (es_interventions (gs_engine st), b5)"
    "load_map ''bad fairness count'' ''bad fairness id'' ''bad fairness'' deserialize_fairness b5 = Inr (es_fairness (gs_engine st), b6)"
    "r_counters b6 = Some ((c, e, i, d, a, v), b7)" "r_u64 b7 = Some (gs_lastDigest st, b8)"
    "status_ok (validate_policy (es_policy (gs_engine st)))"
    using assms by (auto simp: load_payload_def or_fail_Inr and_then_Inr split: if_splits)
  note g = givesD [OF gives_policy r(1)] givesD [OF gives_authority r(2)] load_map_gives [OF gives_conflict r(3)]
    load_map_gives [OF gives_evidence r(4)] load_map_gives [OF gives_intervention r(5)] load_map_gives [OF gives_fairness r(6)]
    read_counters [OF r(7)] read_u64 [OF r(8)]
  have len: "length (save_payload st) \<le> length bs" using g by (simp add: save_payload_def)
  moreover have "valid_policy (es_policy (gs_engine st))" using r(9) by (simp add: validate_policy_ok)
  ultimately show ?thesis using g by (auto simp: storable_def Let_def)
qed

text \<open>A file the loader accepts holds a state that can be saved and loaded again.\<close>

lemma load_from_bytes_gives:
  assumes "load_from_bytes data s = (status_good, st)" "length data < 2 ^ 64"
  shows "storable st \<and> length (save_to_bytes st) \<le> length data"
proof -
  obtain version len :: u64 and rest payload where h: "24 \<le> length data" "20 + len + 4 = word_of_nat (length data)"
    "payload = take (unat len) (drop 20 data)" "load_payload payload = Inr st"
    using assms(1) by (auto simp: load_from_bytes_def corrupt_def status_bad_def status_good_def Let_def
        split: if_splits option.splits sum.splits)
  have "len = word_of_nat (length data - 24)" using h(1,2) by (simp add: algebra_simps of_nat_diff)
  then have "unat len = length data - 24" using assms(2) by (simp add: unat_of_nat_less)
  then have n: "length payload = length data - 24" using h(1,3) by simp
  then have "length payload < 2 ^ 64 - 24" using assms(2) h(1) by simp
  then have "storable st" "length (save_payload st) \<le> length payload" using load_payload_gives [OF h(4)] by auto
  then show ?thesis using n h(1) by (simp add: save_file file_of_def)
qed

end
