(* ===== verification/Spec_Data.thy ===== *)
theory Spec_Data
  imports CG_Codec CG_Load CG_Frames CG_Example CG_Digest CG_Loaded
begin

text \<open>
  Properties of stored state and of the numeric routines: the file that \<open>save_to_bytes\<close> writes
  is read back exactly, and no damaged or truncated one is; a file can hold a state that no
  run of the governor reaches; the table-driven checksum is the serial one; degradations are
  bounded; a threshold that is not a number passes validation. No parser of files or messages
  reads outside the bytes it is given.
\<close>

section \<open>A state to store\<close>

text \<open>The detected conflict of \<open>CG_Example\<close> with other evidence ids.\<close>

definition ex_listing :: "InterferenceEvidenceId list \<Rightarrow> GovernorState" where
  "ex_listing ids = on_engine (put_conflict (Id 1) (ex_conflict\<lparr>cc_evidenceIds := ids\<rparr>)) ex_detected"

lemma ex_listing_sel:
  "es_conflicts (gs_engine (ex_listing ids)) = [(Id 1, ex_conflict\<lparr>cc_evidenceIds := ids\<rparr>)]"
  "es_evidence (gs_engine (ex_listing ids)) = [(Id 1, ex_stored)]"
  "es_interventions (gs_engine (ex_listing ids)) = []" "es_fairness (gs_engine (ex_listing ids)) = []"
  "es_policy (gs_engine (ex_listing ids)) = default_ContentionPolicy"
  "es_authority (gs_engine (ex_listing ids)) = ex_authority"
  by (simp_all add: ex_listing_def ex_sel)

lemma ex_listing_detected: "ex_listing [Id 1] = ex_detected"
proof -
  have "ex_conflict\<lparr>cc_evidenceIds := [Id 1]\<rparr> = ex_conflict"
    by (simp add: ex_conflict_def default_ContentionConflict_def)
  then show ?thesis
    by (simp add: ex_listing_def on_engine_def put_conflict_def ex_sel ex_detected_eq)
qed

lemma ex_listing_length:
  assumes "length ids \<le> 10"
  shows "length (save_payload (ex_listing ids)) < 2000"
proof -
  have "length (serialize_policy default_ContentionPolicy) < 300"
    by (simp add: serialize_policy_def default_ContentionPolicy_def serialize_budget_def w_map_def w_stats_def)
  moreover have "length (serialize_authority ex_authority) < 300"
    by (simp add: serialize_authority_def ex_authority_def w_map_def w_pair_def)
  moreover have "length (serialize_conflict (ex_conflict\<lparr>cc_evidenceIds := ids\<rparr>)) < 600"
    using assms by (simp add: serialize_conflict_def ex_conflict_def default_ContentionConflict_def comp_def sum_list_triv)
  moreover have "length (serialize_evidence ex_stored) < 400"
    by (simp add: serialize_evidence_def ex_stored_def ex_evidence_def)
  ultimately show ?thesis by (simp add: save_payload_def ex_listing_sel w_entries_def w_pair_def)
qed

lemma ex_listing_storable: "length ids \<le> 10 \<Longrightarrow> storable (ex_listing ids)"
proof -
  assume ids: "length ids \<le> 10"
  have "storable_authority ex_authority" "storable_policy default_ContentionPolicy"
    by (simp_all add: storable_authority_def ex_authority_def om_inv_def less_Id_def short_def
        storable_policy_def default_ContentionPolicy_def)
  moreover have "storable_conflict (ex_conflict\<lparr>cc_evidenceIds := ids\<rparr>)"
    using ids by (simp add: storable_conflict_def ex_conflict_def default_ContentionConflict_def short_def)
  moreover have "storable_evidence ex_stored"
    by (simp add: storable_evidence_def ex_stored_def ex_evidence_def short_def)
  ultimately show ?thesis
    using ex_listing_length [OF ids] default_policy_valid
    by (simp add: storable_def Let_def ex_listing_sel om_inv_def short_def)
qed

section \<open>Persistence\<close>

text \<open>
  C30. Saving and loading is the identity on every state within the format's limits: texts and
  collections of at most \<open>2 ^ 20\<close> elements, a valid policy and maps in key order.
\<close>

theorem state_round_trip:
  assumes "storable st"
  shows "load_from_bytes (save_to_bytes st) s = (status_good, st)"
  by (rule load_save [OF assms])

theorem state_round_trip_witness:
  "load_from_bytes (save_to_bytes ex_detected) default_GovernorState = (status_good, ex_detected)"
  using state_round_trip [OF ex_listing_storable [of "[Id 1]"]] by (simp add: ex_listing_detected)

text \<open>
  C12. What is loaded is well formed. Whatever the bytes of a file are, a state that
  \<open>load_from_bytes\<close> gives has maps in key order, texts and collections within the limits of the
  format, enumerations in their ranges and a valid policy; it can be saved in no more bytes than were
  read, and the file so written is loaded as the same state.
\<close>

theorem loaded_state_storable:
  assumes "load_from_bytes data s = (status_good, st)" "length data < 2 ^ 64"
  shows "storable st \<and> length (save_to_bytes st) \<le> length data
    \<and> load_from_bytes (save_to_bytes st) s' = (status_good, st)"
  using load_from_bytes_gives [OF assms] load_save by blast

theorem loaded_state_storable_witness:
  "load_from_bytes (save_to_bytes ex_detected) ex_ready = (status_good, ex_detected) \<and> storable ex_detected"
proof -
  have n: "length (save_payload ex_detected) < 2000"
    using ex_listing_length [of "[Id 1]"] by (simp add: ex_listing_detected)
  have "load_from_bytes (save_to_bytes ex_detected) ex_ready = (status_good, ex_detected)"
    using load_save [OF ex_listing_storable [of "[Id 1]"]] by (simp add: ex_listing_detected)
  moreover from this have "storable ex_detected"
    by (rule loaded_state_storable [THEN conjunct1]) (use n in \<open>simp add: save_file file_of_def\<close>)
  ultimately show ?thesis by blast
qed

text \<open>
  C31. No damaged file is loaded. A change within four adjacent bytes, wherever it is: magic,
  version, length, payload or checksum, and every file that begins like a saved one but has a
  different length, truncated or extended, is rejected as corrupt, and the governor's state is
  not touched.
\<close>

theorem damaged_state_rejected:
  assumes "length (save_payload st) < 2 ^ 64 - 24"
    "(\<exists>pre w post w'. save_to_bytes st = pre @ w @ post \<and> data = pre @ w' @ post \<and> length w' = length w
        \<and> length w \<le> 4 \<and> w' \<noteq> w)
     \<or> (length data \<noteq> length (save_to_bytes st) \<and> length data < 2 ^ 64 \<and> take 20 data = take 20 (save_to_bytes st))"
  shows "\<exists>msg. load_from_bytes data s = (corrupt msg, s)"
  using assms(2) load_detects_window [OF assms(1)] load_detects_length [OF assms(1)] by blast

theorem damaged_state_rejected_witness:
  "(\<exists>msg. load_from_bytes ([0, 0] @ drop 2 (save_to_bytes ex_detected)) ex_ready = (corrupt msg, ex_ready))
   \<and> (\<exists>msg. load_from_bytes (save_to_bytes ex_detected @ [0]) ex_ready = (corrupt msg, ex_ready))"
proof
  have n: "length (save_payload ex_detected) < 2000"
    using ex_listing_length [of "[Id 1]"] by (simp add: ex_listing_detected)
  have "take 2 (save_to_bytes ex_detected) = take 2 kMagic" by (simp add: save_file file_of_def)
  then have "take 2 (save_to_bytes ex_detected) \<noteq> [0, 0]" by (simp add: kMagic_def)
  moreover have "length (take 2 (save_to_bytes ex_detected)) = 2" by (simp add: save_file file_of_def)
  ultimately show "\<exists>msg. load_from_bytes ([0, 0] @ drop 2 (save_to_bytes ex_detected)) ex_ready = (corrupt msg, ex_ready)"
    using n by (intro damaged_state_rejected [of ex_detected] disjI1 exI [of _ "[]"]
        exI [of _ "take 2 (save_to_bytes ex_detected)"] exI [of _ "drop 2 (save_to_bytes ex_detected)"] exI [of _ "[0, 0]"])
      simp_all
  have "20 \<le> length (save_to_bytes ex_detected)" "length (save_to_bytes ex_detected) < 2 ^ 64 - 1"
    using n by (simp_all add: save_file file_of_def)
  then show "\<exists>msg. load_from_bytes (save_to_bytes ex_detected @ [0]) ex_ready = (corrupt msg, ex_ready)"
    using n by (intro damaged_state_rejected [of ex_detected] disjI2) simp_all
qed

text \<open>
  C33. Loading checks the bytes, not the state. There is a file, written by \<open>save_to_bytes\<close>,
  that loads with status OK and after which \<open>authorize\<close> dereferences \<^verbatim>\<open>end()\<close>: the state in
  it lists first an evidence id that is not stored. (C2 shows that no run reaches such a
  state without loading.)
\<close>

theorem loaded_state_undefined:
  "\<exists>file. fst (load_from_bytes file default_GovernorState) = status_good
     \<and> authorize (Id 1) IC_NO_ACTION 10000 (snd (load_from_bytes file default_GovernorState)) = Inl Deref_end"
proof -
  let ?st = "ex_listing [Id 5, Id 1]" and ?c = "ex_conflict\<lparr>cc_evidenceIds := [Id 5, Id 1]\<rparr>"
  have act: "actionable_with (gs_engine ?st) ?c ex_stored"
    using ex_actionable by (simp add: actionable_with_def ex_listing_sel ex_sel ex_conflict_sel Let_def)
  have c: "om_find (es_conflicts (gs_engine ?st)) (Id 1) = Some ?c" by (simp add: ex_listing_sel)
  obtain ev where ev: "evaluate_conflict (gs_engine ?st) (Id 1) ex_authority =
      decide (gs_engine ?st) ex_authority ?c ex_stored (sort (cc_associated ?c)) ev"
    using evaluate_conflict_decide [OF c act] by blast
  let ?cand = "build_candidate (gs_engine ?st) ex_authority ?c ex_stored (Id 2) IC_THROTTLE"
  have "feas_status (check_feasibility (gs_engine ?st) (Id 2) IC_THROTTLE ex_fence) = FS_FEASIBLE"
    using ex_feasible [of IC_THROTTLE]
    by (simp add: check_feasibility_iff ex_listing_sel ex_sel fairness_capped_def)
  then have "cand_feasible ?cand = FS_FEASIBLE"
    by (simp add: build_candidate_def Let_def ex_fence_def ex_conflict_sel ex_stored_sel)
  moreover have "?cand \<in> set (ce_candidates (evaluate_conflict (gs_engine ?st) (Id 1) ex_authority))"
  proof -
    have "IC_THROTTLE \<in> set eligible_classes" "class_eligible default_ContentionPolicy IC_THROTTLE"
      "Id 2 \<in> set (sort (cc_associated ?c))"
      by (simp_all add: eligible_classes_def default_ContentionPolicy_def ex_conflict_sel)
    then show ?thesis unfolding ev decide_sel build_candidates_mem ex_listing_sel by blast
  qed
  ultimately have "ce_decision (evaluate_conflict (gs_engine ?st) (Id 1) ex_authority) \<noteq> None"
    using no_decision_infeasible by blast
  then have "authorize (Id 1) IC_NO_ACTION 10000 ?st = Inl Deref_end"
    by (auto simp: authorize_def Let_def ex_listing_sel picked_def)
  then show ?thesis
    using load_save [OF ex_listing_storable [of "[Id 5, Id 1]"], of default_GovernorState]
    by (intro exI [of _ "save_to_bytes ?st"]) simp
qed

section \<open>Checksum\<close>

text \<open>
  C34. The table-driven CRC-32C of \<^verbatim>\<open>digest.cpp\<close> is the bit-serial one, on every byte string.
\<close>

theorem crc_table_serial: "crc32c data = crc32c_serial data"
proof -
  have "crc_step = crc_serial_step" by (intro ext) (rule crc_step_serial)
  then show ?thesis by (simp add: crc32c_def crc32c_serial_def crc_update_def)
qed

section \<open>Numbers\<close>

text \<open>
  C35. Both fractions of an observation are at least 0 and at most one of them is not 0; a loss
  of a throughput whose observation is not negative is at most 1; and a larger finite
  degradation never has a lower severity.
\<close>

theorem degradation_bounds:
  "f64_le f64_zero (compute_degradation d b obs) \<and> f64_le f64_zero (compute_improvement d b obs)
   \<and> (compute_degradation d b obs = f64_zero \<or> compute_improvement d b obs = f64_zero)
   \<and> (f64_le f64_zero obs \<longrightarrow> f64_le (compute_degradation MD_HIGHER_IS_BETTER b obs) f64_one)
   \<and> (f64_isfinite x \<longrightarrow> f64_isfinite y \<longrightarrow> f64_le x y \<longrightarrow>
        ord_Severity (classify_severity x) \<le> ord_Severity (classify_severity y))"
  using compute_degradation_nonneg compute_improvement_nonneg degradation_or_improvement
    compute_degradation_le_one classify_severity_mono by blast

theorem degradation_bounds_witness:
  "f64_le (compute_degradation MD_HIGHER_IS_BETTER f64_one (F64 0x3FE0000000000000)) f64_one
   \<and> ord_Severity (classify_severity f64_zero) \<le> ord_Severity (classify_severity f64_one)"
  using degradation_bounds [of MD_HIGHER_IS_BETTER f64_one "F64 0x3FE0000000000000" f64_zero f64_one]
  by (simp add: f64_patterns f64_consts)

text \<open>
  C36. A policy is accepted exactly if it is valid, and a rejected one changes nothing. A
  threshold that is not a number counts as valid: under the default policy with such an
  actionability threshold no degradation is below the threshold, so that the gate of the
  evaluation rejects nothing.
\<close>

theorem policy_validation:
  "(status_ok (fst (set_policy p st)) \<longleftrightarrow> valid_policy p)
   \<and> (\<not> valid_policy p \<longrightarrow> snd (set_policy p st) = st)
   \<and> status_ok (fst (set_policy (default_ContentionPolicy\<lparr>p_actionabilityThreshold := f64_nan\<rparr>) st))
   \<and> (\<forall>x. \<not> f64_lt x (p_actionabilityThreshold (default_ContentionPolicy\<lparr>p_actionabilityThreshold := f64_nan\<rparr>)))"
proof -
  have nan: "f64_is_nan f64_nan" by (simp add: f64_nan_def f64_patterns)
  have "valid_policy (default_ContentionPolicy\<lparr>p_actionabilityThreshold := f64_nan\<rparr>)"
    using default_policy_valid nan by (auto simp: valid_policy_def not_outside_unit_def)
  then show ?thesis
    using nan validate_policy_ok by (auto simp: set_policy_def Let_def)
qed

theorem policy_validation_witness:
  "\<not> status_ok (fst (set_policy (default_ContentionPolicy\<lparr>p_hysteresisEvidenceCount := 0\<rparr>) ex_ready))
   \<and> snd (set_policy (default_ContentionPolicy\<lparr>p_hysteresisEvidenceCount := 0\<rparr>) ex_ready) = ex_ready"
  using policy_validation [of "default_ContentionPolicy\<lparr>p_hysteresisEvidenceCount := 0\<rparr>" ex_ready]
  by (simp add: valid_policy_def)

section \<open>Untrusted bytes\<close>

text \<open>
  C10. Parsing untrusted bytes is memory safe. Given a buffer and a length that is at most its
  size, the decoder of frames, the receive loop on its buffer, the four message decoders and
  the loader of the state file never read outside it, whatever the bytes, and return what
  their counterparts on byte strings return (a null pointer is a truncated file), although
  their positions and needs are 64-bit sums that could wrap. The code's writer produces the
  bytes of the encoders.
\<close>

theorem parsing_memory_safe:
  assumes "unat n \<le> length d" "unat n < 2 ^ 63"
  shows "decode_frames_at d n = Inr (decode_frames (take (unat n) d) [])
    \<and> receive_at blocking (take (unat n) d) evs = Inr (receive blocking (take (unat n) d) evs)
    \<and> Reader_decode_hello d n = Inr (map_option fst (decode_hello (take (unat n) d)))
    \<and> Reader_decode_evidence e0 d n = Inr (map_option fst (decode_evidence e0 (take (unat n) d)))
    \<and> Reader_decode_action d n = Inr (map_option fst (decode_action (take (unat n) d)))
    \<and> Reader_decode_ack d n = Inr (map_option fst (decode_ack (take (unat n) d)))
    \<and> R_load_from_bytes (Some d) n s = Inr (load_from_bytes (take (unat n) d) s)
    \<and> R_load_from_bytes None n s = Inr (load_from_bytes [] s)
    \<and> Writer_encode_hello h = encode_hello h \<and> Writer_encode_evidence e = encode_evidence e
    \<and> Writer_encode_action a = encode_action a \<and> Writer_encode_ack k = encode_ack k"
proof -
  have size: "length (take (unat n) d) < 2 ^ 63" using assms by simp
  show ?thesis
    by (intro conjI)
      (simp_all only: Reader_decode_hello_def Reader_decode_evidence_def Reader_decode_action_def Reader_decode_ack_def
        Reader_decodes [OF assms] R_load_from_bytes_loads [OF assms] R_load_null decode_frames_at_decodes [OF assms]
        receive_at_receives [OF size] Writer_encodes Writer_encodes_evidence)
qed

theorem parsing_memory_safe_witness:
  "Reader_decode_action (encode_action \<lparr>wa_id = Id 1, wa_cls = IC_THROTTLE, wa_target = Id 2, wa_attempt = Id 3,
     wa_intensity = f64_one\<rparr>) 33 =
   Inr (Some \<lparr>wa_id = Id 1, wa_cls = IC_THROTTLE, wa_target = Id 2, wa_attempt = Id 3, wa_intensity = f64_one\<rparr>)"
proof -
  let ?a = "\<lparr>wa_id = Id 1, wa_cls = IC_THROTTLE, wa_target = Id 2, wa_attempt = Id 3, wa_intensity = f64_one\<rparr>"
  have "decode_action (encode_action ?a) = Some (?a, [])"
    using round_tripD [OF round_trip_action, of ?a "[]"] by simp
  then show ?thesis using parsing_memory_safe [of 33 "encode_action ?a"] by (simp add: encode_action_length)
qed

end
