(* ===== verification/Spec_Protocol.thy ===== *)
theory Spec_Protocol
  imports CG_Process Spec_Data
begin

text \<open>
  Properties of the transport and of the coordinator and worker processes: framing, sending and
  receiving over partial reads and writes, the messages, and what their composition with the
  governor gives; the two programs from their command lines to their exit codes; the owners of
  the sockets' descriptors.
\<close>

section \<open>Frames\<close>

text \<open>A frame with up to four adjacent bytes overwritten, after the frames \<open>fs\<close>.\<close>

lemma decode_damaged:
  assumes "\<forall>f \<in> set fs. fits (fm_payload f)" "fits payload"
    "encode_frame type payload = pre @ w @ post" "length w' = length w" "length w \<le> 4" "w' \<noteq> w"
    "take 4 (drop 12 (pre @ w' @ post)) = take 4 (drop 12 (encode_frame type payload))"
  shows "\<exists>msg. decode_frames (encode_frames fs @ (pre @ w' @ post) @ rest) [] = (protocol_error msg, fs)"
proof -
  have "take 4 (drop 12 (pre @ w' @ post)) = w_u32 (word_of_nat (length payload))"
    unfolding assms(7) by (simp add: encode_frame_parts covered_def)
  from scan_detects_window [OF assms(2-6) this] obtain msg
    where bad: "scan_frame ((pre @ w' @ post) @ rest) = Bad_frame msg" by blast
  have "0 < length (pre @ w' @ post)"
    using arg_cong [OF assms(3), of length] assms(4) by auto
  then have ne: "(pre @ w' @ post) @ rest \<noteq> []" by (metis append_is_Nil_conv length_greater_0_conv)
  have "decode_frames (encode_frames fs @ (pre @ w' @ post) @ rest) out = (protocol_error msg, out @ fs)" for out
    using assms(1)
  proof (induction fs arbitrary: out)
    case Nil
    show ?case using ne bad by (subst decode_frames.simps) (auto simp del: append_assoc)
  next
    case (Cons f fs)
    then show ?case by (subst decode_frames.simps) (simp add: scan_encode)
  qed
  from this [of "[]"] show ?thesis by auto
qed

text \<open>
  C16. Decoding undoes encoding. Any sequence of frames whose payloads are within the limit of
  1 MiB, encoded one after the other, decodes to the same sequence with status OK. A stream cut
  short within a further frame yields exactly the frames before it and the error for the part
  that is missing. If up to four adjacent bytes of a further frame are overwritten by different
  ones, and the length field still reads the same, decoding fails at that frame: the frames
  before it are delivered, nothing else is.
\<close>

theorem frames_round_trip:
  assumes "\<forall>f \<in> set fs. fits (fm_payload f)"
  shows "decode_frames (encode_frames fs) [] = (status_good, fs)
    \<and> (\<forall>type payload k. fits payload \<and> 0 < k \<and> k < length payload + 20 \<longrightarrow>
         decode_frames (encode_frames fs @ take k (encode_frame type payload)) [] =
           (protocol_error (if k < 16 then ''truncated frame header'' else ''truncated frame''), fs))
    \<and> (\<forall>type payload pre w w' post rest. fits payload \<and> encode_frame type payload = pre @ w @ post
         \<and> length w' = length w \<and> length w \<le> 4 \<and> w' \<noteq> w
         \<and> take 4 (drop 12 (pre @ w' @ post)) = take 4 (drop 12 (encode_frame type payload)) \<longrightarrow>
         (\<exists>msg. decode_frames (encode_frames fs @ (pre @ w' @ post) @ rest) [] = (protocol_error msg, fs)))"
proof (intro conjI allI impI)
  show "decode_frames (encode_frames fs) [] = (status_good, fs)" using decode_encode [OF assms, of "[]"] by simp
next
  fix type payload and k :: nat
  assume "fits payload \<and> 0 < k \<and> k < length payload + 20"
  then show "decode_frames (encode_frames fs @ take k (encode_frame type payload)) [] =
      (protocol_error (if k < 16 then ''truncated frame header'' else ''truncated frame''), fs)"
    using decode_truncated [OF assms] by simp
next
  fix type payload pre w w' post rest
  assume a: "fits payload \<and> encode_frame type payload = pre @ w @ post \<and> length w' = length w \<and> length w \<le> 4 \<and> w' \<noteq> w
    \<and> take 4 (drop 12 (pre @ w' @ post)) = take 4 (drop 12 (encode_frame type payload))"
  then show "\<exists>msg. decode_frames (encode_frames fs @ (pre @ w' @ post) @ rest) [] = (protocol_error msg, fs)"
    by (elim conjE) (rule decode_damaged [OF assms])
qed

theorem frames_round_trip_witness:
  "decode_frames (encode_frames [\<lparr>fm_type = MT_SHUTDOWN, fm_payload = []\<rparr>] @ take 17 (encode_frame MT_RPC_REQUEST [1])) [] =
    (protocol_error ''truncated frame'', [\<lparr>fm_type = MT_SHUTDOWN, fm_payload = []\<rparr>])
   \<and> (\<exists>msg. decode_frames (frame_head @ w_u32 MT_RPC_REQUEST @ w_u32 1 @ [2] @ w_u32 (crc32c (covered MT_RPC_REQUEST [1]))) []
     = (protocol_error msg, []))"
proof
  show "decode_frames (encode_frames [\<lparr>fm_type = MT_SHUTDOWN, fm_payload = []\<rparr>] @ take 17 (encode_frame MT_RPC_REQUEST [1])) [] =
    (protocol_error ''truncated frame'', [\<lparr>fm_type = MT_SHUTDOWN, fm_payload = []\<rparr>])"
    using frames_round_trip [of "[\<lparr>fm_type = MT_SHUTDOWN, fm_payload = []\<rparr>]", THEN conjunct2, THEN conjunct1, rule_format,
        of "[1]" 17 MT_RPC_REQUEST]
    by (simp add: fits_def)
  show "\<exists>msg. decode_frames (frame_head @ w_u32 MT_RPC_REQUEST @ w_u32 1 @ [2] @ w_u32 (crc32c (covered MT_RPC_REQUEST [1]))) []
     = (protocol_error msg, [])"
    using frames_round_trip [of "[]", THEN conjunct2, THEN conjunct2, rule_format,
        of "[1]" MT_RPC_REQUEST "frame_head @ w_u32 MT_RPC_REQUEST @ w_u32 1" "[1]"
          "w_u32 (crc32c (covered MT_RPC_REQUEST [1]))" "[2]" "[]"]
    by (simp add: encode_frame_parts covered_def fits_def)
qed

section \<open>The connection\<close>

text \<open>What goes out is a beginning of the frame, and all of it exactly when the status is good.\<close>

lemma send_whole_or_error:
  "\<exists>k. snd (send valid sent type payload) = take k (encode_frame type payload)
     \<and> (status_ok (fst (send valid sent type payload)) \<longleftrightarrow>
          snd (send valid sent type payload) = encode_frame type payload)"
proof (cases "length payload > unat kMaxFramePayload \<or> \<not> valid")
  case True
  then show ?thesis
    by (intro exI [of _ 0])
      (auto simp: send_def protocol_error_def status_bad_def status_ok_def dest: sym [of "[]"])
next
  case False
  obtain handed ok where w: "write_all sent 0 (encode_frame type payload) = (handed, ok)" by fastforce
  obtain k where k: "handed = take k (encode_frame type payload)" "ok \<longleftrightarrow> handed = encode_frame type payload"
    using write_all_prefix [of sent 0 "encode_frame type payload"] w by auto
  have "send valid sent type payload = (if ok then status_good else protocol_error ''write failed'', handed)"
    using False w by (simp add: send_def)
  then show ?thesis
    using k by (intro exI [of _ k]) (simp add: protocol_error_def status_bad_def status_ok_def status_good_def)
qed

text \<open>
  C20. The stream carries the frames. On the sending side, whatever the partial writes, the bytes
  that went out are a beginning of the encoded frame, and \<open>send\<close> reports success exactly when it
  went out whole. On the reading side, for frames whose payload leaves room for a chunk in the
  receive buffer, any division of the encoded stream into non-empty chunks of at most 4096 bytes
  gives the sequence of frames sent, as \<open>decode_frames\<close> does on the whole, and leaves nothing.
\<close>

theorem chunking_irrelevant:
  assumes "\<forall>f \<in> set fs. roomy (fm_payload f)" "\<forall>chunk \<in> set chunks. chunk_ok chunk"
    "concat chunks = encode_frames fs"
  shows "receive_frames (length fs) [] (map Recv chunks) = Some (fs, [], [])
    \<and> decode_frames (concat chunks) [] = (status_good, fs)
    \<and> (\<forall>valid sent f. \<exists>k. snd (send valid sent (fm_type f) (fm_payload f)) = take k (encode_frames [f])
         \<and> (status_ok (fst (send valid sent (fm_type f) (fm_payload f))) \<longleftrightarrow>
              snd (send valid sent (fm_type f) (fm_payload f)) = encode_frames [f]))"
  using receive_stream [of fs chunks "[]"] decode_encode [of fs "[]"] assms roomy_fits send_whole_or_error by simp

theorem chunking_irrelevant_witness:
  "receive_frames 1 [] (map Recv [take 3 (encode_frame MT_SHUTDOWN []), drop 3 (encode_frame MT_SHUTDOWN [])]) =
    Some ([\<lparr>fm_type = MT_SHUTDOWN, fm_payload = []\<rparr>], [], [])"
  using chunking_irrelevant [of "[\<lparr>fm_type = MT_SHUTDOWN, fm_payload = []\<rparr>]"
      "[take 3 (encode_frame MT_SHUTDOWN []), drop 3 (encode_frame MT_SHUTDOWN [])]"]
  by (auto simp: roomy_def chunk_ok_def dest: arg_cong [where f = length])

text \<open>A maximal frame with something behind it in the chunk that completes it.\<close>

lemma largest_frame:
  assumes "length payload = 2 ^ 20" "rbuf @ chunk = encode_frame type payload @ encode_frames (f # fs)"
    "length rbuf < 2 ^ 20 + 20" "\<forall>f \<in> set (f # fs). fits (fm_payload f)"
  shows "receive True rbuf (Recv chunk # evs) =
      Some (protocol_error ''oversized receive buffer'', None, rbuf @ chunk, evs)
    \<and> decode_frames (rbuf @ chunk) [] = (status_good, \<lparr>fm_type = type, fm_payload = payload\<rparr> # f # fs)"
proof -
  have "encode_frames (f # fs) \<noteq> []" by simp
  moreover have "decode_frames (encode_frames (\<lparr>fm_type = type, fm_payload = payload\<rparr> # f # fs)) [] =
      (status_good, \<lparr>fm_type = type, fm_payload = payload\<rparr> # f # fs)"
    using decode_encode [of "\<lparr>fm_type = type, fm_payload = payload\<rparr> # f # fs" "[]"] assms(1,4) by (simp add: fits_def)
  ultimately show ?thesis
    using receive_oversized [OF assms(1,2) _ assms(3)] assms(2) by simp
qed

text \<open>
  C21. A read returns, in bounded memory. Once the peer closes or fails, or has sent more than
  the buffer may hold, \<open>receive\<close> returns; and the buffer never exceeds one maximal frame and
  one chunk. The bound refuses too much: a frame of the largest size the protocol allows is
  an error when the chunk that completes it brings the first byte of anything behind it,
  although \<open>decode_frames\<close> accepts the same bytes.
\<close>

theorem receive_ends_bounded:
  assumes "list_ex ends_stream evs \<or> length rbuf + sum_list (map chunk_length evs) > 2 ^ 20 + 20"
    "\<forall>chunk. Recv chunk \<in> set evs \<longrightarrow> chunk_ok chunk" "length rbuf \<le> 2 ^ 20 + 20 + 4096"
  shows "(\<exists>st f rbuf' evs'. receive blocking rbuf evs = Some (st, f, rbuf', evs') \<and> length rbuf' \<le> 2 ^ 20 + 20 + 4096)
    \<and> (\<forall>payload chunk type f fs evs'. length payload = 2 ^ 20 \<and> rbuf @ chunk = encode_frame type payload @ encode_frames (f # fs)
         \<and> length rbuf < 2 ^ 20 + 20 \<and> (\<forall>f \<in> set (f # fs). fits (fm_payload f)) \<longrightarrow>
         receive True rbuf (Recv chunk # evs') =
           Some (protocol_error ''oversized receive buffer'', None, rbuf @ chunk, evs')
         \<and> decode_frames (rbuf @ chunk) [] = (status_good, \<lparr>fm_type = type, fm_payload = payload\<rparr> # f # fs))"
proof
  show "\<exists>st f rbuf' evs'. receive blocking rbuf evs = Some (st, f, rbuf', evs') \<and> length rbuf' \<le> 2 ^ 20 + 20 + 4096"
    using receive_returns [OF assms(1), of blocking] receive_bounded [OF _ assms(2,3), of blocking] by fastforce
qed (use largest_frame [of _ rbuf] in blast)

theorem receive_ends_bounded_witness:
  "\<exists>rbuf chunk. (\<exists>st f rbuf' evs'. receive True rbuf [Peer_closed] = Some (st, f, rbuf', evs') \<and> length rbuf' \<le> 1052692)
     \<and> fst (the (receive True rbuf [Recv chunk])) = protocol_error ''oversized receive buffer''
     \<and> fst (decode_frames (rbuf @ chunk) []) = status_good"
proof -
  let ?p = "replicate (2 ^ 20) 0" and ?f = "\<lparr>fm_type = MT_SHUTDOWN, fm_payload = []\<rparr>"
  let ?s = "encode_frame MT_EVIDENCE ?p @ encode_frames [?f]"
  have "list_ex ends_stream [Peer_closed] \<or> length (take (2 ^ 20) ?s) + sum_list (map chunk_length [Peer_closed]) > 2 ^ 20 + 20"
    "\<forall>chunk. Recv chunk \<in> set [Peer_closed] \<longrightarrow> chunk_ok chunk" "length (take (2 ^ 20) ?s) \<le> 2 ^ 20 + 20 + 4096"
    by (simp_all add: ends_stream_def)
  note r = receive_ends_bounded [OF this, of True]
  show ?thesis
    using r [THEN conjunct1] r [THEN conjunct2, rule_format, of ?p "drop (2 ^ 20) ?s" MT_EVIDENCE ?f "[]" "[]"]
    by (intro exI [of _ "take (2 ^ 20) ?s"] exI [of _ "drop (2 ^ 20) ?s"])
      (simp only: append_take_drop_id, simp add: fits_def)
qed

section \<open>Messages\<close>

text \<open>
  C23. Evidence survives the wire. An evidence message within the decoder's limits decodes to
  the evidence with the fractions of the receiver, whatever follows it, and nothing but an
  encoding of a message decodes to that message. The fractions are not sent, but the governor
  recomputes them: ingesting the decoded evidence is ingesting the original, if the
  original's own degradation was finite and not negative.
\<close>

theorem evidence_wire_round_trip:
  assumes "sendable_evidence e"
  shows "decode_evidence e0 (encode_evidence e @ rest) =
      Some (e\<lparr>ie_degradation := ie_degradation e0, ie_improvement := ie_improvement e0\<rparr>, rest)
    \<and> (\<forall>bs. decode_evidence e0 bs =
          Some (e\<lparr>ie_degradation := ie_degradation e0, ie_improvement := ie_improvement e0\<rparr>, rest)
        \<longrightarrow> bs = encode_evidence e @ rest)
    \<and> (\<forall>e' st. f64_isfinite (ie_degradation e) \<and> \<not> f64_lt (ie_degradation e) f64_zero
        \<and> decode_evidence default_InterferenceEvidence (encode_evidence e) = Some (e', [])
        \<longrightarrow> ingest_evidence e' st = ingest_evidence e st)"
proof (intro conjI allI impI)
  have enc: "encode_evidence (e\<lparr>ie_degradation := d, ie_improvement := i\<rparr>) = encode_evidence e" for d i
    by (simp add: encode_evidence_def)
  show "decode_evidence e0 (encode_evidence e @ rest) =
      Some (e\<lparr>ie_degradation := ie_degradation e0, ie_improvement := ie_improvement e0\<rparr>, rest)"
    by (rule decode_encode_evidence [OF assms])
  show "bs = encode_evidence e @ rest"
    if "decode_evidence e0 bs = Some (e\<lparr>ie_degradation := ie_degradation e0, ie_improvement := ie_improvement e0\<rparr>, rest)" for bs
    using decode_evidence_exact [OF that] enc by metis
next
  fix e' st
  assume *: "f64_isfinite (ie_degradation e) \<and> \<not> f64_lt (ie_degradation e) f64_zero
    \<and> decode_evidence default_InterferenceEvidence (encode_evidence e) = Some (e', [])"
  have e': "e' = e\<lparr>ie_degradation := f64_zero, ie_improvement := f64_zero\<rparr>"
    using decode_encode_evidence [OF assms, of default_InterferenceEvidence "[]"] *
    by (simp add: default_InterferenceEvidence_def)
  have same: "validate_evidence e' = validate_evidence e" "with_fractions e' = with_fractions e"
    using * by (simp_all add: e' structurally_valid_def with_fractions_def validate_evidence_def)
  show "ingest_evidence e' st = ingest_evidence e st" unfolding ingest_evidence_def same ..
qed

theorem evidence_wire_round_trip_witness:
  "\<exists>e'. decode_evidence default_InterferenceEvidence (encode_evidence (ex_evidence f64_one)) = Some (e', [])
    \<and> ingest_evidence e' ex_ready = ingest_evidence (ex_evidence f64_one) ex_ready"
proof -
  have s: "sendable_evidence (ex_evidence f64_one)" "ie_degradation (ex_evidence f64_one) = f64_zero"
    by (simp_all add: sendable_evidence_def ex_evidence_def short_def)
  have fin: "f64_isfinite (ie_degradation (ex_evidence f64_one)) \<and> \<not> f64_lt (ie_degradation (ex_evidence f64_one)) f64_zero"
    by (simp add: s(2) f64_lt_irrefl)
  note rt = evidence_wire_round_trip [OF s(1), of default_InterferenceEvidence "[]"]
  then show ?thesis using fin by (metis append_Nil2)
qed

section \<open>The processes\<close>

text \<open>
  C25. A dispatch over TCP is a dispatch, and happens once. Whatever the connections do,
  \<open>tcp_dispatch\<close> either waits for the network or has the status and the state of \<open>dispatch\<close> with
  some adapter; so everything shown of \<open>dispatch\<close> for all adapters holds for it. After one that
  succeeded, a second one of the same intervention is refused as stale before anything is sent
  and changes neither the state nor the connections; so the coordinator in the mode \<^verbatim>\<open>resume\<close>,
  which tries, prints \<^verbatim>\<open>RESUME_DISPATCH STALE_AUTHORITY\<close>.
\<close>

theorem tcp_dispatch_refines:
  assumes "tcp_dispatch conns iid now st = Some ((ds, st'), conns')"
  shows "(\<exists>adapters. (ds, st') = dispatch adapters iid now st)
    \<and> (st_code ds = SC_OK \<longrightarrow>
        tcp_dispatch conns' iid now' st' =
          Some ((status_bad SC_STALE_AUTHORITY ''intervention not in AUTHORIZED state'', st'), conns')
        \<and> coordinator_after save ''resume'' cid iid now' conns' st' fs =
          (Some (Exit 0 [''RESUME_DISPATCH STALE_AUTHORITY''] conns' st'), fs))"
proof -
  obtain adapters where d: "(ds, st') = dispatch adapters iid now st"
    using tcp_dispatch_dispatch [OF assms] by blast
  have "tcp_dispatch conns' iid now' st' =
      Some ((status_bad SC_STALE_AUTHORITY ''intervention not in AUTHORIZED state'', st'), conns')"
    if "st_code ds = SC_OK"
    using dispatch_again [OF d [symmetric] that] by (simp add: tcp_dispatch_def)
  then show ?thesis using d by (auto simp: coordinator_after_def status_bad_def)
qed

text \<open>
  C26. The coordinator and a worker together. The dispatch of a current, authorized
  intervention of a throttling class to a connected worker puts exactly one frame on the target's
  connection, the action with the intervention's class, target and attempt, and touches no other
  connection; it reads the answer that the worker gives to this frame, however the network cuts it, and
  records it: ACKNOWLEDGED for a worker whose role is not \<^verbatim>\<open>A\<close>. A worker of role \<^verbatim>\<open>A\<close> sends its
  post-action evidence before the acknowledgement, the coordinator takes it for a bad one, and the outcome is
  OUTCOME_UNKNOWN although the action was applied; the acknowledgement stays on the connection
  for the next read.
\<close>

theorem dispatch_to_worker:
  assumes "om_find (es_interventions (gs_engine st)) iid = Some i" "ir_state i = LS_AUTHORIZED"
    "fence_current (es_authority (gs_engine st)) (ir_fence i) (ir_target i)" "throttle_class (ir_cls i)"
    "om_find conns (ir_target i) = Some c" "ready c"
    "answers c (fst (worker_react cfg (action_frame (ir_attemptId i) (ir_target i) (ir_cls i) f64_one)))"
  shows "\<exists>st' c' i'. tcp_dispatch conns iid now st = Some ((status_good, st'), om_put (ir_target i) c' conns)
    \<and> cn_out c' = cn_out c @ encode_frame MT_ACTION_AUTHORIZE (encode_action
        \<lparr>wa_id = Id 1, wa_cls = ir_cls i, wa_target = ir_target i, wa_attempt = ir_attemptId i, wa_intensity = f64_one\<rparr>)
    \<and> answers c' (if wc_role cfg = ''A'' then [\<lparr>fm_type = MT_ACTION_ACK, fm_payload = encode_ack
        \<lparr>wk_id = Id 1, wk_attempt = ir_attemptId i, wk_acknowledged = True, wk_note = ''''\<rparr>\<rparr>] else [])
    \<and> om_find (es_interventions (gs_engine st')) iid = Some i'
    \<and> ir_state i' = (if wc_role cfg = ''A'' then LS_OUTCOME_UNKNOWN else LS_ACKNOWLEDGED)"
  using tcp_dispatch_worker [OF assms, of now] by (simp add: unread_answer_def action_frame_def action_of_def)

definition ex_worker :: "string \<Rightarrow> WorkerConfig" where
  "ex_worker role = \<lparr>wc_role = role, wc_boot = 8, wc_workerId = 2, wc_victim = 1, wc_neighbor = 2,
     wc_baseline = f64_one, wc_corun = F64 0x3FE0000000000000, wc_postCorun = f64_one, wc_dieAfterAck = False\<rparr>"

definition ex_connection :: "bytes \<Rightarrow> Connection" where
  "ex_connection stream = \<lparr>cn_valid = True, cn_send = (\<lambda>k i. 1), cn_calls = 0, cn_out = [], cn_rbuf = [],
     cn_recv = [Recv stream]\<rparr>"

text \<open>All of an answer in one chunk.\<close>

lemma ex_connection_answers:
  "encode_frames fs \<noteq> [] \<Longrightarrow> length (encode_frames fs) \<le> 4096 \<Longrightarrow> answers (ex_connection (encode_frames fs)) fs"
  by (auto simp: answers_def ex_connection_def chunk_ok_def intro: exI [of _ "[encode_frames fs]"])

lemma ex_worker_answers:
  fixes role :: string and attempt :: AttemptId and target :: WorkloadId and cls :: InterventionClass
    and intensity :: double
  defines "fs \<equiv> fst (worker_react (ex_worker role) (action_frame attempt target cls intensity))"
  shows "ready (ex_connection (encode_frames fs)) \<and> answers (ex_connection (encode_frames fs)) fs"
proof
  show "ready (ex_connection (encode_frames fs))" by (simp add: ready_def ex_connection_def)
  have "length (encode_frames fs) \<le> 4096"
    by (simp add: fs_def worker_answer encode_evidence_length worker_post_evidence_sel encode_ack_length)
  then show "answers (ex_connection (encode_frames fs)) fs"
    by (intro ex_connection_answers) (simp_all add: fs_def worker_answer)
qed

theorem dispatch_to_worker_witness:
  "\<forall>role. \<exists>conns st' c' i'. tcp_dispatch conns (Id 1) 0 (ex_authorized IC_THROTTLE) =
       Some ((status_good, st'), om_put (ir_target ex_intervention) c' conns)
     \<and> cn_out c' = encode_frame MT_ACTION_AUTHORIZE (encode_action \<lparr>wa_id = Id 1, wa_cls = ir_cls ex_intervention,
         wa_target = ir_target ex_intervention, wa_attempt = ir_attemptId ex_intervention, wa_intensity = f64_one\<rparr>)
     \<and> om_find (es_interventions (gs_engine st')) (Id 1) = Some i'
     \<and> ir_state i' = (if role = ''A'' then LS_OUTCOME_UNKNOWN else LS_ACKNOWLEDGED)"
proof
  fix role
  let ?i = "ex_intervention"
  let ?c = "ex_connection (encode_frames (fst (worker_react (ex_worker role)
     (action_frame (ir_attemptId ?i) (ir_target ?i) (ir_cls ?i) f64_one))))"
  have i: "om_find (es_interventions (gs_engine (ex_authorized IC_THROTTLE))) (Id 1) = Some ?i" "ir_state ?i = LS_AUTHORIZED"
    "fence_current (es_authority (gs_engine (ex_authorized IC_THROTTLE))) (ir_fence ?i) (ir_target ?i)" "throttle_class (ir_cls ?i)"
    using ex_fence_current by (simp_all add: ex_authorized_sel ex_intervention_sel)
  have c: "om_find [(ir_target ?i, ?c)] (ir_target ?i) = Some ?c" "cn_out ?c = []" "wc_role (ex_worker role) = role"
    by (simp_all add: ex_connection_def ex_worker_def)
  note a = ex_worker_answers [of role "ir_attemptId ?i" "ir_target ?i" "ir_cls ?i" f64_one]
  show "\<exists>conns st' c' i'. tcp_dispatch conns (Id 1) 0 (ex_authorized IC_THROTTLE) =
       Some ((status_good, st'), om_put (ir_target ?i) c' conns)
     \<and> cn_out c' = encode_frame MT_ACTION_AUTHORIZE (encode_action \<lparr>wa_id = Id 1, wa_cls = ir_cls ?i,
         wa_target = ir_target ?i, wa_attempt = ir_attemptId ?i, wa_intensity = f64_one\<rparr>)
     \<and> om_find (es_interventions (gs_engine st')) (Id 1) = Some i'
     \<and> ir_state i' = (if role = ''A'' then LS_OUTCOME_UNKNOWN else LS_ACKNOWLEDGED)"
    using dispatch_to_worker [OF i c(1) a [THEN conjunct1] a [THEN conjunct2], of 0] unfolding c(2,3) append_Nil by metis
qed

lemma ex_tcp_dispatch:
  "\<exists>conns st' conns'. tcp_dispatch conns (Id 1) 0 (ex_authorized IC_THROTTLE) = Some ((status_good, st'), conns')"
proof -
  let ?i = "ex_intervention"
  let ?c = "ex_connection (encode_frames (fst (worker_react (ex_worker ''B'')
     (action_frame (ir_attemptId ?i) (ir_target ?i) (ir_cls ?i) f64_one))))"
  show ?thesis
    using tcp_dispatch_worker [of "ex_authorized IC_THROTTLE" "Id 1" ?i "[(ir_target ?i, ?c)]" ?c "ex_worker ''B''" 0]
      ex_worker_answers [of "''B''" "ir_attemptId ?i" "ir_target ?i" "ir_cls ?i" f64_one] ex_fence_current
    by (intro exI [of _ "[(ir_target ?i, ?c)]"]) (auto simp: ex_authorized_sel ex_intervention_sel)
qed

theorem tcp_dispatch_refines_witness:
  "\<exists>st' conns'. tcp_dispatch conns' (Id 1) 7 st' =
      Some ((status_bad SC_STALE_AUTHORITY ''intervention not in AUTHORIZED state'', st'), conns')
    \<and> om_find (es_interventions (gs_engine (ex_authorized IC_THROTTLE))) (Id 1) \<noteq> None"
proof -
  obtain conns st' conns' where
    "tcp_dispatch conns (Id 1) 0 (ex_authorized IC_THROTTLE) = Some ((status_good, st'), conns')"
    using ex_tcp_dispatch by blast
  from tcp_dispatch_refines [OF this, where now' = 7 and save = "\<lambda>g fs. fs" and cid = "Id 1" and fs = Map.empty]
  show ?thesis by (auto simp: ex_authorized_sel status_good_def)
qed

text \<open>
  C27. The handshake. Workers with different ids that send their status and evidence, cut into
  chunks in any way, are all accepted; the governor's state afterwards is the one in which
  their boots, generations and evidence are recorded one after the other, and each connection
  is kept under its worker's id with what the worker sent next still to be read.
\<close>

theorem handshake:
  assumes "\<forall>(cfg, c, fs) \<in> set ps. regular cfg \<and> answers c (worker_start cfg @ fs)"
    "distinct (map (wc_workerId \<circ> fst) ps)"
  shows "\<exists>conns. collect_workers (length ps) (map (Some \<circ> fst \<circ> snd) ps) [] g =
      Some (Inr (conns, fold (join \<circ> fst) ps g))
    \<and> (\<forall>(cfg, c, fs) \<in> set ps. \<exists>c'. om_find conns (Id (wc_workerId cfg)) = Some c' \<and> answers c' fs)"
  using collect_all [OF assms, of "[]" g] by blast

lemma ex_worker_regular: "length role \<le> 10 \<Longrightarrow> regular (ex_worker role)"
  using ex_fractions(1)
  by (simp add: regular_def ex_worker_def worker_evidence_def default_InterferenceEvidence_def f64_patterns f64_consts)

theorem handshake_witness:
  "\<exists>conns. collect_workers 1 [Some (ex_connection (encode_frames (worker_start (ex_worker ''B''))))] [] default_GovernorState =
      Some (Inr (conns, join (ex_worker ''B'') default_GovernorState))"
proof -
  have "length (encode_frames (worker_start (ex_worker ''B''))) \<le> 4096"
    by (simp add: worker_start_def encode_evidence_length worker_evidence_sel encode_hello_def worker_hello_def ex_worker_def)
  then have "answers (ex_connection (encode_frames (worker_start (ex_worker ''B'')))) (worker_start (ex_worker ''B''))"
    by (intro ex_connection_answers) (simp_all add: worker_start_def)
  then show ?thesis
    using handshake [of "[(ex_worker ''B'', ex_connection (encode_frames (worker_start (ex_worker ''B''))), [])]"
        default_GovernorState] ex_worker_regular [of "''B''"]
    by (auto simp del: collect_workers.simps)
qed

text \<open>
  C28. A coordinator from its command line to its end. Whatever the arguments, the workers, the network,
  the clock and the file system do, a run has no undefined behaviour and ends with a well formed
  state, and what it leaves at the path of its state file is what was there (or the port, if the ready file
  is given the same path), nothing, or a well formed state. Only the mode \<^verbatim>\<open>resume\<close> with a state file
  needs anything of its content: that the file is absent, or rejected by the loader, or holds a well
  formed state within the limits of the format.
\<close>

theorem coordinator_defined:
  assumes "coordinator_process argv io fs = (r, fs')" "args = coordinator_options (drop 1 argv) default_coordinator"
    "ca_mode args = ''resume'' \<and> ca_persist args \<noteq> '''' \<longrightarrow> resumable (fs (ca_persist args))"
  shows "(\<forall>u. r \<noteq> Some (Undefined u)) \<and> (\<forall>code out conns g. r = Some (Exit code out conns g) \<longrightarrow> gov_inv g)
    \<and> (fs' (ca_persist args) \<in> {fs (ca_persist args), write_ready io (ca_ready args) fs (ca_persist args), None}
       \<or> (\<exists>st. gov_inv st \<and> fs' (ca_persist args) = Some (save_to_bytes st)))
    \<and> (ca_ready args \<noteq> ca_persist args \<longrightarrow> write_ready io (ca_ready args) fs (ca_persist args) = fs (ca_persist args))"
  using coordinator_process_proper [of argv io fs r fs'] assms by (auto simp: write_ready_def)

theorem coordinator_defined_witness:
  "\<exists>r. fst (coordinator_process [''coordinator'', ''--mode'', ''resume'', ''--persist'', ''s'']
       \<lparr>co_bind = status_good, co_port = 4000, co_ready = False,
        co_load = \<lparr>li_open = True, li_tell = True, li_read = True\<rparr>, co_windows = False,
        co_save = \<lparr>si_open = True, si_written = 5000, si_remove = True, si_rename = True\<rparr>,
        co_accepted = [None], co_times = (0, 0, 0)\<rparr> [''s'' \<mapsto> save_to_bytes ex_detected]) = r
     \<and> (\<forall>u. r \<noteq> Some (Undefined u))"
proof -
  let ?argv = "[''coordinator'', ''--mode'', ''resume'', ''--persist'', ''s'']"
  let ?fs = "[''s'' \<mapsto> save_to_bytes ex_detected]"
  have "storable ex_detected" using ex_listing_storable [of "[Id 1]"] by (simp add: ex_listing_detected)
  then have "resumable (?fs ''s'')" using ex_detected_inv by (auto simp: resumable_def)
  moreover have "coordinator_options (drop 1 ?argv) default_coordinator =
      \<lparr>ca_mode = ''resume'', ca_persist = ''s'', ca_port = 0, ca_ready = ''''\<rparr>"
    by (simp add: default_coordinator_def coordinator_option_def)
  ultimately show ?thesis
    using coordinator_defined [where argv = ?argv and fs = ?fs, OF prod.collapse [symmetric] refl] by simp
qed

text \<open>
  C29. The worker's process is the frame-level worker. Started with a port and an id and connected
  over a socket on which sends make progress, a worker to which the frames \<open>fs\<close> are sent, cut into
  chunks in any way, until the peer closes, exits with 0 and has sent exactly its first two
  messages and the answers of \<open>worker_loop\<close>. The arguments are read in pairs, so that a trailing
  \<^verbatim>\<open>--die-after-ack\<close> has no effect.
\<close>

theorem worker_process_refines:
  assumes "worker_options (drop 1 argv) default_worker = (port, cfg)" "port \<noteq> 0" "wc_workerId cfg \<noteq> 0"
    "connected port = Some c" "\<forall>f \<in> set fs. roomy (fm_payload f)" "ready c" "delivers c fs"
    "length (wc_role cfg) \<le> 2 ^ 19"
  shows "(\<exists>c'. worker_process argv connected = Some (0, Some c')
      \<and> cn_out c' = cn_out c @ encode_frames (worker_start cfg @ worker_loop cfg fs))
    \<and> (odd (length argv) \<longrightarrow> worker_process (argv @ [''--die-after-ack'']) connected = worker_process argv connected)"
  using worker_main_delivers [OF assms(5-8)] assms(1-4) worker_process_odd by (auto simp: worker_process_def)

theorem worker_process_refines_witness:
  "\<exists>cfg c'. worker_process [''worker'', ''--port'', ''4000'', ''--workerid'', ''2'', ''--role'', ''B'', ''--die-after-ack'']
      (\<lambda>port. Some \<lparr>cn_valid = True, cn_send = (\<lambda>k i. 1), cn_calls = 0, cn_out = [], cn_rbuf = [],
         cn_recv = [Recv (encode_frame MT_SHUTDOWN []), Peer_closed]\<rparr>) = Some (0, Some c')
    \<and> cn_out c' = encode_frames (worker_start cfg)"
proof -
  let ?argv = "[''worker'', ''--port'', ''4000'', ''--workerid'', ''2'', ''--role'', ''B'']"
  let ?c = "\<lparr>cn_valid = True, cn_send = (\<lambda>k i. 1), cn_calls = 0, cn_out = [], cn_rbuf = [],
     cn_recv = [Recv (encode_frame MT_SHUTDOWN []), Peer_closed]\<rparr>"
  have n: "port_of ''4000'' = 4000" "strtoull ''2'' = 2"
    by (simp_all add: port_of_def strtol_def strtoull_def split_sign_def is_space_def is_digit_def digits_value_def
        digit_value_def unat_u64_max)
  obtain cfg where o: "worker_options (drop 1 ?argv) default_worker = (4000, cfg)" "wc_workerId cfg = 2" "wc_role cfg = ''B''"
    using n by (simp add: default_worker_def worker_option_def)
  have "chunk_ok (encode_frame MT_SHUTDOWN [])"
    using encode_frame_length [of MT_SHUTDOWN "[]"] by (auto simp: chunk_ok_def simp del: encode_frame_length)
  then have "delivers ?c [\<lparr>fm_type = MT_SHUTDOWN, fm_payload = []\<rparr>]"
    by (auto simp: delivers_def intro!: exI [of _ "[encode_frame MT_SHUTDOWN []]"])
  moreover have "ready ?c" by (simp add: ready_def)
  moreover have loop: "worker_loop cfg [\<lparr>fm_type = MT_SHUTDOWN, fm_payload = []\<rparr>] = []"
    by (simp add: worker_react_def MT_SHUTDOWN_def MT_ACTION_AUTHORIZE_def)
  ultimately show ?thesis
    using worker_process_refines [OF o(1), of "\<lambda>port. Some ?c" ?c "[\<lparr>fm_type = MT_SHUTDOWN, fm_payload = []\<rparr>]"] o(2,3)
    by (intro exI [of _ cfg]) (auto simp: roomy_def loop)
qed

section \<open>Sockets\<close>

text \<open>
  C37. Every descriptor has one owner. Whatever the system calls return, \<open>bind_and_listen\<close> and
  \<open>connect_to\<close> close on failure what they opened; on success the listener or the connection owns
  exactly one new descriptor, closing it restores the set of open ones, and closing again does
  nothing. But a listener that was never bound, and one whose binding failed, takes descriptor 0
  for its socket and closes it when it is destroyed.
\<close>

theorem socket_ownership:
  assumes "fresh_fd fds (bi_socket bio)" "bind_and_listen bio default_Listener fds = (st, l, fds')"
    "fresh_fd fds (ci_socket cio)" "connect_to cio fds = (c, fds'')"
  shows "(status_ok st \<longrightarrow> ln_sock l \<notin> fds \<and> fds' = insert (ln_sock l) fds \<and> destroy_Listener l fds' = fds)
    \<and> (\<not> status_ok st \<longrightarrow> fds' = fds \<and> destroy_Listener l fds = fds - {0})
    \<and> (c = None \<longrightarrow> fds'' = fds)
    \<and> (\<forall>s. c = Some s \<longrightarrow> s \<notin> fds \<and> fds'' = insert s fds \<and> close_connection s fds'' = (kInvalidSock, fds)
         \<and> close_connection kInvalidSock fds = (kInvalidSock, fds))"
proof (intro conjI impI allI)
  note b = bind_and_listen_owns [OF assms(1,2)] and k = connect_owns [OF assms(3,4)]
  show "ln_sock l \<notin> fds" "fds' = insert (ln_sock l) fds" "destroy_Listener l fds' = fds" if "status_ok st"
    using b that by auto
  show "fds' = fds" "destroy_Listener l fds = fds - {0}" if "\<not> status_ok st"
    using b that by (simp_all add: default_Listener_def destroy_Listener_def socket_defs)
  show "fds'' = fds" if "c = None" using k that by simp
  show "s \<notin> fds" "fds'' = insert s fds" "close_connection s fds'' = (kInvalidSock, fds)" if "c = Some s" for s
    using k that by auto
  show "close_connection kInvalidSock fds = (kInvalidSock, fds)" by (simp add: close_connection_def socket_defs)
qed

theorem socket_ownership_witness:
  "destroy_Listener (fst (snd (bind_and_listen \<lparr>bi_socket = 5, bi_bind = -1, bi_name = None, bi_listen = 0\<rparr> default_Listener {0, 1, 2})))
     {0, 1, 2} = {1, 2}"
proof -
  let ?b = "\<lparr>bi_socket = 5, bi_bind = -1, bi_name = None, bi_listen = 0\<rparr>"
  let ?c = "\<lparr>ci_socket = -1, ci_pton = 1, ci_addrinfo = True, ci_connect = 0\<rparr>"
  have b: "bind_and_listen ?b default_Listener {0, 1, 2} = (protocol_error ''bind failed'', default_Listener, {0, 1, 2})"
    by (auto simp: bind_and_listen_def socket_defs)
  have c: "connect_to ?c {0, 1, 2} = (None, {0, 1, 2})" by (simp add: connect_to_def socket_defs)
  have "fresh_fd {0, 1, 2} (bi_socket ?b)" "fresh_fd {0, 1, 2} (ci_socket ?c)" by (simp_all add: fresh_fd_def)
  from socket_ownership [OF this(1) b this(2) c]
  have "destroy_Listener default_Listener {0, 1, 2} = {0, 1, 2} - {0}"
    by (simp add: protocol_error_def status_bad_def status_ok_def)
  then show ?thesis by (auto simp: b)
qed

end
