(* ===== verification/CG_Cli.thy ===== *)
theory CG_Cli
  imports CG_Store CG_Replay CG_CLib
begin

text \<open>
  \<^verbatim>\<open>cli/main.cpp\<close>: the command line tool, from the argument vector and the file system to the exit
  code and the lines it prints, with the conversions of \<^verbatim>\<open>printf\<close> it uses. What the tool makes
  of a state file is shown in \<^verbatim>\<open>Spec_Store\<close>.
\<close>

section \<open>Conversions\<close>

text \<open>\<^verbatim>\<open>%.4f\<close>: the exact value rounded to four places, ties to even.\<close>

definition four_digits :: "nat \<Rightarrow> string" where
  "four_digits n = map (\<lambda>k. char_of (48 + n div 10 ^ k mod 10)) [3, 2, 1, 0]"

definition fixed4 :: "double \<Rightarrow> string" where
  "fixed4 d =
     (if f64_neg d then ''-'' else '''') @
     (if f64_is_nan d then ''nan''
      else if f64_is_inf d then ''inf''
      else let q = f64_rne (f64_scaled (f64_mag d) * 10000) (2 ^ 1074)
           in dec_digits (q div 10000) @ ''.'' @ four_digits (q mod 10000))"

text \<open>\<^verbatim>\<open>%016llx\<close>.\<close>

definition hex_digit :: "nat \<Rightarrow> char" where
  "hex_digit n = char_of (if n < 10 then 48 + n else 87 + n)"

definition hex16 :: "u64 \<Rightarrow> string" where
  "hex16 w = map (\<lambda>k. hex_digit (unat w div 16 ^ k mod 16)) (rev [0..<16])"

section \<open>The commands\<close>

text \<open>The end of a run: exit code, lines of standard output, lines of standard error.\<close>

type_synonym cli_result = "nat \<times> string list \<times> string list"

definition version :: string where "version = ''1.0.0''"

definition usage :: "string list" where
  "usage =
     [''Contention Governor CLI '' @ version,
      ''commands: conflicts | show-conflict <id> | evaluate <id> | candidates <id> | decision <id> | digest | '' @
      ''history | fairness | action-budget | replay | validate-state'']"

text \<open>\<^verbatim>\<open>argc > 2 ? ConflictId{strtoull(argv[2])} : ConflictId{}\<close>\<close>

definition arg_id :: "string list \<Rightarrow> ConflictId" where
  "arg_id argv = (if length argv > 2 then Id (strtoull (argv ! 2)) else id_zero)"

definition cmd_conflicts :: "GovernorState \<Rightarrow> cli_result" where
  "cmd_conflicts g = (0, map (\<lambda>cid. ''conflict '' @ dec_string (id_value cid)) (conflict_ids g), [])"

definition cmd_show_conflict :: "ConflictId \<Rightarrow> GovernorState \<Rightarrow> cli_result" where
  "cmd_show_conflict cid g =
     (case conflict_of cid g of
        None \<Rightarrow> (1, [''unknown conflict''], [])
      | Some c \<Rightarrow>
          (0, [''id='' @ dec_string (id_value (cc_id c)) @ '' domain='' @ to_string_ResourceDomain (cc_domain c) @
               '' degradation='' @ fixed4 (cc_degradation c) @ '' severity='' @ to_string_Severity (cc_severity c) @
               '' state='' @ to_string_ConflictState (cc_state c) @
               '' binding='' @ to_string_BindingObjective (cc_binding c)], []))"

definition cmd_evaluate :: "ConflictId \<Rightarrow> GovernorState \<Rightarrow> cli_result" where
  "cmd_evaluate cid g =
     (let ev = evaluate cid g
      in (0, [''state='' @ to_string_ConflictState (ce_state ev) @ '' degradation='' @ fixed4 (ce_degradation ev) @
              '' status='' @ to_string_StatusCode (st_code (ce_status ev)) @
              '' candidates='' @ dec_digits (length (ce_candidates ev))] @
             (case ce_decision ev of
                None \<Rightarrow> []
              | Some d \<Rightarrow> [''decision='' @ to_string_InterventionClass (cand_cls (dec_chosen d)) @
                          '' target='' @ dec_string (id_value (cand_target (dec_chosen d)))]), []))"

definition cmd_decision :: "ConflictId \<Rightarrow> GovernorState \<Rightarrow> cli_result" where
  "cmd_decision cid g =
     (case ce_decision (evaluate cid g) of
        Some d \<Rightarrow> (0, [to_string_InterventionClass (cand_cls (dec_chosen d)) @ '' target='' @
                       dec_string (id_value (cand_target (dec_chosen d)))], [])
      | None \<Rightarrow> (1, [''NO_LEGAL_INTERVENTION''], []))"

definition cmd_digest :: "GovernorState \<Rightarrow> cli_result" where
  "cmd_digest g = (0, [''digest='' @ hex16 (digest g)], [])"

definition intervention_line :: "InterventionRecord \<Rightarrow> string" where
  "intervention_line i =
     ''intervention '' @ dec_string (id_value (ir_id i)) @ '' conflict='' @ dec_string (id_value (ir_conflictId i)) @
     '' state='' @ to_string_LifecycleState (ir_state i) @ '' cls='' @ to_string_InterventionClass (ir_cls i) @
     '' result='' @ to_string_VerificationOutcome (ir_result i)"

definition cmd_history :: "GovernorState \<Rightarrow> cli_result" where
  "cmd_history g =
     (0, concat (map (\<lambda>cid. case conflict_of cid g of
            None \<Rightarrow> []
          | Some c \<Rightarrow> concat (map (\<lambda>iid. case intervention_of iid g of
                None \<Rightarrow> [] | Some i \<Rightarrow> [intervention_line i]) (cc_selectedIds c))) (conflict_ids g)), [])"

definition fairness_line :: "FairnessRecord \<Rightarrow> string" where
  "fairness_line f =
     ''workload='' @ dec_string (id_value (fr_workload f)) @ '' interventions='' @ dec_string (fr_interventionCount f) @
     '' consecutive='' @ dec_digits (unat (fr_consecutiveInterventions f))"

definition cmd_fairness :: "GovernorState \<Rightarrow> cli_result" where
  "cmd_fairness g =
     (0, concat (map (\<lambda>cid. case conflict_of cid g of
            None \<Rightarrow> []
          | Some c \<Rightarrow> concat (map (\<lambda>w. case fairness_of w g of
                None \<Rightarrow> [] | Some f \<Rightarrow> [fairness_line f]) (cc_affected c))) (conflict_ids g)), [])"

definition cmd_action_budget :: "GovernorState \<Rightarrow> cli_result" where
  "cmd_action_budget g =
     (let b = action_budget g; u = ab_used b; of_limit = (\<lambda>n m. dec_string n @ ''/'' @ dec_string m)
      in (0, [''throttles='' @ of_limit (abs_throttles u) (ab_maxThrottlesPerWindow b) @
              '' preemptions='' @ of_limit (abs_preemptions u) (ab_maxPreemptionsPerWindow b) @
              '' all='' @ of_limit (abs_all u) (ab_maxAnyPerWindow b)], []))"

definition cmd_replay :: "GovernorState \<Rightarrow> cli_result" where
  "cmd_replay g =
     (let rp = replay g
      in (if status_ok (rr_status rp) then 0 else 1,
          [''conflicts='' @ dec_digits (rr_conflictsEvaluated rp) @
           '' diverged='' @ dec_digits (length (rr_diverged rp))], []))"

definition cmd_validate_state :: "GovernorState \<Rightarrow> cli_result" where
  "cmd_validate_state g =
     (let s = gs_engine g; v = validate_policy (es_policy s)
      in if \<not> status_ok v then (1, [''policy invalid: '' @ to_string_StatusCode (st_code v)], [])
         else (0, [''state valid; conflicts='' @ dec_digits (length (es_conflicts s)) @
                   '' evidence='' @ dec_digits (length (es_evidence s)) @
                   '' interventions='' @ dec_digits (length (es_interventions s))], []))"

section \<open>The tool\<close>

text \<open>The loop over the options; the last \<^verbatim>\<open>--state\<close> counts, and one without a path is ignored.\<close>

fun state_option :: "string list \<Rightarrow> string \<Rightarrow> string" where
  "state_option [] path = path"
| "state_option [a] path = path"
| "state_option (a # b # args) path =
     (if a = ''--state'' then state_option args b else state_option (b # args) path)"

definition cli_command :: "string list \<Rightarrow> GovernorState \<Rightarrow> cli_result" where
  "cli_command argv g =
     (let cmd = argv ! 1
      in if cmd = ''conflicts'' then cmd_conflicts g
         else if cmd = ''show-conflict'' then cmd_show_conflict (arg_id argv) g
         else if cmd = ''evaluate'' then cmd_evaluate (arg_id argv) g
         else if cmd = ''decision'' then cmd_decision (arg_id argv) g
         else if cmd = ''digest'' then cmd_digest g
         else if cmd = ''history'' then cmd_history g
         else if cmd = ''fairness'' then cmd_fairness g
         else if cmd = ''action-budget'' then cmd_action_budget g
         else if cmd = ''replay'' then cmd_replay g
         else if cmd = ''validate-state'' then cmd_validate_state g
         else (1, [''unknown command '' @ [CHR 0x27] @ cmd @ [CHR 0x27]], []))"

definition cli :: "LoadIo \<Rightarrow> files \<Rightarrow> string list \<Rightarrow> cli_result" where
  "cli io fs argv =
     (if length argv < 2 then (0, usage, [])
      else let path = state_option (drop 2 argv) '''';
               g = new_Governor (path \<noteq> '''') path;
               (st, g) = (if path \<noteq> '''' then load_governor io fs g else (status_good, g))
           in if \<not> status_ok st then (1, [], [''load failed: '' @ to_string_StatusCode (st_code st)])
              else cli_command argv (gv_state g))"

end
