(* ===== verification/Spec_Store.thy ===== *)
theory Spec_Store
  imports CG_Cli Spec_Data
begin

text \<open>
  Properties of the state file as a file and of the command line tool that reads it: what a crash
  during a save leaves behind, what the status of a save means, and that the tool answers for
  the state that was saved.
\<close>

section \<open>Saving\<close>

text \<open>
  C17. A crash during a save loses nothing. On POSIX, after any number of the changes a save makes
  to the file system, loading gives what it gave before the save or the saved state, and no
  other file but the temporary one has changed.
\<close>

theorem save_crash_safe:
  assumes "storable st" "length (save_to_bytes st) \<le> 2 ^ 31" "li_open lio" "li_tell lio" "li_read lio"
    "crashed = fold apply_op (take k (save_ops False io path (save_to_bytes st))) fs"
  shows "(load_state lio path crashed s = load_state lio path fs s \<or> load_state lio path crashed s = (status_good, st))
    \<and> (\<forall>p. p \<noteq> path \<and> p \<noteq> tmp_path path \<longrightarrow> crashed p = fs p)"
proof (intro conjI allI impI)
  show "load_state lio path crashed s = load_state lio path fs s \<or> load_state lio path crashed s = (status_good, st)"
  proof (cases "crashed path = fs path")
    case True
    then show ?thesis by (simp add: load_state_def)
  next
    case False
    then have "crashed path = Some (save_to_bytes st)" using save_crash [OF assms(6)] by blast
    then show ?thesis using load_saved [OF assms(1)] assms(2-5) by simp
  qed
qed (use save_crash [OF assms(6)] in blast)

theorem save_crash_safe_witness:
  "load_state \<lparr>li_open = True, li_tell = True, li_read = True\<rparr> ''s''
     (fold apply_op (take 7 (save_ops False \<lparr>si_open = True, si_written = 5000, si_remove = True, si_rename = True\<rparr> ''s''
        (save_to_bytes ex_detected))) Map.empty) ex_ready
   \<in> {(corrupt ''cannot open persistence file'', ex_ready), (status_good, ex_detected)}"
proof -
  have "storable ex_detected" "length (save_payload ex_detected) < 2000"
    using ex_listing_storable [of "[Id 1]"] ex_listing_length [of "[Id 1]"] by (simp_all add: ex_listing_detected)
  then show ?thesis
    using save_crash_safe [of ex_detected "\<lparr>li_open = True, li_tell = True, li_read = True\<rparr>" _ 7
        "\<lparr>si_open = True, si_written = 5000, si_remove = True, si_rename = True\<rparr>" "''s''" Map.empty ex_ready, OF _ _ _ _ _ refl]
    by (simp add: save_file file_of_def load_state_def)
qed

text \<open>
  C32. What the status of a save means. \<open>save_state\<close> reports success exactly if the whole state was
  written to the temporary file. If it reports a failure the state file is as it was; if it
  reports success and the rename succeeded the file holds the state. The outcome of the
  rename is not part of the status: when it fails the old file is still there, or, on
  Windows, where it was removed before, there is none.
\<close>

theorem save_status:
  assumes "save_state windows io path st fs = (ok, status, fs')"
  shows "(ok \<longleftrightarrow> status_ok status) \<and> (ok \<longleftrightarrow> si_open io \<and> length (save_to_bytes st) \<le> si_written io)
    \<and> (\<not> ok \<longrightarrow> fs' path = fs path)
    \<and> (ok \<and> si_rename io \<longrightarrow> fs' path = Some (save_to_bytes st) \<and> fs' (tmp_path path) = None)
    \<and> (ok \<and> \<not> si_rename io \<longrightarrow> fs' path = (if windows \<and> si_remove io then None else fs path))"
proof -
  let ?data = "save_to_bytes st"
  have fs': "fs' = fold apply_op (save_ops windows io path ?data) fs"
    and d: "ok \<longleftrightarrow> si_open io \<and> length ?data \<le> si_written io" "ok \<longleftrightarrow> status_ok status"
    using assms by (auto simp: save_state_def Let_def corrupt_def status_bad_def status_good_def status_ok_def split: if_splits)
  have "fs' path = fs path" if "\<not> ok"
    using that d(1) unfolding fs' save_ops_written by (auto simp: fold_written)
  then show ?thesis
    using d save_complete [of io ?data windows path fs] unfolding fs' by auto
qed

theorem save_status_witness:
  "fst (save_state True \<lparr>si_open = True, si_written = 5000, si_remove = True, si_rename = False\<rparr> ''s'' ex_detected
      [''s'' \<mapsto> []]) \<and> snd (snd (save_state True \<lparr>si_open = True, si_written = 5000, si_remove = True, si_rename = False\<rparr>
      ''s'' ex_detected [''s'' \<mapsto> []])) ''s'' = None"
proof -
  let ?io = "\<lparr>si_open = True, si_written = 5000, si_remove = True, si_rename = False\<rparr>"
  obtain ok status fs' where r: "save_state True ?io ''s'' ex_detected [''s'' \<mapsto> []] = (ok, status, fs')"
    by (cases "save_state True ?io ''s'' ex_detected [''s'' \<mapsto> []]") auto
  have "length (save_payload ex_detected) < 2000" using ex_listing_length [of "[Id 1]"] by (simp add: ex_listing_detected)
  then have "length (save_to_bytes ex_detected) \<le> 5000" by (simp add: save_file file_of_def)
  then show ?thesis using save_status [OF r] r by auto
qed

section \<open>Restarting\<close>

text \<open>
  C3. A restart revokes what was authorized before. Whenever a save over a saved state was
  interrupted, a governor that is opened on the file has the old or the new state, but for one case: the
  Windows build removes the old file before the rename, and in between, or when the rename
  fails, there is no state file; then opening fails, the governor starts from the empty state, and the
  new state is complete in the temporary file, which nothing reads. In every case, after
  \<open>advance_epoch\<close> it grants nothing, no stored intervention is active or reaches an adapter, and
  no fence of the state it read is current (unless its epoch counter is saturated).
\<close>

theorem restart_revokes:
  fixes g :: Governor
  defines "st' \<equiv> snd (advance_epoch (gv_state g))"
  assumes "storable old" "length (save_to_bytes old) \<le> 2 ^ 31" "storable new" "length (save_to_bytes new) \<le> 2 ^ 31"
    "li_open lio" "li_tell lio" "li_read lio" "path \<noteq> ''''" "fs path = Some (save_to_bytes old)"
    "crashed = fold apply_op (take k (save_ops windows sio path (save_to_bytes new))) fs"
    "open_governor lio crashed (new_Governor True path) = (status, g)"
  shows "(status = status_good \<and> gv_state g \<in> {old, new}
      \<or> windows \<and> si_remove sio \<and> crashed path = None \<and> crashed (tmp_path path) = Some (save_to_bytes new)
        \<and> status = corrupt ''cannot open persistence file'' \<and> gv_state g = default_GovernorState)
    \<and> (\<forall>cid cls now. authorize cid cls now st' = Inr (None, st'))
    \<and> (\<forall>iid i. om_find (es_interventions (gs_engine st')) iid = Some i \<longrightarrow> \<not> active (ir_state i))
    \<and> (\<forall>iid now. \<exists>refused. dispatch_begin iid now st' = (Inl refused, st'))
    \<and> (\<forall>f target. id_value (au_coordinatorEpoch (es_authority (gs_engine (gv_state g)))) \<noteq> u64_max
         \<and> fence_current (es_authority (gs_engine (gv_state g))) f target \<longrightarrow>
         \<not> fence_current (es_authority (gs_engine st')) f target)"
proof -
  have "status = status_good \<and> gv_state g \<in> {old, new}" if saved: "crashed path \<in> {Some (save_to_bytes old), Some (save_to_bytes new)}"
  proof -
    from saved obtain st where "st \<in> {old, new}" "load_state lio path crashed default_GovernorState = (status_good, st)"
      using load_saved [where fs = crashed and path = path and io = lio] assms(2-8) by blast
    then show ?thesis using assms(9,12) by (auto simp: open_governor_def new_Governor_def)
  qed
  moreover have "status = corrupt ''cannot open persistence file'' \<and> gv_state g = default_GovernorState" if "crashed path = None"
    using that assms(9,12) by (auto simp: open_governor_def new_Governor_def load_state_def split: bool.splits)
  ultimately show ?thesis
    using save_crash_any [OF assms(11)] assms(10) epoch_revoked [where st = "gv_state g"]
      epoch_fence_stale [where st = "gv_state g"] unfolding st'_def by auto
qed

theorem restart_revokes_witness:
  "\<exists>g. open_governor \<lparr>li_open = True, li_tell = True, li_read = True\<rparr>
      (fold apply_op (take 9 (save_ops False \<lparr>si_open = True, si_written = 5000, si_remove = True, si_rename = True\<rparr> ''s''
        (save_to_bytes ex_detected))) [''s'' \<mapsto> save_to_bytes ex_detected]) (new_Governor True ''s'') = (status_good, g)
    \<and> gv_state g = ex_detected
    \<and> authorize (Id 1) IC_THROTTLE 10000 (snd (advance_epoch (gv_state g))) = Inr (None, snd (advance_epoch (gv_state g)))"
proof -
  let ?lio = "\<lparr>li_open = True, li_tell = True, li_read = True\<rparr>"
  let ?crashed = "fold apply_op (take 9 (save_ops False \<lparr>si_open = True, si_written = 5000, si_remove = True, si_rename = True\<rparr> ''s''
        (save_to_bytes ex_detected))) [''s'' \<mapsto> save_to_bytes ex_detected]"
  obtain status g where o: "open_governor ?lio ?crashed (new_Governor True ''s'') = (status, g)"
    by (cases "open_governor ?lio ?crashed (new_Governor True ''s'')") auto
  have s: "storable ex_detected" "length (save_payload ex_detected) < 2000"
    using ex_listing_storable [of "[Id 1]"] ex_listing_length [of "[Id 1]"] by (simp_all add: ex_listing_detected)
  then have "length (save_to_bytes ex_detected) \<le> 2 ^ 31" by (simp add: save_file file_of_def)
  then show ?thesis
    using restart_revokes [of ex_detected ex_detected ?lio "''s''" "[''s'' \<mapsto> save_to_bytes ex_detected]", OF s(1) _ s(1) _ _ _ _ _ _ refl o] o
    by auto
qed

section \<open>The command line tool\<close>

text \<open>A decision is made exactly if some candidate is feasible.\<close>

lemma cmd_decision_exit: "fst (cmd_decision cid g) = 0 \<longleftrightarrow> ce_decision (evaluate cid g) \<noteq> None"
  by (simp add: cmd_decision_def split: option.split)

lemma cmd_replay_exit: "fst (cmd_replay g) = 0 \<longleftrightarrow> rr_diverged (replay g) = []"
  by (simp add: cmd_replay_def Let_def replay_def status_ok_def status_good_def status_bad_def)

lemma cli_loads:
  assumes "2 \<le> length argv" "state_option (drop 2 argv) '''' = path" "path \<noteq> ''''"
    "load_state io path fs default_GovernorState = (st, s)"
  shows "cli io fs argv =
    (if status_ok st then cli_command argv s else (1, [], [''load failed: '' @ to_string_StatusCode (st_code st)]))"
  using assms by (simp add: cli_def new_Governor_def load_governor_def Let_def)

text \<open>
  C24. The tool answers for the saved state. Given a file that a save wrote, every command of the tool
  reports on the state that was saved; \<^verbatim>\<open>decision\<close> succeeds exactly if the evaluation has a feasible
  candidate, \<^verbatim>\<open>replay\<close> exactly if no conflict diverges, \<^verbatim>\<open>validate-state\<close> always, and the command
  \<^verbatim>\<open>candidates\<close> of the usage text never. From a file damaged within four adjacent bytes it reports
  nothing but the failure to load.
\<close>

theorem cli_on_saved_state:
  assumes "storable st" "length (save_to_bytes st) \<le> 2 ^ 31" "li_open io" "li_tell io" "li_read io"
    "2 \<le> length argv" "state_option (drop 2 argv) '''' = path" "path \<noteq> ''''"
  shows "(fs path = Some (save_to_bytes st) \<longrightarrow>
        cli io fs argv = cli_command argv st
        \<and> (argv ! 1 = ''decision'' \<longrightarrow> (fst (cli io fs argv) = 0 \<longleftrightarrow>
             (\<exists>cand \<in> set (ce_candidates (evaluate (arg_id argv) st)). cand_feasible cand = FS_FEASIBLE)))
        \<and> (argv ! 1 = ''replay'' \<longrightarrow> (fst (cli io fs argv) = 0 \<longleftrightarrow> rr_diverged (replay st) = []))
        \<and> (argv ! 1 = ''validate-state'' \<longrightarrow> fst (cli io fs argv) = 0)
        \<and> (argv ! 1 = ''candidates'' \<longrightarrow> fst (cli io fs argv) = 1))
    \<and> (save_to_bytes st = pre @ w @ post \<and> length w' = length w \<and> length w \<le> 4 \<and> w' \<noteq> w
         \<and> fs path = Some (pre @ w' @ post) \<longrightarrow>
        cli io fs argv = (1, [], [''load failed: PERSISTENCE_CORRUPT'']))"
proof (intro conjI impI)
  have valid: "valid_policy (es_policy (gs_engine st))" using assms(1) by (simp add: storable_def Let_def)
  assume "fs path = Some (save_to_bytes st)"
  note loads = cli_loads [OF assms(6-8) load_saved [where fs = fs and path = path, OF assms(1) this assms(2-5)]]
  then show run: "cli io fs argv = cli_command argv st" by (simp add: status_ok_def status_good_def)
  show "fst (cli io fs argv) = 0 \<longleftrightarrow>
      (\<exists>cand \<in> set (ce_candidates (evaluate (arg_id argv) st)). cand_feasible cand = FS_FEASIBLE)"
    if "argv ! 1 = ''decision''"
    unfolding run decision_iff_feasible [OF valid, symmetric]
    using that by (simp add: cli_command_def cmd_decision_exit del: fst_eqD)
  show "fst (cli io fs argv) = 0 \<longleftrightarrow> rr_diverged (replay st) = []" if "argv ! 1 = ''replay''"
    unfolding run using that by (simp add: cli_command_def cmd_replay_exit)
  show "fst (cli io fs argv) = 0" if "argv ! 1 = ''validate-state''"
    unfolding run using that valid by (simp add: cli_command_def cmd_validate_state_def validate_policy_ok Let_def)
  show "fst (cli io fs argv) = 1" if "argv ! 1 = ''candidates''"
    unfolding run using that by (simp add: cli_command_def)
next
  assume d: "save_to_bytes st = pre @ w @ post \<and> length w' = length w \<and> length w \<le> 4 \<and> w' \<noteq> w
    \<and> fs path = Some (pre @ w' @ post)"
  have "length (save_payload st) < 2 ^ 64 - 24" using assms(1) by (simp add: storable_def)
  then obtain msg where msg: "load_from_bytes (pre @ w' @ post) default_GovernorState = (corrupt msg, default_GovernorState)"
    using load_detects_window d by blast
  have "length (pre @ w' @ post) \<le> 2 ^ 31" using arg_cong [OF d [THEN conjunct1], of length] d assms(2) by simp
  then have "load_state io path fs default_GovernorState = (corrupt msg, default_GovernorState)"
    using d msg assms(3-5) by (simp add: load_state_def)
  then show "cli io fs argv = (1, [], [''load failed: PERSISTENCE_CORRUPT''])"
    using cli_loads [OF assms(6-8)] by (simp add: corrupt_def status_bad_def status_ok_def)
qed

theorem cli_on_saved_state_witness:
  "fst (cli \<lparr>li_open = True, li_tell = True, li_read = True\<rparr> [''s'' \<mapsto> save_to_bytes ex_detected]
     [''cli'', ''decision'', ''1'', ''--state'', ''s'']) = 0"
proof -
  have s: "storable ex_detected" "length (save_payload ex_detected) < 2000"
    using ex_listing_storable [of "[Id 1]"] ex_listing_length [of "[Id 1]"] by (simp_all add: ex_listing_detected)
  have arg: "arg_id [''cli'', ''decision'', ''1'', ''--state'', ''s''] = Id 1"
    by (simp add: arg_id_def strtoull_def split_sign_def is_space_def is_digit_def digits_value_def digit_value_def unat_u64_max)
  obtain d where d: "ce_decision (evaluate (Id 1) ex_detected) = Some d"
    using ex_decision by (auto simp: evaluate_def ex_sel)
  have valid: "valid_policy (es_policy (gs_engine ex_detected))" using s(1) by (simp add: storable_def Let_def)
  have len: "length (save_to_bytes ex_detected) \<le> 2 ^ 31" using s(2) by (simp add: save_file file_of_def)
  note c = cli_on_saved_state [where io = "\<lparr>li_open = True, li_tell = True, li_read = True\<rparr>" and path = "''s''"
      and argv = "[''cli'', ''decision'', ''1'', ''--state'', ''s'']"
      and fs = "[''s'' \<mapsto> save_to_bytes ex_detected]", OF s(1) len, THEN conjunct1]
  show ?thesis using c decision_iff_feasible [OF valid, of "Id 1"] d arg by auto
qed

end
