(* ===== verification/CG_Clock.thy ===== *)
theory CG_Clock
  imports CG_Prelude "HOL-Library.Signed_Division"
begin

text \<open>
  The clocks of \<^verbatim>\<open>clock.hpp\<close> and \<^verbatim>\<open>src/clock.cpp\<close>. The reading of \<^verbatim>\<open>steady_clock\<close> is the
  environment's. The lemmas say that the system clock is monotonic where the steady clock is.
\<close>

section \<open>The manual clock\<close>

record ManualClock =
  mc_t :: TimeMs

definition now_ms :: "ManualClock \<Rightarrow> TimeMs" where "now_ms c = mc_t c"

definition set_clock :: "TimeMs \<Rightarrow> ManualClock \<Rightarrow> ManualClock" where "set_clock t c = c\<lparr>mc_t := t\<rparr>"

definition advance_clock :: "TimeMs \<Rightarrow> ManualClock \<Rightarrow> ManualClock" where
  "advance_clock delta c = c\<lparr>mc_t := mc_t c + delta\<rparr>"

section \<open>The system clock\<close>

text \<open>
  \<open>ticks\<close> is the count of \<^verbatim>\<open>steady_clock::now().time_since_epoch()\<close>, in units of \<open>num / den\<close>
  seconds; the period is the implementation's. \<^verbatim>\<open>duration_cast\<close> multiplies and divides, towards
  zero, and the cast to \<^verbatim>\<open>TimeMs\<close> keeps 64 bits.
\<close>

definition system_now_ms :: "int \<Rightarrow> int \<Rightarrow> int \<Rightarrow> TimeMs" where
  "system_now_ms num den ticks = word_of_int ((ticks * (num * 1000)) sdiv den)"

text \<open>A clock as an operation finds it behind the pointer.\<close>

datatype Clock = Manual_Clock ManualClock | System_Clock

fun clock_now :: "(int \<times> int \<times> int) \<Rightarrow> Clock \<Rightarrow> TimeMs" where
  "clock_now _ (Manual_Clock c) = now_ms c"
| "clock_now (num, den, ticks) System_Clock = system_now_ms num den ticks"

section \<open>Monotonicity\<close>

lemma advance_clock_now:
  "unat (now_ms c) + unat delta < 2 ^ 64 \<Longrightarrow> unat (now_ms (advance_clock delta c)) = unat (now_ms c) + unat delta"
  by (simp add: now_ms_def advance_clock_def unat_word_ariths)

lemma system_now_ms_unat:
  assumes "0 \<le> ticks" "0 \<le> num" "0 < den" "(ticks * (num * 1000)) div den < 2 ^ 64"
  shows "int (unat (system_now_ms num den ticks)) = (ticks * (num * 1000)) div den"
proof -
  have "(ticks * (num * 1000)) sdiv den = (ticks * (num * 1000)) div den"
    using assms(1-3) by (cases "ticks * (num * 1000) = 0") (auto simp: signed_divide_int_def sgn_mult)
  moreover have "0 \<le> (ticks * (num * 1000)) div den"
    using assms(1-3) by (simp add: pos_imp_zdiv_nonneg_iff)
  ultimately show ?thesis
    using assms(4) by (simp add: system_now_ms_def unsigned_of_int take_bit_int_eq_self)
qed

text \<open>As long as the milliseconds fit, which they do for over 500 million years.\<close>

lemma system_clock_monotonic:
  assumes "0 \<le> ticks" "ticks \<le> ticks'" "0 \<le> num" "0 < den" "(ticks' * (num * 1000)) div den < 2 ^ 64"
  shows "system_now_ms num den ticks \<le> system_now_ms num den ticks'"
proof -
  have le: "(ticks * (num * 1000)) div den \<le> (ticks' * (num * 1000)) div den"
    using assms by (intro zdiv_mono1 mult_right_mono) auto
  have "int (unat (system_now_ms num den ticks)) \<le> int (unat (system_now_ms num den ticks'))"
    using assms le by (subst (1 2) system_now_ms_unat) auto
  then show ?thesis by (simp add: word_le_def)
qed

end
