(* ===== verification/CG_Programs.thy ===== *)
theory CG_Programs
  imports CG_Process CG_Example CG_Clock
begin

text \<open>
  The programs of \<^verbatim>\<open>examples/\<close> with their helpers in \<^verbatim>\<open>eg.hpp\<close>, on the governor of the library: each is
  a function to its exit code and the line it prints, \<open>None\<close> where the code would have undefined
  behaviour. Their runs are evaluated here step by step; \<^verbatim>\<open>Spec_Programs\<close> states how they end.
\<close>

section \<open>Helpers\<close>

text \<open>The programs construct their \<^verbatim>\<open>ManualClock\<close> at 0 and never move it.\<close>

definition start :: TimeMs where "start = now_ms \<lparr>mc_t = 0\<rparr>"

text \<open>\<^verbatim>\<open>RefThrottle::apply\<close> accepts everything; \<^verbatim>\<open>RefReg\<close> has no other adapter.\<close>

definition ref_throttle :: throttle_apply where
  "ref_throttle attempt target cls intensity =
     \<lparr>ar_outcome = AO_ACCEPTED, ar_note = ''applied'', ar_attemptId = Id 0\<rparr>"

definition ref_reg :: "AdapterRegistry option" where
  "ref_reg = Some (throttle_registry (Some \<lparr>throttle_name = ''RefThrottle'', throttle_apply = ref_throttle\<rparr>))"

text \<open>The static counter \<open>c\<close> numbers the observations of a program.\<close>

definition make_evidence ::
  "WorkloadId \<Rightarrow> WorkloadId \<Rightarrow> double \<Rightarrow> double \<Rightarrow> EvidenceStatus \<Rightarrow> u64 \<Rightarrow> InterferenceEvidence \<times> u64" where
  "make_evidence victim neighbor baseline coRun status c =
     (default_InterferenceEvidence
        \<lparr>ie_id := Id c, ie_generation := Id c, ie_victim := victim, ie_neighbors := [neighbor],
         ie_domain := RD_COMPUTE, ie_metric := MD_HIGHER_IS_BETTER, ie_isolatedBaseline := baseline,
         ie_coRunObservation := coRun,
         ie_degradation := compute_degradation MD_HIGHER_IS_BETTER baseline coRun,
         ie_attribution := AS_CONTROLLED_COMPARISON, ie_confidence := f64_lit 9 10, ie_sampleCount := 100,
         ie_status := status, ie_maxAgeMs := 5000, ie_label := EL_CONTROLLED, ie_sampledAt := 1000,
         ie_activeUntil := 6000\<rparr>, c + 1)"

definition print_result :: "string \<Rightarrow> bool \<Rightarrow> string" where
  "print_result label ok =
     label @ replicate (32 - length label) (CHR 0x20) @ CHR 0x20 # (if ok then ''PASS'' else ''FAIL'')"

definition base_authority :: AuthorityContext where
  "base_authority = default_AuthorityContext
     \<lparr>au_coordinatorEpoch := Id 1, au_policyGeneration := Id 1,
      au_workloadGenerations := om_put (Id 2) (Id 1) (om_put (Id 1) (Id 1) []),
      au_workloadBoots := om_put (Id 2) (Id 1) (om_put (Id 1) (Id 1) [])\<rparr>"

definition make_gov :: "double \<Rightarrow> double \<Rightarrow> bool \<Rightarrow> GovernorState" where
  "make_gov valueA valueB bPreemptible =
     (let g = default_GovernorState;
          (_, g) = set_authority base_authority g;
          pol = default_ContentionPolicy\<lparr>p_id := Id 1, p_generation := Id 1\<rparr>;
          wa = default_WorkloadPolicy\<lparr>wp_workload := Id 1, wp_value := valueA\<rparr>;
          wb = default_WorkloadPolicy\<lparr>wp_workload := Id 2, wp_value := valueB,
                 wp_nonPreemptible := \<not> bPreemptible, wp_preemptionAllowed := bPreemptible\<rparr>;
          pol = pol\<lparr>p_workloads := om_put (Id 2) wb (om_put (Id 1) wa [])\<rparr>;
          (_, g) = set_policy pol g
      in g)"

definition default_gov :: GovernorState where
  "default_gov = make_gov (f64_lit 100 1) (f64_lit 1 1) True"

section \<open>The programs\<close>

type_synonym program_end = "(nat \<times> string) option"

text \<open>\<^verbatim>\<open>print_result(label, ok); return ok ? 0 : 1;\<close>\<close>

definition report :: "string \<Rightarrow> bool \<Rightarrow> program_end" where
  "report label ok = Some (if ok then 0 else 1, print_result label ok)"

text \<open>The first observation of most programs, and \<^verbatim>\<open>ids[0]\<close>.\<close>

definition degraded :: "InterferenceEvidence \<times> u64" where
  "degraded = make_evidence (Id 1) (Id 2) (f64_lit 100 1) (f64_lit 60 1) ES_CURRENT 1"

definition first_id :: "GovernorState \<Rightarrow> (ConflictId \<Rightarrow> 'a option) \<Rightarrow> 'a option" where
  "first_id g k = (case conflict_ids g of [] \<Rightarrow> None | cid # _ \<Rightarrow> k cid)"

definition basic_pairwise :: program_end where
  "basic_pairwise =
     (let g = default_GovernorState;
          (_, g) = set_authority base_authority g;
          pol = default_ContentionPolicy\<lparr>p_id := Id 1, p_generation := Id 1\<rparr>;
          wa = default_WorkloadPolicy\<lparr>wp_workload := Id 1, wp_value := f64_lit 100 1\<rparr>;
          wb = default_WorkloadPolicy\<lparr>wp_workload := Id 2, wp_value := f64_lit 1 1\<rparr>;
          pol = pol\<lparr>p_workloads := om_put (Id 2) wb (om_put (Id 1) wa [])\<rparr>;
          (_, g) = set_policy pol g;
          (e, c) = degraded;
          (_, g) = ingest_evidence e g
      in first_id g (\<lambda>cid. report ''basic_pairwise_resolution'' (ce_decision (evaluate cid g) \<noteq> None)))"

definition confounded :: program_end where
  "confounded =
     (let g = default_gov;
          (e, c) = degraded;
          e = e\<lparr>ie_unresolvedConfounders := ie_unresolvedConfounders e @ [''unknown factor'']\<rparr>;
          (_, g) = ingest_evidence e g
      in first_id g (\<lambda>cid. report ''confounded_evidence_blocks'' (ce_decision (evaluate cid g) = None)))"

definition hard_slo :: program_end where
  "hard_slo =
     (let g = make_gov (f64_lit 100 1) (f64_lit 1 1) False;
          (e, c) = degraded;
          (_, g) = ingest_evidence e g
      in first_id g (\<lambda>cid.
           case authorize_and_dispatch ref_reg cid IC_REQUEST_PREEMPTION start start g of
             Inl _ \<Rightarrow> None
           | Inr (st, g) \<Rightarrow> report ''hard_slo_non_preemptible_rejected'' (\<not> status_ok st)))"

definition multiparty :: program_end where
  "multiparty =
     (let g = default_gov;
          (e, c) = degraded;
          e = e\<lparr>ie_neighbors := [Id 2, Id 3]\<rparr>;
          (_, g) = ingest_evidence e g
      in first_id g (\<lambda>cid. report ''multiparty_representable'' (ce_candidates (evaluate cid g) \<noteq> [])))"

definition value_based :: program_end where
  "value_based =
     (let g = default_gov;
          (e, c) = degraded;
          (_, g) = ingest_evidence e g
      in first_id g (\<lambda>cid. report ''value_based_targets_lower_value''
           (case ce_decision (evaluate cid g) of None \<Rightarrow> False | Some d \<Rightarrow> cand_target (dec_chosen d) = Id 2)))"

definition stale_evidence :: program_end where
  "stale_evidence =
     (let g = default_gov;
          (e, c) = make_evidence (Id 1) (Id 2) (f64_lit 100 1) (f64_lit 60 1) ES_STALE 1;
          (_, g) = ingest_evidence e g
      in first_id g (\<lambda>cid.
           case authorize_and_dispatch ref_reg cid IC_THROTTLE start start g of
             Inl _ \<Rightarrow> None
           | Inr (st, g) \<Rightarrow> report ''stale_evidence_no_destructive'' (\<not> status_ok st)))"

text \<open>
  \<^verbatim>\<open>fairness_floor\<close>: up to 30 requests, until one is refused for one of three reasons.
\<close>

fun sacrifice :: "nat \<Rightarrow> ConflictId \<Rightarrow> GovernorState \<Rightarrow> bool option" where
  "sacrifice 0 cid g = Some False"
| "sacrifice (Suc i) cid g =
     (case authorize_and_dispatch ref_reg cid IC_THROTTLE start start g of
        Inl _ \<Rightarrow> None
      | Inr (st, g) \<Rightarrow>
          if st_code st = SC_FAIRNESS_LIMIT \<or> st_code st = SC_ACTION_BUDGET_EXHAUSTED
             \<or> st_code st = SC_NO_LEGAL_INTERVENTION
          then Some True else sacrifice i cid g)"

definition fairness_floor :: program_end where
  "fairness_floor =
     (let g = default_gov;
          (e, c) = degraded;
          (_, g) = ingest_evidence e g
      in first_id g (\<lambda>cid.
           case sacrifice 30 cid g of
             None \<Rightarrow> None | Some ok \<Rightarrow> report ''fairness_limits_repeated_sacrifice'' ok))"

text \<open>The worker of the target reboots between authorization and dispatch.\<close>

definition reboot_before_dispatch :: "string \<Rightarrow> WorkerBootId \<Rightarrow> program_end" where
  "reboot_before_dispatch label boot =
     (let g = default_gov;
          (e, c) = degraded;
          (_, g) = ingest_evidence e g
      in first_id g (\<lambda>cid.
           case authorize cid IC_THROTTLE start g of
             Inl _ \<Rightarrow> None
           | Inr (None, g) \<Rightarrow> Some (1, '''')
           | Inr (Some iid, g) \<Rightarrow>
               let (_, g) = record_worker_boot (Id 2) boot g;
                   (st, g) = dispatch ref_reg iid start g
               in report label (st_code st = SC_STALE_AUTHORITY)))"

definition predispatch_invalidation :: program_end where
  "predispatch_invalidation = reboot_before_dispatch ''predispatch_invalidation'' (Id 555)"

definition worker_restart :: program_end where
  "worker_restart = reboot_before_dispatch ''worker_restart_fences_stale'' (Id 777)"

definition ineffective_action :: program_end where
  "ineffective_action =
     (let g = default_gov;
          (e, c) = degraded;
          (_, g) = ingest_evidence e g
      in first_id g (\<lambda>cid.
           case authorize_and_dispatch ref_reg cid IC_THROTTLE start start g of
             Inl _ \<Rightarrow> None
           | Inr (_, g) \<Rightarrow>
               let (pe, c) = make_evidence (Id 1) (Id 2) (f64_lit 100 1) (f64_lit 60 1) ES_CURRENT c;
                   (_, g) = submit_post_action_evidence pe g
               in report ''ineffective_action_detected''
                    (case conflict_of cid g of
                       None \<Rightarrow> False | Some c \<Rightarrow> f64_ge (cc_degradation c) (f64_lit 199 1000))))"

text \<open>The last line dereferences \<^verbatim>\<open>g.conflict(ids[0])\<close>.\<close>

definition shifted_contention :: program_end where
  "shifted_contention =
     (let g = default_gov;
          (e, c) = degraded;
          (_, g) = ingest_evidence e g
      in first_id g (\<lambda>cid.
           case authorize_and_dispatch ref_reg cid IC_THROTTLE start start g of
             Inl _ \<Rightarrow> None
           | Inr (_, g) \<Rightarrow>
               let (pe, c) = make_evidence (Id 1) (Id 2) (f64_lit 100 1) (f64_lit 97 1) ES_CURRENT c;
                   (_, g) = submit_post_action_evidence pe g;
                   (e2, c) = make_evidence (Id 2) (Id 1) (f64_lit 100 1) (f64_lit 55 1) ES_CURRENT c;
                   (_, g) = ingest_evidence e2 g
               in (case conflict_of cid g of
                     None \<Rightarrow> None
                   | Some cc \<Rightarrow> report ''shifted_contention_reported''
                                 (f64_lt (cc_degradation cc) (f64_lit 20 100)))))"

text \<open>
  \<^verbatim>\<open>coordinator_restart\<close> in the directory \<open>dir\<close>, emptied before and after; the first governor has the
  authority of \<^verbatim>\<open>make_gov\<close> and the default policy.
\<close>

definition remove_all :: "string \<Rightarrow> files \<Rightarrow> files" where
  "remove_all dir fs = (\<lambda>p. if take (length dir + 1) p = dir @ ''/'' then None else fs p)"

definition coordinator_restart :: "string \<Rightarrow> bool \<Rightarrow> SaveIo \<Rightarrow> LoadIo \<Rightarrow> files \<Rightarrow> program_end \<times> files" where
  "coordinator_restart tmp windows sio lio fs =
     (let dir = tmp @ ''/cg_example_restart'';
          fs = remove_all dir fs;
          path = dir @ ''/state.bin'';
          g = new_Governor True path;
          (_, s) = set_authority (es_authority (gs_engine default_gov)) (gv_state g);
          (e, c) = degraded;
          (_, s) = ingest_evidence e s;
          (_, fs) = save_governor windows sio (g\<lparr>gv_state := s\<rparr>) fs;
          g = new_Governor True path;
          (_, g) = load_governor lio fs g;
          (_, s) = advance_epoch (gv_state g)
      in (report ''coordinator_restart_makes_revalidation'' (length (conflict_ids s) = 1), remove_all dir fs))"


section \<open>A conflict with one associated workload\<close>

text \<open>What a policy, the authority and the fairness records must allow for a throttle of \<open>t\<close>.\<close>

definition throttle_open :: "EngineState \<Rightarrow> WorkloadId \<Rightarrow> bool" where
  "throttle_open s t \<longleftrightarrow> valid_policy (es_policy s) \<and> p_throttleAllowed (es_policy s)
     \<and> hard_constraints (es_policy s) (workload_policy_for (es_policy s) t) IC_THROTTLE
     \<and> om_find (au_workloadGenerations (es_authority s)) t \<noteq> None
     \<and> om_find (au_workloadBoots (es_authority s)) t \<noteq> None \<and> \<not> fairness_capped s t"

lemma throttle_openD:
  assumes "throttle_open s t"
  shows "valid_policy (es_policy s)" "class_eligible (es_policy s) IC_THROTTLE"
    "fence_current (es_authority s) (make_fence (es_authority s) cg eg t ig) t"
    "fence_current (es_authority s) f t \<Longrightarrow> feas_status (check_feasibility s t IC_THROTTLE f) = FS_FEASIBLE"
  using assms by (simp_all add: throttle_open_def check_feasibility_iff make_fence_current)

lemma single_target:
  assumes "om_find (es_conflicts s) cid = Some c" "cc_associated c = [t]" "valid_policy (es_policy s)"
    "ce_decision (evaluate_conflict s cid ctx) = Some d"
  shows "cand_target (dec_chosen d) = t"
proof -
  obtain primary where "unique_best (es_policy s)
      (set (build_candidates s ctx c primary (sort (cc_associated c)))) (dec_chosen d)"
    using decision_sound [OF assms(4) valid_policy_values_finite [OF assms(3)]] assms(1) by (metis option.sel)
  from chosen_constraints(1) [OF this] show ?thesis by (simp add: assms(2))
qed

text \<open>An actionable conflict has a candidate for each associated workload that may be throttled.\<close>

lemma throttle_candidate:
  assumes "om_find (es_conflicts s) cid = Some c" "actionable_with s c primary" "t \<in> set (cc_associated c)"
    "class_eligible (es_policy s) IC_THROTTLE"
  shows "build_candidate s ctx c primary t IC_THROTTLE \<in> set (ce_candidates (evaluate_conflict s cid ctx))"
proof -
  obtain ev where "evaluate_conflict s cid ctx = decide s ctx c primary (sort (cc_associated c)) ev"
    using evaluate_conflict_decide [OF assms(1,2)] by blast
  then show ?thesis using assms(3,4) by (force simp: decide_sel build_candidates_mem eligible_classes_def)
qed

lemma open_decision:
  assumes "om_find (es_conflicts s) cid = Some c" "actionable_with s c primary" "t \<in> set (cc_associated c)" "throttle_open s t"
  shows "ce_decision (evaluate_conflict s cid (es_authority s)) \<noteq> None"
proof -
  have "cand_feasible (build_candidate s (es_authority s) c primary t IC_THROTTLE) = FS_FEASIBLE"
    using throttle_openD(3,4) [OF assms(4)] by simp
  then show ?thesis
    using throttle_candidate [OF assms(1-3) throttle_openD(2) [OF assms(4)], of "es_authority s"]
      no_decision_infeasible by metis
qed

text \<open>A throttle of the only associated workload is granted.\<close>

lemma throttle_granted:
  assumes "om_find (es_conflicts (gs_engine st)) cid = Some c" "actionable_with (gs_engine st) c primary"
    "cc_associated c = [t]" "throttle_open (gs_engine st) t" "cc_evidenceIds c = eid # rest"
    "om_find (es_evidence (gs_engine st)) eid = Some e"
    "\<not> budget_exhausted (p_budget (es_policy (gs_engine st))) IC_THROTTLE"
    "\<not> in_cooldown (gs_engine st) t IC_THROTTLE now"
  obtains adapter where "authorize cid IC_THROTTLE now st =
    Inr (Some (Id (gs_nextInterventionId st)), commit_intervention cid c
      (new_intervention IC_THROTTLE cid t
        (make_fence (es_authority (gs_engine st)) (cc_generation c) (ie_generation e) t (Id 1)) adapter now st) now st)"
proof -
  obtain d where d: "ce_decision (evaluate_conflict (gs_engine st) cid (es_authority (gs_engine st))) = Some d"
    using open_decision [OF assms(1,2) _ assms(4)] assms(3) by auto
  have "cand_target (dec_chosen d) = t" by (rule single_target [OF assms(1,3) throttle_openD(1) [OF assms(4)] d])
  then show thesis
    using that [of "cand_adapter (dec_chosen d)"] assms d throttle_openD(3,4) [OF assms(4)]
    by (simp add: authorize_def Let_def picked_def revalidate_ok)
qed

text \<open>The first observation of a governor that has none.\<close>

lemma ingest_first:
  assumes "es_conflicts (gs_engine g) = []" "es_evidence (gs_engine g) = []" "id_value (ie_id e) \<noteq> 0"
    "status_ok (validate_evidence e)"
  shows "ingest_evidence e g =
    (status_good, on_engine (\<lambda>s. s\<lparr>es_evidence := [(ie_id e, with_fractions e)],
         es_conflicts := [(Id (gs_nextConflictId g), progress_conflict (es_policy s) (with_fractions e)
            (new_conflict (with_fractions e) (Id (gs_nextConflictId g)) s))]\<rparr>)
       (g\<lparr>gs_nextConflictId := gs_nextConflictId g + 1\<rparr>))"
  using assms
  by (simp add: ingest_evidence_def store_evidence_def Let_def om_first_def put_conflict_def on_engine_def new_conflict_def
      with_fractions_def)


section \<open>The common start\<close>

text \<open>The literals below have the denominator 1.\<close>

declare One_nat_def [simp del]

lemma f64_small_integers:
  "f64_lit 1 1 = F64 0x3FF0000000000000" "f64_lit 100 1 = F64 0x4059000000000000"
  "f64_lit 97 1 = F64 0x4058400000000000" "f64_lit 60 1 = F64 0x404E000000000000"
  "f64_lit 55 1 = F64 0x404B800000000000" "f64_lit 199 1000 = F64 0x3FC978D4FDF3B646"
  by (subst f64_litI [of 52], simp_all add: f64_eval, subst f64_litI [of 46], simp_all add: f64_eval,
      subst f64_litI [of 46], simp_all add: f64_eval, subst f64_litI [of 47], simp_all add: f64_eval,
      subst f64_litI [of 47], simp_all add: f64_eval, subst f64_litI [of 55], simp_all add: f64_eval)

lemma f64_losses:
  "f64_divide (F64 0x4044000000000000) (F64 0x4059000000000000) = F64 0x3FD999999999999A"
  "f64_divide (F64 0x4008000000000000) (F64 0x4059000000000000) = F64 0x3F9EB851EB851EB8"
  "f64_divide (F64 0x4046800000000000) (F64 0x4059000000000000) = F64 0x3FDCCCCCCCCCCCCD"
  by (subst f64_divide_normal [where i = 1027 and A = "0x14000000000000" and j = 1028 and B = "0x19000000000000" and s = 53],
        simp_all add: f64_isfinite_def f64_mag_def f64_neg_def f64_eval,
      subst f64_divide_normal [where i = 1023 and A = "0x18000000000000" and j = 1028 and B = "0x19000000000000" and s = 53],
        simp_all add: f64_isfinite_def f64_mag_def f64_neg_def f64_eval,
      subst f64_divide_normal [where i = 1027 and A = "0x16800000000000" and j = 1028 and B = "0x19000000000000" and s = 53],
        simp_all add: f64_isfinite_def f64_mag_def f64_neg_def f64_eval)

lemma losses:
  "compute_degradation MD_HIGHER_IS_BETTER (f64_lit 100 1) (f64_lit 60 1) = F64 0x3FD999999999999A"
  "compute_degradation MD_HIGHER_IS_BETTER (f64_lit 100 1) (f64_lit 97 1) = F64 0x3F9EB851EB851EB8"
  "compute_degradation MD_HIGHER_IS_BETTER (f64_lit 100 1) (f64_lit 55 1) = F64 0x3FDCCCCCCCCCCCCD"
proof -
  have m: "f64_minus (F64 0x4059000000000000) (F64 0x404E000000000000) = F64 0x4044000000000000"
    "f64_minus (F64 0x4059000000000000) (F64 0x4058400000000000) = F64 0x4008000000000000"
    "f64_minus (F64 0x4059000000000000) (F64 0x404B800000000000) = F64 0x4046800000000000"
    by (rule f64_minus_exact;
        simp add: f64_isfinite_def f64_int_def f64_scaled_def f64_mag_def f64_neg_def)+
  show "compute_degradation MD_HIGHER_IS_BETTER (f64_lit 100 1) (f64_lit 60 1) = F64 0x3FD999999999999A"
  "compute_degradation MD_HIGHER_IS_BETTER (f64_lit 100 1) (f64_lit 97 1) = F64 0x3F9EB851EB851EB8"
  "compute_degradation MD_HIGHER_IS_BETTER (f64_lit 100 1) (f64_lit 55 1) = F64 0x3FDCCCCCCCCCCCCD"
    by (simp_all add: compute_degradation_def f64_small_integers f64_patterns f64_consts m f64_losses)
qed

definition program_policy :: "double \<Rightarrow> double \<Rightarrow> bool \<Rightarrow> ContentionPolicy" where
  "program_policy valueA valueB pre = default_ContentionPolicy
     \<lparr>p_id := Id 1, p_generation := Id 1,
      p_workloads := [(Id 1, default_WorkloadPolicy\<lparr>wp_workload := Id 1, wp_value := valueA\<rparr>),
        (Id 2, default_WorkloadPolicy\<lparr>wp_workload := Id 2, wp_value := valueB,
           wp_nonPreemptible := \<not> pre, wp_preemptionAllowed := pre\<rparr>)]\<rparr>"

lemma program_policy_valid:
  assumes "f64_isfinite a" "f64_isfinite b"
  shows "valid_policy (program_policy a b pre)"
proof -
  have "valid_workload (default_WorkloadPolicy\<lparr>wp_workload := w, wp_value := v\<rparr>)"
    "valid_workload (default_WorkloadPolicy\<lparr>wp_workload := w, wp_value := v, wp_nonPreemptible := x, wp_preemptionAllowed := y\<rparr>)"
    if "f64_isfinite v" for v w x y
    using that by (simp_all add: valid_workload_def default_WorkloadPolicy_def not_outside_unit_def f64_patterns f64_consts)
  then show ?thesis
    using default_policy_valid assms by (simp add: valid_policy_def program_policy_def)
qed

lemma make_gov_eq:
  assumes "f64_isfinite a" "f64_isfinite b"
  shows "make_gov a b pre = default_GovernorState
    \<lparr>gs_engine := default_EngineState\<lparr>es_policy := program_policy a b pre, es_authority := base_authority\<rparr>\<rparr>"
proof -
  have "status_ok (validate_policy (program_policy a b pre))"
    using program_policy_valid [OF assms] by (simp add: validate_policy_ok)
  moreover have "base_authority\<lparr>au_policyGeneration := Id 1\<rparr> = base_authority" by (simp add: base_authority_def)
  ultimately show ?thesis
    by (simp add: make_gov_def set_authority_def set_policy_def on_engine_def on_authority_def Let_def
        program_policy_def less_Id_def default_GovernorState_def)
qed


lemmas loss_patterns = losses [unfolded f64_small_integers]

text \<open>The programs' first observation and its variants.\<close>

definition observation :: "EvidenceStatus \<Rightarrow> WorkloadId list \<Rightarrow> string list \<Rightarrow> InterferenceEvidence" where
  "observation status neighbors confounders =
     (fst degraded)\<lparr>ie_neighbors := neighbors, ie_status := status, ie_unresolvedConfounders := confounders\<rparr>"

lemma degraded_variants:
  "degraded = (observation ES_CURRENT [Id 2] [], 2)"
  "make_evidence (Id 1) (Id 2) (f64_lit 100 1) (f64_lit 60 1) ES_STALE 1 = (observation ES_STALE [Id 2] [], 2)"
  "observation status ns cs\<lparr>ie_neighbors := ns'\<rparr> = observation status ns' cs"
  "observation status ns cs\<lparr>ie_unresolvedConfounders := cs'\<rparr> = observation status ns cs'"
  by (simp_all add: observation_def degraded_def make_evidence_def default_InterferenceEvidence_def)

lemma observation_sel:
  "ie_status (observation status ns cs) = status" "ie_neighbors (observation status ns cs) = ns"
  "ie_unresolvedConfounders (observation status ns cs) = cs" "ie_id (observation status ns cs) = Id 1"
  "ie_victim (observation status ns cs) = Id 1" "ie_domain (observation status ns cs) = RD_COMPUTE"
  "ie_attribution (observation status ns cs) = AS_CONTROLLED_COMPARISON"
  "ie_confidence (observation status ns cs) = f64_lit 9 10"
  "ie_degradation (observation status ns cs) = F64 0x3FD999999999999A"
  "structurally_valid (observation status ns cs)"
  by (simp_all add: observation_def degraded_def make_evidence_def loss_patterns f64_small_integers)
    (simp add: structurally_valid_def loss_patterns f64_small_integers f64_patterns f64_consts f64_literals default_InterferenceEvidence_def)

lemma observation_fractions:
  "with_fractions (observation status ns cs) = observation status ns cs"
proof -
  have "f64_ge (f64_lit 100 1) (f64_lit 60 1)" "\<not> f64_is_nan (f64_lit 100 1)"
    unfolding f64_small_integers by (simp_all add: f64_patterns)
  then have "compute_improvement MD_HIGHER_IS_BETTER (f64_lit 100 1) (f64_lit 60 1) = f64_zero"
    by (simp add: compute_improvement_def)
  then show ?thesis
    by (simp add: with_fractions_def observation_def degraded_def make_evidence_def default_InterferenceEvidence_def)
qed

text \<open>A governor that has observed one loss of 40 percent.\<close>

definition detected :: "GovernorState \<Rightarrow> GovernorState \<Rightarrow> ContentionConflict \<Rightarrow> InterferenceEvidence \<Rightarrow> bool" where
  "detected g st c e \<longleftrightarrow>
     gs_engine st = (gs_engine g)\<lparr>es_conflicts := [(Id 1, c)], es_evidence := [(Id 1, e)]\<rparr>
     \<and> cc_id c = Id 1 \<and> cc_affected c = [Id 1] \<and> cc_associated c = ie_neighbors e \<and> cc_domain c = RD_COMPUTE
     \<and> cc_degradation c = F64 0x3FD999999999999A \<and> cc_evidenceIds c = [Id 1]
     \<and> gs_nextConflictId st = 2 \<and> gs_nextInterventionId st = gs_nextInterventionId g"

lemma ingest_observation:
  assumes "es_conflicts (gs_engine g) = []" "es_evidence (gs_engine g) = []" "gs_nextConflictId g = 1"
  obtains st c where "ingest_evidence (observation status ns cs) g = (status_good, st)"
    "detected g st c (observation status ns cs)"
proof -
  have "status_ok (validate_evidence (observation status ns cs))"
    by (simp add: validate_evidence_def observation_sel)
  note i = ingest_first [where e = "observation status ns cs", OF assms(1,2) _ this]
  show thesis
    by (rule that [where c = "progress_conflict (es_policy (gs_engine g)) (observation status ns cs)
        (new_conflict (observation status ns cs) (Id 1) (gs_engine g))"], rule i)
      (simp_all add: detected_def observation_sel observation_fractions on_engine_def assms(3) new_conflict_def)
qed


definition prepared :: "bool \<Rightarrow> GovernorState \<Rightarrow> bool" where
  "prepared pre g \<longleftrightarrow> (\<exists>a b. f64_isfinite a \<and> f64_isfinite b
       \<and> gs_engine g = default_EngineState\<lparr>es_policy := program_policy a b pre, es_authority := base_authority\<rparr>)
     \<and> gs_nextConflictId g = 1 \<and> gs_nextInterventionId g = 1"

lemma prepared_govs:
  "prepared True default_gov" "prepared pre (make_gov (f64_lit 100 1) (f64_lit 1 1) pre)"
proof -
  have fin: "f64_isfinite (f64_lit 100 1)" "f64_isfinite (f64_lit 1 1)"
    unfolding f64_small_integers by (simp_all add: f64_patterns)
  show p: "prepared pre (make_gov (f64_lit 100 1) (f64_lit 1 1) pre)" for pre
    unfolding make_gov_eq [OF fin] prepared_def using fin
    by (intro conjI exI [of _ "f64_lit 100 1"] exI [of _ "f64_lit 1 1"]) (simp_all add: default_GovernorState_def)
  show "prepared True default_gov" unfolding default_gov_def by (rule p)
qed

lemma prepared_observation:
  assumes "prepared pre g"
  obtains st c where "ingest_evidence (observation status ns cs) g = (status_good, st)"
    "detected g st c (observation status ns cs)"
proof (rule ingest_observation)
  show "es_conflicts (gs_engine g) = []" "es_evidence (gs_engine g) = []" "gs_nextConflictId g = 1"
    using assms by (auto simp: prepared_def default_EngineState_def)
qed (rule that)

lemma detected_sel:
  assumes "detected g st c e"
  shows "es_conflicts (gs_engine st) = [(Id 1, c)]" "es_evidence (gs_engine st) = [(Id 1, e)]"
    "es_policy (gs_engine st) = es_policy (gs_engine g)" "es_authority (gs_engine st) = es_authority (gs_engine g)"
    "es_fairness (gs_engine st) = es_fairness (gs_engine g)" "es_interventions (gs_engine st) = es_interventions (gs_engine g)"
    "conflict_ids st = [Id 1]" "first_id st k = k (Id 1)"
  using assms by (simp_all add: detected_def conflict_ids_def first_id_def)

lemma prepared_sel:
  assumes "prepared pre g"
  shows "es_fairness (gs_engine g) = []" "es_interventions (gs_engine g) = []" "es_authority (gs_engine g) = base_authority"
    "valid_policy (es_policy (gs_engine g))" "p_actionabilityThreshold (es_policy (gs_engine g)) = f64_lit 20 100"
    "p_minConfidenceForDisruptive (es_policy (gs_engine g)) = f64_lit 6 10"
    "p_minAttributionForDisruptive (es_policy (gs_engine g)) = AS_CONTROLLED_COMPARISON"
    "p_budget (es_policy (gs_engine g)) = default_ActionBudget" "p_cooldownMs (es_policy (gs_engine g)) = 5000"
    "p_throttleAllowed (es_policy (gs_engine g))"
  using assms program_policy_valid
  by (auto simp: prepared_def default_EngineState_def program_policy_def default_ContentionPolicy_def)

lemma prepared_throttle_open:
  assumes "prepared pre g" "detected g st c e"
  shows "throttle_open (gs_engine st) (Id 2)"
proof -
  have "hard_constraints (es_policy (gs_engine g)) (workload_policy_for (es_policy (gs_engine g)) (Id 2)) IC_THROTTLE"
    using assms(1) throttle_floor_positive
    by (auto simp: prepared_def hard_constraints_def workload_policy_for_def program_policy_def default_WorkloadPolicy_def
        default_ContentionPolicy_def)
  then show ?thesis
    using prepared_sel [OF assms(1)]
    by (simp add: throttle_open_def detected_sel [OF assms(2)] fairness_capped_def base_authority_def less_Id_def)
qed

lemma prepared_actionable:
  assumes "prepared pre g" "detected g st c (observation status ns cs)"
  shows "actionable_with (gs_engine st) c primary \<longleftrightarrow>
    status = ES_CURRENT \<and> ns \<noteq> [] \<and> cs = [] \<and> primary = observation status ns cs"
proof -
  have "cc_degradation c = F64 0x3FD999999999999A" "cc_associated c = ns" "cc_evidenceIds c = [Id 1]"
    using assms(2) by (simp_all add: detected_def observation_sel)
  then show ?thesis
    by (auto simp: actionable_with_def detected_sel [OF assms(2)] prepared_sel [OF assms(1)] observation_sel Let_def
        f64_literals f64_patterns)
qed

lemma not_actionable_no_decision:
  assumes "om_find (es_conflicts s) cid = Some c" "\<And>primary. \<not> actionable_with s c primary"
  shows "ce_decision (evaluate_conflict s cid ctx) = None"
  using evaluate_conflict_actionable [of s cid ctx] assms by (metis option.sel)

section \<open>Evaluating programs\<close>


lemma confounded_run: "confounded = report ''confounded_evidence_blocks'' True"
proof -
  obtain st c where st: "ingest_evidence (observation ES_CURRENT [Id 2] [''unknown factor'']) default_gov = (status_good, st)"
    "detected default_gov st c (observation ES_CURRENT [Id 2] [''unknown factor''])"
    using prepared_observation [OF prepared_govs(1)] by blast
  have "ce_decision (evaluate (Id 1) st) = None"
    unfolding evaluate_def
    by (rule not_actionable_no_decision [where c = c]) (simp_all add: detected_sel [OF st(2)] prepared_actionable [OF prepared_govs(1) st(2)])
  then show ?thesis
    by (simp add: confounded_def degraded_variants observation_sel st(1) detected_sel [OF st(2)])
qed

lemma multiparty_run: "multiparty = report ''multiparty_representable'' True"
proof -
  obtain st c where st: "ingest_evidence (observation ES_CURRENT [Id 2, Id 3] []) default_gov = (status_good, st)"
    "detected default_gov st c (observation ES_CURRENT [Id 2, Id 3] [])"
    using prepared_observation [OF prepared_govs(1)] by blast
  have "cc_associated c = [Id 2, Id 3]" using st(2) by (simp add: detected_def observation_sel)
  then have "ce_candidates (evaluate (Id 1) st) \<noteq> []"
    using throttle_candidate [of "gs_engine st" "Id 1" c _ "Id 2" "es_authority (gs_engine st)"]
      throttle_openD(2) [OF prepared_throttle_open [OF prepared_govs(1) st(2)]]
      prepared_actionable [OF prepared_govs(1) st(2)]
    by (force simp: detected_sel [OF st(2)] evaluate_def)
  then show ?thesis
    by (simp add: multiparty_def degraded_variants st(1) detected_sel [OF st(2)])
qed

lemma prepared_decides:
  assumes "prepared pre g" "detected g st c (observation ES_CURRENT [Id 2] [])"
  obtains d where "ce_decision (evaluate (Id 1) st) = Some d" "cand_target (dec_chosen d) = Id 2"
proof -
  have c: "om_find (es_conflicts (gs_engine st)) (Id 1) = Some c" by (simp add: detected_sel [OF assms(2)])
  have a: "cc_associated c = [Id 2]" using assms(2) by (simp add: detected_def observation_sel)
  obtain d where d: "ce_decision (evaluate (Id 1) st) = Some d"
    using open_decision [OF c _ _ prepared_throttle_open [OF assms]] prepared_actionable [OF assms] a
    unfolding evaluate_def by fastforce
  then show thesis
    using that single_target [OF c a _ d [unfolded evaluate_def]] prepared_sel(4) [OF assms(1)]
    by (simp add: detected_sel [OF assms(2)])
qed

lemma value_based_run: "value_based = report ''value_based_targets_lower_value'' True"
proof -
  obtain st c where st: "ingest_evidence (observation ES_CURRENT [Id 2] []) default_gov = (status_good, st)"
    "detected default_gov st c (observation ES_CURRENT [Id 2] [])"
    using prepared_observation [OF prepared_govs(1)] by blast
  obtain d where "ce_decision (evaluate (Id 1) st) = Some d" "cand_target (dec_chosen d) = Id 2"
    by (rule prepared_decides [OF prepared_govs(1) st(2)])
  then show ?thesis
    by (simp add: value_based_def degraded_variants st(1) detected_sel [OF st(2)])
qed

lemma basic_pairwise_run: "basic_pairwise = report ''basic_pairwise_resolution'' True"
proof -
  obtain st c where st: "ingest_evidence (observation ES_CURRENT [Id 2] []) default_gov = (status_good, st)"
    "detected default_gov st c (observation ES_CURRENT [Id 2] [])"
    using prepared_observation [OF prepared_govs(1)] by blast
  obtain d where d: "ce_decision (evaluate (Id 1) st) = Some d" "cand_target (dec_chosen d) = Id 2"
    by (rule prepared_decides [OF prepared_govs(1) st(2)])
  have "default_WorkloadPolicy\<lparr>wp_workload := Id 2, wp_value := v\<rparr> = default_WorkloadPolicy
      \<lparr>wp_workload := Id 2, wp_value := v, wp_nonPreemptible := \<not> True, wp_preemptionAllowed := True\<rparr>" for v
    by (simp add: default_WorkloadPolicy_def)
  then have "basic_pairwise = first_id (snd (ingest_evidence (fst degraded) default_gov)) (\<lambda>cid.
      report ''basic_pairwise_resolution''
        (ce_decision (evaluate cid (snd (ingest_evidence (fst degraded) default_gov))) \<noteq> None))"
    by (simp only: basic_pairwise_def default_gov_def make_gov_def Let_def split_beta)
  then show ?thesis by (simp add: degraded_variants st(1) detected_sel [OF st(2)] d)
qed


section \<open>Acting programs\<close>

lemma dispatch_frame [simp]:
  "es_conflicts (gs_engine (snd (dispatch adapters iid now st))) = es_conflicts (gs_engine st)"
  "es_evidence (gs_engine (snd (dispatch adapters iid now st))) = es_evidence (gs_engine st)"
  "es_policy (gs_engine (snd (dispatch adapters iid now st))) = es_policy (gs_engine st)"
  "gs_nextConflictId (snd (dispatch adapters iid now st)) = gs_nextConflictId st"
  by (auto simp: dispatch_def dispatch_begin_def dispatch_finish_def Let_def on_engine_def split: option.splits)

text \<open>A request that \<open>authorize\<close> does not grant has no legal intervention.\<close>

lemma request_refused:
  assumes "gov_inv st" "\<And>iid st'. authorize cid cls now st \<noteq> Inr (Some iid, st')"
    "cls = IC_NO_ACTION \<or> \<not> budget_exhausted (p_budget (es_policy (gs_engine st))) cls"
  shows "authorize_and_dispatch adapters cid cls now now' st =
    Inr (status_bad SC_NO_LEGAL_INTERVENTION ''no legal intervention'', st)"
proof -
  obtain r st' where a: "authorize cid cls now st = Inr (r, st')" using authorize_defined [OF assms(1)] by blast
  then have "r = None" using assms(2) by (cases r) auto
  then show ?thesis
    using a assms(3) authorize_refused [of cid cls now st st'] by (auto simp: authorize_and_dispatch_def)
qed

lemma make_gov_inv: "gov_inv (make_gov a b pre)"
  unfolding make_gov_def Let_def split_beta
  by (intro set_policy_inv set_authority_inv default_state_inv)
    (simp_all add: base_authority_def om_inv_def less_Id_def default_ContentionPolicy_def)

lemma observed_inv: "gov_inv g \<Longrightarrow> ingest_evidence e g = (s, st) \<Longrightarrow> gov_inv st"
  using ingest_evidence_inv [of g e] by simp

lemma prepared_budget:
  assumes "prepared pre g" "detected g st c e"
  shows "\<not> budget_exhausted (p_budget (es_policy (gs_engine st))) IC_THROTTLE"
    "\<not> budget_exhausted (p_budget (es_policy (gs_engine st))) IC_REQUEST_PREEMPTION"
    "\<not> in_cooldown (gs_engine st) t cls now"
  by (simp_all add: detected_sel [OF assms(2)] prepared_sel [OF assms(1)] in_cooldown_def
      default_ActionBudget_def default_ActionBudgetStats_def)

lemma stale_evidence_run: "stale_evidence = report ''stale_evidence_no_destructive'' True"
proof -
  obtain st c where st: "ingest_evidence (observation ES_STALE [Id 2] []) default_gov = (status_good, st)"
    "detected default_gov st c (observation ES_STALE [Id 2] [])"
    using prepared_observation [OF prepared_govs(1)] by blast
  have "ce_decision (evaluate_conflict (gs_engine st) (Id 1) ctx) = None" for ctx
    by (rule not_actionable_no_decision [where c = c])
      (simp_all add: detected_sel [OF st(2)] prepared_actionable [OF prepared_govs(1) st(2)])
  then have "picked (evaluate_conflict (gs_engine st) (Id 1) (es_authority (gs_engine st))) = None"
    using picked_decision by (metis not_Some_eq)
  then have "authorize_and_dispatch ref_reg (Id 1) IC_THROTTLE start start st =
      Inr (status_bad SC_NO_LEGAL_INTERVENTION ''no legal intervention'', st)"
    using not_picked_refused observed_inv [OF _ st(1)] make_gov_inv prepared_budget(1) [OF prepared_govs(1) st(2)]
    by (intro request_refused) (auto simp: default_gov_def)
  then show ?thesis
    by (simp add: stale_evidence_def degraded_variants st(1) detected_sel [OF st(2)] status_ok_def status_bad_def)
qed

lemma hard_slo_run: "hard_slo = report ''hard_slo_non_preemptible_rejected'' True"
proof -
  let ?g = "make_gov (f64_lit 100 1) (f64_lit 1 1) False"
  obtain st c where st: "ingest_evidence (observation ES_CURRENT [Id 2] []) ?g = (status_good, st)"
    "detected ?g st c (observation ES_CURRENT [Id 2] [])"
    using prepared_observation [OF prepared_govs(2)] by blast
  have a: "cc_associated c = [Id 2]" using st(2) by (simp add: detected_def observation_sel)
  have "wp_nonPreemptible (workload_policy_for (es_policy (gs_engine ?g)) (Id 2))"
    using prepared_govs(2) [of False] by (auto simp: prepared_def program_policy_def workload_policy_for_def less_Id_def)
  then have "\<not> hard_constraints (es_policy (gs_engine st)) (workload_policy_for (es_policy (gs_engine st)) (Id 2)) IC_REQUEST_PREEMPTION"
    by (simp add: hard_constraints_def detected_sel [OF st(2)])
  moreover have "cand_target cand = Id 2"
    if "picked (evaluate_conflict (gs_engine st) (Id 1) (es_authority (gs_engine st))) = Some cand" for cand
  proof -
    have c: "om_find (es_conflicts (gs_engine st)) (Id 1) = Some c" "valid_policy (es_policy (gs_engine st))"
      using prepared_sel(4) [OF prepared_govs(2), of False] by (simp_all add: detected_sel [OF st(2)])
    show ?thesis using picked_decision [OF that] single_target [OF c(1) a c(2)] by auto
  qed
  ultimately have "authorize (Id 1) IC_REQUEST_PREEMPTION start st \<noteq> Inr (Some iid, st')" for iid st'
    by (auto elim!: authorize_granted simp: check_feasibility_iff)
  then have "authorize_and_dispatch ref_reg (Id 1) IC_REQUEST_PREEMPTION start start st =
      Inr (status_bad SC_NO_LEGAL_INTERVENTION ''no legal intervention'', st)"
    using observed_inv [OF make_gov_inv st(1)] prepared_budget(2) [OF prepared_govs(2) st(2)]
    by (intro request_refused) auto
  then show ?thesis
    by (simp add: hard_slo_def degraded_variants st(1) detected_sel [OF st(2)] status_ok_def status_bad_def)
qed


text \<open>
  At a clock that stands still every granted throttle uses up the budget, so that repeated requests
  are refused at the latest when it is exhausted.
\<close>

lemma sacrifice_stops:
  assumes "gov_inv g" "ab_windowStart (p_budget (es_policy (gs_engine g))) = start"
    "unat (ab_maxThrottlesPerWindow (p_budget (es_policy (gs_engine g)))) <
       unat (abs_throttles (ab_used (p_budget (es_policy (gs_engine g))))) + n"
    "abs_throttles (ab_used (p_budget (es_policy (gs_engine g)))) \<le> ab_maxThrottlesPerWindow (p_budget (es_policy (gs_engine g)))"
  shows "sacrifice n cid g = Some True"
  using assms
proof (induction n arbitrary: g)
  case 0
  then show ?case by (simp add: word_le_nat_alt)
next
  case (Suc n)
  let ?b = "p_budget (es_policy (gs_engine g))"
  obtain r g' where a: "authorize cid IC_THROTTLE start g = Inr (r, g')" using authorize_defined [OF Suc.prems(1)] by blast
  show ?case
  proof (cases "budget_exhausted ?b IC_THROTTLE")
    case True
    then show ?thesis by (simp add: authorize_and_dispatch_def status_bad_def)
  next
    case avail: False
    show ?thesis
    proof (cases r)
      case None
      then show ?thesis using a avail by (simp add: authorize_and_dispatch_def status_bad_def)
    next
      case (Some iid)
      let ?d = "dispatch ref_reg iid start g'"
      have run: "authorize_and_dispatch ref_reg cid IC_THROTTLE start start g = Inr ?d"
        using a avail Some by (simp add: authorize_and_dispatch_def)
      have inv: "gov_inv (snd ?d)" using dispatch_inv authorize_inv [OF Suc.prems(1) a] by blast
      have "p_budget (es_policy (gs_engine g')) = consume_budget ?b IC_THROTTLE start"
        using a Some by (auto elim!: authorize_granted)
      then have b: "p_budget (es_policy (gs_engine (snd ?d))) = ?b\<lparr>ab_used :=
          (ab_used ?b)\<lparr>abs_throttles := abs_throttles (ab_used ?b) + 1, abs_all := abs_all (ab_used ?b) + 1\<rparr>\<rparr>"
        using Suc.prems(2) by (simp add: consume_budget_def Let_def)
      have less: "abs_throttles (ab_used ?b) < ab_maxThrottlesPerWindow ?b" using avail by simp
      have w: "0 < abs_throttles (ab_used ?b) + 1" "abs_throttles (ab_used ?b) + 1 \<le> ab_maxThrottlesPerWindow ?b"
        using word_succ_within [OF less] by simp_all
      have "unat (abs_throttles (ab_used ?b) + 1) = unat (abs_throttles (ab_used ?b)) + 1"
        using w(1) unatSuc [of "abs_throttles (ab_used ?b)"] by (auto simp: add.commute)
      then have "sacrifice n cid (snd ?d) = Some True"
        using Suc.prems inv b w by (intro Suc.IH) simp_all
      then show ?thesis by (simp add: run split_beta)
    qed
  qed
qed

lemma fairness_floor_run: "fairness_floor = report ''fairness_limits_repeated_sacrifice'' True"
proof -
  obtain st c where st: "ingest_evidence (observation ES_CURRENT [Id 2] []) default_gov = (status_good, st)"
    "detected default_gov st c (observation ES_CURRENT [Id 2] [])"
    using prepared_observation [OF prepared_govs(1)] by blast
  have "sacrifice 30 (Id 1) st = Some True"
    using observed_inv [OF _ st(1)] make_gov_inv
    by (intro sacrifice_stops)
      (simp_all add: default_gov_def detected_sel [OF st(2)] prepared_sel [OF prepared_govs(2)] default_ActionBudget_def
        default_ActionBudgetStats_def start_def now_ms_def)
  then show ?thesis by (simp add: fairness_floor_def degraded_variants st(1) detected_sel [OF st(2)])
qed

text \<open>The throttle that the remaining programs ask for is granted.\<close>

lemma prepared_granted:
  assumes "prepared pre g" "detected g st c (observation ES_CURRENT [Id 2] [])"
  obtains f adapter where "authorize (Id 1) IC_THROTTLE start st =
      Inr (Some (Id 1), commit_intervention (Id 1) c (new_intervention IC_THROTTLE (Id 1) (Id 2) f adapter start st) start st)"
    "f = make_fence base_authority (cc_generation c) (Id 1) (Id 2) (Id 1)"
proof -
  have c: "om_find (es_conflicts (gs_engine st)) (Id 1) = Some c" "cc_associated c = [Id 2]" "cc_evidenceIds c = [Id 1]"
    "om_find (es_evidence (gs_engine st)) (Id 1) = Some (observation ES_CURRENT [Id 2] [])"
    using assms(2) by (simp_all add: detected_sel [OF assms(2)]) (simp_all add: detected_def observation_sel)
  have n: "gs_nextInterventionId st = 1" using assms by (simp add: detected_def prepared_def)
  have g: "ie_generation (observation ES_CURRENT [Id 2] []) = Id 1"
    by (simp add: observation_def degraded_def make_evidence_def)
  obtain adapter where "authorize (Id 1) IC_THROTTLE start st = Inr (Some (Id (gs_nextInterventionId st)),
      commit_intervention (Id 1) c (new_intervention IC_THROTTLE (Id 1) (Id 2)
        (make_fence (es_authority (gs_engine st)) (cc_generation c) (ie_generation (observation ES_CURRENT [Id 2] [])) (Id 2) (Id 1))
        adapter start st) start st)"
    using throttle_granted [OF c(1) _ c(2) prepared_throttle_open [OF assms] c(3,4)]
      prepared_actionable [OF assms] prepared_budget [OF assms] by auto
  then show thesis
    using that by (simp add: n g detected_sel [OF assms(2)] prepared_sel [OF assms(1)])
qed

lemma reboot_run:
  assumes "boot \<noteq> Id 1"
  shows "reboot_before_dispatch label boot = report label True"
proof -
  obtain st c where st: "ingest_evidence (observation ES_CURRENT [Id 2] []) default_gov = (status_good, st)"
    "detected default_gov st c (observation ES_CURRENT [Id 2] [])"
    using prepared_observation [OF prepared_govs(1)] by blast
  obtain f adapter where a: "authorize (Id 1) IC_THROTTLE start st =
      Inr (Some (Id 1), commit_intervention (Id 1) c (new_intervention IC_THROTTLE (Id 1) (Id 2) f adapter start st) start st)"
    "f = make_fence base_authority (cc_generation c) (Id 1) (Id 2) (Id 1)"
    by (rule prepared_granted [OF prepared_govs(1) st(2)])
  define g1 where "g1 = snd (record_worker_boot (Id 2) boot
    (commit_intervention (Id 1) c (new_intervention IC_THROTTLE (Id 1) (Id 2) f adapter start st) start st))"
  have n: "gs_nextInterventionId st = 1" using st(2) prepared_govs(1) by (simp add: detected_def prepared_def)
  have i: "om_find (es_interventions (gs_engine g1)) (Id 1) = Some (new_intervention IC_THROTTLE (Id 1) (Id 2) f adapter start st)"
    by (simp add: g1_def record_worker_boot_def on_authority_def n)
  have "st_code (revalidate (gs_engine g1) f (Id 2)) = SC_STALE_AUTHORITY"
    using assms
    by (simp add: revalidate_def g1_def record_worker_boot_def on_authority_def a(2) make_fence_def Let_def
        detected_sel [OF st(2)] prepared_sel [OF prepared_govs(1)] base_authority_def default_AuthorityContext_def less_Id_def
        status_bad_def)
  then have "st_code (fst (dispatch ref_reg (Id 1) start g1)) = SC_STALE_AUTHORITY"
    using i by (simp add: dispatch_def dispatch_begin_def Let_def)
  then show ?thesis
    by (simp add: reboot_before_dispatch_def degraded_variants st(1) detected_sel [OF st(2)] a(1) split_beta flip: g1_def)
qed


text \<open>The state after the throttle, and what a post-action measurement of the conflict makes of it.\<close>

lemma prepared_acted:
  assumes "prepared pre g" "detected g st c (observation ES_CURRENT [Id 2] [])"
  obtains s st' c' where "authorize_and_dispatch ref_reg (Id 1) IC_THROTTLE start start st = Inr (s, st')"
    "es_conflicts (gs_engine st') = [(Id 1, c')]" "cc_id c' = Id 1" "cc_affected c' = [Id 1]" "cc_domain c' = RD_COMPUTE"
    "gs_nextConflictId st' = 2"
proof -
  obtain f adapter where a: "authorize (Id 1) IC_THROTTLE start st =
      Inr (Some (Id 1), commit_intervention (Id 1) c (new_intervention IC_THROTTLE (Id 1) (Id 2) f adapter start st) start st)"
    by (rule prepared_granted [OF assms])
  define st1 where "st1 = commit_intervention (Id 1) c (new_intervention IC_THROTTLE (Id 1) (Id 2) f adapter start st) start st"
  have "authorize_and_dispatch ref_reg (Id 1) IC_THROTTLE start start st =
      Inr (fst (dispatch ref_reg (Id 1) start st1), snd (dispatch ref_reg (Id 1) start st1))"
    using a prepared_budget(1) [OF assms] by (simp add: authorize_and_dispatch_def st1_def)
  then show thesis
    by (rule that) (use assms(2) in \<open>simp_all add: st1_def detected_sel [OF assms(2)]\<close>, simp_all add: detected_def)
qed

lemma post_action_measured:
  assumes "es_conflicts (gs_engine st) = [(Id 1, c)]" "cc_id c = Id 1" "cc_affected c = [Id 1]" "cc_domain c = RD_COMPUTE"
    "status_ok (validate_evidence e)" "ie_victim e = Id 1" "ie_domain e = RD_COMPUTE" "id_value (ie_id e) \<noteq> 0"
  obtains st' c' where "submit_post_action_evidence e st = (status_good, st')" "es_conflicts (gs_engine st') = [(Id 1, c')]"
    "cc_affected c' = [Id 1]" "cc_degradation c' = ie_degradation (with_fractions e)"
    "gs_nextConflictId st' = gs_nextConflictId st"
proof -
  obtain st1 where s: "store_evidence (with_fractions e) st = (with_fractions e, st1)"
    "es_conflicts (gs_engine st1) = es_conflicts (gs_engine st)" "gs_nextConflictId st1 = gs_nextConflictId st"
    using assms(8) by (simp add: store_evidence_def with_fractions_def Let_def)
  have "om_first (concerns (with_fractions e)) (es_conflicts (gs_engine st1)) = Some (Id 1, c)"
    using assms(1-7) by (simp add: s(2) om_first_def concerns_def with_fractions_def)
  then have run: "submit_post_action_evidence e st =
      (status_good, on_engine (post_action_engine (with_fractions e) (Id 1) c) st1)"
    using assms(5) by (simp add: submit_post_action_evidence_def s(1) Let_def)
  show thesis
  proof (cases "om_first (verifiable (cc_id c)) (es_interventions (gs_engine st1))")
    case None
    then show thesis
      using that [OF run] assms(1,3) by (simp add: post_action_engine_none s(2,3))
  next
    case (Some iki)
    obtain ik i where "iki = (ik, i)" by fastforce
    with Some show thesis
      using that [OF run] assms(1,3) by (simp add: post_action_engine_sel(2) s(2,3))
  qed
qed

text \<open>A program's second observation.\<close>

lemma second_observation:
  assumes "make_evidence victim neighbor (f64_lit 100 1) x ES_CURRENT 2 = (e, n)" "id_value victim \<noteq> 0"
    "f64_isfinite x" "f64_isfinite (compute_degradation MD_HIGHER_IS_BETTER (f64_lit 100 1) x)"
    "\<not> f64_lt (compute_degradation MD_HIGHER_IS_BETTER (f64_lit 100 1) x) f64_zero"
  shows "status_ok (validate_evidence e)"
proof -
  have "f64_isfinite (f64_lit 100 1)" "\<not> f64_le (f64_lit 100 1) f64_zero" "f64_isfinite (f64_lit 9 10)"
    "\<not> f64_lt (f64_lit 9 10) f64_zero" "\<not> f64_gt (f64_lit 9 10) f64_one"
    unfolding f64_small_integers f64_literals by (simp_all add: f64_patterns f64_consts)
  then show ?thesis
    using assms by (auto simp: validate_evidence_def structurally_valid_def make_evidence_def)
qed

lemma made_sel:
  assumes "make_evidence victim neighbor baseline coRun status n = (e, n')"
  shows "ie_id e = Id n" "ie_victim e = victim" "ie_domain e = RD_COMPUTE" "ie_status e = status" "n' = n + 1"
    "ie_degradation (with_fractions e) = compute_degradation MD_HIGHER_IS_BETTER baseline coRun"
  using assms by (auto simp: make_evidence_def with_fractions_def)

lemma ineffective_action_run: "ineffective_action = report ''ineffective_action_detected'' True"
proof -
  obtain st c where st: "ingest_evidence (observation ES_CURRENT [Id 2] []) default_gov = (status_good, st)"
    "detected default_gov st c (observation ES_CURRENT [Id 2] [])"
    using prepared_observation [OF prepared_govs(1)] by blast
  obtain s st1 c1 where a: "authorize_and_dispatch ref_reg (Id 1) IC_THROTTLE start start st = Inr (s, st1)"
    "es_conflicts (gs_engine st1) = [(Id 1, c1)]" "cc_id c1 = Id 1" "cc_affected c1 = [Id 1]" "cc_domain c1 = RD_COMPUTE"
    by (rule prepared_acted [OF prepared_govs(1) st(2)])
  obtain e n where e: "make_evidence (Id 1) (Id 2) (f64_lit 100 1) (f64_lit 60 1) ES_CURRENT 2 = (e, n)" by fastforce
  have v: "status_ok (validate_evidence e)"
    by (rule second_observation [OF e]) (simp_all add: losses, simp_all add: f64_small_integers f64_patterns f64_consts)
  obtain st2 c2 where p: "submit_post_action_evidence e st1 = (status_good, st2)" "es_conflicts (gs_engine st2) = [(Id 1, c2)]"
    "cc_degradation c2 = ie_degradation (with_fractions e)"
    by (rule post_action_measured [OF a(2-5) v made_sel(2,3) [OF e]]) (simp_all add: made_sel [OF e])
  have "f64_ge (F64 0x3FD999999999999A) (f64_lit 199 1000)" unfolding f64_small_integers by (simp add: f64_patterns)
  then show ?thesis
    by (simp add: ineffective_action_def degraded_variants st(1) detected_sel [OF st(2)] a(1) e p conflict_of_def
        made_sel [OF e] losses)
qed

lemma shifted_contention_run: "shifted_contention = report ''shifted_contention_reported'' True"
proof -
  obtain st c where st: "ingest_evidence (observation ES_CURRENT [Id 2] []) default_gov = (status_good, st)"
    "detected default_gov st c (observation ES_CURRENT [Id 2] [])"
    using prepared_observation [OF prepared_govs(1)] by blast
  obtain s st1 c1 where a: "authorize_and_dispatch ref_reg (Id 1) IC_THROTTLE start start st = Inr (s, st1)"
    "es_conflicts (gs_engine st1) = [(Id 1, c1)]" "cc_id c1 = Id 1" "cc_affected c1 = [Id 1]" "cc_domain c1 = RD_COMPUTE"
    "gs_nextConflictId st1 = 2"
    by (rule prepared_acted [OF prepared_govs(1) st(2)])
  obtain e n where e: "make_evidence (Id 1) (Id 2) (f64_lit 100 1) (f64_lit 97 1) ES_CURRENT 2 = (e, n)" by fastforce
  have v: "status_ok (validate_evidence e)"
    by (rule second_observation [OF e]) (simp_all add: losses, simp_all add: f64_small_integers f64_patterns f64_consts)
  obtain st2 c2 where p: "submit_post_action_evidence e st1 = (status_good, st2)" "es_conflicts (gs_engine st2) = [(Id 1, c2)]"
    "cc_affected c2 = [Id 1]" "cc_degradation c2 = ie_degradation (with_fractions e)" "gs_nextConflictId st2 = 2"
    by (rule post_action_measured [OF a(2-5) v made_sel(2,3) [OF e]]) (simp_all add: made_sel [OF e] a(6))
  obtain e2 n' where e2: "make_evidence (Id 2) (Id 1) (f64_lit 100 1) (f64_lit 55 1) ES_CURRENT 3 = (e2, n')" by fastforce
  have "conflict_of (Id 1) (snd (ingest_evidence e2 st2)) = Some c2"
    using p(2,3,5) made_sel [OF e2]
    by (simp add: ingest_evidence_def store_evidence_def with_fractions_def om_first_def concerns_def conflict_of_def Let_def
        split: prod.split)
  moreover have "f64_lt (F64 0x3F9EB851EB851EB8) (f64_lit 20 100)" by (simp add: f64_literals f64_patterns)
  ultimately show ?thesis
    by (simp add: shifted_contention_def degraded_variants st(1) detected_sel [OF st(2)] a(1) e e2 p split_beta
        made_sel [OF e] losses)
qed


section \<open>The restarted coordinator\<close>

definition restart_conflict :: ContentionConflict where
  "restart_conflict = progress_conflict default_ContentionPolicy (observation ES_CURRENT [Id 2] [])
     (new_conflict (observation ES_CURRENT [Id 2] []) (Id 1) (default_EngineState\<lparr>es_authority := base_authority\<rparr>))"

definition restart_state :: GovernorState where
  "restart_state = default_GovernorState\<lparr>gs_nextConflictId := 2,
     gs_engine := default_EngineState\<lparr>es_authority := base_authority, es_conflicts := [(Id 1, restart_conflict)],
       es_evidence := [(Id 1, observation ES_CURRENT [Id 2] [])]\<rparr>\<rparr>"

lemma restart_state_observed:
  "ingest_evidence (observation ES_CURRENT [Id 2] []) (snd (set_authority base_authority default_GovernorState)) =
     (status_good, restart_state)"
proof -
  have "status_ok (validate_evidence (observation ES_CURRENT [Id 2] []))"
    by (simp add: validate_evidence_def observation_sel)
  then show ?thesis
    by (subst ingest_first)
      (simp_all add: set_authority_def on_engine_def default_GovernorState_def default_EngineState_def restart_state_def
        observation_sel observation_fractions restart_conflict_def)
qed

lemma restart_sel:
  "es_conflicts (gs_engine restart_state) = [(Id 1, restart_conflict)]"
  "es_evidence (gs_engine restart_state) = [(Id 1, observation ES_CURRENT [Id 2] [])]"
  "es_interventions (gs_engine restart_state) = []" "es_fairness (gs_engine restart_state) = []"
  "es_policy (gs_engine restart_state) = default_ContentionPolicy" "es_authority (gs_engine restart_state) = base_authority"
  by (simp_all add: restart_state_def default_EngineState_def)

lemma restart_length: "length (save_to_bytes restart_state) < 2000"
proof -
  have "length (serialize_policy default_ContentionPolicy) < 300"
    by (simp add: serialize_policy_def default_ContentionPolicy_def serialize_budget_def w_map_def w_stats_def)
  moreover have "length (serialize_authority base_authority) < 300"
    by (simp add: serialize_authority_def base_authority_def default_AuthorityContext_def w_map_def w_pair_def less_Id_def)
  moreover have "length (serialize_conflict restart_conflict) < 500"
    by (simp add: serialize_conflict_def restart_conflict_def new_conflict_def progress_conflict_def observation_sel
        default_ContentionConflict_def comp_def sum_list_triv)
  moreover have "length (serialize_evidence (observation ES_CURRENT [Id 2] [])) < 400"
    by (simp add: serialize_evidence_def observation_def degraded_def make_evidence_def default_InterferenceEvidence_def)
  ultimately show ?thesis by (simp add: save_file file_of_def save_payload_def restart_sel w_entries_def w_pair_def)
qed

lemma restart_storable: "storable restart_state"
proof -
  have "storable_authority base_authority" "storable_policy default_ContentionPolicy"
    by (simp_all add: storable_authority_def base_authority_def default_AuthorityContext_def om_inv_def less_Id_def short_def
        storable_policy_def default_ContentionPolicy_def)
  moreover have "storable_conflict restart_conflict"
    by (simp add: storable_conflict_def restart_conflict_def new_conflict_def progress_conflict_def observation_sel
        default_ContentionConflict_def short_def)
  moreover have "storable_evidence (observation ES_CURRENT [Id 2] [])"
    by (simp add: storable_evidence_def observation_def degraded_def make_evidence_def default_InterferenceEvidence_def short_def)
  moreover have "length (save_payload restart_state) < 2 ^ 64 - 24"
    using restart_length by (simp add: save_file file_of_def)
  ultimately show ?thesis
    using default_policy_valid by (simp add: storable_def Let_def restart_sel om_inv_def short_def)
qed

lemma coordinator_restart_run:
  assumes "si_open sio" "2000 \<le> si_written sio" "si_rename sio" "li_open lio" "li_tell lio" "li_read lio"
  shows "coordinator_restart tmp windows sio lio fs =
    (report ''coordinator_restart_makes_revalidation'' True, remove_all (tmp @ ''/cg_example_restart'') fs)"
proof -
  let ?path = "tmp @ ''/cg_example_restart/state.bin''" and ?data = "save_to_bytes restart_state"
  let ?clean = "remove_all (tmp @ ''/cg_example_restart'')"
  have auth: "es_authority (gs_engine default_gov) = base_authority" using prepared_sel(3) [OF prepared_govs(1)] .
  have len: "length ?data \<le> si_written sio" "length ?data \<le> 2 ^ 31" using restart_length assms(2) by simp_all
  let ?fs = "(?clean fs)(tmp_path ?path := None, ?path \<mapsto> ?data)"
  have saved: "save_state windows sio ?path restart_state (?clean fs) = (True, status_good, ?fs)"
    using save_complete [OF assms(1) len(1), of windows ?path "?clean fs"] assms(1,3) len(1)
    by (simp add: save_state_def Let_def)
  have loaded: "load_state lio ?path ?fs default_GovernorState = (status_good, restart_state)"
    using load_saved [OF restart_storable _ len(2) assms(4-6)] by simp
  have one: "length (conflict_ids (snd (advance_epoch restart_state))) = 1"
    by (simp add: conflict_ids_def advance_epoch_sel restart_sel om_update_all_def)
  have "coordinator_restart tmp windows sio lio fs = (report ''coordinator_restart_makes_revalidation'' True, ?clean ?fs)"
    using saved loaded one
    by (simp add: coordinator_restart_def new_Governor_def save_governor_def load_governor_def auth degraded_variants
        restart_state_observed Let_def split_beta)
  moreover have "?clean ?fs = ?clean fs"
    by (simp add: remove_all_def tmp_path_def fun_eq_iff)
  ultimately show ?thesis by simp
qed

declare One_nat_def [simp]

end
