(* ===== verification/CG_Drivers.thy ===== *)
theory CG_Drivers
  imports CG_Programs CG_Cli
begin

text \<open>
  The programs that measure: \<^verbatim>\<open>bench/main.cpp\<close> and the part of \<^verbatim>\<open>cuda_proof/cuda_proof.cu\<close> that runs the
  governor, with the times they measure as inputs; and the packaging test \<^verbatim>\<open>downstream/consumer\<close>. The
  lemmas compute what each of them reports.
\<close>

section \<open>The benchmark\<close>

definition bench_evidence :: "u64 \<Rightarrow> WorkloadId \<Rightarrow> WorkloadId \<Rightarrow> InterferenceEvidence" where
  "bench_evidence i victim nb = default_InterferenceEvidence
     \<lparr>ie_id := Id i, ie_generation := Id 1, ie_victim := victim, ie_neighbors := [nb],
      ie_domain := RD_COMPUTE, ie_metric := MD_HIGHER_IS_BETTER, ie_isolatedBaseline := f64_lit 100 1,
      ie_coRunObservation := f64_lit 60 1,
      ie_degradation := compute_degradation MD_HIGHER_IS_BETTER (f64_lit 100 1) (f64_lit 60 1),
      ie_attribution := AS_CONTROLLED_COMPARISON, ie_confidence := f64_lit 9 10, ie_sampleCount := 100,
      ie_status := ES_CURRENT, ie_maxAgeMs := 5000\<rparr>"

definition bench_governor :: GovernorState where
  "bench_governor =
     (let g = default_GovernorState;
          auth = default_AuthorityContext\<lparr>au_coordinatorEpoch := Id 1, au_policyGeneration := Id 1\<rparr>;
          (_, g) = set_authority auth g;
          pol = default_ContentionPolicy\<lparr>p_id := Id 1, p_generation := Id 1\<rparr>;
          wa = default_WorkloadPolicy\<lparr>wp_workload := Id 1, wp_value := f64_lit 100 1\<rparr>;
          wb = default_WorkloadPolicy\<lparr>wp_workload := Id 2, wp_value := f64_lit 1 1\<rparr>;
          pol = pol\<lparr>p_workloads := om_put (Id 2) wb (om_put (Id 1) wa [])\<rparr>;
          (_, g) = set_policy pol g
      in g)"

text \<open>The loop \<^verbatim>\<open>for (size_t i = 0; i < n; ++i)\<close>, its last \<open>n\<close> rounds from \<open>i\<close> on.\<close>

fun bench_ingest :: "nat \<Rightarrow> u64 \<Rightarrow> GovernorState \<Rightarrow> GovernorState" where
  "bench_ingest 0 i g = g"
| "bench_ingest (Suc n) i g =
     (let victim = Id (1 + i mod 2); nb = Id (2 + i mod 2);
          (_, g) = ingest_evidence (bench_evidence (100 + i) victim nb) g
      in bench_ingest n (i + 1) g)"

text \<open>What one round of the benchmark measures: the evaluations, the save and the load.\<close>

record bench_round =
  br_evaluations :: "ConflictEvaluation list"
  br_save :: Status
  br_load :: Status
  br_loaded :: Governor

definition bench_scale :: "bool \<Rightarrow> SaveIo \<Rightarrow> LoadIo \<Rightarrow> u64 \<Rightarrow> files \<Rightarrow> bench_round \<times> files" where
  "bench_scale windows sio lio n fs =
     (let g = (new_Governor False '''')\<lparr>gv_state := bench_ingest (unat n) 0 bench_governor\<rparr>;
          ids = conflict_ids (gv_state g);
          evs = map (\<lambda>cid. evaluate cid (gv_state g)) (take 10000 ids);
          path = ''bench_state.bin'';
          g2 = new_Governor True path;
          (saved, fs) = save_governor windows sio g fs;
          g3 = new_Governor True path;
          (loaded, g3) = load_governor lio fs g3
      in (\<lparr>br_evaluations = evs, br_save = saved, br_load = loaded, br_loaded = g3\<rparr>, fs))"

text \<open>\<^verbatim>\<open>static_cast<std::size_t>(std::atoi(argv[1]))\<close>: sign extended from 32 bits.\<close>

definition bench_scales :: "string list \<Rightarrow> u64 list" where
  "bench_scales argv =
     (if length argv > 1 then [scast (word_of_int (strtol (argv ! 1)) :: 32 word)] else [100, 1000, 10000, 100000])"

fun bench_rounds :: "bool \<Rightarrow> SaveIo \<Rightarrow> LoadIo \<Rightarrow> u64 list \<Rightarrow> files \<Rightarrow> bench_round list \<times> files" where
  "bench_rounds windows sio lio [] fs = ([], fs)"
| "bench_rounds windows sio lio (n # ns) fs =
     (let (r, fs) = bench_scale windows sio lio n fs;
          (rs, fs) = bench_rounds windows sio lio ns fs
      in (r # rs, fs))"

definition bench_main :: "bool \<Rightarrow> SaveIo \<Rightarrow> LoadIo \<Rightarrow> string list \<Rightarrow> files \<Rightarrow> nat \<times> bench_round list \<times> files" where
  "bench_main windows sio lio argv fs = (0, bench_rounds windows sio lio (bench_scales argv) fs)"

section \<open>The CUDA proof\<close>

text \<open>
  \<^verbatim>\<open>CoopAdapter\<close>: its throttle accepts and sets a flag that nothing reads; there is no other adapter.
\<close>

definition coop_throttle :: throttle_apply where
  "coop_throttle attempt target cls intensity =
     \<lparr>ar_outcome = AO_ACCEPTED, ar_note = ''cooperative B throttled'', ar_attemptId = Id 0\<rparr>"

definition CoopAdapter :: AdapterRegistry where
  "CoopAdapter = throttle_registry (Some \<lparr>throttle_name = ''CoopThrottle'', throttle_apply = coop_throttle\<rparr>)"

definition cuda_policy :: "bool \<Rightarrow> ContentionPolicy" where
  "cuda_policy flip =
     (let pol = default_ContentionPolicy
            \<lparr>p_id := Id 1, p_generation := Id 1, p_actionabilityThreshold := f64_lit 3 100,
             p_releaseThreshold := f64_lit 1 100, p_preemptionAllowed := False, p_migrationAllowed := False,
             p_placementChangeAllowed := False, p_bandwidthRequestAllowed := False,
             p_collectiveSchedulingAllowed := False, p_admissionRestrictionAllowed := False\<rparr>;
          wa = default_WorkloadPolicy\<lparr>wp_workload := Id 1, wp_value := f64_lit 100 1\<rparr>;
          wb = default_WorkloadPolicy\<lparr>wp_workload := Id 2, wp_value := (if flip then f64_lit 90 1 else f64_lit 1 1)\<rparr>
      in pol\<lparr>p_workloads := om_put (Id 2) wb (om_put (Id 1) wa [])\<rparr>)"

definition cuda_evidence :: "double \<Rightarrow> double \<Rightarrow> double \<Rightarrow> InterferenceEvidence" where
  "cuda_evidence base_tp corun_tp degrad = default_InterferenceEvidence
     \<lparr>ie_id := Id 1, ie_generation := Id 1, ie_victim := Id 1, ie_neighbors := [Id 2], ie_domain := RD_COMPUTE,
      ie_metric := MD_HIGHER_IS_BETTER, ie_isolatedBaseline := base_tp, ie_coRunObservation := corun_tp,
      ie_degradation := degrad, ie_attribution := AS_CONTROLLED_COMPARISON, ie_confidence := f64_lit 9 10,
      ie_sampleCount := 100, ie_status := ES_CURRENT, ie_maxAgeMs := 5000, ie_label := EL_REAL,
      ie_workerBoot := Id 1, ie_workloadGeneration := Id 1\<rparr>"

text \<open>The lines the governor's part prints, as values.\<close>

record cuda_action =
  ca_class :: InterventionClass
  ca_target :: WorkloadId
  ca_dispatch :: StatusCode
  ca_improvement :: double
  ca_state :: "ConflictState option"

datatype cuda_report = No_conflict | No_interference | Below_actionable | Acted cuda_action

definition cuda_act ::
  "InterventionDecision \<Rightarrow> double \<Rightarrow> double \<Rightarrow> double \<Rightarrow> double \<Rightarrow> ConflictId \<Rightarrow> GovernorState \<Rightarrow> cuda_report option" where
  "cuda_act d degrad base_tp corun_tp post_tp cid g =
     (case authorize_and_dispatch (Some CoopAdapter) cid IC_THROTTLE start start g of
        Inl _ \<Rightarrow> None
      | Inr (st, g) \<Rightarrow>
          let improve = compute_improvement MD_HIGHER_IS_BETTER corun_tp post_tp;
              pe = (cuda_evidence base_tp corun_tp degrad)
                     \<lparr>ie_id := Id 2, ie_generation := Id 2, ie_sampledAt := 3000, ie_isolatedBaseline := base_tp,
                      ie_coRunObservation := post_tp,
                      ie_degradation := compute_degradation MD_HIGHER_IS_BETTER base_tp post_tp\<rparr>;
              (_, g) = submit_post_action_evidence pe g
          in Some (Acted \<lparr>ca_class = cand_cls (dec_chosen d), ca_target = cand_target (dec_chosen d),
               ca_dispatch = st_code st, ca_improvement = improve, ca_state = map_option cc_state (conflict_of cid g)\<rparr>))"

text \<open>The exit code, from the free device memory before and after.\<close>

definition cuda_exit :: "u64 \<Rightarrow> u64 \<Rightarrow> nat" where
  "cuda_exit memBefore freeNow = (if memBefore = freeNow then 0 else 1)"

text \<open>
  The program after its measurements: from the three times, widened from \<^verbatim>\<open>float\<close>, the degradation and
  the report. The calls of the CUDA library are taken to succeed.
\<close>

definition cuda_main :: "double \<Rightarrow> double \<Rightarrow> double \<Rightarrow> bool \<Rightarrow> u64 \<Rightarrow> u64 \<Rightarrow> (nat \<times> double \<times> cuda_report) option" where
  "cuda_main base_ms corun_ms post_ms flip memBefore freeNow =
     (let base_tp = f64_divide (f64_lit 1 1) base_ms;
          corun_tp = f64_divide (f64_lit 1 1) corun_ms;
          degrad = compute_degradation MD_HIGHER_IS_BETTER base_tp corun_tp;
          g = default_GovernorState;
          (_, g) = set_authority base_authority g;
          (_, g) = set_policy (cuda_policy flip) g;
          (_, g) = ingest_evidence (cuda_evidence base_tp corun_tp degrad) g;
          report =
            (case conflict_ids g of
               [] \<Rightarrow> Some No_conflict
             | cid # _ \<Rightarrow>
                 let ev = evaluate cid g
                 in if f64_lt degrad (f64_lit 3 100) then Some No_interference
                    else case ce_decision ev of
                           None \<Rightarrow> Some Below_actionable
                         | Some d \<Rightarrow> cuda_act d degrad base_tp corun_tp (f64_divide (f64_lit 1 1) post_ms) cid g)
      in map_option (\<lambda>r. (cuda_exit memBefore freeNow, degrad, r)) report)"

section \<open>The packaging test\<close>

definition consumer_main :: "nat \<times> string list" where
  "consumer_main =
     (let g = default_GovernorState;
          (_, g) = set_authority base_authority g;
          pol = default_ContentionPolicy\<lparr>p_id := Id 1, p_generation := Id 1\<rparr>;
          wa = default_WorkloadPolicy\<lparr>wp_workload := Id 1, wp_value := f64_lit 100 1\<rparr>;
          wb = default_WorkloadPolicy\<lparr>wp_workload := Id 2, wp_value := f64_lit 1 1\<rparr>;
          pol = pol\<lparr>p_workloads := om_put (Id 2) wb (om_put (Id 1) wa [])\<rparr>;
          (_, g) = set_policy pol g;
          (_, g) = ingest_evidence
            (default_InterferenceEvidence
               \<lparr>ie_id := Id 1, ie_generation := Id 1, ie_victim := Id 1, ie_neighbors := [Id 2], ie_domain := RD_COMPUTE,
                ie_metric := MD_HIGHER_IS_BETTER, ie_isolatedBaseline := f64_lit 100 1, ie_coRunObservation := f64_lit 60 1,
                ie_degradation := compute_degradation MD_HIGHER_IS_BETTER (f64_lit 100 1) (f64_lit 60 1),
                ie_attribution := AS_CONTROLLED_COMPARISON, ie_confidence := f64_lit 9 10, ie_sampleCount := 100,
                ie_status := ES_CURRENT, ie_maxAgeMs := 5000, ie_workerBoot := Id 1, ie_workloadGeneration := Id 1\<rparr>) g;
          ids = conflict_ids g;
          ok = ids \<noteq> [];
          present = (if ok \<and> ce_decision (evaluate (hd ids) g) \<noteq> None then 1 else 0)
      in (if ok then 0 else 1,
          [''consumer version='' @ version,
           ''consumer conflict_ids='' @ dec_string (of_nat (length ids)) @ '' decision_present='' @ dec_string present]))"


section \<open>What the benchmark measures\<close>

text \<open>However many observations the benchmark ingests, they are about two victims.\<close>

declare One_nat_def [simp del]

definition bench_subjects :: "GovernorState \<Rightarrow> nat \<Rightarrow> bool" where
  "bench_subjects g n \<longleftrightarrow>
     map (\<lambda>(k, c). (k, cc_domain c, cc_affected c)) (es_conflicts (gs_engine g)) =
       take n [(Id 1, RD_COMPUTE, [Id 1]), (Id 2, RD_COMPUTE, [Id 2])]
     \<and> gs_nextConflictId g = of_nat n + 1"

lemma update_subject [simp]:
  "cc_domain (update_conflict e c) = cc_domain c" "cc_affected (update_conflict e c) = cc_affected c"
  by (simp_all add: update_conflict_def)

lemma bench_step:
  assumes "bench_subjects g (min n 2)" "status_ok (validate_evidence e)" "ie_domain e = RD_COMPUTE"
    "ie_victim e = Id (1 + of_nat (n mod 2))"
  shows "bench_subjects (snd (ingest_evidence e g)) (min (Suc n) 2)"
proof -
  obtain e' st where s: "store_evidence (with_fractions e) g = (e', st)" by fastforce
  then have e': "ie_domain e' = RD_COMPUTE" "ie_victim e' = Id (1 + of_nat (n mod 2))"
    and st: "es_conflicts (gs_engine st) = es_conflicts (gs_engine g)" "gs_nextConflictId st = gs_nextConflictId g"
    using assms(3,4) by (auto simp: store_evidence_def Let_def with_fractions_def split: if_splits)
  consider (none) "n = 0" | (one) "n = 1" | (both) "2 \<le> n" by linarith
  then show ?thesis
  proof cases
    case none
    then show ?thesis
      using assms(1,2) e' st by (simp add: ingest_evidence_def s Let_def bench_subjects_def om_first_def)
  next
    case one
    then obtain c where "es_conflicts (gs_engine g) = [(Id 1, c)]" "cc_domain c = RD_COMPUTE" "cc_affected c = [Id 1]"
      using assms(1) by (auto simp: bench_subjects_def One_nat_def)
    then show ?thesis
      using assms(1,2) e' st one
      by (simp add: ingest_evidence_def s Let_def bench_subjects_def om_first_def concerns_def less_Id_def)
  next
    case both
    then obtain c d where "es_conflicts (gs_engine g) = [(Id 1, c), (Id 2, d)]" "cc_domain c = RD_COMPUTE" "cc_affected c = [Id 1]"
      "cc_domain d = RD_COMPUTE" "cc_affected d = [Id 2]"
      using assms(1) by (auto simp: bench_subjects_def)
    moreover have "n mod 2 = 0 \<or> n mod 2 = 1" by linarith
    ultimately show ?thesis
      using assms(1,2) e' st both
      by (auto simp: ingest_evidence_def s Let_def bench_subjects_def om_first_def concerns_def less_Id_def)
  qed
qed

lemma bench_valid: "id_value victim \<noteq> 0 \<Longrightarrow> status_ok (validate_evidence (bench_evidence i victim nb))"
  by (simp add: validate_evidence_ok structurally_valid_def bench_evidence_def losses)
    (simp add: f64_small_integers f64_literals f64_patterns f64_consts)

lemma bench_ingest_subjects:
  assumes "bench_subjects g (min m 2)" "i = of_nat m" "m + n \<le> 2 ^ 64"
  shows "bench_subjects (bench_ingest n i g) (min (m + n) 2)"
  using assms
proof (induction n arbitrary: m i g)
  case (Suc n)
  let ?v = "Id (1 + i mod 2) :: WorkloadId"
  have "unat (of_nat m :: u64) = m" using Suc.prems(3) by (simp add: unat_of_nat take_bit_nat_eq_self)
  then have i: "i mod 2 = of_nat (m mod 2)"
    using Suc.prems(2) by (simp add: word_arith_nat_mod)
  have "m mod 2 = 0 \<or> m mod 2 = 1" by linarith
  then have v: "id_value ?v \<noteq> 0" by (auto simp: i)
  have "bench_subjects (snd (ingest_evidence (bench_evidence (100 + i) ?v nb) g)) (min (Suc m) 2)" for nb
    using bench_step [OF Suc.prems(1) bench_valid [OF v]] by (simp add: bench_evidence_def i)
  then show ?case
    using Suc.IH [of _ "Suc m" "i + 1"] Suc.prems(2,3) by (simp add: split_beta add.commute)
qed simp

text \<open>Workloads that the authority does not know are never acted on.\<close>

lemma unknown_target_no_decision:
  assumes "au_workloadBoots (es_authority s) = []" "valid_policy (es_policy s)"
  shows "ce_decision (evaluate_conflict s cid (es_authority s)) = None"
proof (rule ccontr)
  assume "ce_decision (evaluate_conflict s cid (es_authority s)) \<noteq> None"
  then obtain d where d: "ce_decision (evaluate_conflict s cid (es_authority s)) = Some d" by blast
  from decision_sound [OF d valid_policy_values_finite [OF assms(2)]] obtain c primary where
    "unique_best (es_policy s) (set (build_candidates s (es_authority s) c primary (sort (cc_associated c)))) (dec_chosen d)"
    by metis
  from chosen_constraints(6) [OF this] show False by (simp add: make_fence_current assms(1))
qed

lemma bench_governor_sel:
  "es_conflicts (gs_engine bench_governor) = []" "gs_nextConflictId bench_governor = 1"
  "au_workloadBoots (es_authority (gs_engine bench_governor)) = []" "valid_policy (es_policy (gs_engine bench_governor))"
proof -
  have fin: "f64_isfinite (f64_lit 100 1)" "f64_isfinite (f64_lit 1 1)"
    unfolding f64_small_integers by (simp_all add: f64_patterns)
  have "default_WorkloadPolicy\<lparr>wp_workload := Id 2, wp_value := v\<rparr> = default_WorkloadPolicy
      \<lparr>wp_workload := Id 2, wp_value := v, wp_nonPreemptible := \<not> True, wp_preemptionAllowed := True\<rparr>" for v
    by (simp add: default_WorkloadPolicy_def)
  then have b: "bench_governor = snd (set_policy (program_policy (f64_lit 100 1) (f64_lit 1 1) True) (snd (set_authority
      (default_AuthorityContext\<lparr>au_coordinatorEpoch := Id 1, au_policyGeneration := Id 1\<rparr>) default_GovernorState)))"
    by (simp add: bench_governor_def program_policy_def Let_def split_beta less_Id_def)
  show "es_conflicts (gs_engine bench_governor) = []" "gs_nextConflictId bench_governor = 1"
    "au_workloadBoots (es_authority (gs_engine bench_governor)) = []" "valid_policy (es_policy (gs_engine bench_governor))"
    using program_policy_valid [OF fin, of True]
    by (simp_all add: b set_policy_def set_authority_def validate_policy_ok Let_def on_authority_def
        default_GovernorState_def default_EngineState_def default_AuthorityContext_def)
qed

lemma bench_ingest_frame:
  "es_authority (gs_engine (bench_ingest n i g)) = es_authority (gs_engine g)"
  "es_policy (gs_engine (bench_ingest n i g)) = es_policy (gs_engine g)"
  by (induction n arbitrary: i g) (simp_all add: Let_def split_beta frame_simps)

text \<open>
  A round evaluates at most two conflicts and decides nothing; it saves nothing, and loads whatever the
  file held before.
\<close>

lemma bench_scale_measures:
  assumes "bench_scale windows sio lio n fs = (r, fs')"
  shows "length (br_evaluations r) = min (unat n) 2" "\<forall>ev \<in> set (br_evaluations r). ce_decision ev = None"
    "br_save r = status_good" "fs' = fs"
    "(br_load r, gv_state (br_loaded r)) = load_state lio ''bench_state.bin'' fs default_GovernorState"
proof -
  let ?g = "bench_ingest (unat n) 0 bench_governor"
  have r: "r = \<lparr>br_evaluations = map (\<lambda>cid. evaluate cid ?g) (take 10000 (conflict_ids ?g)), br_save = status_good,
        br_load = fst (load_governor lio fs (new_Governor True ''bench_state.bin'')),
        br_loaded = snd (load_governor lio fs (new_Governor True ''bench_state.bin''))\<rparr>" "fs' = fs"
    using assms by (auto simp: bench_scale_def Let_def split_beta save_governor_def new_Governor_def)
  have "bench_subjects ?g (min (0 + unat n) 2)"
    using less_imp_le [OF unsigned_less [of n, where ?'a = nat]] by (intro bench_ingest_subjects) (simp_all add: bench_subjects_def bench_governor_sel)
  then have "length (es_conflicts (gs_engine ?g)) = min (unat n) 2"
    unfolding bench_subjects_def by (auto dest!: arg_cong [where f = length] simp: One_nat_def numeral_2_eq_2)
  then show "length (br_evaluations r) = min (unat n) 2" by (simp add: r conflict_ids_def)
  show "\<forall>ev \<in> set (br_evaluations r). ce_decision ev = None"
    using unknown_target_no_decision [of "gs_engine ?g"] by (auto simp: r evaluate_def bench_ingest_frame bench_governor_sel)
  show "br_save r = status_good" "fs' = fs" by (simp_all add: r)
  show "(br_load r, gv_state (br_loaded r)) = load_state lio ''bench_state.bin'' fs default_GovernorState"
    by (simp add: r load_governor_def new_Governor_def split_beta)
qed

lemma bench_rounds_measure:
  "snd (bench_rounds windows sio lio ns fs) = fs
   \<and> list_all2 (\<lambda>n r. length (br_evaluations r) = min (unat n) 2 \<and> (\<forall>ev \<in> set (br_evaluations r). ce_decision ev = None)
        \<and> br_save r = status_good
        \<and> (br_load r, gv_state (br_loaded r)) = load_state lio ''bench_state.bin'' fs default_GovernorState)
       ns (fst (bench_rounds windows sio lio ns fs))"
proof (induction ns)
  case (Cons n ns)
  obtain r fs' where "bench_scale windows sio lio n fs = (r, fs')" by fastforce
  with bench_scale_measures [OF this] Cons show ?case by (simp add: split_beta)
qed simp

section \<open>What the CUDA proof reports\<close>

lemma f64_cuda_literals:
  "f64_lit 3 100 = F64 0x3F9EB851EB851EB8" "f64_lit 1 100 = F64 0x3F847AE147AE147B" "f64_lit 90 1 = F64 0x4056800000000000"
  by (subst f64_litI [of 58], simp_all add: f64_eval, subst f64_litI [of 59], simp_all add: f64_eval,
      subst f64_litI [of 46], simp_all add: f64_eval)

lemma cuda_policy_sel:
  "p_actionabilityThreshold (cuda_policy flip) = f64_lit 3 100" "p_minConfidenceForDisruptive (cuda_policy flip) = f64_lit 6 10"
  "p_minAttributionForDisruptive (cuda_policy flip) = AS_CONTROLLED_COMPARISON" "p_throttleAllowed (cuda_policy flip)"
  "p_budget (cuda_policy flip) = default_ActionBudget" "p_generation (cuda_policy flip) = Id 1"
  "hard_constraints (cuda_policy flip) (workload_policy_for (cuda_policy flip) (Id 2)) IC_THROTTLE"
  using throttle_floor_positive
  by (simp_all add: cuda_policy_def default_ContentionPolicy_def hard_constraints_def workload_policy_for_def less_Id_def
      default_WorkloadPolicy_def Let_def)

lemma cuda_policy_valid: "valid_policy (cuda_policy flip)"
proof -
  have "valid_workload (default_WorkloadPolicy\<lparr>wp_workload := w, wp_value := v\<rparr>)" if "f64_isfinite v" for v w
    using that by (simp add: valid_workload_def default_WorkloadPolicy_def not_outside_unit_def f64_patterns f64_consts)
  moreover have "f64_isfinite (f64_lit 100 1)" "f64_isfinite (f64_lit 1 1)" "f64_isfinite (f64_lit 90 1)"
    unfolding f64_small_integers f64_cuda_literals by (simp_all add: f64_patterns)
  moreover have "not_outside_unit (f64_lit 3 100)" "not_outside_unit (f64_lit 1 100)" "\<not> f64_le (f64_lit 3 100) (f64_lit 1 100)"
    unfolding f64_cuda_literals by (simp_all add: not_outside_unit_def f64_patterns f64_consts)
  ultimately show ?thesis
    using default_policy_valid by (simp add: valid_policy_def cuda_policy_def less_Id_def Let_def)
qed

definition cuda_governor :: "bool \<Rightarrow> GovernorState" where
  "cuda_governor flip = default_GovernorState
     \<lparr>gs_engine := default_EngineState\<lparr>es_policy := cuda_policy flip, es_authority := base_authority\<rparr>\<rparr>"

lemma cuda_governor_eq:
  "snd (set_policy (cuda_policy flip) (snd (set_authority base_authority default_GovernorState))) = cuda_governor flip"
proof -
  have "base_authority\<lparr>au_policyGeneration := Id 1\<rparr> = base_authority" by (simp add: base_authority_def)
  then show ?thesis
    using cuda_policy_valid [of flip]
    by (simp add: set_authority_def set_policy_def on_engine_def on_authority_def Let_def validate_policy_ok
        cuda_governor_def cuda_policy_sel default_GovernorState_def)
qed


text \<open>A current throttle that the adapter accepts is dispatched and acknowledged.\<close>

lemma dispatch_accepted:
  assumes "om_find (es_interventions (gs_engine st)) iid = Some i" "ir_state i = LS_AUTHORIZED" "ir_cls i = IC_THROTTLE"
    "fence_current (es_authority (gs_engine st)) (ir_fence i) (ir_target i)"
    "ad_throttle reg = Some thr" "ar_outcome (throttle_apply thr (ir_attemptId i) (ir_target i) IC_THROTTLE f64_one) = AO_ACCEPTED"
  obtains st' i' where "dispatch (Some reg) iid now st = (status_good, st')"
    "es_interventions (gs_engine st') = om_put iid i' (om_put iid (i\<lparr>ir_state := LS_DISPATCHED,
        ir_dispatchId := Id (gs_nextDispatchId st), ir_dispatchedAt := now\<rparr>) (es_interventions (gs_engine st)))"
    "ir_state i' = LS_ACKNOWLEDGED" "ir_conflictId i' = ir_conflictId i" "ir_target i' = ir_target i"
proof -
  let ?i = "i\<lparr>ir_state := LS_DISPATCHED, ir_dispatchId := Id (gs_nextDispatchId st), ir_dispatchedAt := now\<rparr>"
  let ?res = "throttle_apply thr (ir_attemptId i) (ir_target i) IC_THROTTLE f64_one"
  have run: "dispatch (Some reg) iid now st = (status_good,
      on_engine (put_intervention iid (apply_outcome ?res ?i))
        (on_engine (put_intervention iid ?i) (st\<lparr>gs_nextDispatchId := gs_nextDispatchId st + 1\<rparr>)))"
    using assms(1-5)
    by (simp add: dispatch_def dispatch_begin_def dispatch_finish_def call_adapter_def Let_def revalidate_ok)
  have acked: "ir_state (apply_outcome ?res ?i) = LS_ACKNOWLEDGED" by (simp add: apply_outcome_def assms(6))
  show thesis by (rule that [OF run _ acked]) simp_all
qed

definition cuda_loss :: "double \<Rightarrow> double \<Rightarrow> double" where
  "cuda_loss base_tp tp = compute_degradation MD_HIGHER_IS_BETTER base_tp tp"

text \<open>The state in which the re-measurement leaves the conflict.\<close>

definition cuda_state :: "double \<Rightarrow> double \<Rightarrow> double \<Rightarrow> ConflictState" where
  "cuda_state base_tp corun_tp post_tp =
     (if \<not> structurally_valid (cuda_evidence base_tp post_tp (cuda_loss base_tp post_tp)) then CS_INTERVENTION_AUTHORIZED
      else if f64_le (cuda_loss base_tp post_tp) (f64_lit 3 100) then CS_RESOLVED
      else if f64_lt (cuda_loss base_tp post_tp) (cuda_loss base_tp corun_tp) then CS_PARTIALLY_RESOLVED
      else CS_UNRESOLVED)"

lemma cuda_evidence_sel:
  "ie_victim (cuda_evidence b x d) = Id 1" "ie_id (cuda_evidence b x d) = Id 1" "ie_neighbors (cuda_evidence b x d) = [Id 2]"
  "ie_degradation (cuda_evidence b x d) = d" "ie_domain (cuda_evidence b x d) = RD_COMPUTE"
  "ie_degradation (with_fractions (cuda_evidence b x d)) = cuda_loss b x"
  "ie_unresolvedConfounders (cuda_evidence b x d) = []" "ie_attribution (cuda_evidence b x d) = AS_CONTROLLED_COMPARISON"
  "ie_confidence (cuda_evidence b x d) = f64_lit 9 10" "ie_status (cuda_evidence b x d) = ES_CURRENT"
  "ie_generation (cuda_evidence b x d) = Id 1"
  by (simp_all add: cuda_evidence_def with_fractions_def cuda_loss_def default_InterferenceEvidence_def)

lemma cuda_evidence_with_fractions:
  "structurally_valid (with_fractions (cuda_evidence b x (cuda_loss b x))) = structurally_valid (cuda_evidence b x (cuda_loss b x))"
  by (simp add: structurally_valid_def with_fractions_def cuda_evidence_def cuda_loss_def)

text \<open>The governor after the measured observation, when that is valid.\<close>

lemma cuda_observed:
  assumes "structurally_valid (cuda_evidence b x (cuda_loss b x))"
  obtains st c where "ingest_evidence (cuda_evidence b x (cuda_loss b x)) (cuda_governor flip) = (status_good, st)"
    "gs_engine st = (gs_engine (cuda_governor flip))\<lparr>es_conflicts := [(Id 1, c)],
       es_evidence := [(Id 1, with_fractions (cuda_evidence b x (cuda_loss b x)))]\<rparr>"
    "cc_id c = Id 1" "cc_affected c = [Id 1]" "cc_associated c = [Id 2]" "cc_domain c = RD_COMPUTE"
    "cc_degradation c = cuda_loss b x" "cc_evidenceIds c = [Id 1]" "gs_nextInterventionId st = 1"
proof -
  let ?e = "cuda_evidence b x (cuda_loss b x)"
  have "status_ok (validate_evidence ?e)" using assms by (simp add: validate_evidence_ok cuda_evidence_sel)
  note i = ingest_first [where e = ?e and g = "cuda_governor flip", OF _ _ _ this]
  have w: "ie_neighbors (with_fractions ?e) = [Id 2]" "ie_victim (with_fractions ?e) = Id 1" "ie_id (with_fractions ?e) = Id 1"
    "ie_domain (with_fractions ?e) = RD_COMPUTE"
    by (simp_all add: with_fractions_def cuda_evidence_sel)
  show thesis
    by (rule that [where c = "progress_conflict (cuda_policy flip) (with_fractions ?e)
          (new_conflict (with_fractions ?e) (Id 1) (gs_engine (cuda_governor flip)))"], rule i)
      (simp_all add: cuda_governor_def default_EngineState_def default_GovernorState_def cuda_evidence_sel w on_engine_def
        new_conflict_def)
qed


lemma loss_not_nan: "\<not> f64_is_nan (cuda_loss b x)"
  using compute_degradation_nonneg [of MD_HIGHER_IS_BETTER b x] by (auto simp: cuda_loss_def f64_le_def)

lemma cuda_not_below:
  "\<not> f64_lt (cuda_loss b x) (f64_lit 3 100) \<longleftrightarrow> f64_le (f64_lit 3 100) (cuda_loss b x)"
  using loss_not_nan [of b x] by (auto simp: f64_cmp_defs)

text \<open>What a valid measurement makes of the only conflict, whose intervention was acknowledged.\<close>

lemma acknowledged_verdict:
  assumes "es_conflicts (gs_engine st) = [(Id 1, c)]" "cc_id c = Id 1" "es_interventions (gs_engine st) = [(Id 1, i)]"
    "ir_state i = LS_ACKNOWLEDGED" "ir_conflictId i = Id 1" "cc_affected c = [v]" "cc_domain c = RD_COMPUTE"
    "status_ok (validate_evidence pe)" "ie_victim pe = v" "ie_domain pe = RD_COMPUTE" "id_value (ie_id pe) \<noteq> 0"
  shows "map_option cc_state (conflict_of (Id 1) (snd (submit_post_action_evidence pe st))) =
    Some (snd (outcome_states (classify_outcome False (cc_degradation c) (ie_degradation (with_fractions pe))
      (p_actionabilityThreshold (es_policy (gs_engine st))))))"
proof -
  let ?e = "with_fractions pe"
  obtain st1 where s: "store_evidence ?e st = (?e, st1)" "es_conflicts (gs_engine st1) = [(Id 1, c)]"
    "es_interventions (gs_engine st1) = [(Id 1, i)]" "es_policy (gs_engine st1) = es_policy (gs_engine st)"
    using assms(1,3,11) by (simp add: store_evidence_def with_fractions_def Let_def)
  have "om_first (concerns ?e) (es_conflicts (gs_engine st1)) = Some (Id 1, c)"
    using assms(6,7,9,10) by (simp add: s(2) om_first_def concerns_def with_fractions_def)
  then have run: "submit_post_action_evidence pe st = (status_good, on_engine (post_action_engine ?e (Id 1) c) st1)"
    using assms(8) by (simp add: submit_post_action_evidence_def s(1) Let_def)
  have "om_first (verifiable (cc_id c)) (es_interventions (gs_engine st1)) = Some (Id 1, i)"
    using assms(2,4,5) by (simp add: s(3) om_first_def verifiable_def)
  moreover have "verdict (gs_engine st1) ?e (Id 1) c i = classify_outcome False (cc_degradation c) (ie_degradation ?e)
      (p_actionabilityThreshold (es_policy (gs_engine st)))"
    by (simp add: verdict_def secondary_violation_def s(2,4) assms(2))
  ultimately show ?thesis by (simp add: run conflict_of_def post_action_engine_sel(2))
qed

lemma cuda_acts:
  assumes "structurally_valid (cuda_evidence b x (cuda_loss b x))" "\<not> f64_lt (cuda_loss b x) (f64_lit 3 100)"
    "ingest_evidence (cuda_evidence b x (cuda_loss b x)) (cuda_governor flip) = (status_good, st)"
    "gs_engine st = (gs_engine (cuda_governor flip))\<lparr>es_conflicts := [(Id 1, c)],
       es_evidence := [(Id 1, with_fractions (cuda_evidence b x (cuda_loss b x)))]\<rparr>"
    "cc_id c = Id 1" "cc_affected c = [Id 1]" "cc_associated c = [Id 2]" "cc_domain c = RD_COMPUTE"
    "cc_degradation c = cuda_loss b x" "cc_evidenceIds c = [Id 1]" "gs_nextInterventionId st = 1"
  obtains d where "ce_decision (evaluate (Id 1) st) = Some d"
    "cuda_act d (cuda_loss b x) b x post (Id 1) st = Some (Acted \<lparr>ca_class = cand_cls (dec_chosen d), ca_target = Id 2,
       ca_dispatch = SC_OK, ca_improvement = compute_improvement MD_HIGHER_IS_BETTER x post,
       ca_state = Some (cuda_state b x post)\<rparr>)"
proof -
  let ?e = "with_fractions (cuda_evidence b x (cuda_loss b x))"
  note sel = assms(4) cuda_governor_def default_EngineState_def
  have pol: "es_policy (gs_engine st) = cuda_policy flip" "es_authority (gs_engine st) = base_authority"
    "es_fairness (gs_engine st) = []" "es_interventions (gs_engine st) = []" "es_conflicts (gs_engine st) = [(Id 1, c)]"
    "es_evidence (gs_engine st) = [(Id 1, ?e)]"
    by (simp_all add: sel)
  have e: "ie_status ?e = ES_CURRENT" "structurally_valid ?e" "ie_attribution ?e = AS_CONTROLLED_COMPARISON"
    "ie_confidence ?e = f64_lit 9 10" "ie_unresolvedConfounders ?e = []"
    using assms(1) by (simp_all add: cuda_evidence_with_fractions) (simp_all add: with_fractions_def cuda_evidence_sel)
  have act: "actionable_with (gs_engine st) c ?e"
    using assms(2)
    by (simp add: actionable_with_def pol assms(7,9,10) e cuda_policy_sel f64_literals f64_patterns)
  have open_: "throttle_open (gs_engine st) (Id 2)"
    using cuda_policy_valid by (simp add: throttle_open_def pol cuda_policy_sel fairness_capped_def base_authority_def less_Id_def)
  have c: "om_find (es_conflicts (gs_engine st)) (Id 1) = Some c" "om_find (es_evidence (gs_engine st)) (Id 1) = Some ?e"
    by (simp_all add: pol)
  obtain d where d: "ce_decision (evaluate (Id 1) st) = Some d" "cand_target (dec_chosen d) = Id 2"
    using open_decision [OF c(1) act _ open_] single_target [OF c(1) assms(7) throttle_openD(1) [OF open_]] assms(7)
    by (auto simp: evaluate_def)
  have budget: "\<not> budget_exhausted (p_budget (es_policy (gs_engine st))) IC_THROTTLE"
    by (simp add: pol cuda_policy_sel default_ActionBudget_def default_ActionBudgetStats_def)
  obtain adapter where a: "authorize (Id 1) IC_THROTTLE start st = Inr (Some (Id (gs_nextInterventionId st)),
      commit_intervention (Id 1) c (new_intervention IC_THROTTLE (Id 1) (Id 2)
        (make_fence (es_authority (gs_engine st)) (cc_generation c) (ie_generation ?e) (Id 2) (Id 1)) adapter start st) start st)"
    using throttle_granted [OF c(1) act assms(7) open_ assms(10) c(2) budget] by (auto simp: in_cooldown_def pol)
  let ?i = "new_intervention IC_THROTTLE (Id 1) (Id 2)
    (make_fence (es_authority (gs_engine st)) (cc_generation c) (ie_generation ?e) (Id 2) (Id 1)) adapter start st"
  let ?st1 = "commit_intervention (Id 1) c ?i start st"
  obtain st2 i' where s2: "dispatch (Some CoopAdapter) (Id 1) start ?st1 = (status_good, st2)"
    "es_interventions (gs_engine st2) = [(Id 1, i')]" "ir_state i' = LS_ACKNOWLEDGED" "ir_conflictId i' = Id 1"
    "ir_target i' = Id 2"
  proof (rule dispatch_accepted [of ?st1 "Id 1" ?i CoopAdapter
      "\<lparr>throttle_name = ''CoopThrottle'', throttle_apply = coop_throttle\<rparr>" start])
    show "fence_current (es_authority (gs_engine ?st1)) (ir_fence ?i) (ir_target ?i)"
      using throttle_openD(3) [OF open_] by simp
  qed (simp_all add: pol assms(11) coop_throttle_def CoopAdapter_def)
  have run: "authorize_and_dispatch (Some CoopAdapter) (Id 1) IC_THROTTLE start start st = Inr (status_good, st2)"
    using a budget s2(1) by (simp add: authorize_and_dispatch_def assms(11))
  let ?c1 = "c\<lparr>cc_state := CS_INTERVENTION_AUTHORIZED, cc_selectedIds := cc_selectedIds c @ [Id 1], cc_lastActionAt := start\<rparr>"
  have s2': "es_conflicts (gs_engine st2) = [(Id 1, ?c1)]" "es_policy (gs_engine st2) =
      (cuda_policy flip)\<lparr>p_budget := consume_budget default_ActionBudget IC_THROTTLE start\<rparr>"
    using arg_cong [OF s2(1), of "\<lambda>r. es_conflicts (gs_engine (snd r))"] arg_cong [OF s2(1), of "\<lambda>r. es_policy (gs_engine (snd r))"]
    by (simp_all add: pol assms(11) cuda_policy_sel)
  let ?pe = "(cuda_evidence b x (cuda_loss b x))\<lparr>ie_id := Id 2, ie_generation := Id 2, ie_sampledAt := 3000,
    ie_isolatedBaseline := b, ie_coRunObservation := post, ie_degradation := cuda_loss b post\<rparr>"
  have valid: "status_ok (validate_evidence ?pe) \<longleftrightarrow> structurally_valid (cuda_evidence b post (cuda_loss b post))"
    by (simp add: validate_evidence_ok structurally_valid_def cuda_evidence_def)
  have "map_option cc_state (conflict_of (Id 1) (snd (submit_post_action_evidence ?pe st2))) = Some (cuda_state b x post)"
  proof (cases "structurally_valid (cuda_evidence b post (cuda_loss b post))")
    case False
    then show ?thesis by (simp add: submit_post_action_evidence_def valid Let_def conflict_of_def s2' cuda_state_def)
  next
    case True
    have pe: "ie_victim ?pe = Id 1" "ie_domain ?pe = RD_COMPUTE" "id_value (ie_id ?pe) \<noteq> 0"
      "ie_degradation (with_fractions ?pe) = cuda_loss b post"
      by (simp_all add: with_fractions_def cuda_loss_def cuda_evidence_sel) (simp_all add: cuda_evidence_def)
    have m: "map_option cc_state (conflict_of (Id 1) (snd (submit_post_action_evidence ?pe st2))) =
      Some (snd (outcome_states (classify_outcome False (cc_degradation ?c1) (ie_degradation (with_fractions ?pe))
        (p_actionabilityThreshold (es_policy (gs_engine st2))))))"
      by (rule acknowledged_verdict [OF s2'(1) _ s2(2-4)]) (simp_all only: pe(1-3) valid True, simp_all add: assms(5,6,8))
    show ?thesis
      unfolding m using True by (simp add: pe(4) s2'(2) cuda_policy_sel classify_outcome_def cuda_state_def assms(9))
  qed
  then show thesis
    using that [OF d(1)] d(2) run by (simp add: cuda_act_def cuda_loss_def split_beta status_good_def)
qed

text \<open>The whole program.\<close>

definition cuda_throughput :: "double \<Rightarrow> double" where
  "cuda_throughput ms = f64_divide (f64_lit 1 1) ms"

lemma cuda_main_reports:
  fixes base_ms corun_ms post_ms :: double
  defines "b \<equiv> cuda_throughput base_ms" and "x \<equiv> cuda_throughput corun_ms"
  shows "\<exists>cls. cuda_main base_ms corun_ms post_ms flip memBefore freeNow =
    Some (cuda_exit memBefore freeNow, cuda_loss b x,
      if \<not> structurally_valid (cuda_evidence b x (cuda_loss b x)) then No_conflict
      else if f64_lt (cuda_loss b x) (f64_lit 3 100) then No_interference
      else Acted \<lparr>ca_class = cls, ca_target = Id 2, ca_dispatch = SC_OK,
        ca_improvement = compute_improvement MD_HIGHER_IS_BETTER x (cuda_throughput post_ms),
        ca_state = Some (cuda_state b x (cuda_throughput post_ms))\<rparr>)"
proof (cases "structurally_valid (cuda_evidence b x (cuda_loss b x))")
  case False
  then have "conflict_ids (snd (ingest_evidence (cuda_evidence b x (cuda_loss b x)) (cuda_governor flip))) = []"
    by (simp add: ingest_evidence_def validate_evidence_ok Let_def conflict_ids_def cuda_governor_def default_EngineState_def)
  then show ?thesis
    using False
    by (simp add: cuda_main_def cuda_governor_eq split_beta Let_def flip: cuda_throughput_def b_def x_def cuda_loss_def)
next
  case True
  obtain st c where st: "ingest_evidence (cuda_evidence b x (cuda_loss b x)) (cuda_governor flip) = (status_good, st)"
    "gs_engine st = (gs_engine (cuda_governor flip))\<lparr>es_conflicts := [(Id 1, c)],
       es_evidence := [(Id 1, with_fractions (cuda_evidence b x (cuda_loss b x)))]\<rparr>"
    "cc_id c = Id 1" "cc_affected c = [Id 1]" "cc_associated c = [Id 2]" "cc_domain c = RD_COMPUTE"
    "cc_degradation c = cuda_loss b x" "cc_evidenceIds c = [Id 1]" "gs_nextInterventionId st = 1"
    by (rule cuda_observed [OF True])
  have ids: "conflict_ids st = [Id 1]" by (simp add: conflict_ids_def st(2))
  show ?thesis
  proof (cases "f64_lt (cuda_loss b x) (f64_lit 3 100)")
    case less: True
    then show ?thesis
      using True
      by (simp add: cuda_main_def cuda_governor_eq split_beta Let_def st(1) ids flip: cuda_throughput_def b_def x_def cuda_loss_def)
  next
    case enough: False
    obtain d where d: "ce_decision (evaluate (Id 1) st) = Some d"
      "cuda_act d (cuda_loss b x) b x (cuda_throughput post_ms) (Id 1) st = Some (Acted \<lparr>ca_class = cand_cls (dec_chosen d),
         ca_target = Id 2, ca_dispatch = SC_OK, ca_improvement = compute_improvement MD_HIGHER_IS_BETTER x (cuda_throughput post_ms),
         ca_state = Some (cuda_state b x (cuda_throughput post_ms))\<rparr>)"
      by (rule cuda_acts [OF True enough st])
    then show ?thesis
      using True enough
      by (simp add: cuda_main_def cuda_governor_eq split_beta Let_def st(1) ids flip: cuda_throughput_def b_def x_def cuda_loss_def)
  qed
qed

declare One_nat_def [simp]

end
