(* ===== verification/CG_Cuda.thy ===== *)
theory CG_Cuda
  imports CG_Drivers
begin

text \<open>
  The device side of \<^verbatim>\<open>cuda_proof/cuda_proof.cu\<close>: the kernel over its grid, the measurement and the
  whole program as the sequence of calls of the CUDA library that it makes. What the library answers is
  an input: which checked call fails first, the elapsed times, the free device memory. The lemmas say that the grid
  covers the buffers exactly, that every run that gets past its checks gives back what it took, and which
  measurements have the neighbour running.
\<close>

section \<open>The kernel\<close>

record 'f float4 =
  f4_x :: 'f
  f4_y :: 'f
  f4_z :: 'f
  f4_w :: 'f

text \<open>The device's single precision arithmetic, and the literals of the kernel in it.\<close>

record 'f device_float =
  df_fmaf :: "'f \<Rightarrow> 'f \<Rightarrow> 'f \<Rightarrow> 'f"
  df_add :: "'f \<Rightarrow> 'f \<Rightarrow> 'f"
  df_mul :: "'f \<Rightarrow> 'f \<Rightarrow> 'f"
  df_lit :: "nat \<Rightarrow> nat \<Rightarrow> 'f"

definition kernel_step :: "'f device_float \<Rightarrow> 'f float4 \<Rightarrow> 'f float4" where
  "kernel_step F v =
     (let v = v\<lparr>f4_x := df_fmaf F (f4_x v) (df_lit F 10001 10000) (df_lit F 5 10)\<rparr>;
          v = v\<lparr>f4_y := df_fmaf F (f4_y v) (df_lit F 9999 10000) (df_lit F 25 100)\<rparr>;
          v = v\<lparr>f4_z := df_add F (f4_x v) (f4_y v)\<rparr>
      in v\<lparr>f4_w := df_mul F (f4_z v) (df_lit F 5 10)\<rparr>)"

text \<open>One thread, with the index of its block, the size of a block and its index in the block.\<close>

definition bw_kernel ::
  "'f device_float \<Rightarrow> nat \<Rightarrow> nat \<Rightarrow> 'f float4 list \<Rightarrow> nat \<Rightarrow> nat \<Rightarrow> nat \<Rightarrow> 'f float4 list \<Rightarrow> 'f float4 list" where
  "bw_kernel F n iters src blockDim blockIdx threadIdx dst =
     (let i = blockIdx * blockDim + threadIdx
      in if i \<ge> n then dst else dst[i := (kernel_step F ^^ iters) (src ! i)])"

text \<open>A launch: the threads of the grid, here in the order of their indices.\<close>

definition bw_launch :: "'f device_float \<Rightarrow> nat \<Rightarrow> nat \<Rightarrow> nat \<Rightarrow> nat \<Rightarrow> 'f float4 list \<Rightarrow> 'f float4 list \<Rightarrow> 'f float4 list" where
  "bw_launch F blocks threads n iters src dst =
     fold (\<lambda>(b, t). bw_kernel F n iters src threads b t) (List.product [0..<blocks] [0..<threads]) dst"

definition kElems :: nat where "kElems = 2 ^ 22"
definition kIters :: nat where "kIters = 4000"

definition kernel_blocks :: "nat \<Rightarrow> nat" where "kernel_blocks threads = (kElems + threads - 1) div threads"

section \<open>Calls of the library\<close>

datatype buffer = Buf_src | Buf_dstA | Buf_dstB
datatype stream = Stream_1 | Stream_2
datatype event = Event_0 | Event_1 | Event_2 | Event_3

datatype cuda_call =
    Get_device
  | Get_device_properties
  | Mem_get_info
  | Malloc buffer
  | Memcpy_to_device buffer
  | Stream_create stream
  | Stream_destroy stream
  | Free buffer
  | Event_create event
  | Event_record event stream
  | Event_synchronize event
  | Event_elapsed event event
  | Event_destroy event
  | Launch buffer buffer stream

section \<open>A measurement\<close>

record Measured =
  me_baseline_ms :: double
  me_corun_ms :: double
  me_post_ms :: double

text \<open>
  The times that \<^verbatim>\<open>cudaEventElapsedTime\<close> stores, widened from \<^verbatim>\<open>float\<close>; \<open>None\<close> when the call, whose
  result is not looked at, fails and leaves the field at 0.
\<close>

type_synonym elapsed = "double option \<times> double option \<times> double option"

definition measure_A :: "elapsed \<Rightarrow> bool \<Rightarrow> cuda_call list \<times> Measured" where
  "measure_A ts runB =
     (let (baseline, corun, post) = ts; ms = (\<lambda>t. case t of Some d \<Rightarrow> d | None \<Rightarrow> f64_zero)
      in (map Event_create [Event_0, Event_1, Event_2, Event_3]
          @ [Event_record Event_0 Stream_1, Launch Buf_src Buf_dstA Stream_1, Event_record Event_1 Stream_1,
             Event_synchronize Event_1, Event_elapsed Event_0 Event_1]
          @ (if runB then [Launch Buf_src Buf_dstB Stream_2] else [])
          @ [Event_record Event_2 Stream_1, Launch Buf_src Buf_dstA Stream_1, Event_record Event_3 Stream_1,
             Event_synchronize Event_3, Event_elapsed Event_2 Event_3]
          @ [Event_record Event_0 Stream_1, Launch Buf_src Buf_dstA Stream_1, Event_record Event_1 Stream_1,
             Event_synchronize Event_1, Event_elapsed Event_0 Event_1]
          @ map Event_destroy [Event_0, Event_1, Event_2, Event_3],
          \<lparr>me_baseline_ms = ms baseline, me_corun_ms = ms corun, me_post_ms = ms post\<rparr>))"

section \<open>The program\<close>

text \<open>The calls under \<^verbatim>\<open>CU_CHECK\<close> before the measurements; the first that fails ends the program with 1.\<close>

definition cuda_setup :: "cuda_call list" where
  "cuda_setup = [Get_device, Get_device_properties, Mem_get_info, Malloc Buf_src, Malloc Buf_dstA, Malloc Buf_dstB,
     Memcpy_to_device Buf_src, Stream_create Stream_1, Stream_create Stream_2]"

definition cuda_cleanup :: "cuda_call list" where
  "cuda_cleanup = [Stream_destroy Stream_1, Stream_destroy Stream_2, Free Buf_src, Free Buf_dstA, Free Buf_dstB]"

fun cu_check :: "(cuda_call \<Rightarrow> bool) \<Rightarrow> cuda_call list \<Rightarrow> cuda_call list \<times> bool" where
  "cu_check succeeds [] = ([], True)"
| "cu_check succeeds (c # cs) =
     (if succeeds c then let (done, ok) = cu_check succeeds cs in (c # done, ok) else ([c], False))"

record CudaIo =
  cu_succeeds :: "cuda_call \<Rightarrow> bool"
  cu_base :: elapsed
  cu_corun :: elapsed
  cu_post :: elapsed
  cu_memBefore :: u64
  cu_freeNow :: u64
  cu_last_check :: bool

text \<open>The exit code, what the governor's part reports, and the calls made.\<close>

definition cuda_process :: "string list \<Rightarrow> CudaIo \<Rightarrow> (nat \<times> (double \<times> cuda_report) option \<times> cuda_call list) option" where
  "cuda_process argv io =
     (let flip = (1 < length argv \<and> argv ! 1 = ''flip'');
          (before, ok) = cu_check (cu_succeeds io) cuda_setup
      in if \<not> ok then Some (1, None, before)
         else let (c1, base) = measure_A (cu_base io) False;
                  (c2, corun) = measure_A (cu_corun io) True;
                  (c3, post) = measure_A (cu_post io) False
              in map_option (\<lambda>(code, degrad, report).
                   (if cu_last_check io then code else 1, Some (degrad, report),
                    before @ c1 @ c2 @ (case report of Acted _ \<Rightarrow> c3 | _ \<Rightarrow> []) @ cuda_cleanup @ [Mem_get_info]))
                 (cuda_main (me_baseline_ms base) (me_corun_ms corun) (me_post_ms post) flip (cu_memBefore io) (cu_freeNow io)))"

section \<open>The grid covers the buffers\<close>

lemma bw_kernel_step: "bw_kernel F n iters src d b t = (\<lambda>dst. if b * d + t < n
    then dst[b * d + t := (kernel_step F ^^ iters) (src ! (b * d + t))] else dst)"
  by (rule ext) (simp add: bw_kernel_def Let_def not_le)

lemma product_index: "map (\<lambda>(b, t). b * d + t) (List.product [0..<k] [0..<d]) = [0..<k * d]"
proof (induction k)
  case (Suc k)
  have row: "map (\<lambda>t. k * d + t) [0..<d] = [k * d..<Suc k * d]"
    using map_add_upt [of "k * d" d] by (simp add: add.commute)
  have "List.product [0..<Suc k] [0..<d] = List.product [0..<k] [0..<d] @ map (Pair k) [0..<d]"
    by (simp add: product_concat_map)
  then have "map (\<lambda>(b, t). b * d + t) (List.product [0..<Suc k] [0..<d]) = [0..<k * d] @ [k * d..<Suc k * d]"
    using Suc row by (simp add: comp_def)
  moreover have "[0..<Suc k * d] = [0..<k * d] @ [k * d..<Suc k * d]"
    by (metis add.commute le_add1 mult_Suc upt_add_eq_append zero_le)
  ultimately show ?case by (simp only:)
qed simp

lemma fold_updates:
  "length dst = n \<Longrightarrow> fold (\<lambda>i dst. if i < n then dst[i := f i] else dst) [0..<m] dst = map f [0..<min m n] @ drop m dst"
proof (induction m)
  case (Suc m)
  show ?case
  proof (cases "m < n")
    case True
    then have "drop m dst = dst ! m # drop (Suc m) dst" using Suc.prems by (simp add: Cons_nth_drop_Suc)
    then show ?thesis using True Suc by (simp add: list_update_append min_def)
  next
    case False
    then show ?thesis using Suc by (simp add: min_def)
  qed
qed simp

text \<open>When the grid has at least \<open>n\<close> threads, every element is computed once and nothing else is written.\<close>

lemma bw_launch_all:
  assumes "length src = n" "length dst = n" "n \<le> blocks * threads"
  shows "bw_launch F blocks threads n iters src dst = map (kernel_step F ^^ iters) src"
proof -
  let ?f = "\<lambda>i. (kernel_step F ^^ iters) (src ! i)"
  have "bw_launch F blocks threads n iters src dst =
      fold (\<lambda>i dst. if i < n then dst[i := ?f i] else dst) (map (\<lambda>(b, t). b * threads + t) (List.product [0..<blocks] [0..<threads])) dst"
    unfolding bw_launch_def fold_map by (rule fold_cong) (auto simp: bw_kernel_step fun_eq_iff)
  also have "\<dots> = map ?f [0..<n]" unfolding product_index fold_updates [OF assms(2)] using assms(2,3) by (simp add: min_absorb2)
  also have "\<dots> = map (kernel_step F ^^ iters) src" using assms(1) by (auto intro: nth_equalityI)
  finally show ?thesis .
qed

lemma kernel_grid: "kernel_blocks 256 * 256 = kElems"
  by (simp add: kernel_blocks_def kElems_def)

section \<open>What the program takes and gives back\<close>

lemma cu_check_all: "list_all succeeds cs \<Longrightarrow> cu_check succeeds cs = (cs, True)"
  by (induction cs) auto

lemma cu_check_fails: "\<not> list_all succeeds cs \<Longrightarrow> \<exists>done. cu_check succeeds cs = (done, False) \<and> set done \<subseteq> set cs"
  by (induction cs) (auto simp: Let_def split: prod.splits)

text \<open>The calls that create and release a resource balance.\<close>

definition balanced :: "cuda_call list \<Rightarrow> bool" where
  "balanced calls \<longleftrightarrow> (\<forall>b. count_list calls (Malloc b) = count_list calls (Free b))
     \<and> (\<forall>s. count_list calls (Stream_create s) = count_list calls (Stream_destroy s))
     \<and> (\<forall>e. count_list calls (Event_create e) = count_list calls (Event_destroy e))"

definition cuda_calls :: "CudaIo \<Rightarrow> cuda_report \<Rightarrow> cuda_call list" where
  "cuda_calls io rep =
     cuda_setup @ fst (measure_A (cu_base io) False) @ fst (measure_A (cu_corun io) True)
       @ (case rep of Acted _ \<Rightarrow> fst (measure_A (cu_post io) False) | _ \<Rightarrow> []) @ cuda_cleanup @ [Mem_get_info]"

lemma measure_calls: "fst (measure_A ts runB) = fst (measure_A ts' runB)"
  by (simp add: measure_A_def split_beta Let_def)

lemma cuda_calls_balanced:
  "balanced (cuda_calls io rep)" "count_list (cuda_calls io rep) (Launch Buf_src Buf_dstB Stream_2) = 1"
proof -
  have m: "count_list (fst (measure_A ts runB)) (Event_create e) = 1" "count_list (fst (measure_A ts runB)) (Event_destroy e) = 1"
    "count_list (fst (measure_A ts runB)) (Malloc b) = 0" "count_list (fst (measure_A ts runB)) (Free b) = 0"
    "count_list (fst (measure_A ts runB)) (Stream_create s) = 0" "count_list (fst (measure_A ts runB)) (Stream_destroy s) = 0"
    "count_list (fst (measure_A ts runB)) (Launch Buf_src Buf_dstB Stream_2) = (if runB then 1 else 0)" for ts runB e b s
    by (cases e; simp add: measure_A_def split_beta Let_def)+
  show "balanced (cuda_calls io rep)"
    unfolding balanced_def
  proof (intro conjI allI)
    fix b s e
    show "count_list (cuda_calls io rep) (Malloc b) = count_list (cuda_calls io rep) (Free b)"
      by (cases b) (simp_all add: cuda_calls_def m cuda_setup_def cuda_cleanup_def split: cuda_report.split)
    show "count_list (cuda_calls io rep) (Stream_create s) = count_list (cuda_calls io rep) (Stream_destroy s)"
      by (cases s) (simp_all add: cuda_calls_def m cuda_setup_def cuda_cleanup_def split: cuda_report.split)
    show "count_list (cuda_calls io rep) (Event_create e) = count_list (cuda_calls io rep) (Event_destroy e)"
      by (simp add: cuda_calls_def m cuda_setup_def cuda_cleanup_def split: cuda_report.split)
  qed
  show "count_list (cuda_calls io rep) (Launch Buf_src Buf_dstB Stream_2) = 1"
    by (simp add: cuda_calls_def m cuda_setup_def cuda_cleanup_def split: cuda_report.split)
qed

text \<open>The whole program: \<open>cuda_main\<close> on the measured times, or a failed check.\<close>

lemma cuda_process_checked:
  "list_all (cu_succeeds io) cuda_setup \<Longrightarrow> cuda_process argv io =
     map_option (\<lambda>(code, degrad, rep). (if cu_last_check io then code else 1, Some (degrad, rep), cuda_calls io rep))
       (cuda_main (me_baseline_ms (snd (measure_A (cu_base io) False))) (me_corun_ms (snd (measure_A (cu_corun io) True)))
         (me_post_ms (snd (measure_A (cu_post io) False))) (1 < length argv \<and> argv ! 1 = ''flip'') (cu_memBefore io) (cu_freeNow io))"
  by (simp add: cuda_process_def cu_check_all Let_def split_beta cuda_calls_def)

lemma cuda_process_failed:
  "\<not> list_all (cu_succeeds io) cuda_setup \<Longrightarrow> \<exists>calls. cuda_process argv io = Some (1, None, calls) \<and> set calls \<subseteq> set cuda_setup"
  using cu_check_fails [of "cu_succeeds io" cuda_setup] by (auto simp: cuda_process_def Let_def)

end
