(* ===== verification/Spec_Programs.thy ===== *)
theory Spec_Programs
  imports CG_Cuda
begin

text \<open>
  Properties of the programs that come with the library: the examples end as their names say, the
  CUDA proof acts exactly on a measured interference, and what the benchmark measures.
\<close>

section \<open>The examples\<close>

text \<open>
  C22. Every example passes: it exits with 0 and prints its name with PASS, whatever was in the
  directory that the restarted coordinator clears, if its file operations succeed. None of them
  dereferences an empty result.
\<close>

theorem examples_pass:
  assumes "si_open sio" "2000 \<le> si_written sio" "si_rename sio" "li_open lio" "li_tell lio" "li_read lio"
  shows "basic_pairwise = report ''basic_pairwise_resolution'' True
    \<and> confounded = report ''confounded_evidence_blocks'' True
    \<and> coordinator_restart tmp windows sio lio fs =
        (report ''coordinator_restart_makes_revalidation'' True, remove_all (tmp @ ''/cg_example_restart'') fs)
    \<and> fairness_floor = report ''fairness_limits_repeated_sacrifice'' True
    \<and> hard_slo = report ''hard_slo_non_preemptible_rejected'' True
    \<and> ineffective_action = report ''ineffective_action_detected'' True
    \<and> multiparty = report ''multiparty_representable'' True
    \<and> predispatch_invalidation = report ''predispatch_invalidation'' True
    \<and> shifted_contention = report ''shifted_contention_reported'' True
    \<and> stale_evidence = report ''stale_evidence_no_destructive'' True
    \<and> value_based = report ''value_based_targets_lower_value'' True
    \<and> worker_restart = report ''worker_restart_fences_stale'' True"
  using basic_pairwise_run confounded_run coordinator_restart_run [OF assms] fairness_floor_run hard_slo_run
    ineffective_action_run multiparty_run shifted_contention_run stale_evidence_run value_based_run
  by (simp add: predispatch_invalidation_def worker_restart_def reboot_run)

theorem examples_pass_witness:
  "fst (coordinator_restart ''/tmp'' False \<lparr>si_open = True, si_written = 2000, si_remove = True, si_rename = True\<rparr>
     \<lparr>li_open = True, li_tell = True, li_read = True\<rparr> Map.empty)
   = Some (0, ''coordinator_restart_makes_revalidation PASS'')"
  using examples_pass [of "\<lparr>si_open = True, si_written = 2000, si_remove = True, si_rename = True\<rparr>"
      "\<lparr>li_open = True, li_tell = True, li_read = True\<rparr>" "''/tmp''" False Map.empty]
  by (simp add: report_def print_result_def)

section \<open>The programs that measure\<close>

text \<open>
  C18. The CUDA proof is honest. If a checked call before the measurements fails it exits with 1 and has
  done nothing else. Otherwise, whatever times it measured, it reports no conflict exactly if they
  do not make a valid observation, no interference exactly if the loss of throughput is below 3
  percent, and otherwise acts: a throttle of workload 2 is dispatched with status OK, and the
  conflict ends in the state that the re-measured loss implies. The branch for a conflict below
  the policy's threshold is never taken, and \<^verbatim>\<open>flip\<close> has no influence but on the class that is printed.
  Every buffer, stream and event it made is given back; the neighbour's kernel is launched once, in
  the co-run measurement, whether or not the action was taken. A launch of the program's grid computes
  every element of the buffer once and writes nothing else.
\<close>

theorem cuda_proof_honest:
  fixes io :: CudaIo
  defines "b \<equiv> cuda_throughput (me_baseline_ms (snd (measure_A (cu_base io) False)))"
    and "x \<equiv> cuda_throughput (me_corun_ms (snd (measure_A (cu_corun io) True)))"
    and "post \<equiv> cuda_throughput (me_post_ms (snd (measure_A (cu_post io) False)))"
  shows "(if list_all (cu_succeeds io) cuda_setup
    then \<exists>cls rep. cuda_process argv io =
        Some (if cu_last_check io then cuda_exit (cu_memBefore io) (cu_freeNow io) else 1, Some (cuda_loss b x, rep), cuda_calls io rep)
      \<and> rep = (if \<not> structurally_valid (cuda_evidence b x (cuda_loss b x)) then No_conflict
          else if f64_lt (cuda_loss b x) (f64_lit 3 100) then No_interference
          else Acted \<lparr>ca_class = cls, ca_target = Id 2, ca_dispatch = SC_OK,
            ca_improvement = compute_improvement MD_HIGHER_IS_BETTER x post, ca_state = Some (cuda_state b x post)\<rparr>)
      \<and> balanced (cuda_calls io rep) \<and> count_list (cuda_calls io rep) (Launch Buf_src Buf_dstB Stream_2) = 1
    else \<exists>calls. cuda_process argv io = Some (1, None, calls) \<and> set calls \<subseteq> set cuda_setup)
    \<and> (\<forall>F iters src dst. length src = kElems \<longrightarrow> length dst = kElems \<longrightarrow>
        bw_launch F (kernel_blocks 256) 256 kElems iters src dst = map (kernel_step F ^^ iters) src)"
proof (intro conjI allI impI)
  show "if list_all (cu_succeeds io) cuda_setup
    then \<exists>cls rep. cuda_process argv io =
        Some (if cu_last_check io then cuda_exit (cu_memBefore io) (cu_freeNow io) else 1, Some (cuda_loss b x, rep), cuda_calls io rep)
      \<and> rep = (if \<not> structurally_valid (cuda_evidence b x (cuda_loss b x)) then No_conflict
          else if f64_lt (cuda_loss b x) (f64_lit 3 100) then No_interference
          else Acted \<lparr>ca_class = cls, ca_target = Id 2, ca_dispatch = SC_OK,
            ca_improvement = compute_improvement MD_HIGHER_IS_BETTER x post, ca_state = Some (cuda_state b x post)\<rparr>)
      \<and> balanced (cuda_calls io rep) \<and> count_list (cuda_calls io rep) (Launch Buf_src Buf_dstB Stream_2) = 1
    else \<exists>calls. cuda_process argv io = Some (1, None, calls) \<and> set calls \<subseteq> set cuda_setup"
  proof (cases "list_all (cu_succeeds io) cuda_setup")
    case True
    obtain cls where "cuda_main (me_baseline_ms (snd (measure_A (cu_base io) False))) (me_corun_ms (snd (measure_A (cu_corun io) True)))
         (me_post_ms (snd (measure_A (cu_post io) False))) (1 < length argv \<and> argv ! 1 = ''flip'') (cu_memBefore io) (cu_freeNow io) =
      Some (cuda_exit (cu_memBefore io) (cu_freeNow io), cuda_loss b x,
        if \<not> structurally_valid (cuda_evidence b x (cuda_loss b x)) then No_conflict
        else if f64_lt (cuda_loss b x) (f64_lit 3 100) then No_interference
        else Acted \<lparr>ca_class = cls, ca_target = Id 2, ca_dispatch = SC_OK,
          ca_improvement = compute_improvement MD_HIGHER_IS_BETTER x post, ca_state = Some (cuda_state b x post)\<rparr>)"
      using cuda_main_reports unfolding b_def x_def post_def by blast
    then show ?thesis
      using True cuda_calls_balanced by (intro if_P [THEN iffD2] exI [of _ cls] exI) (auto simp: cuda_process_checked)
  qed (use cuda_process_failed in simp)
qed (simp add: bw_launch_all kernel_grid)

theorem cuda_proof_honest_witness:
  "\<exists>loss rep calls. cuda_process [''cuda_proof'']
      \<lparr>cu_succeeds = (\<lambda>_. True), cu_base = (Some f64_one, None, None), cu_corun = (None, Some (f64_lit 2 1), None),
       cu_post = (None, None, Some f64_one), cu_memBefore = 1000, cu_freeNow = 1000, cu_last_check = True\<rparr> = Some (0, Some (loss, rep), calls)
    \<and> balanced calls
    \<and> (\<forall>F v w. bw_launch F (kernel_blocks 256) 256 kElems kIters (replicate kElems v) (replicate kElems w) =
        replicate kElems ((kernel_step F ^^ kIters) v))"
proof -
  let ?io = "\<lparr>cu_succeeds = (\<lambda>_. True), cu_base = (Some f64_one, None, None), cu_corun = (None, Some (f64_lit 2 1), None),
       cu_post = (None, None, Some f64_one), cu_memBefore = 1000, cu_freeNow = 1000, cu_last_check = True\<rparr>"
  have ok: "list_all (cu_succeeds ?io) cuda_setup" by (simp add: list_all_iff)
  have exit: "(if cu_last_check ?io then cuda_exit (cu_memBefore ?io) (cu_freeNow ?io) else 1) = 0" by (simp add: cuda_exit_def)
  note honest = cuda_proof_honest [of ?io "[''cuda_proof'']"]
  have "bw_launch F (kernel_blocks 256) 256 kElems kIters (replicate kElems v) (replicate kElems w) =
      map (kernel_step F ^^ kIters) (replicate kElems v)" for F v w
    by (rule honest [THEN conjunct2, rule_format]) simp_all
  then show ?thesis using honest [THEN conjunct1, unfolded if_P [OF ok] exit] unfolding map_replicate by blast
qed

text \<open>
  C11. What the benchmark measures. Whatever the scale \<open>n\<close>, its evaluations are of at most two conflicts
  and decide nothing, since the authority knows no workload; its save, of a governor without
  persistence, writes nothing, and its load reads what the file held before the program started.
\<close>

theorem benchmark_measures:
  assumes "bench_main windows sio lio argv fs = (code, rs, fs')"
  shows "code = 0 \<and> fs' = fs
    \<and> list_all2 (\<lambda>n r. length (br_evaluations r) = min (unat n) 2
         \<and> (\<forall>ev \<in> set (br_evaluations r). ce_decision ev = None) \<and> br_save r = status_good
         \<and> (br_load r, gv_state (br_loaded r)) = load_state lio ''bench_state.bin'' fs default_GovernorState)
       (bench_scales argv) rs"
  using assms bench_rounds_measure [of windows sio lio "bench_scales argv" fs] by (simp add: bench_main_def)

theorem benchmark_measures_witness:
  "\<exists>rs. bench_main False \<lparr>si_open = True, si_written = 0, si_remove = True, si_rename = True\<rparr>
      \<lparr>li_open = True, li_tell = True, li_read = True\<rparr> [''bench''] Map.empty = (0, rs, Map.empty)
    \<and> length rs = 4 \<and> (\<forall>r \<in> set rs. length (br_evaluations r) = 2 \<and> br_load r = corrupt ''cannot open persistence file'')"
proof -
  let ?sio = "\<lparr>si_open = True, si_written = 0, si_remove = True, si_rename = True\<rparr>"
  let ?lio = "\<lparr>li_open = True, li_tell = True, li_read = True\<rparr>"
  obtain code rs fs' where run: "bench_main False ?sio ?lio [''bench''] Map.empty = (code, rs, fs')"
    by (cases "bench_main False ?sio ?lio [''bench''] Map.empty") auto
  note m = benchmark_measures [OF run]
  have "load_state ?lio ''bench_state.bin'' Map.empty default_GovernorState =
      (corrupt ''cannot open persistence file'', default_GovernorState)"
    by (simp add: load_state_def)
  then show ?thesis
    using m run by (auto simp: bench_scales_def list_all2_Cons1)
qed

end
