(* ===== verification/CG_System.thy ===== *)
theory CG_System
  imports CG_Drivers CG_Process
begin

text \<open>
  The coordinator and its two workers together: a victim and a workload that slows it down, each
  over a connection that may cut what it carries in any way. The lemmas follow a run in the mode
  \<^verbatim>\<open>basic\<close> from the handshake over the authorization, the action sent to one worker and its
  acknowledgement to the measurement asked of the other and the verdict.
\<close>

section \<open>Two observations of one conflict\<close>

definition worker_loss :: "WorkerConfig \<Rightarrow> double" where
  "worker_loss cfg = compute_degradation MD_HIGHER_IS_BETTER (wc_baseline cfg) (wc_corun cfg)"

definition worker_post_loss :: "WorkerConfig \<Rightarrow> double" where
  "worker_post_loss cfg = compute_degradation MD_HIGHER_IS_BETTER (wc_baseline cfg) (wc_postCorun cfg)"

text \<open>A worker that reports the loss of workload \<open>v\<close> to workload \<open>t\<close>.\<close>

definition reports :: "WorkloadId \<Rightarrow> WorkloadId \<Rightarrow> WorkerConfig \<Rightarrow> bool" where
  "reports v t cfg \<longleftrightarrow> Id (wc_victim cfg) = v \<and> Id (wc_neighbor cfg) = t \<and> wc_victim cfg \<noteq> 0 \<and> wc_neighbor cfg \<noteq> 0
     \<and> 1000 + wc_workerId cfg \<noteq> 0 \<and> structurally_valid (worker_evidence cfg)"

lemma worker_report_sel:
  assumes "reports v t cfg"
  shows "ie_victim (worker_evidence cfg) = v" "ie_neighbors (worker_evidence cfg) = [t]"
    "ie_domain (worker_evidence cfg) = RD_COMPUTE" "ie_metric (worker_evidence cfg) = MD_HIGHER_IS_BETTER"
    "ie_id (worker_evidence cfg) = Id (1000 + wc_workerId cfg)" "ie_status (worker_evidence cfg) = ES_CURRENT"
    "ie_confidence (worker_evidence cfg) = f64_lit 9 10" "ie_generation (worker_evidence cfg) = Id 1"
    "ie_degradation (worker_evidence cfg) = worker_loss cfg" "id_value (ie_id (worker_evidence cfg)) \<noteq> 0"
    "ie_isolatedBaseline (worker_evidence cfg) = wc_baseline cfg" "ie_coRunObservation (worker_evidence cfg) = wc_corun cfg"
    "id_value v \<noteq> 0"
  using assms by (auto simp: reports_def worker_evidence_def worker_loss_def default_InterferenceEvidence_def)

lemma worker_report_valid: "reports v t cfg \<Longrightarrow> status_ok (validate_evidence (worker_evidence cfg))"
  using worker_report_sel [of v t cfg] by (auto simp: validate_evidence_ok reports_def worker_evidence_sel)

lemma with_fractions_report:
  assumes "reports v t cfg"
  shows "ie_victim (with_fractions (worker_evidence cfg)) = v" "ie_neighbors (with_fractions (worker_evidence cfg)) = [t]"
    "ie_domain (with_fractions (worker_evidence cfg)) = RD_COMPUTE" "ie_status (with_fractions (worker_evidence cfg)) = ES_CURRENT"
    "ie_id (with_fractions (worker_evidence cfg)) = Id (1000 + wc_workerId cfg)"
    "ie_degradation (with_fractions (worker_evidence cfg)) = worker_loss cfg"
    "ie_unresolvedConfounders (with_fractions (worker_evidence cfg)) = []"
    "ie_attribution (with_fractions (worker_evidence cfg)) = AS_CONTROLLED_COMPARISON"
    "ie_confidence (with_fractions (worker_evidence cfg)) = f64_lit 9 10"
    "ie_generation (with_fractions (worker_evidence cfg)) = Id 1"
    "structurally_valid (with_fractions (worker_evidence cfg)) \<longleftrightarrow> structurally_valid (worker_evidence cfg)"
  using worker_report_sel [OF assms]
  by (simp_all add: with_fractions_def worker_evidence_sel structurally_valid_def worker_loss_def)

text \<open>A governor that has observed the conflict once or twice and done nothing yet.\<close>

definition observed :: "WorkloadId \<Rightarrow> WorkloadId \<Rightarrow> double \<Rightarrow> InterferenceEvidence list \<Rightarrow> GovernorState \<Rightarrow> ContentionConflict \<Rightarrow> bool" where
  "observed v t loss es g c \<longleftrightarrow>
     es_conflicts (gs_engine g) = [(Id 1, c)] \<and> cc_id c = Id 1 \<and> cc_affected c = [v] \<and> cc_associated c = [t]
     \<and> cc_domain c = RD_COMPUTE \<and> cc_degradation c = loss \<and> cc_evidenceIds c = map ie_id es
     \<and> (\<forall>e \<in> set es. om_find (es_evidence (gs_engine g)) (ie_id e) = Some e)
     \<and> es_policy (gs_engine g) = default_ContentionPolicy \<and> es_fairness (gs_engine g) = []
     \<and> es_interventions (gs_engine g) = [] \<and> gs_nextInterventionId g = 1 \<and> gs_nextAttemptId g = 1"

lemma recorded_sel [simp]:
  "es_conflicts (gs_engine (snd (record_worker_boot w b g))) = es_conflicts (gs_engine g)"
  "es_evidence (gs_engine (snd (record_worker_boot w b g))) = es_evidence (gs_engine g)"
  "es_policy (gs_engine (snd (record_worker_boot w b g))) = es_policy (gs_engine g)"
  "es_fairness (gs_engine (snd (record_worker_boot w b g))) = es_fairness (gs_engine g)"
  "es_interventions (gs_engine (snd (record_worker_boot w b g))) = es_interventions (gs_engine g)"
  "gs_nextConflictId (snd (record_worker_boot w b g)) = gs_nextConflictId g"
  "gs_nextInterventionId (snd (record_worker_boot w b g)) = gs_nextInterventionId g"
  "gs_nextAttemptId (snd (record_worker_boot w b g)) = gs_nextAttemptId g"
  "es_conflicts (gs_engine (snd (record_workload_generation w n g))) = es_conflicts (gs_engine g)"
  "es_evidence (gs_engine (snd (record_workload_generation w n g))) = es_evidence (gs_engine g)"
  "es_policy (gs_engine (snd (record_workload_generation w n g))) = es_policy (gs_engine g)"
  "es_fairness (gs_engine (snd (record_workload_generation w n g))) = es_fairness (gs_engine g)"
  "es_interventions (gs_engine (snd (record_workload_generation w n g))) = es_interventions (gs_engine g)"
  "gs_nextConflictId (snd (record_workload_generation w n g)) = gs_nextConflictId g"
  "gs_nextInterventionId (snd (record_workload_generation w n g)) = gs_nextInterventionId g"
  "gs_nextAttemptId (snd (record_workload_generation w n g)) = gs_nextAttemptId g"
  by (simp_all add: record_worker_boot_def record_workload_generation_def on_engine_def on_authority_def)

lemma progress_conflict_fields [simp]:
  "cc_id (progress_conflict p e c) = cc_id c" "cc_affected (progress_conflict p e c) = cc_affected c"
  "cc_associated (progress_conflict p e c) = cc_associated c" "cc_domain (progress_conflict p e c) = cc_domain c"
  "cc_degradation (progress_conflict p e c) = cc_degradation c" "cc_evidenceIds (progress_conflict p e c) = cc_evidenceIds c"
  by (simp_all add: progress_conflict_def)

lemma join_first:
  assumes "reports v t cfg"
  obtains c where "observed v t (worker_loss cfg) [with_fractions (worker_evidence cfg)] (join cfg default_GovernorState) c"
proof -
  let ?e = "with_fractions (worker_evidence cfg)"
  let ?g = "snd (record_workload_generation (Id (wc_workerId cfg)) (Id 1)
    (snd (record_worker_boot (Id (wc_workerId cfg)) (Id (wc_boot cfg)) default_GovernorState)))"
  have g: "join cfg default_GovernorState = snd (ingest_evidence (worker_evidence cfg) ?g)" by (simp add: join_def Let_def)
  have "es_conflicts (gs_engine ?g) = []" "es_evidence (gs_engine ?g) = []" "gs_nextConflictId ?g = 1"
    by (simp_all add: default_GovernorState_def default_EngineState_def)
  note i = ingest_first [where e = "worker_evidence cfg", OF this(1,2) _ worker_report_valid [OF assms]] this(3)
  have nz: "1000 + wc_workerId cfg \<noteq> 0" using assms by (simp add: reports_def)
  show thesis
    by (rule that [where c = "progress_conflict (es_policy (gs_engine ?g)) ?e (new_conflict ?e (Id 1) (gs_engine ?g))"],
        unfold g, subst i(1))
      (use i(2) nz in \<open>simp_all add: worker_report_sel [OF assms] observed_def on_engine_def with_fractions_report [OF assms]
        new_conflict_def\<close>, simp_all add: default_GovernorState_def default_EngineState_def)
qed

lemma join_second:
  assumes "reports v t cfg" "observed v t loss [e1] g c" "ie_id e1 \<noteq> Id (1000 + wc_workerId cfg)"
  obtains c' where "observed v t (f64_max loss (worker_loss cfg)) [e1, with_fractions (worker_evidence cfg)] (join cfg g) c'"
proof -
  let ?e = "with_fractions (worker_evidence cfg)"
  let ?g = "snd (record_workload_generation (Id (wc_workerId cfg)) (Id 1)
    (snd (record_worker_boot (Id (wc_workerId cfg)) (Id (wc_boot cfg)) g)))"
  obtain st1 where s: "store_evidence ?e ?g = (?e, st1)" "es_conflicts (gs_engine st1) = [(Id 1, c)]"
    "es_policy (gs_engine st1) = default_ContentionPolicy" "es_fairness (gs_engine st1) = []"
    "es_interventions (gs_engine st1) = []" "gs_nextInterventionId st1 = 1" "gs_nextAttemptId st1 = 1"
    "es_evidence (gs_engine st1) = om_put (ie_id ?e) ?e (es_evidence (gs_engine g))"
    using assms(2) worker_report_sel(10) [OF assms(1)] by (simp add: store_evidence_def with_fractions_def Let_def observed_def)
  have first: "om_first (concerns ?e) (es_conflicts (gs_engine st1)) = Some (Id 1, c)"
    using assms(2) by (simp add: s(2) om_first_def concerns_def with_fractions_report [OF assms(1)] observed_def)
  have "join cfg g = on_engine (put_conflict (Id 1) (progress_conflict default_ContentionPolicy ?e (update_conflict ?e c))) st1"
    using worker_report_valid [OF assms(1)] first
    by (simp add: join_def Let_def ingest_evidence_def s(1,3))
  then have "observed v t (f64_max loss (worker_loss cfg)) [e1, ?e] (join cfg g)
      (progress_conflict default_ContentionPolicy ?e (update_conflict ?e c))"
    using assms(2,3)
    by (simp add: observed_def on_engine_def put_conflict_def s(2-8) update_conflict_def with_fractions_report [OF assms(1)])
  then show thesis by (rule that)
qed

section \<open>The authorization\<close>

lemma join_authority:
  "es_authority (gs_engine (join cfg g)) = (es_authority (gs_engine g))
     \<lparr>au_workloadBoots := om_put (Id (wc_workerId cfg)) (Id (wc_boot cfg)) (au_workloadBoots (es_authority (gs_engine g))),
      au_workloadGenerations := om_put (Id (wc_workerId cfg)) (Id 1) (au_workloadGenerations (es_authority (gs_engine g)))\<rparr>"
proof -
  have "es_authority (gs_engine (snd (ingest_evidence e st))) = es_authority (gs_engine st)" for e st
    by (simp add: ingest_evidence_def store_evidence_def put_conflict_def on_engine_def Let_def split: option.split prod.split)
  then show ?thesis
    by (simp add: join_def Let_def record_worker_boot_def record_workload_generation_def on_engine_def on_authority_def)
qed

text \<open>The workers' evidence, once stored, passes the gates of the default policy.\<close>

definition convincing :: "InterferenceEvidence \<Rightarrow> bool" where
  "convincing e \<longleftrightarrow> ie_status e = ES_CURRENT \<and> structurally_valid e \<and> ie_attribution e = AS_CONTROLLED_COMPARISON
     \<and> ie_confidence e = f64_lit 9 10 \<and> ie_unresolvedConfounders e = []"

lemma report_convincing: "reports v t cfg \<Longrightarrow> convincing (with_fractions (worker_evidence cfg))"
  by (simp add: convincing_def with_fractions_report) (simp add: reports_def)

lemma default_policy_sel:
  "p_actionabilityThreshold default_ContentionPolicy = f64_lit 20 100"
  "p_minConfidenceForDisruptive default_ContentionPolicy = f64_lit 6 10"
  "p_minAttributionForDisruptive default_ContentionPolicy = AS_CONTROLLED_COMPARISON"
  "p_throttleAllowed default_ContentionPolicy" "p_budget default_ContentionPolicy = default_ActionBudget"
  "hard_constraints default_ContentionPolicy (workload_policy_for default_ContentionPolicy t) IC_THROTTLE"
  using throttle_floor_positive
  by (simp_all add: default_ContentionPolicy_def hard_constraints_def workload_policy_for_def default_WorkloadPolicy_def)

lemma observed_open:
  assumes "observed v t loss es g c" "om_find (au_workloadBoots (es_authority (gs_engine g))) t \<noteq> None"
    "om_find (au_workloadGenerations (es_authority (gs_engine g))) t \<noteq> None"
  shows "throttle_open (gs_engine g) t"
  using assms default_policy_valid by (simp add: throttle_open_def observed_def default_policy_sel fairness_capped_def)

lemma observed_actionable:
  assumes "observed v t loss (e # es) g c" "\<forall>e \<in> set (e # es). convincing e" "\<not> f64_lt loss (f64_lit 20 100)"
  shows "actionable_with (gs_engine g) c e"
proof -
  have scan: "fst (scan_evidence evm (map ie_id xs)) = xs"
    if "\<forall>x \<in> set xs. om_find evm (ie_id x) = Some x \<and> convincing x" for evm xs
    using that by (induction xs) (auto simp: convincing_def Let_def split_beta)
  have "cc_evidenceIds c = map ie_id (e # es)" using assms(1) by (simp add: observed_def)
  moreover have "\<forall>x \<in> set (e # es). om_find (es_evidence (gs_engine g)) (ie_id x) = Some x \<and> convincing x"
    using assms(1,2) by (simp add: observed_def)
  ultimately have "fst (scan_evidence (es_evidence (gs_engine g)) (cc_evidenceIds c)) = e # es"
    using scan by metis
  then show ?thesis
    using assms by (simp add: actionable_with_def observed_def convincing_def default_policy_sel f64_literals f64_patterns)
qed

lemma observed_granted:
  assumes "observed v t loss (e # es) g c" "\<forall>e \<in> set (e # es). convincing e" "\<not> f64_lt loss (f64_lit 20 100)"
    "throttle_open (gs_engine g) t"
  obtains adapter where "authorize (Id 1) IC_THROTTLE now g = Inr (Some (Id 1), commit_intervention (Id 1) c
    (new_intervention IC_THROTTLE (Id 1) t
      (make_fence (es_authority (gs_engine g)) (cc_generation c) (ie_generation e) t (Id 1)) adapter now g) now g)"
proof -
  have c: "om_find (es_conflicts (gs_engine g)) (Id 1) = Some c" "cc_associated c = [t]"
    "cc_evidenceIds c = ie_id e # map ie_id es" "om_find (es_evidence (gs_engine g)) (ie_id e) = Some e"
    "gs_nextInterventionId g = 1" "es_interventions (gs_engine g) = []" "es_policy (gs_engine g) = default_ContentionPolicy"
    using assms(1) by (simp_all add: observed_def)
  show thesis
  proof (rule throttle_granted [OF c(1) observed_actionable [OF assms(1-3)] c(2) assms(4) c(3,4)])
    show "\<not> budget_exhausted (p_budget (es_policy (gs_engine g))) IC_THROTTLE"
      by (simp add: c(7) default_policy_sel default_ActionBudget_def default_ActionBudgetStats_def)
    show "\<not> in_cooldown (gs_engine g) t IC_THROTTLE now" using assms(1) by (simp add: in_cooldown_def observed_def)
  qed (use that c(5) in simp)
qed

section \<open>The action\<close>

text \<open>The dispatch to a worker of another role than \<^verbatim>\<open>A\<close>: what it records and what it sends.\<close>

lemma tcp_dispatch_sent:
  assumes i: "om_find (es_interventions (gs_engine st)) iid = Some i" "ir_state i = LS_AUTHORIZED" "ir_cls i = IC_THROTTLE"
    "fence_current (es_authority (gs_engine st)) (ir_fence i) (ir_target i)"
    and c: "om_find conns (ir_target i) = Some c" "ready c" "wc_role cfg \<noteq> ''A''"
    "answers c (worker_loop cfg [action_frame (ir_attemptId i) (ir_target i) IC_THROTTLE f64_one])"
  obtains st' c' i' where "tcp_dispatch conns iid now st = Some ((status_good, st'), om_put (ir_target i) c' conns)"
    "cn_out c' = cn_out c @ encode_frames [action_frame (ir_attemptId i) (ir_target i) IC_THROTTLE f64_one]"
    "es_interventions (gs_engine st') = om_put iid i' (om_put iid (i\<lparr>ir_state := LS_DISPATCHED,
        ir_dispatchId := Id (gs_nextDispatchId st), ir_dispatchedAt := now\<rparr>) (es_interventions (gs_engine st)))"
    "ir_state i' = LS_ACKNOWLEDGED" "ir_conflictId i' = ir_conflictId i" "ir_target i' = ir_target i"
    "es_conflicts (gs_engine st') = es_conflicts (gs_engine st)" "es_policy (gs_engine st') = es_policy (gs_engine st)"
proof -
  let ?i = "i\<lparr>ir_state := LS_DISPATCHED, ir_dispatchId := Id (gs_nextDispatchId st), ir_dispatchedAt := now\<rparr>"
  let ?ack = "\<lparr>wk_id = Id 1, wk_attempt = ir_attemptId i, wk_acknowledged = True, wk_note = ''''\<rparr>"
  let ?res = "adapter_result AO_ACCEPTED '''' (ir_attemptId i)"
  have "decode_ack (encode_ack ?ack) = Some (?ack, [])"
    using round_trip_ack [THEN round_tripD, of ?ack "[]"] by (simp add: short_def)
  moreover have "answers c [\<lparr>fm_type = MT_ACTION_ACK, fm_payload = encode_ack ?ack\<rparr>]"
    using c(3,4) worker_answer [of cfg "ir_attemptId i" "ir_target i" IC_THROTTLE f64_one]
    by (simp add: split_beta Let_def cong: if_cong)
  ultimately obtain c' where a: "tcp_apply conns (ir_attemptId i) (ir_target i) IC_THROTTLE f64_one =
      Some (?res, om_put (ir_target i) c' conns)"
    "cn_out c' = cn_out c @ encode_frames [action_frame (ir_attemptId i) (ir_target i) IC_THROTTLE f64_one]"
    using tcp_apply_answer [OF c(1,2), of _ "[]" "ir_attemptId i" IC_THROTTLE f64_one] worker_messages_roomy(3) by fastforce
  define st' where "st' = on_engine (put_intervention iid (apply_outcome ?res ?i))
        (on_engine (put_intervention iid ?i) (st\<lparr>gs_nextDispatchId := gs_nextDispatchId st + 1\<rparr>))"
  have "tcp_dispatch conns iid now st = Some ((status_good, st'), om_put (ir_target i) c' conns)"
    using i a(1) by (simp add: tcp_dispatch_def dispatch_begin_def dispatch_finish_def Let_def revalidate_ok st'_def)
  then show thesis
    by (rule that [where i' = "apply_outcome ?res ?i", OF _ a(2)]) (simp_all add: st'_def apply_outcome_def adapter_result_def)
qed

section \<open>The measurement after the action\<close>

lemma worker_loop_request:
  "worker_loop cfg [\<lparr>fm_type = MT_RPC_REQUEST, fm_payload = [1]\<rparr>] =
     [\<lparr>fm_type = MT_EVIDENCE, fm_payload = encode_evidence (worker_post_evidence cfg)\<rparr>]"
  by (simp add: worker_react_def MT_RPC_REQUEST_def MT_ACTION_AUTHORIZE_def MT_SHUTDOWN_def)

text \<open>What the coordinator makes of the answer is what it would make of the worker's own record.\<close>

lemma submit_recomputes:
  assumes "f64_isfinite (ie_degradation e)" "\<not> f64_lt (ie_degradation e) f64_zero"
  shows "submit_post_action_evidence (e\<lparr>ie_degradation := f64_zero, ie_improvement := i\<rparr>) st =
    submit_post_action_evidence e st"
proof -
  let ?e = "e\<lparr>ie_degradation := f64_zero, ie_improvement := i\<rparr>"
  have same: "validate_evidence ?e = validate_evidence e" "with_fractions ?e = with_fractions e"
    using assms by (simp_all add: structurally_valid_def with_fractions_def validate_evidence_def)
  show ?thesis unfolding submit_post_action_evidence_def same ..
qed

lemma request_post_evidence_answer:
  assumes "om_find conns victim = Some c" "ready c" "answers c (worker_loop cfg [\<lparr>fm_type = MT_RPC_REQUEST, fm_payload = [1]\<rparr>])"
    "f64_isfinite (ie_degradation (worker_post_evidence cfg))"
  obtains c' where "request_post_evidence conns victim g =
      Some (om_put victim c' conns, snd (submit_post_action_evidence (worker_post_evidence cfg) g))"
    "cn_out c' = cn_out c @ encode_frames [\<lparr>fm_type = MT_RPC_REQUEST, fm_payload = [1]\<rparr>]"
proof -
  let ?p = "encode_evidence (worker_post_evidence cfg)"
  define c1 where "c1 = c\<lparr>cn_calls := cn_calls c + 1, cn_out := cn_out c @ encode_frame MT_RPC_REQUEST [1]\<rparr>"
  have send: "conn_send MT_RPC_REQUEST [1] c = (status_good, c1)"
    unfolding c1_def by (rule conn_send_ready [OF assms(2)]) (simp add: fits_def)
  have "answers c1 [\<lparr>fm_type = MT_EVIDENCE, fm_payload = ?p\<rparr>]"
    using assms(3) unfolding worker_loop_request by (simp add: answers_def c1_def)
  then obtain b evs where recv: "conn_receive True c1 =
      Some (status_good, Some \<lparr>fm_type = MT_EVIDENCE, fm_payload = ?p\<rparr>, c1\<lparr>cn_rbuf := b, cn_recv := evs\<rparr>)"
    using conn_receive_answer [of c1 _ "[]"] worker_messages_roomy(2) by fastforce
  have nonneg: "\<not> f64_lt (ie_degradation (worker_post_evidence cfg)) f64_zero"
    using compute_degradation_nonneg [of "ie_metric (worker_evidence cfg)" "ie_isolatedBaseline (worker_evidence cfg)" "wc_postCorun cfg"]
    by (auto simp: worker_post_evidence_def Let_def f64_cmp_defs)
  have dec: "decode_evidence default_InterferenceEvidence ?p =
      Some ((worker_post_evidence cfg)\<lparr>ie_degradation := f64_zero, ie_improvement := f64_zero\<rparr>, [])"
    using decode_encode_evidence [OF worker_messages_sendable(2), of default_InterferenceEvidence cfg "[]"]
    by (simp add: default_InterferenceEvidence_def)
  have "request_post_evidence conns victim g = Some (om_put victim (c1\<lparr>cn_rbuf := b, cn_recv := evs\<rparr>) conns,
      snd (submit_post_action_evidence (worker_post_evidence cfg) g))"
    by (simp add: request_post_evidence_def assms(1) send recv dec Let_def submit_recomputes [OF assms(4) nonneg])
  then show thesis by (rule that) (simp add: c1_def)
qed

lemma worker_post_valid:
  assumes "reports v t cfg" "f64_isfinite (wc_postCorun cfg)" "f64_isfinite (worker_post_loss cfg)"
  shows "status_ok (validate_evidence (worker_post_evidence cfg))" "ie_victim (worker_post_evidence cfg) = v"
    "ie_domain (worker_post_evidence cfg) = RD_COMPUTE" "ie_id (worker_post_evidence cfg) = Id (2000 + wc_workerId cfg)"
    "ie_degradation (worker_post_evidence cfg) = worker_post_loss cfg"
    "ie_degradation (with_fractions (worker_post_evidence cfg)) = worker_post_loss cfg"
proof -
  note e = worker_report_sel [OF assms(1)]
  have sel: "ie_degradation (worker_post_evidence cfg) = worker_post_loss cfg" "ie_victim (worker_post_evidence cfg) = v"
    "ie_isolatedBaseline (worker_post_evidence cfg) = wc_baseline cfg" "ie_coRunObservation (worker_post_evidence cfg) = wc_postCorun cfg"
    "ie_confidence (worker_post_evidence cfg) = f64_lit 9 10" "ie_metric (worker_post_evidence cfg) = MD_HIGHER_IS_BETTER"
    "ie_sampleCount (worker_post_evidence cfg) = ie_sampleCount (worker_evidence cfg)"
    "ie_domain (worker_post_evidence cfg) = RD_COMPUTE" "ie_id (worker_post_evidence cfg) = Id (2000 + wc_workerId cfg)"
    by (simp_all add: worker_post_evidence_def Let_def e worker_post_loss_def)
  have "\<not> f64_lt (worker_post_loss cfg) f64_zero"
    using compute_degradation_nonneg [of MD_HIGHER_IS_BETTER "wc_baseline cfg" "wc_postCorun cfg"]
    by (auto simp: worker_post_loss_def f64_cmp_defs)
  then have "structurally_valid (worker_post_evidence cfg)"
    using assms e by (auto simp: structurally_valid_def sel reports_def split: if_splits)
  then show "status_ok (validate_evidence (worker_post_evidence cfg))" using e(13) by (simp add: validate_evidence_ok sel)
  show "ie_victim (worker_post_evidence cfg) = v" "ie_domain (worker_post_evidence cfg) = RD_COMPUTE"
    "ie_id (worker_post_evidence cfg) = Id (2000 + wc_workerId cfg)"
    "ie_degradation (worker_post_evidence cfg) = worker_post_loss cfg"
    "ie_degradation (with_fractions (worker_post_evidence cfg)) = worker_post_loss cfg"
    by (simp_all add: sel with_fractions_def worker_post_loss_def)
qed

section \<open>From the handshake to the verdict\<close>

text \<open>The state of the conflict at the end, from the losses before and after the action.\<close>

definition verdict_state :: "double \<Rightarrow> double \<Rightarrow> ConflictState" where
  "verdict_state loss post =
     (if f64_le post (f64_lit 20 100) then CS_RESOLVED
      else if f64_lt post loss then CS_PARTIALLY_RESOLVED
      else CS_UNRESOLVED)"

lemma verdict_state_outcome:
  "snd (outcome_states (classify_outcome False loss post (f64_lit 20 100))) = verdict_state loss post"
  by (simp add: classify_outcome_def verdict_state_def)

definition rpc_frame :: Frame where "rpc_frame = \<lparr>fm_type = MT_RPC_REQUEST, fm_payload = [1]\<rparr>"

definition throttle_frame :: "WorkloadId \<Rightarrow> Frame" where
  "throttle_frame t = action_frame (Id 1) t IC_THROTTLE f64_one"

lemma system_acts:
  assumes obs: "observed v t loss (e # es) g c" "\<forall>e \<in> set (e # es). convincing e" "\<not> f64_lt loss (f64_lit 20 100)"
    "throttle_open (gs_engine g) t" and mode: "mode \<noteq> ''persist''" "mode \<noteq> ''resume''"
    and ct: "om_find conns t = Some ct" "ready ct" "wc_role tcfg \<noteq> ''A''" "answers ct (worker_loop tcfg [throttle_frame t])"
    and cv: "om_find conns v = Some cv" "ready cv" "answers cv (worker_loop vcfg [rpc_frame])" "v \<noteq> t"
    and post: "reports v t vcfg" "f64_isfinite (wc_postCorun vcfg)" "f64_isfinite (worker_post_loss vcfg)" "2000 + wc_workerId vcfg \<noteq> 0"
  obtains conns' g' ct' cv' where "coordinator_act save mode conns now now' now'' g fs =
      (Some (Exit 0 [''OK '' @ to_string_ConflictState (verdict_state loss (worker_post_loss vcfg))] conns' g'), fs)"
    "om_find conns' t = Some ct'" "cn_out ct' = cn_out ct @ encode_frames [throttle_frame t]"
    "om_find conns' v = Some cv'" "cn_out cv' = cn_out cv @ encode_frames [rpc_frame]"
proof -
  obtain adapter where a: "authorize (Id 1) IC_THROTTLE now g = Inr (Some (Id 1), commit_intervention (Id 1) c
    (new_intervention IC_THROTTLE (Id 1) t
      (make_fence (es_authority (gs_engine g)) (cc_generation c) (ie_generation e) t (Id 1)) adapter now g) now g)"
    using observed_granted [OF obs] by blast
  let ?i = "new_intervention IC_THROTTLE (Id 1) t
      (make_fence (es_authority (gs_engine g)) (cc_generation c) (ie_generation e) t (Id 1)) adapter now g"
  let ?g1 = "commit_intervention (Id 1) c ?i now g"
  have g: "es_conflicts (gs_engine g) = [(Id 1, c)]" "es_interventions (gs_engine g) = []" "gs_nextInterventionId g = 1"
    "gs_nextAttemptId g = 1" "es_policy (gs_engine g) = default_ContentionPolicy" "cc_id c = Id 1" "cc_affected c = [v]"
    "cc_domain c = RD_COMPUTE" "cc_degradation c = loss"
    using obs(1) by (simp_all add: observed_def)
  have i: "om_find (es_interventions (gs_engine ?g1)) (Id 1) = Some ?i" "ir_state ?i = LS_AUTHORIZED" "ir_cls ?i = IC_THROTTLE"
    "fence_current (es_authority (gs_engine ?g1)) (ir_fence ?i) (ir_target ?i)" "ir_target ?i = t" "ir_attemptId ?i = Id 1"
    "ir_conflictId ?i = Id 1"
    using throttle_openD(3) [OF obs(4)] by (simp_all add: g) (simp add: new_intervention_def g)
  obtain st' ct' i' where d: "tcp_dispatch conns (Id 1) now' ?g1 = Some ((status_good, st'), om_put t ct' conns)"
    "cn_out ct' = cn_out ct @ encode_frames [throttle_frame t]"
    "es_interventions (gs_engine st') = om_put (Id 1) i' (om_put (Id 1) (?i\<lparr>ir_state := LS_DISPATCHED,
        ir_dispatchId := Id (gs_nextDispatchId ?g1), ir_dispatchedAt := now'\<rparr>) (es_interventions (gs_engine ?g1)))"
    "ir_state i' = LS_ACKNOWLEDGED" "ir_conflictId i' = Id 1"
    "es_conflicts (gs_engine st') = es_conflicts (gs_engine ?g1)" "es_policy (gs_engine st') = es_policy (gs_engine ?g1)"
    using tcp_dispatch_sent [OF i(1-4), of conns ct tcfg now'] ct unfolding i(5-7) throttle_frame_def by metis
  let ?c1 = "c\<lparr>cc_state := CS_INTERVENTION_AUTHORIZED, cc_selectedIds := cc_selectedIds c @ [Id 1], cc_lastActionAt := now\<rparr>"
  have st': "es_conflicts (gs_engine st') = [(Id 1, ?c1)]" "es_interventions (gs_engine st') = [(Id 1, i')]"
    "p_actionabilityThreshold (es_policy (gs_engine st')) = f64_lit 20 100"
    by (simp_all add: d(3,6,7) g default_policy_sel)
  note pv = worker_post_valid [OF post(1-3)]
  obtain cv' where r: "request_post_evidence (om_put t ct' conns) v st' =
      Some (om_put v cv' (om_put t ct' conns), snd (submit_post_action_evidence (worker_post_evidence vcfg) st'))"
    "cn_out cv' = cn_out cv @ encode_frames [rpc_frame]"
    using request_post_evidence_answer [of "om_put t ct' conns" v cv vcfg st'] cv post(3) unfolding rpc_frame_def [symmetric]
    by (auto simp: pv(5))
  have "map_option cc_state (conflict_of (Id 1) (snd (submit_post_action_evidence (worker_post_evidence vcfg) st'))) =
      Some (verdict_state loss (worker_post_loss vcfg))"
    using acknowledged_verdict [OF st'(1) _ st'(2) d(4,5) _ _ pv(1,2,3)] post(4)
    by (simp add: g pv(4,6) st'(3) verdict_state_outcome del: outcome_states.simps)
  then obtain c2 where "conflict_of (Id 1) (snd (submit_post_action_evidence (worker_post_evidence vcfg) st')) = Some c2"
    "cc_state c2 = verdict_state loss (worker_post_loss vcfg)" by auto
  then have "coordinator_act save mode conns now now' now'' g fs =
      (Some (Exit 0 [''OK '' @ to_string_ConflictState (verdict_state loss (worker_post_loss vcfg))]
        (om_put v cv' (om_put t ct' conns)) (snd (submit_post_action_evidence (worker_post_evidence vcfg) st'))), fs)"
    using mode
    by (simp add: coordinator_act_def conflict_ids_def g(1) a d(1) coordinator_after_def conflict_of_def st'(1) g(7) r(1)
        status_good_def)
  then show thesis by (rule that [OF _ _ d(2) _ r(2)]) (use cv(4) in simp_all)
qed

text \<open>The larger of two losses does not depend on their order.\<close>

lemma f64_max_cmp:
  assumes "\<not> f64_is_nan a" "\<not> f64_is_nan b"
  shows "f64_lt x (f64_max a b) \<longleftrightarrow> f64_lt x a \<or> f64_lt x b" "f64_lt (f64_max a b) x \<longleftrightarrow> f64_lt a x \<and> f64_lt b x"
  using assms by (auto simp: f64_max_def f64_cmp_defs)

lemma worker_loss_not_nan: "\<not> f64_is_nan (worker_loss cfg)"
  using compute_degradation_nonneg [of MD_HIGHER_IS_BETTER "wc_baseline cfg" "wc_corun cfg"]
  by (auto simp: worker_loss_def f64_cmp_defs)

text \<open>A pair of workers that makes a conflict: the victim and the target of the action.\<close>

definition conflicting :: "WorkerConfig \<Rightarrow> WorkerConfig \<Rightarrow> bool" where
  "conflicting vcfg tcfg \<longleftrightarrow>
     (let v = Id (wc_workerId vcfg); t = Id (wc_workerId tcfg)
      in reports v t vcfg \<and> reports v t tcfg \<and> v \<noteq> t \<and> 2000 + wc_workerId vcfg \<noteq> 0
         \<and> length (wc_role vcfg) \<le> 2 ^ 19 \<and> length (wc_role tcfg) \<le> 2 ^ 19 \<and> wc_role tcfg \<noteq> ''A''
         \<and> \<not> (f64_lt (worker_loss vcfg) (f64_lit 20 100) \<and> f64_lt (worker_loss tcfg) (f64_lit 20 100))
         \<and> f64_isfinite (wc_postCorun vcfg) \<and> f64_isfinite (worker_post_loss vcfg))"

lemma reports_regular: "reports v t cfg \<Longrightarrow> length (wc_role cfg) \<le> 2 ^ 19 \<Longrightarrow> regular cfg"
  by (auto simp: reports_def regular_def structurally_valid_def split: if_splits)

lemma conflicting_joined:
  assumes "conflicting vcfg tcfg" "{cfg1, cfg2} = {vcfg, tcfg}" "v = Id (wc_workerId vcfg)" "t = Id (wc_workerId tcfg)"
    "g = join cfg2 (join cfg1 default_GovernorState)" "loss = f64_max (worker_loss cfg1) (worker_loss cfg2)"
  obtains c e es where "observed v t loss (e # es) g c" "\<forall>e \<in> set (e # es). convincing e" "throttle_open (gs_engine g) t"
proof -
  have r: "reports v t cfg1" "reports v t cfg2" "wc_workerId cfg1 \<noteq> wc_workerId cfg2" "t \<in> {Id (wc_workerId cfg1), Id (wc_workerId cfg2)}"
    using assms(1-4) by (auto simp: conflicting_def Let_def doubleton_eq_iff)
  obtain c1 where c1: "observed v t (worker_loss cfg1) [with_fractions (worker_evidence cfg1)] (join cfg1 default_GovernorState) c1"
    by (rule join_first [OF r(1)])
  have "ie_id (with_fractions (worker_evidence cfg1)) \<noteq> Id (1000 + wc_workerId cfg2)"
    using r(3) by (simp add: with_fractions_report [OF r(1)])
  then obtain c where c: "observed v t loss [with_fractions (worker_evidence cfg1), with_fractions (worker_evidence cfg2)] g c"
    using join_second [OF r(2) c1] unfolding assms(5,6) by blast
  have "throttle_open (gs_engine g) t"
    by (rule observed_open [OF c]) (use r(4) in \<open>auto simp: assms(5) join_authority\<close>)
  then show thesis using that [OF c] report_convincing [OF r(1)] report_convincing [OF r(2)] by simp
qed

lemma verdict_state_max:
  "verdict_state (f64_max (worker_loss a) (worker_loss b)) post = verdict_state (f64_max (worker_loss b) (worker_loss a)) post"
  unfolding verdict_state_def f64_max_cmp(1) [OF worker_loss_not_nan worker_loss_not_nan] by (simp add: disj_commute)

text \<open>Both workers are accepted, in either order.\<close>

lemma collect_pair:
  assumes "set [p1, p2] = {(vcfg, cv, fv), (tcfg, ct, ft)}" "wc_workerId vcfg \<noteq> wc_workerId tcfg"
    "regular vcfg" "answers cv (worker_start vcfg @ fv)" "ready cv" "regular tcfg" "answers ct (worker_start tcfg @ ft)" "ready ct"
  obtains conns cv1 ct1 where "collect_workers 2 (map (Some \<circ> fst \<circ> snd) [p1, p2]) [] g =
      Some (Inr (conns, join (fst p2) (join (fst p1) g)))"
    "om_find conns (Id (wc_workerId vcfg)) = Some cv1" "answers cv1 fv" "ready cv1" "cn_out cv1 = cn_out cv"
    "om_find conns (Id (wc_workerId tcfg)) = Some ct1" "answers ct1 ft" "ready ct1" "cn_out ct1 = cn_out ct"
proof -
  have h: "\<forall>(cfg, c, fs) \<in> set [p1, p2]. regular cfg \<and> answers c (worker_start cfg @ fs)"
    unfolding assms(1) using assms(3-8) by simp
  have d: "distinct (map (wc_workerId \<circ> fst) [p1, p2])" using assms(1,2) by (auto simp: doubleton_eq_iff)
  obtain conns where coll: "collect_workers (length [p1, p2]) (map (Some \<circ> fst \<circ> snd) [p1, p2]) [] g =
      Some (Inr (conns, fold (join \<circ> fst) [p1, p2] g))"
    "\<forall>(cfg, c, fs) \<in> set [p1, p2]. \<exists>c'. om_find conns (Id (wc_workerId cfg)) = Some c' \<and> answers c' fs
       \<and> (ready c \<longrightarrow> ready c') \<and> cn_out c' = cn_out c"
    using collect_all [OF h d] by blast
  have "collect_workers 2 (map (Some \<circ> fst \<circ> snd) [p1, p2]) [] g = Some (Inr (conns, join (fst p2) (join (fst p1) g)))"
    using coll(1) by (simp add: numeral_2_eq_2 del: collect_workers.simps)
  then show thesis using that coll(2) assms(5,8) unfolding assms(1) by auto
qed

lemma system_runs:
  assumes conf: "conflicting vcfg tcfg" and mode: "mode \<noteq> ''persist''" "mode \<noteq> ''resume''"
    and c: "ready cv" "answers cv (worker_start vcfg @ worker_loop vcfg [rpc_frame])"
    "ready ct" "answers ct (worker_start tcfg @ worker_loop tcfg [throttle_frame (Id (wc_workerId tcfg))])"
    and acc: "accepted = [Some cv, Some ct] \<or> accepted = [Some ct, Some cv]"
  shows "\<exists>conns g cv' ct'. coordinator save mode loaded accepted now now' now'' fs =
      (Some (Exit 0 [''OK '' @ to_string_ConflictState
         (verdict_state (f64_max (worker_loss vcfg) (worker_loss tcfg)) (worker_post_loss vcfg))] conns g), fs)
    \<and> om_find conns (Id (wc_workerId vcfg)) = Some cv' \<and> cn_out cv' = cn_out cv @ encode_frames [rpc_frame]
    \<and> om_find conns (Id (wc_workerId tcfg)) = Some ct'
    \<and> cn_out ct' = cn_out ct @ encode_frames [throttle_frame (Id (wc_workerId tcfg))]"
proof -
  let ?v = "Id (wc_workerId vcfg) :: WorkloadId" and ?t = "Id (wc_workerId tcfg) :: WorkloadId"
  have p: "reports ?v ?t vcfg" "reports ?v ?t tcfg" "?v \<noteq> ?t" "2000 + wc_workerId vcfg \<noteq> 0" "regular vcfg" "regular tcfg"
    "wc_role tcfg \<noteq> ''A''" "f64_isfinite (wc_postCorun vcfg)" "f64_isfinite (worker_post_loss vcfg)"
    using conf reports_regular by (auto simp: conflicting_def Let_def)
  define fv ft where f: "fv = worker_loop vcfg [rpc_frame]" "ft = worker_loop tcfg [throttle_frame ?t]"
  let ?pv = "(vcfg, cv, fv)" and ?pt = "(tcfg, ct, ft)"
  obtain p1 p2 where ps: "(p1, p2) = (?pv, ?pt) \<or> (p1, p2) = (?pt, ?pv)" "accepted = map (Some \<circ> fst \<circ> snd) [p1, p2]"
  proof -
    from acc show thesis
    proof
      assume "accepted = [Some cv, Some ct]"
      then show thesis by (intro that [of ?pv ?pt]) simp_all
    next
      assume "accepted = [Some ct, Some cv]"
      then show thesis by (intro that [of ?pt ?pv]) simp_all
    qed
  qed
  define g loss where "g = join (fst p2) (join (fst p1) default_GovernorState)"
    and "loss = f64_max (worker_loss (fst p1)) (worker_loss (fst p2))"
  have pset: "set [p1, p2] = {?pv, ?pt}" using ps(1) by auto
  obtain conns cv1 ct1 where s1: "collect_workers 2 accepted [] default_GovernorState = Some (Inr (conns, g))"
    and s: "om_find conns ?v = Some cv1" "answers cv1 fv" "ready cv1" "cn_out cv1 = cn_out cv"
    "om_find conns ?t = Some ct1" "answers ct1 ft" "ready ct1" "cn_out ct1 = cn_out ct"
    unfolding ps(2) g_def by (rule collect_pair [OF pset]) (use p(3,5,6) c in \<open>simp_all add: f del: worker_loop.simps\<close>)
  have both: "{fst p1, fst p2} = {vcfg, tcfg}" using ps(1) by auto
  obtain c e es where obs: "observed ?v ?t loss (e # es) g c" "\<forall>e \<in> set (e # es). convincing e" "throttle_open (gs_engine g) ?t"
    by (rule conflicting_joined [OF conf both refl refl g_def loss_def])
  have "\<not> (f64_lt (worker_loss vcfg) (f64_lit 20 100) \<and> f64_lt (worker_loss tcfg) (f64_lit 20 100))"
    using conf unfolding conflicting_def Let_def by blast
  then have "\<not> f64_lt loss (f64_lit 20 100)"
    unfolding loss_def f64_max_cmp(2) [OF worker_loss_not_nan worker_loss_not_nan] using ps(1) by fastforce
  then obtain conns' g' ct' cv' where "coordinator_act save mode conns now now' now'' g fs =
      (Some (Exit 0 [''OK '' @ to_string_ConflictState (verdict_state loss (worker_post_loss vcfg))] conns' g'), fs)"
    "om_find conns' ?t = Some ct'" "cn_out ct' = cn_out ct1 @ encode_frames [throttle_frame ?t]"
    "om_find conns' ?v = Some cv'" "cn_out cv' = cn_out cv1 @ encode_frames [rpc_frame]"
    using system_acts [OF obs(1,2) _ obs(3) mode s(5,7) p(7) s(6) [unfolded f] s(1,3) s(2) [unfolded f] p(3,1,8,9,4)] by metis
  moreover have "verdict_state loss post = verdict_state (f64_max (worker_loss vcfg) (worker_loss tcfg)) post" for post
    using ps(1) verdict_state_max by (auto simp: loss_def)
  ultimately show ?thesis
    using s1 s(4,8) mode by (simp add: coordinator_def coordinator_start_def)
qed

section \<open>Three processes\<close>

text \<open>The bytes, cut into chunks in any way, are what is to be received.\<close>

definition carries :: "Connection \<Rightarrow> bytes \<Rightarrow> bool" where
  "carries c bs \<longleftrightarrow> (\<exists>chunks. (\<forall>chunk \<in> set chunks. chunk_ok chunk) \<and> cn_recv c = map Recv chunks
     \<and> cn_rbuf c @ concat chunks = bs)"

lemma answers_carries: "answers c fs \<longleftrightarrow> carries c (encode_frames fs)"
  by (simp add: answers_def carries_def)

lemma conflicting_worker_runs:
  assumes "length (wc_role cfg) \<le> 2 ^ 19" "ready w" "delivers w [f]" "f = rpc_frame \<or> f = throttle_frame t"
    "worker_main cfg w = Some (code, w')" "cn_out w = []"
  shows "code = 0 \<and> cn_out w' = encode_frames (worker_start cfg @ worker_loop cfg [f])"
proof -
  have "roomy (fm_payload f)"
    using assms(4) by (auto simp: roomy_def rpc_frame_def throttle_frame_def action_frame_def encode_action_length)
  then show ?thesis using worker_main_delivers [OF _ assms(2,3,1)] assms(5,6) by auto
qed

lemma coordinator_process_basic:
  assumes "status_ok (co_bind io)" "ca_mode (coordinator_options (drop 1 argv) default_coordinator) = mode"
    "mode \<noteq> ''resume''" "co_times io = (now, now', now'')"
  obtains save where "coordinator_process argv io fs =
    coordinator save mode (status_good, default_GovernorState) (co_accepted io) now now' now''
      (write_ready io (ca_ready (coordinator_options (drop 1 argv) default_coordinator)) fs)"
  using assms that by (simp add: coordinator_process_def Let_def new_Governor_def)

lemma processes_converge:
  assumes conf: "conflicting vcfg tcfg"
    and w: "ready wv" "cn_out wv = []" "delivers wv [rpc_frame]" "worker_main vcfg wv = Some (codev, wv')"
    "ready wt" "cn_out wt = []" "delivers wt [throttle_frame (Id (wc_workerId tcfg))]" "worker_main tcfg wt = Some (codet, wt')"
    and c: "ready cv" "carries cv (cn_out wv')" "ready ct" "carries ct (cn_out wt')"
    and io: "status_ok (co_bind io)" "co_accepted io = [Some cv, Some ct] \<or> co_accepted io = [Some ct, Some cv]"
    "args = coordinator_options (drop 1 argv) default_coordinator" "ca_mode args \<notin> {''persist'', ''resume''}"
  shows "codev = 0 \<and> codet = 0
    \<and> (\<exists>conns g cv' ct'. coordinator_process argv io fs =
        (Some (Exit 0 [''OK '' @ to_string_ConflictState
           (verdict_state (f64_max (worker_loss vcfg) (worker_loss tcfg)) (worker_post_loss vcfg))] conns g),
         write_ready io (ca_ready args) fs)
      \<and> om_find conns (Id (wc_workerId vcfg)) = Some cv' \<and> cn_out cv' = cn_out cv @ encode_frames [rpc_frame]
      \<and> om_find conns (Id (wc_workerId tcfg)) = Some ct'
      \<and> cn_out ct' = cn_out ct @ encode_frames [throttle_frame (Id (wc_workerId tcfg))])"
proof -
  have short: "length (wc_role vcfg) \<le> 2 ^ 19" "length (wc_role tcfg) \<le> 2 ^ 19"
    using conf by (simp_all add: conflicting_def Let_def)
  have v: "codev = 0" "cn_out wv' = encode_frames (worker_start vcfg @ worker_loop vcfg [rpc_frame])"
    using conflicting_worker_runs [OF short(1) w(1,3) disjI1 [OF refl] w(4,2)] by blast+
  have t: "codet = 0" "cn_out wt' = encode_frames (worker_start tcfg @ worker_loop tcfg [throttle_frame (Id (wc_workerId tcfg))])"
    using conflicting_worker_runs [OF short(2) w(5,7) disjI2 [OF refl] w(8,6)] by blast+
  obtain now now' now'' where times: "co_times io = (now, now', now'')" by (cases "co_times io")
  obtain save where run: "coordinator_process argv io fs =
    coordinator save (ca_mode args) (status_good, default_GovernorState) (co_accepted io) now now' now''
      (write_ready io (ca_ready args) fs)"
    using coordinator_process_basic [OF io(1) refl _ times, of argv fs] io(3,4) by auto
  show ?thesis
    unfolding run using system_runs [OF conf _ _ c(1) _ c(3) _ io(2)] c(2,4) io(4) v t
    by (simp add: answers_carries del: worker_loop.simps)
qed

end
