(* ===== verification/CG_Facade.thy ===== *)
theory CG_Facade
  imports CG_Invariant CG_Store CG_Clock
begin

text \<open>
  The object of \<^verbatim>\<open>governor.hpp\<close>: \<^verbatim>\<open>Governor\<close> with its options, its clock and its adapters, and the
  operations that use them. The lemmas show that they are those of \<^verbatim>\<open>CG_Governor\<close> at the reading of
  the object's clock and with the registry of its options: the one set later is never used.
\<close>

section \<open>Construction\<close>

record Options =
  op_clock :: "ManualClock option"
  op_adapters :: "AdapterRegistry option"
  op_persistEnable :: bool
  op_persistPath :: string

text \<open>\<open>gb_adapters\<close> is that of \<^verbatim>\<open>Impl\<close>, \<open>gb_adapters_\<close> the member of \<^verbatim>\<open>Governor\<close> itself.\<close>

record Governor_object = Governor +
  gb_clock :: Clock
  gb_adapters :: "AdapterRegistry option"
  gb_adapters_ :: "AdapterRegistry option"

definition construct_Governor :: "Options \<Rightarrow> Governor_object" where
  "construct_Governor opts =
     \<lparr>gv_state = default_GovernorState, gv_persistPath = op_persistPath opts, gv_persistEnable = op_persistEnable opts,
      gb_clock = (case op_clock opts of Some c \<Rightarrow> Manual_Clock c | None \<Rightarrow> System_Clock),
      gb_adapters = op_adapters opts, gb_adapters_ = None\<rparr>"

definition set_adapters :: "AdapterRegistry option \<Rightarrow> Governor_object \<Rightarrow> Governor_object" where
  "set_adapters adapters g = g\<lparr>gb_adapters_ := adapters\<rparr>"

section \<open>Operations that read the clock or call an adapter\<close>

text \<open>\<open>steady\<close> is what the steady clock reads during the call.\<close>

definition object_authorize ::
  "(int \<times> int \<times> int) \<Rightarrow> ConflictId \<Rightarrow> InterventionClass \<Rightarrow> Governor_object
    \<Rightarrow> undefined_behaviour + (InterventionId option \<times> Governor_object)" where
  "object_authorize steady cid cls g =
     (case authorize cid cls (clock_now steady (gb_clock g)) (gv_state g) of
        Inl ub \<Rightarrow> Inl ub
      | Inr (iid, st) \<Rightarrow> Inr (iid, g\<lparr>gv_state := st\<rparr>))"

definition object_dispatch ::
  "(int \<times> int \<times> int) \<Rightarrow> InterventionId \<Rightarrow> Governor_object \<Rightarrow> Status \<times> Governor_object" where
  "object_dispatch steady iid g =
     (let (status, st) = dispatch (gb_adapters g) iid (clock_now steady (gb_clock g)) (gv_state g)
      in (status, g\<lparr>gv_state := st\<rparr>))"

definition object_authorize_and_dispatch ::
  "(int \<times> int \<times> int) \<Rightarrow> (int \<times> int \<times> int) \<Rightarrow> ConflictId \<Rightarrow> InterventionClass \<Rightarrow> Governor_object
    \<Rightarrow> undefined_behaviour + (Status \<times> Governor_object)" where
  "object_authorize_and_dispatch steady steady' cid cls g =
     (case authorize_and_dispatch (gb_adapters g) cid cls (clock_now steady (gb_clock g))
         (clock_now steady' (gb_clock g)) (gv_state g) of
        Inl ub \<Rightarrow> Inl ub
      | Inr (status, st) \<Rightarrow> Inr (status, g\<lparr>gv_state := st\<rparr>))"

definition object_acknowledge ::
  "(int \<times> int \<times> int) \<Rightarrow> InterventionId \<Rightarrow> AttemptId \<Rightarrow> Governor_object \<Rightarrow> Status \<times> Governor_object" where
  "object_acknowledge steady iid attempt g =
     (let (status, st) = on_acknowledge iid attempt (clock_now steady (gb_clock g)) (gv_state g)
      in (status, g\<lparr>gv_state := st\<rparr>))"

section \<open>The registry set later is never used\<close>

lemma set_adapters_dispatch:
  "object_dispatch steady iid (set_adapters adapters g) =
     map_prod id (set_adapters adapters) (object_dispatch steady iid g)"
  by (simp add: object_dispatch_def set_adapters_def split_beta)

lemma set_adapters_authorize_and_dispatch:
  "object_authorize_and_dispatch steady steady' cid cls (set_adapters adapters g) =
     map_sum id (map_prod id (set_adapters adapters)) (object_authorize_and_dispatch steady steady' cid cls g)"
  by (simp add: object_authorize_and_dispatch_def set_adapters_def split: sum.split prod.split)

text \<open>A governor built without adapters and given some by \<^verbatim>\<open>set_adapters\<close> still finds none.\<close>

lemma set_adapters_no_registry:
  assumes "om_find (es_interventions (gs_engine st)) iid = Some i" "ir_state i = LS_AUTHORIZED"
    "st_code (revalidate (gs_engine st) (ir_fence i) (ir_target i)) = SC_OK" "op_adapters opts = None"
    "g = set_adapters adapters (construct_Governor opts\<lparr>gv_state := st\<rparr>)"
  shows "fst (object_dispatch steady iid g) = status_good
    \<and> (\<exists>i'. om_find (es_interventions (gs_engine (gv_state (snd (object_dispatch steady iid g))))) iid = Some i'
        \<and> ir_state i' = LS_FAILED \<and> st_message (ir_interimStatus i') = ''no adapter registry'')"
  using assms(1-4)
  by (auto simp: assms(5) object_dispatch_def set_adapters_def construct_Governor_def dispatch_def dispatch_begin_def
      dispatch_finish_def call_adapter_def Let_def apply_outcome_def split_beta)

end
