(* ===== verification/Spec_System.thy ===== *)
theory Spec_System
  imports CG_System CG_Facade CG_Loaded Spec_Protocol
begin

text \<open>
  The property of the system as a whole: a coordinator and two workers, from their first
  messages to the verdict.
\<close>

section \<open>Coordinator and workers\<close>

text \<open>
  C19. The three processes together resolve a conflict. Two workers with different, nonzero ids report
  valid measurements of the first one's workload, and both name the second one's workload as the
  neighbour that slows it down; at least one of the reported losses is not below the default threshold
  of 20 percent. The throttled worker, the second, has a role other than \<^verbatim>\<open>A\<close> (which is the default: a worker
  of role \<^verbatim>\<open>A\<close> answers in the order of C26, and the verdict below does not come about); the measurement
  after the action is finite with a finite loss; roles are at most \<open>2 ^ 19\<close> characters long, and adding
  1000 or 2000 to an id for that of the evidence does not give 0 in 64 bits. Every connection lets sends
  progress and may cut what it carries in any way, and those of the workers have sent nothing yet. If
  the victim's worker is sent the measurement request and the other's the throttle of its workload,
  and nothing more before the peer closes, both exit with 0; and a
  coordinator in another mode than \<^verbatim>\<open>persist\<close> and \<^verbatim>\<open>resume\<close>, such as the default \<^verbatim>\<open>basic\<close>, that is bound, accepts
  them in either order and receives what they send then
  sends exactly these two frames, at whatever times its clock shows, exits with 0 and prints \<^verbatim>\<open>OK\<close>
  with the state that the losses before and after the action give: resolved at or below the threshold,
  partially resolved below the larger of the two reported losses, and unresolved otherwise.
\<close>

theorem system_converges:
  assumes "conflicting vcfg tcfg"
    "ready wv" "cn_out wv = []" "delivers wv [rpc_frame]" "worker_main vcfg wv = Some (codev, wv')"
    "ready wt" "cn_out wt = []" "delivers wt [throttle_frame (Id (wc_workerId tcfg))]" "worker_main tcfg wt = Some (codet, wt')"
    "ready cv" "carries cv (cn_out wv')" "ready ct" "carries ct (cn_out wt')"
    "status_ok (co_bind io)" "co_accepted io = [Some cv, Some ct] \<or> co_accepted io = [Some ct, Some cv]"
    "args = coordinator_options (drop 1 argv) default_coordinator" "ca_mode args \<notin> {''persist'', ''resume''}"
  shows "codev = 0 \<and> codet = 0
    \<and> (\<exists>conns g cv' ct'. coordinator_process argv io fs =
        (Some (Exit 0 [''OK '' @ to_string_ConflictState
           (verdict_state (f64_max (worker_loss vcfg) (worker_loss tcfg)) (worker_post_loss vcfg))] conns g),
         write_ready io (ca_ready args) fs)
      \<and> om_find conns (Id (wc_workerId vcfg)) = Some cv' \<and> cn_out cv' = cn_out cv @ encode_frames [rpc_frame]
      \<and> om_find conns (Id (wc_workerId tcfg)) = Some ct'
      \<and> cn_out ct' = cn_out ct @ encode_frames [throttle_frame (Id (wc_workerId tcfg))])"
  by (rule processes_converge [OF assms])

lemma ex_conflicting:
  "conflicting ((ex_worker ''A'')\<lparr>wc_workerId := 1\<rparr>) (ex_worker ''B'')"
  "worker_post_loss ((ex_worker ''A'')\<lparr>wc_workerId := 1\<rparr>) = f64_zero"
proof -
  have "compute_degradation MD_HIGHER_IS_BETTER (F64 0x3FF0000000000000) (F64 0x3FF0000000000000) = F64 0"
    by (simp add: compute_degradation_def f64_patterns f64_consts)
  then show "conflicting ((ex_worker ''A'')\<lparr>wc_workerId := 1\<rparr>) (ex_worker ''B'')"
    "worker_post_loss ((ex_worker ''A'')\<lparr>wc_workerId := 1\<rparr>) = f64_zero"
    using ex_fractions(1)
    by (simp_all add: conflicting_def reports_def ex_worker_def worker_loss_def worker_post_loss_def structurally_valid_def
        worker_evidence_def default_InterferenceEvidence_def f64_patterns f64_consts f64_literals)
qed

text \<open>A worker's connection that delivers one frame, and the coordinator's that carries the answer.\<close>

definition ex_served :: "Frame \<Rightarrow> Connection" where
  "ex_served f = (ex_connection [])\<lparr>cn_recv := [Recv (encode_frames [f]), Peer_closed]\<rparr>"

lemma ex_connection_carries: "chunk_ok bs \<Longrightarrow> ready (ex_connection bs) \<and> carries (ex_connection bs) bs"
  by (auto simp: carries_def ready_def ex_connection_def intro!: exI [of _ "[bs]"])

lemma ex_served_runs:
  assumes "roomy (fm_payload f)" "length (fm_payload f) \<le> 100" "length (wc_role cfg) = 1"
    "length (encode_frames (worker_loop cfg [f])) \<le> 1000"
  obtains w' where "ready (ex_served f)" "cn_out (ex_served f) = []" "delivers (ex_served f) [f]"
    "worker_main cfg (ex_served f) = Some (0, w')" "ready (ex_connection (cn_out w'))" "carries (ex_connection (cn_out w')) (cn_out w')"
proof -
  have d: "ready (ex_served f)" "cn_out (ex_served f) = []"
    by (simp_all add: ex_served_def ex_connection_def ready_def)
  have "chunk_ok (encode_frames [f])"
    using assms(2) by (auto simp: chunk_ok_def)
  then have "delivers (ex_served f) [f]"
    by (auto simp: delivers_def ex_served_def ex_connection_def intro!: exI [of _ "[encode_frames [f]]"])
  moreover obtain w' where w': "worker_main cfg (ex_served f) = Some (0, w')"
    "cn_out w' = encode_frames (worker_start cfg @ worker_loop cfg [f])"
    using worker_main_delivers [of "[f]" "ex_served f" cfg] assms(1,3) d calculation by (auto simp del: worker_loop.simps)
  moreover have "chunk_ok (cn_out w')"
    using assms(3,4) by (auto simp: chunk_ok_def w'(2) worker_start_def encode_evidence_length worker_evidence_sel
        encode_hello_def worker_hello_def simp del: worker_loop.simps)
  ultimately show thesis
    using that [OF d _ w'(1)] ex_connection_carries by blast
qed

theorem system_converges_witness:
  "\<exists>cv ct conns g. coordinator_process [''coordinator'']
      \<lparr>co_bind = status_good, co_port = 4000, co_ready = False,
        co_load = \<lparr>li_open = True, li_tell = True, li_read = True\<rparr>, co_windows = False,
        co_save = \<lparr>si_open = True, si_written = 5000, si_remove = True, si_rename = True\<rparr>,
        co_accepted = [Some cv, Some ct], co_times = (10, 20, 30)\<rparr> Map.empty =
     (Some (Exit 0 [''OK ConflictState::RESOLVED''] conns g), Map.empty)"
proof -
  let ?v = "(ex_worker ''A'')\<lparr>wc_workerId := 1\<rparr>" and ?t = "ex_worker ''B''"
  obtain wv where v: "ready (ex_served rpc_frame)" "cn_out (ex_served rpc_frame) = []" "delivers (ex_served rpc_frame) [rpc_frame]"
    "worker_main ?v (ex_served rpc_frame) = Some (0, wv)" "ready (ex_connection (cn_out wv))"
    "carries (ex_connection (cn_out wv)) (cn_out wv)"
    by (rule ex_served_runs [of rpc_frame ?v])
      (simp_all add: roomy_def rpc_frame_def worker_loop_request encode_evidence_length worker_post_evidence_sel
        ex_worker_def del: worker_loop.simps)
  obtain wt where t: "ready (ex_served (throttle_frame (Id (wc_workerId ?t))))" "cn_out (ex_served (throttle_frame (Id (wc_workerId ?t)))) = []"
    "delivers (ex_served (throttle_frame (Id (wc_workerId ?t)))) [throttle_frame (Id (wc_workerId ?t))]"
    "worker_main ?t (ex_served (throttle_frame (Id (wc_workerId ?t)))) = Some (0, wt)" "ready (ex_connection (cn_out wt))"
    "carries (ex_connection (cn_out wt)) (cn_out wt)"
    by (rule ex_served_runs [of "throttle_frame (Id (wc_workerId ?t))" ?t])
      (simp_all add: roomy_def throttle_frame_def worker_answer split_beta ex_worker_def encode_ack_length,
       simp_all add: action_frame_def encode_action_length)
  have "verdict_state loss f64_zero = CS_RESOLVED" for loss
    by (simp add: verdict_state_def f64_literals f64_patterns f64_consts)
  then have "verdict_state loss (worker_post_loss ?v) = CS_RESOLVED" for loss by (simp add: ex_conflicting(2))
  moreover have "coordinator_options (drop 1 [''coordinator'']) default_coordinator = default_coordinator" by simp
  ultimately show ?thesis
    using system_converges [OF ex_conflicting(1) v(1-4) t(1-4) v(5,6) t(5,6), where argv = "[''coordinator'']"
        and fs = Map.empty and args = default_coordinator and io = "\<lparr>co_bind = status_good, co_port = 4000, co_ready = False,
          co_load = \<lparr>li_open = True, li_tell = True, li_read = True\<rparr>, co_windows = False,
          co_save = \<lparr>si_open = True, si_written = 5000, si_remove = True, si_rename = True\<rparr>,
          co_accepted = [Some (ex_connection (cn_out wv)), Some (ex_connection (cn_out wt))], co_times = (10, 20, 30)\<rparr>"]
    by (auto simp: default_coordinator_def write_ready_def)
qed

end
