(* ===== verification/Spec2Isabelle.thy ===== *)
theory Spec2Isabelle
  imports CG_Example CG_Replay CG_Unread Spec_Protocol Spec_Data Spec_Store Spec_Programs Spec_System
begin

text \<open>
  A model of the Contention Governor, a C++ runtime that decides which workload has to yield when
  accelerator workloads interfere, under whose authority, and whether the intervention worked.

  The program and the theories, bottom up:

  \<^item> \<^verbatim>\<open>CG_Prelude\<close>: machine integers, \<^verbatim>\<open>ids.hpp\<close>, \<^verbatim>\<open>checked.hpp\<close>, \<^verbatim>\<open>status.hpp\<close>. \<^verbatim>\<open>CG_Double\<close>: the C++
    \<^verbatim>\<open>double\<close> as an IEEE 754 bit pattern with correctly rounded arithmetic, so that NaN, infinities
    and rounding are those of the code. \<^verbatim>\<open>CG_Map\<close>: \<^verbatim>\<open>std::map\<close> as an association list in key order.
    \<^verbatim>\<open>CG_Enums\<close>: \<^verbatim>\<open>enums.hpp\<close> with the numbering, names and parsers of every enumeration.
  \<^item> \<^verbatim>\<open>CG_Evidence\<close>, \<^verbatim>\<open>CG_Policy\<close>, \<^verbatim>\<open>CG_Conflict\<close>: the records of \<^verbatim>\<open>evidence.hpp\<close>, \<^verbatim>\<open>policy.hpp\<close>,
    \<^verbatim>\<open>conflict.hpp\<close>, \<^verbatim>\<open>engine.hpp\<close> and \<^verbatim>\<open>state.hpp\<close>, their validation and classification.
  \<^item> \<^verbatim>\<open>CG_Engine\<close>: \<^verbatim>\<open>governor_engine.cpp\<close>, from the fence to the evaluation of a conflict; \<^verbatim>\<open>CG_Decision\<close>
    shows what an evaluation promises. \<^verbatim>\<open>CG_Governor\<close>: every operation of \<^verbatim>\<open>governor.cpp\<close> on the
    governor's state, \<^verbatim>\<open>dispatch\<close> as the two critical sections around the call of the adapter.
  \<^item> \<^verbatim>\<open>CG_Invariant\<close> keeps the state well formed through every operation, \<^verbatim>\<open>CG_Lifecycle\<close> makes the
    governor a transition system whose labels are its critical sections, in any interleaving, and
    \<^verbatim>\<open>CG_Guarantees\<close> gathers what budgets, fairness records, epochs and verdicts promise; \<^verbatim>\<open>CG_Unread\<close> what
    authorization and verification do not look at.
  \<^item> \<^verbatim>\<open>CG_Digest\<close>: \<^verbatim>\<open>digest.cpp\<close>. \<^verbatim>\<open>CG_Wire\<close> and \<^verbatim>\<open>CG_Persistence\<close>: the byte format of
    \<^verbatim>\<open>persistence.cpp\<close>, every record with its writer and reader. \<^verbatim>\<open>CG_Store\<close>: \<^verbatim>\<open>save_state\<close> and \<^verbatim>\<open>load_state\<close>
    on a file system, and \<^verbatim>\<open>open\<close>, \<^verbatim>\<open>save\<close> and \<^verbatim>\<open>load\<close> of the governor. \<^verbatim>\<open>CG_Loaded\<close>: what any reader accepts is
    well formed. \<^verbatim>\<open>CG_Replay\<close>: \<^verbatim>\<open>replay.cpp\<close>.
  \<^item> \<^verbatim>\<open>CG_Clock\<close>: the clocks of \<^verbatim>\<open>clock.hpp\<close> and \<^verbatim>\<open>clock.cpp\<close>. \<^verbatim>\<open>CG_Facade\<close>: the object \<^verbatim>\<open>Governor\<close> of \<^verbatim>\<open>governor.hpp\<close> with
    its options, its clock and its adapters.
  \<^item> \<^verbatim>\<open>CG_Cursor\<close>: the bounded readers \<^verbatim>\<open>R\<close> and \<^verbatim>\<open>dist::Reader\<close> as pointer, length and position, where an access
    outside the buffer is an error. Over them \<^verbatim>\<open>CG_Load\<close> has \<^verbatim>\<open>load_from_bytes\<close> with its deserializers,
    \<^verbatim>\<open>CG_Codec\<close> the encoders and decoders of \<^verbatim>\<open>dist/protocol.cpp\<close> and \<^verbatim>\<open>CG_Frames\<close> the frame decoders of
    \<^verbatim>\<open>net.cpp\<close>, each shown to be that of the byte strings.
  \<^item> \<^verbatim>\<open>CG_Net\<close>: frames, sending and receiving of \<^verbatim>\<open>net.cpp\<close>; \<^verbatim>\<open>CG_Socket\<close>: its listener and connections as
    owners of descriptors. \<^verbatim>\<open>CG_Dist\<close>: the messages of \<^verbatim>\<open>dist/protocol.cpp\<close>. \<^verbatim>\<open>CG_Cluster\<close>: what
    \<^verbatim>\<open>worker.cpp\<close> and \<^verbatim>\<open>coordinator.cpp\<close> do with frames; \<^verbatim>\<open>CG_Process\<close>: the two programs from the command
    line to the exit code; \<^verbatim>\<open>CG_System\<close> runs a coordinator and two workers together.
  \<^item> \<^verbatim>\<open>CG_CLib\<close>: \<^verbatim>\<open>strtoull\<close>, \<^verbatim>\<open>atoi\<close> and \<^verbatim>\<open>atof\<close>, which the programs read their arguments with.
    \<^verbatim>\<open>CG_Cli\<close>: the command line tool of \<^verbatim>\<open>cli/main.cpp\<close>.
  \<^item> \<^verbatim>\<open>CG_Programs\<close>: the programs of \<^verbatim>\<open>examples/\<close> with \<^verbatim>\<open>eg.hpp\<close>. \<^verbatim>\<open>CG_Drivers\<close>: the benchmark, the governor's part
    of the CUDA proof and the packaging test, with the times they measure as inputs. \<^verbatim>\<open>CG_Cuda\<close>: the kernel, the
    measurements and the whole CUDA proof as the calls of the library that it makes.
  \<^item> \<^verbatim>\<open>CG_Example\<close>: one concrete run, from the first evidence to the verdict, on which the properties
    are shown to apply.

  The parts meet as in the code: a worker's frames reach the coordinator through \<^verbatim>\<open>CG_Net\<close>, are decoded by
  \<^verbatim>\<open>CG_Dist\<close> and ingested by \<^verbatim>\<open>CG_Governor\<close>, which evaluates with \<^verbatim>\<open>CG_Engine\<close> and calls the
  adapter of \<^verbatim>\<open>CG_Cluster\<close>; the state goes to a file and back through \<^verbatim>\<open>CG_Store\<close>, and the tool of
  \<^verbatim>\<open>CG_Cli\<close> prints what it finds there.

  State and errors. An operation maps the state to its result and the new state. A \<^verbatim>\<open>Status\<close> is returned
  as the code returns it, an empty \<^verbatim>\<open>optional\<close> is \<open>None\<close>, and the one place where the code may
  dereference \<^verbatim>\<open>end()\<close> is the error \<open>Deref_end\<close>. Readings of the clock, results of adapters, of \<^verbatim>\<open>send(2)\<close>,
  of \<^verbatim>\<open>recv(2)\<close>, of \<^verbatim>\<open>accept\<close> and of the file functions are arguments; a step that would wait for more input
  is \<open>None\<close>.

  Properties. This theory holds those of the governor: authorization (C1, C6), runs of the system
  (C2, C4, C5), fences and epochs (C7, C8), ranking (C9), accounting (C13, C14, C40), verification
  (C15), replay (C38) and ingestion (C39). \<^verbatim>\<open>Spec_Protocol\<close> holds those of the transport, the messages and the
  processes (C16, C20, C21, C23, C25 to C29, C37), \<^verbatim>\<open>Spec_System\<close> the one of coordinator and workers together (C19),
  \<^verbatim>\<open>Spec_Store\<close> those of the state file, the restart and the
  tool (C3, C17, C24, C32), \<^verbatim>\<open>Spec_Data\<close> those of the stored format, of parsing and of numbers (C10, C12, C30, C31, C33 to C36),
  \<^verbatim>\<open>Spec_Programs\<close> those of the programs around the library (C11, C18, C22).

  Bounds. Id counters are 64 bits wide: the properties of runs hold for fewer than \<open>2 ^ 64 - 1\<close> steps, so that no
  counter wraps. A frame's payload is at most \<open>2 ^ 20\<close> bytes, the protocol's limit; where the receive buffer
  matters it is at most \<open>2 ^ 20 - 4095\<close>, which leaves room for one chunk of 4096 bytes (C21 shows that the
  protocol's own limit is not enough). Saved texts and collections have at most \<open>2 ^ 20\<close> elements, as the
  loader demands. No definition uses fuel: the loops end by structure or by a measure.

  Not modelled. The threads themselves and the socket options belong to the operating system, the timing and the
  arithmetic of the device to CUDA: the kernel takes its floating point operations as a parameter. The printf
  formats of measured times are left out; the tests drive the library.
\<close>

section \<open>The governor\<close>

text \<open>
  C1. Authorization is sound. Whenever \<open>authorize\<close> grants an intervention, the conflict was
  actionable with current, structurally valid evidence of sufficient attribution and
  confidence and without unresolved confounders; the target is one of the conflict's
  associated workloads; the granted class passes the tests of \<open>check_feasibility\<close> on the target's
  policy (allowed and not preempting a non-preemptible workload, no throttling under a hard floor of
  all service); the target is not at its fairness cap, the class's budget not exhausted and the
  target not in cooldown; and the stored record carries a fence that is current. No other
  constraint is enforced: under any policy that differs only in the fields that \<open>decision_part\<close>
  blanks, among them \<^verbatim>\<open>protectedWorkload\<close>, both fields \<^verbatim>\<open>costCeiling\<close>, \<^verbatim>\<open>maxDegradationTolerated\<close> and the
  service and fairness floors, the same intervention is granted with the same record. The README and
  \<^verbatim>\<open>policy.hpp\<close> list protected classes, cost ceilings, a cap on the degradation and a guaranteed share as hard
  constraints; the code enforces none of them.
\<close>

theorem authorize_sound:
  assumes "gov_inv st" "authorize cid cls now st = Inr (Some iid, st')"
  shows "\<exists>c primary i. om_find (es_conflicts (gs_engine st)) cid = Some c
     \<and> actionable_with (gs_engine st) c primary
     \<and> om_find (es_interventions (gs_engine st')) iid = Some i
     \<and> ir_state i = LS_AUTHORIZED \<and> ir_conflictId i = cid \<and> ir_target i \<in> set (cc_associated c)
     \<and> (cls \<noteq> IC_NO_ACTION \<longrightarrow> ir_cls i = cls)
     \<and> (cls = IC_NO_ACTION \<longrightarrow> class_eligible (es_policy (gs_engine st)) (ir_cls i))
     \<and> fence_current (es_authority (gs_engine st)) (ir_fence i) (ir_target i)
     \<and> hard_constraints (es_policy (gs_engine st))
          (workload_policy_for (es_policy (gs_engine st)) (ir_target i)) (ir_cls i)
     \<and> \<not> fairness_capped (gs_engine st) (ir_target i)
     \<and> \<not> budget_exhausted (p_budget (es_policy (gs_engine st))) (ir_cls i)
     \<and> \<not> in_cooldown (gs_engine st) (ir_target i) (ir_cls i) now
     \<and> (\<forall>p. decision_part p = decision_part (es_policy (gs_engine st)) \<longrightarrow>
          (\<exists>st''. authorize cid cls now (with_policy p st) = Inr (Some iid, st'')
             \<and> om_find (es_interventions (gs_engine st'')) iid = Some i))"
proof -
  have unread: "\<exists>st''. authorize cid cls now (with_policy p st) = Inr (Some iid, st'')
      \<and> es_interventions (gs_engine st'') = es_interventions (gs_engine st')"
    if "decision_part p = decision_part (es_policy (gs_engine st))" for p
    using authorize_unread [OF assms(2) that] by metis
  have "valid_policy (es_policy (gs_engine st))" using assms(1) engine_invD(2) by (auto simp: gov_inv_def)
  then have fin: "values_finite (es_policy (gs_engine st))" by (rule valid_policy_values_finite)
  show ?thesis
  proof (rule authorize_granted [OF assms(2)], goal_cases)
    case (1 c cand eid e rest f adapter)
    note g = check_feasibility_iff [THEN iffD1, OF 1(7)] and p = picked_sound [OF 1(2) fin 1(1)]
    from p obtain primary where "actionable_with (gs_engine st) c primary" by blast
    then show ?case
      using 1(1,6,8,9) g p unread
      by (intro exI [of _ c] exI [of _ primary] exI [of _ "new_intervention (if cls \<noteq> IC_NO_ACTION then cls
          else cand_cls cand) cid (cand_target cand) f adapter now st"]) (fastforce simp: 1(10,11))
  qed
qed

theorem authorize_sound_witness:
  "(\<exists>i. om_find (es_interventions (gs_engine (ex_authorized IC_THROTTLE))) (Id 1) = Some i
     \<and> ir_cls i = IC_THROTTLE \<and> fence_current ex_authority (ir_fence i) (ir_target i))
   \<and> (\<exists>st''. authorize (Id 1) IC_THROTTLE 10000 (with_policy (default_ContentionPolicy\<lparr>p_costCeiling := f64_one,
        p_fairnessFloor := f64_one\<rparr>) ex_detected) = Inr (Some (Id 1), st''))"
proof
  note sound = authorize_sound [OF ex_detected_inv ex_authorize(2)]
  show "\<exists>i. om_find (es_interventions (gs_engine (ex_authorized IC_THROTTLE))) (Id 1) = Some i
     \<and> ir_cls i = IC_THROTTLE \<and> fence_current ex_authority (ir_fence i) (ir_target i)"
    using sound by (auto simp: ex_sel)
  have "decision_part (default_ContentionPolicy\<lparr>p_costCeiling := f64_one, p_fairnessFloor := f64_one\<rparr>) =
      decision_part (es_policy (gs_engine ex_detected))"
    by (simp add: ex_sel) (simp add: decision_part_def)
  then show "\<exists>st''. authorize (Id 1) IC_THROTTLE 10000 (with_policy (default_ContentionPolicy\<lparr>p_costCeiling := f64_one,
        p_fairnessFloor := f64_one\<rparr>) ex_detected) = Inr (Some (Id 1), st'')"
    using sound by blast
qed

text \<open>
  C2. Well-formedness along every run, and no undefined behaviour. In every state reachable from
  the initial one by any interleaving of operations and dispatch halves, \<open>gov_inv\<close> holds: maps
  are in key order and store each record under its own id, conflicts refer to stored evidence
  and interventions, stored evidence passed validation and carries the recomputed fractions, the
  policy is valid, and no two conflicts share a domain and a victim. So \<open>authorize\<close>, which
  dereferences the look-up of the conflict's first evidence without a test, returns.
\<close>

theorem reachable_gov_inv:
  assumes "reachable n y"
  shows "gov_inv (sys_state y) \<and> (\<exists>r st'. authorize cid cls now (sys_state y) = Inr (r, st'))"
  using gov.runs_inv [OF assms] authorize_defined by blast

theorem reachable_gov_inv_witness:
  "gov_inv (sys_state ex_after_authorize) \<and> (\<exists>r st'. authorize (Id 1) IC_SERIALIZE 0 (sys_state ex_after_authorize) = Inr (r, st'))"
  by (rule reachable_gov_inv [OF ex_reachable])

text \<open>
  C4. At most one adapter call for an intervention. In every run of fewer than \<open>2 ^ 64 - 1\<close>
  steps (the width of the id counter), however dispatches and other operations interleave,
  the adapter has been called at most once for every intervention, and each call was for a
  stored intervention that has left AUTHORIZED.
\<close>

theorem dispatch_at_most_once:
  assumes "reachable n y" "n < 2 ^ 64 - 1"
  shows "distinct (map fst (sys_calls y))
    \<and> (\<forall>iid \<in> fst ` set (sys_calls y). \<exists>i. om_find (es_interventions (gs_engine (sys_state y))) iid = Some i
          \<and> ir_state i \<noteq> LS_AUTHORIZED)"
  using calls.runs_inv [OF assms(1)] assms(2) by (simp add: bounded_calls_inv_def calls_inv_def)

theorem dispatch_at_most_once_witness:
  "distinct (map fst (sys_calls ex_after_begin)) \<and> sys_calls ex_after_begin \<noteq> []"
  using dispatch_at_most_once [OF ex_begin_reachable] by (simp add: ex_after_begin_def)


text \<open>
  C5. The lifecycle of an intervention. In one step of the system an intervention that is
  stored under an id other than the next fresh one stays stored with its id, class,
  conflict, target, fence and attempt unchanged, and its lifecycle state is unchanged or
  moves along an edge of the lifecycle, or to FAILED by a failure report for it, or to the
  state of the adapter's outcome by the second half of its own dispatch. A terminal state is
  stable but for these two: every other step leaves an intervention that is no longer active
  exactly in its state.
\<close>

theorem lifecycle_step:
  assumes "reachable n y" "step y l y'" "iid \<noteq> Id (gs_nextInterventionId (sys_state y))"
    "om_find (es_interventions (gs_engine (sys_state y))) iid = Some i"
  shows "\<exists>i'. om_find (es_interventions (gs_engine (sys_state y'))) iid = Some i' \<and> same_identity i i'
    \<and> (ir_state i' = ir_state i \<or> label_edge l iid (ir_state i) (ir_state i'))
    \<and> (\<not> active (ir_state i) \<and> (\<forall>attempt note. l \<noteq> Call (On_action_failed iid attempt note))
         \<and> (\<forall>res. l \<noteq> Finish iid res) \<longrightarrow> ir_state i' = ir_state i)"
proof -
  have "\<not> label_edge l iid (ir_state i) b"
    if "\<not> active (ir_state i)" "\<forall>attempt note. l \<noteq> Call (On_action_failed iid attempt note)" "\<forall>res. l \<noteq> Finish iid res" for b
    using that by (cases "(l, iid, ir_state i, b)" rule: label_edge.cases) (auto dest: lifecycle_edge_from)
  then show ?thesis
    using moved_step [OF assms(2) gov.runs_inv [OF assms(1)] assms(3)] assms(4) by (auto simp: moved_def)
qed

theorem lifecycle_step_witness:
  "\<exists>i'. om_find (es_interventions (gs_engine (snd (on_acknowledge (Id 1) (Id 1) 5 ex_superseded)))) (Id 1) = Some i'
     \<and> ir_state i' = LS_OUTCOME_UNKNOWN"
  using lifecycle_step [OF ex_superseded_reachable ex_superseded_step, of "Id 1"
      "ex_intervention\<lparr>ir_state := LS_OUTCOME_UNKNOWN\<rparr>"]
  by (auto simp: ex_superseded_sel active_simps)

text \<open>
  C7. A stale fence stops a dispatch before the adapter. If the authority has moved on since
  an intervention was authorized, \<open>dispatch\<close> returns the revalidation error, whatever the
  adapters are, and changes nothing but the intervention, which becomes SUPERSEDED.
\<close>

theorem stale_fence_stops_dispatch:
  assumes "om_find (es_interventions (gs_engine st)) iid = Some i" "ir_state i = LS_AUTHORIZED"
    "\<not> fence_current (es_authority (gs_engine st)) (ir_fence i) (ir_target i)"
  shows "dispatch adapters iid now st =
      (revalidate (gs_engine st) (ir_fence i) (ir_target i),
       on_engine (put_intervention iid (i\<lparr>ir_state := LS_SUPERSEDED\<rparr>)) st)
    \<and> st_code (fst (dispatch adapters iid now st)) \<in> {SC_STALE_AUTHORITY, SC_POLICY_SUPERSEDED}"
  using assms revalidate_ok [of "gs_engine st"] revalidate_code [of "gs_engine st" "ir_fence i" "ir_target i"]
  by (auto simp: dispatch_def dispatch_begin_def Let_def)

theorem stale_fence_stops_dispatch_witness:
  "\<forall>adapters. st_code (fst (dispatch adapters (Id 1) 0 ex_rebooted)) \<in> {SC_STALE_AUTHORITY, SC_POLICY_SUPERSEDED}"
  using stale_fence_stops_dispatch [OF ex_rebooted_sel] by blast

text \<open>
  C8. An epoch change revokes all authority. After \<open>advance_epoch\<close> (unless the epoch counter
  is saturated) no stored evidence is CURRENT, no conflict can be acted upon, no
  intervention is active, no dispatch reaches an adapter, and every fence made before is
  stale.
\<close>

theorem advance_epoch_revokes:
  fixes st :: GovernorState
  defines "st' \<equiv> snd (advance_epoch st)"
  assumes "id_value (au_coordinatorEpoch (es_authority (gs_engine st))) \<noteq> u64_max"
  shows "(\<forall>eid e. om_find (es_evidence (gs_engine st')) eid = Some e \<longrightarrow> ie_status e \<noteq> ES_CURRENT)
    \<and> (\<forall>cid cls now. authorize cid cls now st' = Inr (None, st'))
    \<and> (\<forall>iid i. om_find (es_interventions (gs_engine st')) iid = Some i \<longrightarrow> \<not> active (ir_state i))
    \<and> (\<forall>adapters iid now. snd (dispatch adapters iid now st') = st')
    \<and> (\<forall>f target. fence_current (es_authority (gs_engine st)) f target \<longrightarrow>
         \<not> fence_current (es_authority (gs_engine st')) f target)"
  using epoch_revoked [where st = st] epoch_fence_stale [OF assms(2)] unfolding st'_def by blast

theorem advance_epoch_revokes_witness:
  "authorize (Id 1) IC_NO_ACTION 0 (snd (advance_epoch ex_detected)) = Inr (None, snd (advance_epoch ex_detected))
    \<and> (\<exists>st'. authorize (Id 1) IC_NO_ACTION 10000 ex_detected = Inr (Some (Id 1), st'))"
  using advance_epoch_revokes [of ex_detected] ex_authorize(1) by (auto simp: ex_sel ex_authority_def)


section \<open>Evaluation and ranking\<close>

text \<open>
  C9. The decision is the unique best feasible candidate. Under a valid policy a decision is
  one of the candidates of the evaluation, feasible, and strictly better in the ranking than
  every other feasible candidate; its target is an associated workload, its class eligible,
  and the hard constraints and the fairness cap hold for it. Whether there is a decision, and
  which, does not depend on the order (or repetition) in which the associated workloads are
  listed. The ranking itself is a stable sort by \<open>better\<close>: on candidates whose ranked fields are not
  NaN, as all candidates of an evaluation under a valid policy are, the result is a permutation of
  the input, no element is better than an earlier one, and candidates of equal rank keep their order.
\<close>

theorem decision_unique_best:
  assumes "valid_policy (es_policy s)" "om_find (es_conflicts s) cid = Some c"
  shows "(\<forall>d. ce_decision (evaluate_conflict s cid ctx) = Some d \<longrightarrow>
      unique_best (es_policy s) (set (ce_candidates (evaluate_conflict s cid ctx))) (dec_chosen d)
    \<and> class_eligible (es_policy s) (cand_cls (dec_chosen d))
    \<and> hard_constraints (es_policy s) (workload_policy_for (es_policy s) (cand_target (dec_chosen d)))
        (cand_cls (dec_chosen d))
    \<and> \<not> fairness_capped s (cand_target (dec_chosen d))
    \<and> cand_target (dec_chosen d) \<in> set (cc_associated c))
    \<and> (\<forall>ts. set ts = set (cc_associated c) \<longrightarrow>
        ce_decision (evaluate_conflict (put_conflict cid (c\<lparr>cc_associated := ts\<rparr>) s) cid ctx) =
        ce_decision (evaluate_conflict s cid ctx))
    \<and> (\<forall>primary ts. list_all (ranked (es_policy s)) (build_candidates s ctx c primary ts))
    \<and> (\<forall>xs z. (\<forall>x \<in> set (z # xs). ranked (es_policy s) x) \<longrightarrow>
        mset (stable_sort (better (es_policy s)) xs) = mset xs
        \<and> sorted_wrt (\<lambda>a b. \<not> better (es_policy s) b a) (stable_sort (better (es_policy s)) xs)
        \<and> filter (\<lambda>a. \<not> better (es_policy s) a z \<and> \<not> better (es_policy s) z a) (stable_sort (better (es_policy s)) xs) =
            filter (\<lambda>a. \<not> better (es_policy s) a z \<and> \<not> better (es_policy s) z a) xs)"
proof (intro conjI allI impI)
  fix primary ts
  show "list_all (ranked (es_policy s)) (build_candidates s ctx c primary ts)"
    using candidates_ranked [OF valid_policy_values_finite [OF assms(1)]] by (simp add: list_all_iff)
next
  fix xs z assume "\<forall>x \<in> set (z # xs). ranked (es_policy s) x"
  then show "mset (stable_sort (better (es_policy s)) xs) = mset xs"
    "sorted_wrt (\<lambda>a b. \<not> better (es_policy s) b a) (stable_sort (better (es_policy s)) xs)"
    "filter (\<lambda>a. \<not> better (es_policy s) a z \<and> \<not> better (es_policy s) z a) (stable_sort (better (es_policy s)) xs) =
        filter (\<lambda>a. \<not> better (es_policy s) a z \<and> \<not> better (es_policy s) z a) xs"
    by (simp_all add: rank.sort_mset rank.sort_sorted rank.sort_stable)
next
  fix ts assume "set ts = set (cc_associated c)"
  then show "ce_decision (evaluate_conflict (put_conflict cid (c\<lparr>cc_associated := ts\<rparr>) s) cid ctx) =
      ce_decision (evaluate_conflict s cid ctx)"
    using assms by (intro evaluate_reordered valid_policy_values_finite)
next
  fix d assume d: "ce_decision (evaluate_conflict s cid ctx) = Some d"
  obtain c' primary where c': "om_find (es_conflicts s) cid = Some c'"
    "ce_candidates (evaluate_conflict s cid ctx) = build_candidates s ctx c' primary (sort (cc_associated c'))"
    and best: "unique_best (es_policy s) (set (ce_candidates (evaluate_conflict s cid ctx))) (dec_chosen d)"
    using decision_sound [OF d valid_policy_values_finite [OF assms(1)]] by metis
  have c: "ce_candidates (evaluate_conflict s cid ctx) = build_candidates s ctx c primary (sort (cc_associated c))"
    using c' assms(2) by simp
  show "unique_best (es_policy s) (set (ce_candidates (evaluate_conflict s cid ctx))) (dec_chosen d)" by (rule best)
  show "class_eligible (es_policy s) (cand_cls (dec_chosen d))"
    "hard_constraints (es_policy s) (workload_policy_for (es_policy s) (cand_target (dec_chosen d))) (cand_cls (dec_chosen d))"
    "\<not> fairness_capped s (cand_target (dec_chosen d))" "cand_target (dec_chosen d) \<in> set (cc_associated c)"
    using chosen_constraints [OF best [unfolded c]] by simp_all
qed

theorem decision_unique_best_witness:
  "(\<exists>d. ce_decision (evaluate_conflict ex_engine (Id 1) ex_authority) = Some d
    \<and> \<not> fairness_capped ex_engine (cand_target (dec_chosen d)))
    \<and> ce_decision (evaluate_conflict (put_conflict (Id 1) (ex_conflict\<lparr>cc_associated := [Id 2, Id 2]\<rparr>) ex_engine)
        (Id 1) ex_authority) \<noteq> None"
proof -
  obtain d where d: "ce_decision (evaluate_conflict ex_engine (Id 1) ex_authority) = Some d" by (rule ex_decision)
  have hyps: "valid_policy (es_policy ex_engine)" "om_find (es_conflicts ex_engine) (Id 1) = Some ex_conflict"
    "set [Id 2, Id 2] = set (cc_associated ex_conflict)"
    by (simp_all add: ex_sel ex_conflict_sel default_policy_valid)
  note best = decision_unique_best [OF hyps(1,2), of ex_authority]
  have "ce_decision (evaluate_conflict (put_conflict (Id 1) (ex_conflict\<lparr>cc_associated := [Id 2, Id 2]\<rparr>) ex_engine)
      (Id 1) ex_authority) = Some d"
    using best hyps(3) d by metis
  moreover have "\<not> fairness_capped ex_engine (cand_target (dec_chosen d))" using best d by blast
  ultimately show ?thesis using d by blast
qed

section \<open>Accounting\<close>

text \<open>
  C13. The action budget is never exceeded. After a granted authorization the counter of the
  granted class is positive and at most the limit of the policy, and exactly one more than
  before (one, when the window had expired).
\<close>

theorem budget_within_limit:
  assumes "authorize cid cls now st = Inr (Some iid, st')"
    "om_find (es_interventions (gs_engine st')) iid = Some i"
    "used_of (ir_cls i) (ab_used (action_budget st')) = Some u"
  shows "0 < u \<and> u \<le> limit_of (ir_cls i) (action_budget st)
    \<and> (\<exists>u0. used_of (ir_cls i) (ab_used (action_budget st)) = Some u0
         \<and> u = (if window_expired (action_budget st) now then 1 else u0 + 1))"
proof (rule authorize_granted [OF assms(1)], goal_cases)
  case (1 c cand eid e rest f adapter)
  then have i: "ir_cls i = (if cls \<noteq> IC_NO_ACTION then cls else cand_cls cand)"
    using assms(2) by auto
  have b: "action_budget st' = consume_budget (action_budget st) (ir_cls i) now"
    unfolding 1(11) action_budget_def i by simp
  have "\<not> budget_exhausted (action_budget st) (ir_cls i)" using 1(8) by (simp only: i action_budget_def not_False_eq_True)
  then show ?case
    using consume_budget_within assms(3) unfolding b by (fastforce simp: consume_budget_used)
qed

theorem budget_within_limit_witness:
  "used_of IC_THROTTLE (ab_used (action_budget (ex_authorized IC_THROTTLE))) = Some 1
    \<and> (1 :: u64) \<le> limit_of IC_THROTTLE (action_budget ex_detected)"
proof -
  have u: "used_of IC_THROTTLE (ab_used (action_budget (ex_authorized IC_THROTTLE))) = Some 1"
    by (simp add: action_budget_def ex_authorized_def ex_sel consume_budget_used default_ContentionPolicy_def
        default_ActionBudget_def default_ActionBudgetStats_def window_expired_def)
  show ?thesis
    using budget_within_limit [OF ex_authorize(2), of ex_intervention 1] u
    by (simp add: ex_authorized_sel ex_intervention_sel)
qed

text \<open>
  C14. Fairness accounting. A granted authorization adds one, saturating, to the target's
  intervention count, records the time, and leaves its consecutive count positive and
  within the policy's cap.
\<close>

theorem fairness_accounting:
  assumes "gov_inv st" "authorize cid cls now st = Inr (Some iid, st')"
    "om_find (es_interventions (gs_engine st')) iid = Some i"
  shows "\<exists>f. fairness_of (ir_target i) st' = Some f
    \<and> unat (fr_interventionCount f) = min (unat (case fairness_of (ir_target i) st of
          Some f0 \<Rightarrow> fr_interventionCount f0 | None \<Rightarrow> 0) + 1) (2 ^ 64 - 1)
    \<and> fr_lastInterventionAt f = now
    \<and> 0 < fr_consecutiveInterventions f
    \<and> fr_consecutiveInterventions f \<le> p_maxConsecutiveInterventionsPerWorkload (es_policy (gs_engine st))"
proof (rule authorize_granted [OF assms(2)], goal_cases)
  case (1 c cand eid e rest f adapter)
  then have i: "ir_target i = cand_target cand" using assms(3) by auto
  have "valid_policy (es_policy (gs_engine st))" using assms(1) engine_invD(2) by (auto simp: gov_inv_def)
  then have "p_maxConsecutiveInterventionsPerWorkload (es_policy (gs_engine st)) \<noteq> 0" by (simp add: valid_policy_def)
  moreover have "\<not> fairness_capped (gs_engine st) (ir_target i)"
    using check_feasibility_iff [THEN iffD1, OF 1(7)] i by simp
  ultimately show ?case
    using charge_fairness_within [of default_FairnessRecord] charge_fairness_within
    unfolding fairness_of_def 1(11) i
    by (cases "om_find (es_fairness (gs_engine st)) (cand_target cand)")
      (auto simp: fairness_capped_def default_FairnessRecord_def not_le word_neq_0_conv)
qed

theorem fairness_accounting_witness:
  "\<exists>f. fairness_of (Id 2) (ex_authorized IC_THROTTLE) = Some f \<and> fr_lastInterventionAt f = 10000"
  using fairness_accounting [OF ex_detected_inv ex_authorize(2), of ex_intervention]
  by (auto simp: ex_authorized_sel ex_intervention_sel)


section \<open>Post-action verification\<close>

text \<open>
  C15. What post-action evidence concludes. For a valid measurement of a stored conflict with
  an AUTHORIZED, DISPATCHED or ACKNOWLEDGED intervention, the first of them becomes EFFECTIVE and the conflict RESOLVED
  exactly if the measured degradation is at or below the actionability threshold and no
  other conflict shows the target beyond its hard floor; a violated floor is reported as
  shifted contention or a secondary violation; the conflict takes over the measured
  degradation, and no other intervention changes. Against the README, which asks for fresh
  post-action evidence, neither freshness nor dispatch is tested: the same measurement with any other
  status, sampling time and maximal age, say EXPIRED, puts intervention and conflict into the same
  states, and an intervention that was never sent becomes EFFECTIVE like one that was.
\<close>

theorem post_action_verdict:
  fixes input st0
  defines "st' \<equiv> snd (submit_post_action_evidence input st0)"
  assumes "gov_inv st0" "status_ok (validate_evidence input)"
    and stored: "store_evidence (with_fractions input) st0 = (e, st)"
    and conflict: "om_first (concerns e) (es_conflicts (gs_engine st)) = Some (k, c)"
    and acting: "om_first (verifiable k) (es_interventions (gs_engine st)) = Some (ik, i)"
  defines "violated \<equiv> secondary_violation (put_conflict k (measure_conflict e c) (gs_engine st)) k (ir_target i)"
    and "below \<equiv> f64_le (ie_degradation e) (p_actionabilityThreshold (es_policy (gs_engine st)))"
  shows "\<exists>i' c'. intervention_of ik st' = Some i' \<and> conflict_of k st' = Some c'
    \<and> (ir_state i' = LS_EFFECTIVE \<longleftrightarrow> \<not> violated \<and> below)
    \<and> (cc_state c' = CS_RESOLVED \<longleftrightarrow> \<not> violated \<and> below)
    \<and> (ir_result i' \<in> {VO_SHIFTED_CONTENTION, VO_CREATED_SECONDARY_VIOLATION} \<longleftrightarrow> violated)
    \<and> ir_verificationReported i' \<and> same_identity i i' \<and> cc_degradation c' = ie_degradation e
    \<and> (\<forall>other. other \<noteq> ik \<longrightarrow> intervention_of other st' = intervention_of other st0)
    \<and> ir_state i \<in> {LS_AUTHORIZED, LS_DISPATCHED, LS_ACKNOWLEDGED}
    \<and> (\<forall>status at age. let late = snd (submit_post_action_evidence
            (input\<lparr>ie_status := status, ie_sampledAt := at, ie_maxAgeMs := age\<rparr>) st0)
         in map_option ir_state (intervention_of ik late) = Some (ir_state i')
            \<and> map_option cc_state (conflict_of k late) = Some (cc_state c'))"
proof -
  note s = store_evidence_inv [OF assms(2,3) stored]
  have eng: "engine_inv (gs_engine st)" using s(1) by (simp add: gov_inv_def)
  then have "om_inv (es_conflicts (gs_engine st))" using engine_invD(1) by (simp add: maps_sorted_def)
  from om_first_Some(1) [OF this conflict] have id: "cc_id c = k"
    using engine_invD(4) [OF eng] by (simp add: conflict_ok_def)
  have "st' = on_engine (post_action_engine e k c) st"
    using assms(3) conflict by (simp add: st'_def submit_post_action_evidence_def stored Let_def)
  moreover have "verdict (gs_engine st) e k c i = classify_outcome violated (cc_degradation c)
      (ie_degradation e) (p_actionabilityThreshold (es_policy (gs_engine st)))"
    by (simp add: verdict_def violated_def id)
  ultimately obtain i' c' where now: "intervention_of ik st' = Some i' \<and> conflict_of k st' = Some c'
    \<and> (ir_state i' = LS_EFFECTIVE \<longleftrightarrow> \<not> violated \<and> below) \<and> (cc_state c' = CS_RESOLVED \<longleftrightarrow> \<not> violated \<and> below)
    \<and> (ir_result i' \<in> {VO_SHIFTED_CONTENTION, VO_CREATED_SECONDARY_VIOLATION} \<longleftrightarrow> violated)
    \<and> ir_verificationReported i' \<and> same_identity i i' \<and> cc_degradation c' = ie_degradation e
    \<and> (\<forall>other. other \<noteq> ik \<longrightarrow> intervention_of other st' = intervention_of other st0)"
    using acting id s(5)
    by (simp add: intervention_of_def conflict_of_def post_action_engine_sel verify_intervention_def
        outcome_effective classify_outcome_resolved classify_outcome_secondary [simplified] same_identity_def
        below_def)
  have "om_inv (es_interventions (gs_engine st))" using engine_invD(1) [OF eng] by (simp add: maps_sorted_def)
  then have "ir_state i \<in> {LS_AUTHORIZED, LS_DISPATCHED, LS_ACKNOWLEDGED}"
    using om_first_Some(2) [OF _ acting] by (auto simp: verifiable_def)
  then show ?thesis
    using now submit_dated [OF assms(3) stored conflict id acting, folded st'_def]
    by (intro exI [of _ i'] exI [of _ c']) (simp add: Let_def)
qed

theorem post_action_verdict_witness:
  "\<exists>i'. intervention_of (Id 1) (snd (submit_post_action_evidence (ex_evidence f64_one) (ex_authorized IC_THROTTLE))) = Some i'
    \<and> ir_state i' = LS_EFFECTIVE
    \<and> map_option ir_state (intervention_of (Id 1) (snd (submit_post_action_evidence
        ((ex_evidence f64_one)\<lparr>ie_status := ES_EXPIRED, ie_sampledAt := 1, ie_maxAgeMs := 0\<rparr>) (ex_authorized IC_THROTTLE)))) =
      Some LS_EFFECTIVE"
proof -
  have "\<not> secondary_violation (put_conflict (Id 1) (measure_conflict ex_recovered ex_acting_conflict)
      (gs_engine ex_measured)) (Id 1) (ir_target ex_intervention)"
    by (simp add: secondary_violation_def ex_measured_sel)
  moreover have "f64_le f64_zero (f64_lit 20 100)" by (simp add: f64_literals f64_patterns f64_consts)
  moreover have "gov_inv (ex_authorized IC_THROTTLE)" using authorize_inv [OF ex_detected_inv ex_authorize(2)] .
  ultimately show ?thesis
    using post_action_verdict [OF _ ex_evidence_valid ex_store_recovered ex_first]
    by (fastforce simp: ex_recovered_sel ex_measured_sel Let_def)
qed

section \<open>Completeness and replay\<close>

text \<open>
  C6. Authorization is complete. Without a class of the caller's, \<open>authorize\<close> grants an
  intervention exactly if the evaluation decides, the budget of the decided class is not
  exhausted and its target is not in cooldown. The evaluation decides exactly if one of its candidates
  is feasible; and this is so exactly if the conflict is stored and actionable (its first usable evidence
  has the attribution and confidence that the policy asks for and no unresolved confounder, the
  degradation is not below the threshold, and a workload is associated), and some associated
  workload below its fairness cap, whose generation and boot are recorded, has an eligible
  class that passes the feasibility tests. If no stored evidence of the
  conflict is both CURRENT and structurally valid, it grants nothing and changes nothing,
  whatever class the caller asks for.
\<close>

theorem authorize_complete:
  assumes "gov_inv st"
  shows "((\<exists>iid st'. authorize cid IC_NO_ACTION now st = Inr (Some iid, st')) \<longleftrightarrow>
      (\<exists>d. ce_decision (evaluate cid st) = Some d
         \<and> \<not> budget_exhausted (action_budget st) (cand_cls (dec_chosen d))
         \<and> \<not> in_cooldown (gs_engine st) (cand_target (dec_chosen d)) (cand_cls (dec_chosen d)) now))
    \<and> (ce_decision (evaluate cid st) \<noteq> None \<longleftrightarrow>
        (\<exists>cand \<in> set (ce_candidates (evaluate cid st)). cand_feasible cand = FS_FEASIBLE))
    \<and> (ce_decision (evaluate cid st) \<noteq> None \<longleftrightarrow>
        (\<exists>c primary target cls'. om_find (es_conflicts (gs_engine st)) cid = Some c \<and> actionable_with (gs_engine st) c primary
           \<and> target \<in> set (cc_associated c) \<and> cls' \<in> set eligible_classes \<and> class_eligible (es_policy (gs_engine st)) cls'
           \<and> hard_constraints (es_policy (gs_engine st)) (workload_policy_for (es_policy (gs_engine st)) target) cls'
           \<and> \<not> fairness_capped (gs_engine st) target
           \<and> om_find (au_workloadGenerations (es_authority (gs_engine st))) target \<noteq> None
           \<and> om_find (au_workloadBoots (es_authority (gs_engine st))) target \<noteq> None))
    \<and> ((\<forall>c eid e. om_find (es_conflicts (gs_engine st)) cid = Some c \<and> eid \<in> set (cc_evidenceIds c)
          \<and> om_find (es_evidence (gs_engine st)) eid = Some e \<longrightarrow> ie_status e \<noteq> ES_CURRENT \<or> \<not> structurally_valid e)
        \<longrightarrow> authorize cid cls now st = Inr (None, st))"
    (is "(?granted \<longleftrightarrow> ?open) \<and> (?decided \<longleftrightarrow> ?feasible) \<and> (?decided \<longleftrightarrow> ?actionable) \<and> (?unusable \<longrightarrow> ?refused)")
proof (intro conjI impI)
  assume ?unusable
  then show ?refused by (intro not_picked_refused no_evidence_no_decision) blast
next
  have valid: "valid_policy (es_policy (gs_engine st))" using assms engine_invD(2) by (auto simp: gov_inv_def)
  show "?decided \<longleftrightarrow> ?feasible" by (rule decision_iff_feasible [OF valid])
  show "?decided \<longleftrightarrow> ?actionable" by (rule decision_iff_actionable [OF valid])
  show "?granted \<longleftrightarrow> ?open"
  proof
    assume ?granted
    then obtain iid st' where "authorize cid IC_NO_ACTION now st = Inr (Some iid, st')" by blast
    then show ?open
      by (auto elim!: authorize_granted dest!: picked_decision simp: evaluate_def action_budget_def)
  next
    assume ?open
    then show ?granted using decided_granted [OF assms] by blast
  qed
qed

theorem authorize_complete_witness:
  "ce_decision (evaluate (Id 1) ex_detected) \<noteq> None
   \<and> authorize (Id 1) IC_THROTTLE 10000 (snd (advance_epoch ex_detected)) = Inr (None, snd (advance_epoch ex_detected))"
proof
  show "ce_decision (evaluate (Id 1) ex_detected) \<noteq> None"
    using authorize_complete [OF ex_detected_inv, of "Id 1" 10000] ex_authorize(1) by auto
  show "authorize (Id 1) IC_THROTTLE 10000 (snd (advance_epoch ex_detected)) = Inr (None, snd (advance_epoch ex_detected))"
    by (rule authorize_complete [OF advance_epoch_inv [OF ex_detected_inv], THEN conjunct2, THEN conjunct2, THEN conjunct2, THEN mp])
      (auto simp: advance_epoch_sel epoch_evidence_not_current)
qed

text \<open>
  C38. Replay after an authorization. As long as the target has not reached its fairness cap, a
  replay of the state confirms a conflict whose intervention was chosen by the evaluation. For
  a caller's class on a conflict with no earlier selection it reports the conflict exactly if
  the evaluation had chosen another class.
\<close>

theorem replay_after_authorization:
  assumes "gov_inv st" "authorize cid cls now st = Inr (Some iid, st')"
    "om_find (es_conflicts (gs_engine st)) cid = Some c"
    "om_find (es_interventions (gs_engine st')) iid = Some i" "\<not> fairness_capped (gs_engine st') (ir_target i)"
  shows "(cls = IC_NO_ACTION \<longrightarrow> cid \<notin> set (rr_diverged (replay st')))
    \<and> (cls \<noteq> IC_NO_ACTION \<and> cc_selectedIds c = [] \<longrightarrow>
        (cid \<in> set (rr_diverged (replay st')) \<longleftrightarrow>
          (\<exists>d. ce_decision (evaluate cid st) = Some d \<and> cand_cls (dec_chosen d) \<noteq> cls)))"
proof (rule evaluate_after_authorize [OF assms(2-5)], goal_cases)
  case (1 d c')
  have "om_inv (es_conflicts (gs_engine st'))"
    using authorize_inv [OF assms(1,2)] engine_invD(1) by (auto simp: gov_inv_def maps_sorted_def)
  note div = replay_diverged_iff [OF this 1(5)]
  have "selection_matches (gs_engine st') (dec_chosen d) iid \<longleftrightarrow> ir_cls i = cand_cls (dec_chosen d)"
    using 1(4) assms(4) by (simp add: selection_matches_def)
  then show ?case
    using 1 by (auto simp: div diverges_def replay_ok_def evaluate_def)
qed

theorem replay_after_authorization_witness:
  "Id 1 \<in> set (rr_diverged (replay (ex_authorized IC_THROTTLE)))"
proof -
  obtain d where d: "ce_decision (evaluate (Id 1) ex_detected) = Some d" "dec_chosen d = ex_candidate IC_REQUEST_MIGRATION"
    using ex_decision by (auto simp: evaluate_def ex_sel)
  have "\<not> fairness_capped (gs_engine (ex_authorized IC_THROTTLE)) (Id 2)"
    by (simp add: fairness_capped_def ex_authorized_def ex_sel charge_fairness_def default_FairnessRecord_def
        default_ContentionPolicy_def word_le_nat_alt)
  then show ?thesis
    using replay_after_authorization [OF ex_detected_inv ex_authorize(2), of ex_conflict ex_intervention] d
    by (simp add: ex_sel ex_conflict_sel ex_authorized_sel ex_intervention_sel)
qed

section \<open>Evidence and starvation\<close>

text \<open>The conflict an accepted observation creates or updates.\<close>

lemma ingest_conflict:
  assumes "gov_inv st0" "status_ok (validate_evidence input)" "store_evidence (with_fractions input) st0 = (e, st)"
  obtains k c where "gs_engine (snd (ingest_evidence input st0)) =
      put_conflict k (progress_conflict (es_policy (gs_engine st)) e c) (gs_engine st)"
    "concerns e c" "last (cc_evidenceIds c) = ie_id e" "cc_associated c = ie_neighbors e"
    "f64_le (ie_degradation e) (cc_degradation c)"
proof -
  let ?s = "gs_engine st"
  note s = store_evidence_inv [OF assms]
  have inv: "engine_inv ?s" using s(1) by (simp add: gov_inv_def)
  have deg: "f64_le f64_zero (ie_degradation e)" by (rule evidence_ok_nonneg [OF s(3)])
  show thesis
  proof (cases "om_first (concerns e) (es_conflicts ?s)")
    case None
    let ?c = "new_conflict e (Id (gs_nextConflictId st)) ?s"
    have "f64_le (ie_degradation e) (ie_degradation e)" using deg by (auto simp: f64_le_def)
    then show thesis
      using assms(2,3) None that [of "Id (gs_nextConflictId st)" ?c]
      by (simp add: ingest_evidence_def Let_def concerns_def)
  next
    case (Some kc)
    obtain k c where kc: "kc = (k, c)" by fastforce
    have srt: "om_inv (es_conflicts ?s)" using engine_invD(1) [OF inv] by (simp add: maps_sorted_def)
    have c: "om_find (es_conflicts ?s) k = Some c" "concerns e c"
      using om_first_Some(1,2) [OF srt, of "concerns e" k c] Some kc by simp_all
    have "f64_le f64_zero (cc_degradation c)" using engine_invD(4) [OF inv c(1)] by (simp add: conflict_ok_def)
    then have "f64_le (ie_degradation e) (f64_max (cc_degradation c) (ie_degradation e))"
      using deg by (intro f64_max_ge2) (auto simp: f64_le_def)
    then show thesis
      using assms(2,3) Some kc c(2) that [of k "update_conflict e c"]
      by (simp add: ingest_evidence_def Let_def concerns_def update_conflict_def)
  qed
qed

lemma progress_actionable:
  "ie_status e = ES_CURRENT \<Longrightarrow> f64_ge (cc_degradation c) (p_actionabilityThreshold p) \<Longrightarrow>
     cc_state (progress_conflict p e c) = CS_ACTIONABLE"
  by (simp add: progress_conflict_def)

text \<open>
  C39. What an accepted observation records. It is stored with the recomputed fractions; exactly
  one conflict is about its domain and victim, it lists the observation last, associates the
  observation's neighbours and has at least its degradation, and is ACTIONABLE if the
  observation is CURRENT and the conflict's degradation reaches the policy's threshold; every
  other conflict is unchanged. A rejected observation changes nothing.
\<close>

theorem ingest_records:
  fixes st0 :: GovernorState and input :: InterferenceEvidence
  defines "st' \<equiv> snd (ingest_evidence input st0)"
  assumes "gov_inv st0" "store_evidence (with_fractions input) st0 = (e, st)"
  shows "(\<not> status_ok (validate_evidence input) \<longrightarrow> ingest_evidence input st0 = (validate_evidence input, st0))
    \<and> (status_ok (validate_evidence input) \<longrightarrow>
        om_find (es_evidence (gs_engine st')) (ie_id e) = Some e
        \<and> (\<exists>k c. conflict_of k st' = Some c \<and> concerns e c
             \<and> last (cc_evidenceIds c) = ie_id e \<and> cc_associated c = ie_neighbors e
             \<and> f64_le (ie_degradation e) (cc_degradation c)
             \<and> (ie_status e = ES_CURRENT \<and> f64_ge (cc_degradation c) (p_actionabilityThreshold (es_policy (gs_engine st)))
                  \<longrightarrow> cc_state c = CS_ACTIONABLE)
             \<and> (\<forall>k'. k' \<noteq> k \<longrightarrow> conflict_of k' st' = conflict_of k' st0)
             \<and> (\<forall>k' c'. conflict_of k' st' = Some c' \<longrightarrow> concerns e c' \<longrightarrow> k' = k)))"
proof (cases "status_ok (validate_evidence input)")
  case True
  note s = store_evidence_inv [OF assms(2) True assms(3)]
  let ?p = "es_policy (gs_engine st)"
  obtain k c where kc: "gs_engine st' = put_conflict k (progress_conflict ?p e c) (gs_engine st)"
    "concerns e c" "last (cc_evidenceIds c) = ie_id e" "cc_associated c = ie_neighbors e"
    "f64_le (ie_degradation e) (cc_degradation c)"
    unfolding st'_def by (rule ingest_conflict [OF assms(2) True assms(3)])
  have inv: "engine_inv (gs_engine st')"
    using ingest_evidence_inv [OF assms(2)] by (simp add: gov_inv_def st'_def)
  have found: "conflict_of k st' = Some (progress_conflict ?p e c)" by (simp add: conflict_of_def kc(1))
  have other: "conflict_of k' st' = conflict_of k' st0" if "k' \<noteq> k" for k'
    using that s(4) by (simp add: conflict_of_def kc(1))
  have conc: "concerns e (progress_conflict ?p e c)" using kc(2) by (simp add: concerns_def)
  then have unique: "k' = k" if "conflict_of k' st' = Some c'" "concerns e c'" for k' c'
    using engine_invD(7) [OF inv, of k' c' k] that found by (auto simp: concerns_def same_subject_def conflict_of_def)
  let ?c = "progress_conflict ?p e c"
  have ev: "om_find (es_evidence (gs_engine st')) (ie_id e) = Some e" using s(2) by (simp add: kc(1))
  have facts: "last (cc_evidenceIds ?c) = ie_id e" "cc_associated ?c = ie_neighbors e"
    "f64_le (ie_degradation e) (cc_degradation ?c)"
    "ie_status e = ES_CURRENT \<and> f64_ge (cc_degradation ?c) (p_actionabilityThreshold ?p) \<longrightarrow> cc_state ?c = CS_ACTIONABLE"
    using kc(3-5) progress_actionable [of e ?p c] by simp_all
  show ?thesis using True ev found conc facts other unique by blast
qed (simp add: ingest_evidence_def Let_def)

theorem ingest_records_witness:
  "om_find (es_evidence (gs_engine ex_detected)) (Id 1) = Some ex_stored
   \<and> (\<exists>k c. conflict_of k ex_detected = Some c \<and> last (cc_evidenceIds c) = Id 1 \<and> cc_state c = CS_ACTIONABLE)"
proof -
  have inv: "gov_inv ex_ready"
    using set_authority_inv [OF default_state_inv, of ex_authority]
    by (simp add: ex_ready_def) (simp add: ex_authority_def om_inv_def less_Id_def)
  obtain st where st: "store_evidence (with_fractions (ex_evidence (F64 0x3FE0000000000000))) ex_ready = (ex_stored, st)"
    "es_policy (gs_engine st) = default_ContentionPolicy"
    by (simp add: store_evidence_def ex_ready_def set_authority_def with_fractions_def ex_stored_def ex_evidence_def
        ex_fractions ex_defs f64_consts Let_def)
  have "status_ok (validate_evidence (ex_evidence (F64 0x3FE0000000000000)))"
    by (simp add: validate_evidence_ok structurally_valid_def ex_evidence_def f64_patterns f64_consts)
  note rec = ingest_records [OF inv st(1), THEN conjunct2, THEN mp, OF this, folded ex_detected_def]
  then obtain k c where kc: "conflict_of k ex_detected = Some c" "last (cc_evidenceIds c) = ie_id ex_stored"
    "f64_le (ie_degradation ex_stored) (cc_degradation c)"
    "ie_status ex_stored = ES_CURRENT \<and> f64_ge (cc_degradation c) (p_actionabilityThreshold default_ContentionPolicy)
       \<longrightarrow> cc_state c = CS_ACTIONABLE"
    unfolding st(2) by blast
  have "f64_le (p_actionabilityThreshold default_ContentionPolicy) (ie_degradation ex_stored)"
    by (simp add: default_ContentionPolicy_def ex_stored_def f64_literals f64_patterns)
  then have "cc_state c = CS_ACTIONABLE" using kc(3,4) f64_le_trans ex_stored_sel(1) by blast
  moreover have "ie_id ex_stored = Id 1" by (simp add: ex_stored_def)
  ultimately show ?thesis using rec [THEN conjunct1] kc(1,2) by metis
qed

text \<open>
  C40. An exhausted budget is never refilled by waiting. Once the counter of a class has reached
  its limit, every request for the class is refused with the state unchanged, at whatever
  time, also after the window has expired: the window is only started anew by a use, which the
  refusal prevents. The limit on all actions together is not looked at.
\<close>

theorem exhausted_budget_starves:
  assumes "gov_inv st" "budget_exhausted (action_budget st) cls" "cls \<noteq> IC_NO_ACTION"
  shows "authorize cid cls now st = Inr (None, st)
    \<and> authorize_and_dispatch adapters cid cls now now' st =
        Inr (status_bad SC_ACTION_BUDGET_EXHAUSTED ''action budget exhausted'', st)
    \<and> (\<forall>u. budget_exhausted ((action_budget st)\<lparr>ab_used := (ab_used (action_budget st))\<lparr>abs_all := u\<rparr>\<rparr>) c =
         budget_exhausted (action_budget st) c)"
proof (intro conjI allI)
  obtain r st' where r: "authorize cid cls now st = Inr (r, st')" using authorize_defined [OF assms(1)] by blast
  show "authorize cid cls now st = Inr (None, st)"
  proof (cases r)
    case None
    then show ?thesis using r authorize_refused by auto
  next
    case (Some iid)
    then show ?thesis
      using r assms(2,3) by (auto elim!: authorize_granted simp: action_budget_def)
  qed
  show "authorize_and_dispatch adapters cid cls now now' st =
      Inr (status_bad SC_ACTION_BUDGET_EXHAUSTED ''action budget exhausted'', st)"
    using assms(2,3) by (simp add: authorize_and_dispatch_def action_budget_def)
  show "budget_exhausted ((action_budget st)\<lparr>ab_used := (ab_used (action_budget st))\<lparr>abs_all := u\<rparr>\<rparr>) c =
      budget_exhausted (action_budget st) c" for u
    by (cases c) simp_all
qed

definition ex_exhausted :: GovernorState where
  "ex_exhausted = snd (set_policy (default_ContentionPolicy\<lparr>p_budget := default_ActionBudget
     \<lparr>ab_used := default_ActionBudgetStats\<lparr>abs_throttles := ab_maxThrottlesPerWindow default_ActionBudget\<rparr>\<rparr>\<rparr>) ex_detected)"

theorem exhausted_budget_starves_witness:
  "authorize (Id 1) IC_THROTTLE 1000000000 ex_exhausted = Inr (None, ex_exhausted)
   \<and> window_expired (action_budget ex_exhausted) 1000000000"
proof -
  let ?p = "default_ContentionPolicy\<lparr>p_budget := default_ActionBudget
     \<lparr>ab_used := default_ActionBudgetStats\<lparr>abs_throttles := ab_maxThrottlesPerWindow default_ActionBudget\<rparr>\<rparr>\<rparr>"
  have valid: "valid_policy ?p"
    using default_policy_valid by (simp add: valid_policy_def) (simp add: default_ContentionPolicy_def default_ActionBudget_def)
  have inv: "gov_inv ex_exhausted"
    unfolding ex_exhausted_def
    by (rule set_policy_inv [OF ex_detected_inv]) (simp add: default_ContentionPolicy_def)
  have b: "action_budget ex_exhausted = p_budget ?p"
    using valid by (simp add: ex_exhausted_def set_policy_def validate_policy_ok Let_def action_budget_def on_authority_def)
  then have "budget_exhausted (action_budget ex_exhausted) IC_THROTTLE" "window_expired (action_budget ex_exhausted) 1000000000"
    by (simp_all add: window_expired_def default_ActionBudget_def)
  then show ?thesis using exhausted_budget_starves [OF inv, of IC_THROTTLE] by simp
qed

end
